(* ===== verification/Prelude.thy ===== *)
theory Prelude
  imports Main "HOL-Library.Word" "HOL-Library.Multiset"
begin

text \<open>
  Shared vocabulary of the development: the machine integers of the Go code at their widths,
  the outcome type of a Go call (a value, a returned error or a panic), the fact collections the
  component theories fill, and the generic lemmas on words, lists and maps they share.
\<close>

unbundle bit_operations_syntax

section \<open>Machine types\<close>

type_synonym byte = "8 word"
type_synonym u16 = "16 word"
type_synonym u32 = "32 word"
type_synonym u64 = "64 word"
type_synonym bytes = "8 word list"

section \<open>Outcomes of a Go call\<close>

text \<open>
  A Go function returns a value, returns a non-nil \<open>error\<close>, or panics. The first is
  \<open>Inr\<close>; the other two are \<open>Inl\<close> of a \<open>failure\<close>.
\<close>

datatype failure = Err string | Panic string

type_synonym 'a outcome = "failure + 'a"

definition returns :: "'a outcome \<Rightarrow> bool" where
  "returns r = (case r of Inl _ \<Rightarrow> False | Inr _ \<Rightarrow> True)"

fun bind_outcome :: "'a outcome \<Rightarrow> ('a \<Rightarrow> 'b outcome) \<Rightarrow> 'b outcome" where
  "bind_outcome (Inl e) f = Inl e"
| "bind_outcome (Inr a) f = f a"

lemma returns_simps [simp]: "returns (Inr a)" "\<not> returns (Inl e)"
  by (simp_all add: returns_def)

lemma bind_outcome_Inr_iff:
  "bind_outcome r f = Inr b \<longleftrightarrow> (\<exists>a. r = Inr a \<and> f a = Inr b)"
  by (cases r) auto

section \<open>Fact collections\<close>

named_theorems word_nat \<open>how word operations read as natural numbers\<close>
named_theorems frame \<open>state components an operation does not touch\<close>

section \<open>Words read as natural numbers\<close>

lemma unat_high16 [word_nat]: "unat (drop_bit 16 (w :: u32)) = unat w div 65536"
  by (simp add: drop_bit_eq_div unat_div)

lemma unat_low16 [word_nat]: "unat (w AND 0xffff :: u32) = unat w mod 65536"
proof -
  have "(w AND 0xffff) = take_bit 16 w"
    by (simp add: take_bit_eq_mask mask_eq_exp_minus_1)
  then show ?thesis
    by (simp add: take_bit_eq_mod unat_mod)
qed

lemma unat_byte_less: "unat (b :: byte) < 256"
  using unsigned_less [of b] by simp

lemma unat_u32_of_byte [word_nat]: "unat (ucast (b :: byte) :: u32) = unat b"
  by (simp add: unsigned_ucast_eq take_bit_nat_eq_self_iff order_less_trans [OF unat_byte_less])

lemma unat_u32_byte_shift [word_nat]:
  assumes "n \<le> 24"
  shows "unat (push_bit n (ucast (b :: byte) :: u32)) = unat b * 2 ^ n"
proof -
  have "unat b * 2 ^ n < 256 * 2 ^ n"
    using unat_byte_less [of b] by simp
  also have "(256::nat) * 2 ^ n \<le> 256 * 2 ^ 24"
    using assms by (intro mult_left_mono power_increasing) auto
  finally have "unat b * 2 ^ n < 2 ^ 32"
    by simp
  then show ?thesis
    by (simp only: unsigned_push_bit_eq unat_u32_of_byte)
      (simp add: push_bit_eq_mult take_bit_nat_eq_self_iff)
qed

section \<open>Big-endian encoding of 16-bit words\<close>

definition be16 :: "u16 \<Rightarrow> bytes" where
  "be16 c = [ucast (drop_bit 8 c), ucast c]"

lemma unat_hi8: "unat (ucast (drop_bit 8 (c :: u16)) :: byte) = unat c div 256"
proof -
  have "unat (drop_bit 8 c) = unat c div 256"
    by (simp add: drop_bit_eq_div unat_div)
  moreover have "unat c div 256 < 256"
    using unsigned_less [of c, where 'a = nat] by (simp add: less_mult_imp_div_less)
  ultimately show ?thesis
    by (simp only: unsigned_ucast_eq) (simp add: take_bit_nat_eq_self_iff)
qed

lemma unat_lo8: "unat (ucast (c :: u16) :: byte) = unat c mod 256"
  by (simp add: unsigned_ucast_eq take_bit_eq_mod)

section \<open>Lists of fixed length\<close>

lemma length_4_iff: "length xs = 4 \<longleftrightarrow> (\<exists>a b c d. xs = [a, b, c, d])"
  by (auto simp: numeral_eq_Suc length_Suc_conv)

end
