(* ===== verification/Steps.thy ===== *)
theory Steps
  imports Prelude
begin

text \<open>
  State machines: the labelled runs of a step relation, the states it reaches, and two contracts that
  the components with goroutines, locks or processes discharge for their own relation: an invariant
  kept by every allowed step, and a rank that some steps lower and none raises.
\<close>

section \<open>Runs\<close>

inductive runs :: "('s \<Rightarrow> 'e \<Rightarrow> 's \<Rightarrow> bool) \<Rightarrow> 's \<Rightarrow> 'e list \<Rightarrow> 's \<Rightarrow> bool" for step s where
  idle: "runs step s [] s"
| snoc: "runs step s evs s' \<Longrightarrow> step s' ev s'' \<Longrightarrow> runs step s (evs @ [ev]) s''"

lemma runs_trans: "runs step s' evs' s'' \<Longrightarrow> runs step s evs s' \<Longrightarrow> runs step s (evs @ evs') s''"
proof (induction rule: runs.induct)
  case (snoc evs' s' ev s'')
  then show ?case
    using runs.snoc [of step s "evs @ evs'"] by fastforce
qed simp

lemma runs_cons: "step s ev s' \<Longrightarrow> runs step s' evs s'' \<Longrightarrow> runs step s (ev # evs) s''"
  using runs_trans [of step s' evs s'' s "[ev]"] runs.snoc [OF runs.idle, of step s ev s'] by simp

definition reachable :: "('s \<Rightarrow> 'e \<Rightarrow> 's \<Rightarrow> bool) \<Rightarrow> 's \<Rightarrow> 's \<Rightarrow> bool" where
  "reachable step s s' \<longleftrightarrow> (\<exists>evs. runs step s evs s')"

lemma reachable_refl [iff]: "reachable step s s"
  using runs.idle [of step s] by (auto simp: reachable_def)

lemma reachable_step: "reachable step s s' \<Longrightarrow> step s' ev s'' \<Longrightarrow> reachable step s s''"
  by (auto simp: reachable_def intro: runs.snoc)

section \<open>Executable steps\<close>

text \<open>\<open>exec ev s\<close> is the state after the event, or None where the event cannot happen.\<close>

definition executes :: "('e \<Rightarrow> 's \<Rightarrow> 's option) \<Rightarrow> 's \<Rightarrow> 'e \<Rightarrow> 's \<Rightarrow> bool" where
  "executes exec s ev s' \<longleftrightarrow> exec ev s = Some s'"

fun exec_events :: "('e \<Rightarrow> 's \<Rightarrow> 's option) \<Rightarrow> 'e list \<Rightarrow> 's \<Rightarrow> 's option" where
  "exec_events exec [] s = Some s"
| "exec_events exec (ev # evs) s = Option.bind (exec ev s) (exec_events exec evs)"

lemma exec_events_runs: "exec_events exec evs s = Some s' \<Longrightarrow> runs (executes exec) s evs s'"
  by (induction evs arbitrary: s)
    (auto simp: executes_def bind_eq_Some_conv intro: runs.idle runs_cons)

lemma exec_events_reachable: "exec_events exec evs s = Some s' \<Longrightarrow> reachable (executes exec) s s'"
  by (auto simp: reachable_def dest: exec_events_runs)

lemma executes_reachable: "reachable (executes exec) s s' \<Longrightarrow> exec ev s' = Some s'' \<Longrightarrow> reachable (executes exec) s s''"
  by (rule reachable_step) (simp_all add: executes_def)

section \<open>Contracts\<close>

locale invariant =
  fixes step :: "'s \<Rightarrow> 'e \<Rightarrow> 's \<Rightarrow> bool" and allowed :: "'e \<Rightarrow> bool" and inv :: "'s \<Rightarrow> bool"
  assumes step_keeps: "step s ev s' \<Longrightarrow> allowed ev \<Longrightarrow> inv s \<Longrightarrow> inv s'"
begin

lemma runs_keep: "runs step s evs s' \<Longrightarrow> list_all allowed evs \<Longrightarrow> inv s \<Longrightarrow> inv s'"
  by (induction rule: runs.induct) (auto intro: step_keeps)

end

text \<open>An invariant of every step holds in every state that is reached.\<close>

locale safety = invariant step "\<lambda>_. True" inv for step :: "'s \<Rightarrow> 'e \<Rightarrow> 's \<Rightarrow> bool" and inv :: "'s \<Rightarrow> bool"
begin

lemma reachable_keeps: "reachable step s s' \<Longrightarrow> inv s \<Longrightarrow> inv s'"
  using runs_keep by (auto simp: reachable_def list_all_iff)

end

locale ranking =
  fixes step :: "'s \<Rightarrow> 'e \<Rightarrow> 's \<Rightarrow> bool" and lowering :: "'e \<Rightarrow> bool" and rank :: "'s \<Rightarrow> nat"
  assumes lowers: "step s ev s' \<Longrightarrow> lowering ev \<Longrightarrow> rank s' < rank s"
    and never_raises: "step s ev s' \<Longrightarrow> \<not> lowering ev \<Longrightarrow> rank s' \<le> rank s"
begin

lemma lowering_bounded: "runs step s evs s' \<Longrightarrow> length (filter lowering evs) + rank s' \<le> rank s"
proof (induction rule: runs.induct)
  case (snoc evs s' ev s'')
  then show ?case
    using lowers [of s' ev s''] never_raises [of s' ev s''] by (cases "lowering ev") auto
qed simp

end

end
