(* ===== verification/Io.thy ===== *)
theory Io
  imports Prelude
begin

text \<open>
  Calls that leave the program: computations over a state \<open>'os\<close> that only the calls read and write.
  A computation returns its result, an error or a panic, with the new state. \<open>preserves keys f\<close> says
  that \<open>f\<close> leaves a part of the state as it found it on every path; the components use it for what
  they open and must close.
\<close>

section \<open>Calls in sequence\<close>

type_synonym ('os, 'a) io = "'os \<Rightarrow> 'a outcome \<times> 'os"

definition return_io :: "'a \<Rightarrow> ('os, 'a) io" where
  "return_io x s = (Inr x, s)"

definition raise_io :: "failure \<Rightarrow> ('os, 'a) io" where
  "raise_io e s = (Inl e, s)"

definition lift_io :: "'a outcome \<Rightarrow> ('os, 'a) io" where
  "lift_io r s = (r, s)"

definition bind_io :: "('os, 'a) io \<Rightarrow> ('a \<Rightarrow> ('os, 'b) io) \<Rightarrow> ('os, 'b) io" where
  "bind_io f g s = (case f s of (Inl e, s') \<Rightarrow> (Inl e, s') | (Inr x, s') \<Rightarrow> g x s')"

text \<open>The loop \<open>for \<dots> { err := f(x); if err != nil { return err } }\<close>.\<close>

fun each_io :: "('a \<Rightarrow> ('os, unit) io) \<Rightarrow> 'a list \<Rightarrow> ('os, unit) io" where
  "each_io f [] = return_io ()"
| "each_io f (x # xs) = bind_io (f x) (\<lambda>_. each_io f xs)"

text \<open>
  \<open>fmt.Errorf("call: %w")\<close> and \<open>os.NewSyscallError\<close> put a name before the error; \<open>must_io\<close> is
  \<open>if err != nil { panic(err) }\<close>; \<open>on_kernel\<close> runs a call in a state that also holds data of the program.
\<close>

definition wrap_io :: "string \<Rightarrow> ('os, 'a) io \<Rightarrow> ('os, 'a) io" where
  "wrap_io call f s =
     (case f s of
        (Inl (Err e), s') \<Rightarrow> (Inl (Err (call @ '': '' @ e)), s')
      | (r, s') \<Rightarrow> (r, s'))"

fun must :: "'a outcome \<Rightarrow> 'a outcome" where
  "must (Inl (Err e)) = Inl (Panic e)"
| "must r = r"

definition must_io :: "('os, 'a) io \<Rightarrow> ('os, 'a) io" where
  "must_io f s = (case f s of (r, s') \<Rightarrow> (must r, s'))"

definition on_kernel :: "('os, 'a) io \<Rightarrow> ('d \<times> 'os, 'a) io" where
  "on_kernel f = (\<lambda>(d, s). case f s of (r, s') \<Rightarrow> (r, (d, s')))"

text \<open>
  A resource that is acquired, used and released whatever the use returns, as with \<open>defer\<close>.
\<close>

definition bracket_io ::
  "('os, 'k) io \<Rightarrow> ('k \<Rightarrow> 'os \<Rightarrow> 'os) \<Rightarrow> ('k \<Rightarrow> ('os, 'a) io) \<Rightarrow> ('os, 'a) io" where
  "bracket_io acquire release use =
     bind_io acquire (\<lambda>k s. case use k s of (r, s') \<Rightarrow> (r, release k s'))"

text \<open>A string for a call of Windows, which must not contain a zero.\<close>

definition UTF16PtrFromString :: "string \<Rightarrow> string outcome" where
  "UTF16PtrFromString s = (if CHR 0x00 \<in> set s then Inl (Err ''EINVAL'') else Inr s)"

lemma bind_io_simps [simp]:
  "bind_io (return_io x) g = g x"
  "bind_io (raise_io e) g = raise_io e"
  "bind_io (lift_io r) g = (case r of Inl e \<Rightarrow> raise_io e | Inr x \<Rightarrow> g x)"
  by (auto simp: fun_eq_iff bind_io_def return_io_def raise_io_def lift_io_def split: sum.split)

lemma bind_io_eq:
  "bind_io f g s = (r, s'') \<longleftrightarrow>
     (\<exists>e. f s = (Inl e, s'') \<and> r = Inl e) \<or> (\<exists>x s'. f s = (Inr x, s') \<and> g x s' = (r, s''))"
  by (auto simp: bind_io_def split: prod.splits sum.splits)

lemma each_io_append:
  "each_io f (xs @ ys) = bind_io (each_io f xs) (\<lambda>_. each_io f ys)"
  by (induction xs) (auto simp: fun_eq_iff bind_io_def split: prod.splits sum.splits)

lemma must_Inr [simp]: "must r = Inr x \<longleftrightarrow> r = Inr x"
  by (cases r rule: must.cases) simp_all

lemma must_io_Inr: "must_io f s = (Inr x, s') \<longleftrightarrow> f s = (Inr x, s')"
  by (auto simp: must_io_def split: prod.splits)

lemma bind_io_step: "f s = (Inr x, s') \<Longrightarrow> bind_io f g s = g x s'"
  by (simp add: bind_io_def)

lemma bind_io_Inr:
  "bind_io f g s = (Inr y, s'') \<longleftrightarrow> (\<exists>x s'. f s = (Inr x, s') \<and> g x s' = (Inr y, s''))"
  by (auto simp: bind_io_eq)

lemma lift_case_Inr:
  "(case r of Inl e \<Rightarrow> raise_io e | Inr x \<Rightarrow> g x) s = (Inr y, s') \<longleftrightarrow>
     (\<exists>x. r = Inr x \<and> g x s = (Inr y, s'))"
  by (cases r) (simp_all add: raise_io_def)

lemma bracket_io_Inr:
  "bracket_io acquire release use s = (Inr y, s') \<longleftrightarrow>
     (\<exists>k s1 s2. acquire s = (Inr k, s1) \<and> use k s1 = (Inr y, s2) \<and> s' = release k s2)"
  by (auto simp: bracket_io_def bind_io_def split: prod.splits sum.splits)

lemma lift_io_Inr: "lift_io r s = (Inr y, s') \<longleftrightarrow> r = Inr y \<and> s' = s"
  by (auto simp: lift_io_def)

text \<open>The steps of a computation that succeeded.\<close>

lemmas io_success = bind_io_Inr must_io_Inr lift_case_Inr bracket_io_Inr lift_io_Inr

lemma on_kernel_device: "on_kernel f (d, s) = (r, (d', s')) \<Longrightarrow> d' = d"
  by (auto simp: on_kernel_def split: prod.splits)

lemma on_kernel_Inr: "on_kernel f (d, s) = (r, (d', s')) \<longleftrightarrow> f s = (r, s') \<and> d' = d"
  by (auto simp: on_kernel_def split: prod.splits)

section \<open>What a computation leaves as it was\<close>

definition preserves :: "('os \<Rightarrow> 'k) \<Rightarrow> ('os, 'a) io \<Rightarrow> bool" where
  "preserves keys f \<longleftrightarrow> (\<forall>s. keys (snd (f s)) = keys s)"

named_theorems preserving \<open>computations that leave a part of the system's state as it is\<close>

lemma preserves_bind [preserving]:
  assumes "preserves keys f" and "\<And>x. preserves keys (g x)"
  shows "preserves keys (bind_io f g)"
  using assms by (auto simp: preserves_def bind_io_def split: prod.split sum.split) (metis snd_conv)+

lemma preserves_simple [preserving]:
  "preserves keys (return_io x)" "preserves keys (raise_io e)" "preserves keys (lift_io r)"
  by (simp_all add: preserves_def return_io_def raise_io_def lift_io_def)

lemma preserves_if [preserving]:
  "preserves keys f \<Longrightarrow> preserves keys g \<Longrightarrow> preserves keys (if b then f else g)"
  by simp

lemma preservesD: "preserves keys f \<Longrightarrow> f s = (r, s') \<Longrightarrow> keys s' = keys s"
  by (metis preserves_def snd_conv)

lemma preservesI: "(\<And>s r s'. f s = (r, s') \<Longrightarrow> keys s' = keys s) \<Longrightarrow> preserves keys f"
  by (simp add: preserves_def) (metis prod.collapse)

lemma preserves_wrap [preserving]: "preserves keys f \<Longrightarrow> preserves keys (wrap_io call f)"
  by (auto simp: preserves_def wrap_io_def split: prod.splits sum.splits failure.splits)
    (metis snd_conv)+

lemma preserves_must [preserving]: "preserves keys f \<Longrightarrow> preserves keys (must_io f)"
  by (auto simp: preserves_def must_io_def split: prod.splits) (metis snd_conv)

lemma preserves_bracket:
  assumes "\<And>s. case acquire s of
      (Inl e, s') \<Rightarrow> keys s' = keys s | (Inr k, s') \<Rightarrow> keys s' = add_mset k (keys s)"
    and "\<And>k s. keys (release k s) = keys s - {#k#}"
    and "\<And>k. preserves keys (use k)"
  shows "preserves keys (bracket_io acquire release use)"
proof (rule preservesI)
  fix s r s'
  assume run: "bracket_io acquire release use s = (r, s')"
  obtain a s1 where a: "acquire s = (a, s1)"
    by fastforce
  show "keys s' = keys s"
  proof (cases a)
    case (Inl e)
    then show ?thesis
      using run a assms(1) [of s] by (simp add: bracket_io_def bind_io_def)
  next
    case (Inr k)
    obtain u s2 where u: "use k s1 = (u, s2)"
      by fastforce
    have "keys s2 = add_mset k (keys s)"
      using preservesD [OF assms(3) u] a Inr assms(1) [of s] by simp
    then show ?thesis
      using run a Inr u assms(2) by (auto simp: bracket_io_def bind_io_def)
  qed
qed

lemma preserves_each_io [preserving]:
  "(\<And>x. x \<in> set xs \<Longrightarrow> preserves keys (f x)) \<Longrightarrow> preserves keys (each_io f xs)"
  by (induction xs) (auto intro: preserves_bind preserves_simple)

end
