(* ===== verification/Go_Net.thy ===== *)
theory Go_Net
  imports Prelude
begin

text \<open>
  What the program uses of Go's standard packages \<open>net\<close>, \<open>net/netip\<close>, \<open>strings\<close> and
  \<open>strconv\<close>: decimal printing and parsing, splitting, addresses (\<open>net.IP\<close> is a byte slice of
  length 4 or 16, nil being the empty list), masks, networks and the CIDR parser. The functions
  follow the library's code for Go 1.22, the version that go.mod names. The lemmas give the round
  trips (print an address or a prefix, parse it back) and the algebra of masks that the
  components rest on.
\<close>

section \<open>Decimal numbers\<close>

definition digit_char :: "nat \<Rightarrow> char" where
  "digit_char d = char_of (48 + d)"

definition is_digit :: "char \<Rightarrow> bool" where
  "is_digit c = (48 \<le> (of_char c :: nat) \<and> (of_char c :: nat) \<le> 57)"

definition digit_val :: "char \<Rightarrow> nat" where
  "digit_val c = of_char c - 48"

fun itoa :: "nat \<Rightarrow> string" where
  "itoa n = (if n < 10 then [digit_char n] else itoa (n div 10) @ [digit_char (n mod 10)])"

declare itoa.simps [simp del]

definition appendDecimal :: "nat \<Rightarrow> string" where
  "appendDecimal x =
     (if 100 \<le> x then [digit_char (x div 100)] else []) @
     (if 10 \<le> x then [digit_char (x div 10 mod 10)] else []) @ [digit_char (x mod 10)]"

text \<open>\<open>strconv.Atoi\<close>: the value and whether the call succeeded; a range error clamps.\<close>

fun digits_value :: "nat \<Rightarrow> string \<Rightarrow> nat option" where
  "digits_value acc [] = Some acc"
| "digits_value acc (c # cs) =
     (if is_digit c then digits_value (acc * 10 + digit_val c) cs else None)"

definition Atoi :: "string \<Rightarrow> int \<times> bool" where
  "Atoi s =
     (let neg = (s \<noteq> [] \<and> hd s = CHR ''-'');
          body = (if s \<noteq> [] \<and> (hd s = CHR ''-'' \<or> hd s = CHR ''+'') then tl s else s)
      in if body = [] then (0, False)
         else case digits_value 0 body of
           None \<Rightarrow> (0, False)
         | Some n \<Rightarrow>
             if neg then (if 2 ^ 63 < n then (- (2 ^ 63), False) else (- int n, True))
             else (if 2 ^ 63 \<le> n then (2 ^ 63 - 1, False) else (int n, True)))"

lemma is_digit_digit_char [simp]: "d < 10 \<Longrightarrow> is_digit (digit_char d)"
  by (simp add: is_digit_def digit_char_def)

lemma digit_val_digit_char [simp]: "d < 10 \<Longrightarrow> digit_val (digit_char d) = d"
  by (simp add: digit_val_def digit_char_def)

lemma not_digit_punct [simp]:
  "\<not> is_digit (CHR ''.'')" "\<not> is_digit (CHR ''/'')" "\<not> is_digit (CHR '':'')"
  "\<not> is_digit (CHR ''-'')" "\<not> is_digit (CHR ''+'')"
  by (simp_all add: is_digit_def)

lemma digit_char_inj: "d < 10 \<Longrightarrow> e < 10 \<Longrightarrow> digit_char d = digit_char e \<longleftrightarrow> d = e"
  by (metis digit_val_digit_char)

lemma digits_value_append:
  "digits_value acc (xs @ ys) =
     (case digits_value acc xs of None \<Rightarrow> None | Some n \<Rightarrow> digits_value n ys)"
  by (induction xs arbitrary: acc) auto

lemma itoa_digits: "c \<in> set (itoa n) \<Longrightarrow> is_digit c"
proof (induction n rule: itoa.induct)
  case (1 n)
  then show ?case
    by (subst (asm) (2) itoa.simps) (auto split: if_splits)
qed

lemma itoa_not_Nil [simp]: "itoa n \<noteq> []"
  by (subst itoa.simps) simp

lemma digits_value_itoa: "digits_value 0 (itoa n) = Some n"
proof (induction n rule: itoa.induct)
  case (1 n)
  then show ?case
    by (cases "n < 10") (subst itoa.simps, simp add: digits_value_append)+
qed

lemma hd_itoa_sign: "hd (itoa n) \<noteq> CHR ''-''" "hd (itoa n) \<noteq> CHR ''+''"
  using itoa_digits [of "hd (itoa n)" n] by (auto simp: is_digit_def)

lemma Atoi_itoa: "n < 2 ^ 63 \<Longrightarrow> Atoi (itoa n) = (int n, True)"
  by (simp add: Atoi_def hd_itoa_sign digits_value_itoa)

lemma itoa_inj: "itoa m = itoa n \<longleftrightarrow> m = n"
  by (metis digits_value_itoa option.inject)

lemma appendDecimal_itoa: "x < 1000 \<Longrightarrow> appendDecimal x = itoa x"
  by (simp add: appendDecimal_def itoa.simps [of x] itoa.simps [of "x div 10"]
      itoa.simps [of "x div 100"] div_mult2_eq [symmetric]) arith

section \<open>Splitting and joining\<close>

text \<open>\<open>strings.Split\<close> and \<open>strings.Join\<close> with a separator of one character.\<close>

fun split_on :: "char \<Rightarrow> string \<Rightarrow> string list" where
  "split_on sep [] = [[]]"
| "split_on sep (c # cs) =
     (if c = sep then [] # split_on sep cs
      else case split_on sep cs of [] \<Rightarrow> [[c]] | w # ws \<Rightarrow> (c # w) # ws)"

fun join_with :: "string \<Rightarrow> string list \<Rightarrow> string" where
  "join_with sep [] = []"
| "join_with sep [w] = w"
| "join_with sep (w # v # ws) = w @ sep @ join_with sep (v # ws)"

lemma split_on_no_sep: "sep \<notin> set w \<Longrightarrow> split_on sep w = [w]"
  by (induction w) auto

lemma split_on_append:
  "sep \<notin> set w \<Longrightarrow> split_on sep (w @ sep # rest) = w # split_on sep rest"
  by (induction w) auto

text \<open>The first index of a character: \<open>takeWhile\<close> and \<open>dropWhile\<close> cut the string there.\<close>

definition cut_at :: "char \<Rightarrow> string \<Rightarrow> (string \<times> string) option" where
  "cut_at sep s =
     (if sep \<in> set s
      then Some (takeWhile (\<lambda>c. c \<noteq> sep) s, tl (dropWhile (\<lambda>c. c \<noteq> sep) s)) else None)"

lemma cut_at_append: "sep \<notin> set w \<Longrightarrow> cut_at sep (w @ sep # rest) = Some (w, rest)"
proof -
  assume "sep \<notin> set w"
  then have "takeWhile (\<lambda>c. c \<noteq> sep) (w @ sep # rest) = w"
    and "dropWhile (\<lambda>c. c \<noteq> sep) (w @ sep # rest) = sep # rest"
    by (induction w) auto
  then show ?thesis by (simp add: cut_at_def)
qed

section \<open>Addresses: net.IP\<close>

type_synonym IP = bytes

definition v4InV6Prefix :: bytes where
  "v4InV6Prefix = replicate 10 0 @ [0xff, 0xff]"

definition IPv4 :: "byte \<Rightarrow> byte \<Rightarrow> byte \<Rightarrow> byte \<Rightarrow> IP" where
  "IPv4 a b c d = v4InV6Prefix @ [a, b, c, d]"

definition To4 :: "IP \<Rightarrow> IP option" where
  "To4 ip =
     (if length ip = 4 then Some ip
      else if length ip = 16 \<and> take 12 ip = v4InV6Prefix then Some (drop 12 ip)
      else None)"

definition To16 :: "IP \<Rightarrow> IP option" where
  "To16 ip =
     (if length ip = 4 then Some (v4InV6Prefix @ ip)
      else if length ip = 16 then Some ip else None)"

lemma length_v4InV6Prefix [simp]: "length v4InV6Prefix = 12"
  by (simp add: v4InV6Prefix_def)

lemma To4_length: "To4 ip = Some v \<Longrightarrow> length v = 4"
  by (auto simp: To4_def split: if_splits)

lemma To4_4 [simp]: "length ip = 4 \<Longrightarrow> To4 ip = Some ip"
  by (simp add: To4_def)

lemma To4_mapped [simp]: "length v = 4 \<Longrightarrow> To4 (v4InV6Prefix @ v) = Some v"
  by (simp add: To4_def)

lemma To4_IPv4 [simp]: "To4 (IPv4 a b c d) = Some [a, b, c, d]"
  by (simp add: IPv4_def)

lemma To4_Nil [simp]: "To4 [] = None"
  by (simp add: To4_def)

lemma To16_To4: "To16 ip = Some w \<Longrightarrow> To4 w = To4 ip"
  by (auto simp: To16_def To4_def split: if_splits)

section \<open>Masks and networks\<close>

record IPNet =
  net_IP :: IP
  net_Mask :: bytes

definition and_bytes :: "bytes \<Rightarrow> bytes \<Rightarrow> bytes" where
  "and_bytes xs ys = map2 (\<lambda>x y. x AND y) xs ys"

text \<open>\<open>simpleMaskLength\<close>: None stands for the result -1.\<close>

fun leading_ones :: "nat \<Rightarrow> byte \<Rightarrow> nat option" where
  "leading_ones 0 v = (if v = 0 then Some 0 else None)"
| "leading_ones (Suc k) v =
     (if v AND 0x80 \<noteq> 0 then map_option Suc (leading_ones k (push_bit 1 v))
      else if v = 0 then Some 0 else None)"

fun simpleMaskLength :: "bytes \<Rightarrow> nat option" where
  "simpleMaskLength [] = Some 0"
| "simpleMaskLength (v # vs) =
     (if v = 0xff then map_option (\<lambda>n. 8 + n) (simpleMaskLength vs)
      else if (\<forall>b \<in> set vs. b = 0) then leading_ones 8 v else None)"

definition mask_Size :: "bytes \<Rightarrow> nat \<times> nat" where
  "mask_Size m = (case simpleMaskLength m of None \<Rightarrow> (0, 0) | Some n \<Rightarrow> (n, length m * 8))"

text \<open>\<open>CIDRMask\<close>; the nil mask it returns on bad arguments is the empty list.\<close>

fun mask_bytes :: "nat \<Rightarrow> nat \<Rightarrow> bytes" where
  "mask_bytes 0 n = []"
| "mask_bytes (Suc l) n =
     (if 8 \<le> n then 0xff # mask_bytes l (n - 8)
      else NOT (drop_bit n 0xff) # mask_bytes l 0)"

definition CIDRMask :: "nat \<Rightarrow> nat \<Rightarrow> bytes" where
  "CIDRMask ones bits =
     (if bits \<noteq> 32 \<and> bits \<noteq> 128 then [] else if bits < ones then [] else mask_bytes (bits div 8) ones)"

text \<open>\<open>IP.Mask\<close>; the nil address it returns on a length mismatch is the empty list.\<close>

definition ip_Mask :: "IP \<Rightarrow> bytes \<Rightarrow> IP" where
  "ip_Mask ip0 mask0 =
     (let mask = (if length mask0 = 16 \<and> length ip0 = 4 \<and> (\<forall>b \<in> set (take 12 mask0). b = 0xff)
                  then drop 12 mask0 else mask0);
          ip = (if length mask = 4 \<and> length ip0 = 16 \<and> take 12 ip0 = v4InV6Prefix
                then drop 12 ip0 else ip0)
      in if length ip \<noteq> length mask then [] else and_bytes ip mask)"

definition networkNumberAndMask :: "IPNet \<Rightarrow> bytes \<times> bytes" where
  "networkNumberAndMask n =
     (let ip = (case To4 (net_IP n) of Some v \<Rightarrow> v | None \<Rightarrow> net_IP n); m = net_Mask n
      in if To4 (net_IP n) = None \<and> length ip \<noteq> 16 then ([], [])
         else if length m = 4 then (if length ip \<noteq> 4 then ([], []) else (ip, m))
         else if length m = 16 then (ip, if length ip = 4 then drop 12 m else m)
         else ([], []))"

definition Contains :: "IPNet \<Rightarrow> IP \<Rightarrow> bool" where
  "Contains n ip0 =
     (let nm = networkNumberAndMask n; nn = fst nm; m = snd nm;
          ip = (case To4 ip0 of Some x \<Rightarrow> x | None \<Rightarrow> ip0)
      in length ip = length nn \<and> and_bytes nn m = and_bytes ip m)"

lemma length_and_bytes [simp]: "length (and_bytes xs ys) = min (length xs) (length ys)"
  by (simp add: and_bytes_def)

lemma and_bytes_Cons [simp]: "and_bytes (x # xs) (y # ys) = (x AND y) # and_bytes xs ys"
  by (simp add: and_bytes_def)

lemma and_bytes_Nil [simp]: "and_bytes [] ys = []" "and_bytes xs [] = []"
  by (simp_all add: and_bytes_def)

lemma and_bytes_idem: "length xs = length m \<Longrightarrow> and_bytes (and_bytes xs m) m = and_bytes xs m"
  by (induction xs m rule: list_induct2) (simp_all add: and.assoc)

lemma and_bytes_zero: "length xs = n \<Longrightarrow> and_bytes xs (replicate n 0) = replicate n 0"
  by (induction xs arbitrary: n) auto

lemma length_mask_bytes [simp]: "length (mask_bytes l n) = l"
  by (induction l n rule: mask_bytes.induct) auto

lemma mask_bytes_0: "mask_bytes l 0 = replicate l 0"
  by (induction l) auto

lemma length_CIDRMask: "n \<le> 32 \<Longrightarrow> length (CIDRMask n 32) = 4"
  by (simp add: CIDRMask_def)

lemma Contains_v4:
  assumes "length nip = 4" and "length m = 4" and "To4 ip = Some v"
  shows "Contains \<lparr>net_IP = nip, net_Mask = m\<rparr> ip \<longleftrightarrow> and_bytes nip m = and_bytes v m"
  using assms To4_length [OF assms(3)]
  by (simp add: Contains_def networkNumberAndMask_def Let_def)

lemma Contains_default_net:
  assumes "To4 ip \<noteq> None"
  shows "Contains \<lparr>net_IP = IPv4 0 0 0 0, net_Mask = [0, 0, 0, 0]\<rparr> ip"
proof -
  obtain v where v: "To4 ip = Some v" using assms by auto
  then have "length v = 4" by (rule To4_length)
  then have "and_bytes v (replicate 4 0) = replicate 4 0" by (rule and_bytes_zero)
  with v show ?thesis
    by (simp add: Contains_def networkNumberAndMask_def Let_def numeral_eq_Suc \<open>length v = 4\<close>)
qed

lemma mask_Size_CIDRMask: "n \<le> 32 \<Longrightarrow> mask_Size (CIDRMask n 32) = (n, 32)"
proof -
  have "\<forall>k \<in> set [0..<33]. mask_Size (CIDRMask k 32) = (k, 32)"
    by code_simp
  then show "n \<le> 32 \<Longrightarrow> ?thesis" by simp
qed

section \<open>Addresses: netip.Addr\<close>

datatype Addr = AddrZero | AddrV4 bytes | AddrV6 bytes string

fun Is4 :: "Addr \<Rightarrow> bool" where
  "Is4 (AddrV4 _) = True"
| "Is4 _ = False"

fun Is6 :: "Addr \<Rightarrow> bool" where
  "Is6 (AddrV6 _ _) = True"
| "Is6 _ = False"

fun BitLen :: "Addr \<Rightarrow> nat" where
  "BitLen AddrZero = 0"
| "BitLen (AddrV4 _) = 32"
| "BitLen (AddrV6 _ _) = 128"

fun Zone :: "Addr \<Rightarrow> string" where
  "Zone (AddrV6 _ z) = z"
| "Zone _ = []"

fun As16 :: "Addr \<Rightarrow> bytes" where
  "As16 AddrZero = replicate 16 0"
| "As16 (AddrV4 b) = v4InV6Prefix @ b"
| "As16 (AddrV6 b _) = b"

text \<open>Printing.\<close>

definition hex_digit :: "nat \<Rightarrow> char" where
  "hex_digit d = (if d < 10 then digit_char d else char_of (87 + d))"

fun hex_string :: "nat \<Rightarrow> string" where
  "hex_string n = (if n < 16 then [hex_digit n] else hex_string (n div 16) @ [hex_digit (n mod 16)])"

declare hex_string.simps [simp del]

definition string4 :: "bytes \<Rightarrow> string" where
  "string4 b = join_with ''.'' (map (\<lambda>x. appendDecimal (unat x)) b)"

fun v6_groups :: "bytes \<Rightarrow> nat list" where
  "v6_groups (a # b # rest) = (unat a * 256 + unat b) # v6_groups rest"
| "v6_groups _ = []"

fun zero_run :: "nat list \<Rightarrow> nat" where
  "zero_run [] = 0"
| "zero_run (g # gs) = (if g = 0 then Suc (zero_run gs) else 0)"

text \<open>The longest run of at least two zero groups, the first of equals: start and end.\<close>

fun longest_run :: "nat \<Rightarrow> nat list \<Rightarrow> nat \<times> nat \<Rightarrow> nat \<times> nat" where
  "longest_run i [] best = best"
| "longest_run i (g # gs) (zs, ze) =
     (let l = zero_run (g # gs)
      in longest_run (Suc i) gs (if 2 \<le> l \<and> ze - zs < l then (i, i + l) else (zs, ze)))"

definition string6 :: "bytes \<Rightarrow> string \<Rightarrow> string" where
  "string6 b zone =
     (let gs = v6_groups b; (zs, ze) = longest_run 0 gs (255, 255);
          shown = (\<lambda>ws. join_with '':'' (map hex_string ws))
      in (if 8 \<le> zs then shown gs else shown (take zs gs) @ ''::'' @ shown (drop ze gs)) @
         (if zone = [] then [] else CHR 37 # zone))"

fun Addr_String :: "Addr \<Rightarrow> string" where
  "Addr_String AddrZero = ''invalid IP''"
| "Addr_String (AddrV4 b) = string4 b"
| "Addr_String (AddrV6 b zone) =
     (if take 12 b = v4InV6Prefix
      then ''::ffff:'' @ string4 (drop 12 b) @ (if zone = [] then [] else CHR 37 # zone)
      else string6 b zone)"

definition IP_String :: "IP \<Rightarrow> string" where
  "IP_String ip =
     (if ip = [] then ''<nil>''
      else if length ip \<noteq> 4 \<and> length ip \<noteq> 16
           then CHR ''?'' # concat (map (\<lambda>x. [hex_digit (unat x div 16), hex_digit (unat x mod 16)]) ip)
      else case To4 ip of Some v \<Rightarrow> string4 v | None \<Rightarrow> Addr_String (AddrV6 ip []))"

lemma IP_String_v4: "To4 ip = Some v \<Longrightarrow> IP_String ip = string4 v"
  by (auto simp: IP_String_def To4_def split: if_splits)

lemma string4_4:
  "string4 [a, b, c, d] =
     itoa (unat a) @ CHR ''.'' # itoa (unat b) @ CHR ''.'' # itoa (unat c) @ CHR ''.'' # itoa (unat d)"
proof -
  have "unat x < 1000" for x :: byte
    using unat_byte_less [of x] by linarith
  then show ?thesis by (simp add: string4_def appendDecimal_itoa)
qed

lemma split_string4:
  "split_on (CHR ''.'') (string4 [a, b, c, d]) = map (\<lambda>x. itoa (unat x)) [a, b, c, d]"
proof -
  have dot: "CHR ''.'' \<notin> set (itoa n)" for n
    using itoa_digits [of "CHR ''.''" n] by auto
  show ?thesis
    by (simp add: string4_4 split_on_append [OF dot] split_on_no_sep [OF dot])
qed

text \<open>The printed form of an address that is not IPv4 has no dot.\<close>

lemma hex_digit_not_dot: "d < 16 \<Longrightarrow> hex_digit d \<noteq> CHR ''.''"
proof -
  assume "d < 16"
  have "of_char (CHR ''.'') = (46 :: nat)" by simp
  moreover have "of_char (hex_digit d) \<noteq> (46 :: nat)"
    using \<open>d < 16\<close> by (auto simp: hex_digit_def digit_char_def)
  ultimately show ?thesis by metis
qed

lemma hex_string_no_dot: "CHR ''.'' \<notin> set (hex_string n)"
proof (induction n rule: hex_string.induct)
  case (1 n)
  then show ?case
    using hex_digit_not_dot [of n] hex_digit_not_dot [of "n mod 16"]
    by (subst hex_string.simps) auto
qed

lemma join_with_set: "x \<in> set (join_with sep ws) \<Longrightarrow> x \<in> set sep \<or> (\<exists>w \<in> set ws. x \<in> set w)"
  by (induction sep ws rule: join_with.induct) auto

lemma string6_no_dot: "CHR ''.'' \<notin> set (string6 b [])"
  using hex_string_no_dot
  by (auto simp: string6_def Let_def split: prod.splits if_splits dest!: join_with_set)

lemma hex_bytes_no_dot:
  "CHR ''.'' \<notin> set (concat (map (\<lambda>x. [hex_digit (unat x div 16), hex_digit (unat x mod 16)]) (ip :: bytes)))"
proof -
  have "hex_digit (unat x div 16) \<noteq> CHR ''.''" "hex_digit (unat x mod 16) \<noteq> CHR ''.''" for x :: byte
    using unat_byte_less [of x] by (auto intro!: hex_digit_not_dot simp: less_mult_imp_div_less)
  then show ?thesis by (induction ip) (simp_all, metis)
qed

lemma IP_String_no_dot: "To4 ip = None \<Longrightarrow> CHR ''.'' \<notin> set (IP_String ip)"
  using string6_no_dot [of ip] hex_bytes_no_dot [of ip]
  by (simp add: IP_String_def To4_def split: if_splits del: set_concat set_map) blast

section \<open>Parsing addresses and prefixes\<close>

text \<open>
  \<open>netip.ParseAddr\<close> and \<open>net.ParseCIDR\<close>; None is a parse error. The state of the IPv4 loop is
  the previous character, the value and the digit count of the current field, and the fields
  already stored.
\<close>

fun parseIPv4Fields :: "char option \<Rightarrow> nat \<Rightarrow> nat \<Rightarrow> bytes \<Rightarrow> string \<Rightarrow> bytes option" where
  "parseIPv4Fields prev val digLen fs [] =
     (if length fs < 3 then None else Some (fs @ [of_nat val]))"
| "parseIPv4Fields prev val digLen fs (c # cs) =
     (if is_digit c then
        (if digLen = 1 \<and> val = 0 then None
         else if 255 < val * 10 + digit_val c then None
         else parseIPv4Fields (Some c) (val * 10 + digit_val c) (Suc digLen) fs cs)
      else if c = CHR ''.'' then
        (if prev = None \<or> cs = [] \<or> prev = Some (CHR ''.'') then None
         else if length fs = 3 then None
         else parseIPv4Fields (Some c) 0 0 (fs @ [of_nat val]) cs)
      else None)"

definition parseIPv4 :: "string \<Rightarrow> Addr option" where
  "parseIPv4 s = map_option AddrV4 (parseIPv4Fields None 0 0 [] s)"

definition hex_val :: "char \<Rightarrow> nat option" where
  "hex_val c =
     (let n = of_char c :: nat
      in if is_digit c then Some (n - 48)
         else if 97 \<le> n \<and> n \<le> 102 then Some (n - 87)
         else if 65 \<le> n \<and> n \<le> 70 then Some (n - 55) else None)"

fun hex_group :: "nat \<Rightarrow> nat \<Rightarrow> string \<Rightarrow> (nat \<times> nat \<times> string) option" where
  "hex_group off acc [] = Some (off, acc, [])"
| "hex_group off acc (c # cs) =
     (case hex_val c of
        None \<Rightarrow> Some (off, acc, c # cs)
      | Some v \<Rightarrow> if 3 < off \<or> 65535 < acc * 16 + v then None
                  else hex_group (Suc off) (acc * 16 + v) cs)"

definition v6_finish :: "string \<Rightarrow> bytes \<Rightarrow> nat option \<Rightarrow> bytes option" where
  "v6_finish s ip ell =
     (if s \<noteq> [] then None
      else if length ip < 16 then
        (case ell of
           None \<Rightarrow> None
         | Some e \<Rightarrow> Some (take e ip @ replicate (16 - length ip) 0 @ drop e ip))
      else if ell \<noteq> None then None else Some ip)"

function v6_loop :: "string \<Rightarrow> bytes \<Rightarrow> nat option \<Rightarrow> bytes option" where
  "v6_loop s ip ell =
     (if 16 \<le> length ip then v6_finish s ip ell
      else case hex_group 0 0 s of
        None \<Rightarrow> None
      | Some (off, val, rest) \<Rightarrow>
          if off = 0 then None
          else if rest \<noteq> [] \<and> hd rest = CHR ''.'' then
            (if (ell = None \<and> length ip \<noteq> 12) \<or> 16 < length ip + 4 then None
             else case parseIPv4Fields None 0 0 [] s of
               None \<Rightarrow> None
             | Some f \<Rightarrow> v6_finish [] (ip @ f) ell)
          else let ip' = ip @ [of_nat (val div 256), of_nat (val mod 256)]
          in if rest = [] then v6_finish [] ip' ell
             else if hd rest \<noteq> CHR '':'' \<or> tl rest = [] then None
             else if hd (tl rest) \<noteq> CHR '':'' then v6_loop (tl rest) ip' ell
             else if ell \<noteq> None then None
             else if tl (tl rest) = [] then v6_finish [] ip' (Some (length ip'))
             else v6_loop (tl (tl rest)) ip' (Some (length ip')))"
  by pat_completeness auto
termination
  by (relation "measure (\<lambda>(s, ip, ell). 16 - length ip)") auto

declare v6_loop.simps [simp del]
declare parseIPv4Fields.simps [simp del]

definition parseIPv6 :: "string \<Rightarrow> Addr option" where
  "parseIPv6 input =
     (let (s, zone, bad) = (case cut_at (CHR 37) input of
                              None \<Rightarrow> (input, [], False) | Some (a, z) \<Rightarrow> (a, z, z = []))
      in if bad then None
         else if take 2 s = ''::'' then
           (if drop 2 s = [] then Some (AddrV6 (replicate 16 0) zone)
            else map_option (\<lambda>ip. AddrV6 ip zone) (v6_loop (drop 2 s) [] (Some 0)))
         else map_option (\<lambda>ip. AddrV6 ip zone) (v6_loop s [] None))"

fun address_kind :: "string \<Rightarrow> char option" where
  "address_kind [] = None"
| "address_kind (c # cs) =
     (if c = CHR ''.'' \<or> c = CHR '':'' \<or> c = CHR 37 then Some c else address_kind cs)"

definition ParseAddr :: "string \<Rightarrow> Addr option" where
  "ParseAddr s =
     (case address_kind s of
        None \<Rightarrow> None
      | Some c \<Rightarrow> if c = CHR ''.'' then parseIPv4 s
                  else if c = CHR '':'' then parseIPv6 s else None)"

text \<open>\<open>dtoi\<close> restricted to its use: all of the string, below the limit 0xFFFFFF.\<close>

definition dtoi :: "string \<Rightarrow> nat option" where
  "dtoi s =
     (case digits_value 0 s of
        None \<Rightarrow> None | Some n \<Rightarrow> if s = [] \<or> 0xFFFFFF \<le> n then None else Some n)"

definition ParseCIDR :: "string \<Rightarrow> (IP \<times> IPNet) option" where
  "ParseCIDR s =
     (case cut_at (CHR ''/'') s of
        None \<Rightarrow> None
      | Some (addr, msk) \<Rightarrow>
          (case ParseAddr addr of
             None \<Rightarrow> None
           | Some a \<Rightarrow>
               if Zone a \<noteq> [] then None
               else case dtoi msk of
                 None \<Rightarrow> None
               | Some n \<Rightarrow>
                   if BitLen a < n then None
                   else let m = CIDRMask n (BitLen a)
                        in Some (As16 a, \<lparr>net_IP = ip_Mask (As16 a) m, net_Mask = m\<rparr>)))"

definition ParseIP :: "string \<Rightarrow> IP" where
  "ParseIP s =
     (case ParseAddr s of None \<Rightarrow> [] | Some a \<Rightarrow> if Zone a \<noteq> [] then [] else As16 a)"

section \<open>The lengths of what is parsed\<close>

lemma parseIPv4Fields_length:
  "parseIPv4Fields prev val digLen fs s = Some f \<Longrightarrow> length fs \<le> 3 \<Longrightarrow> length f = 4"
proof (induction prev val digLen fs s rule: parseIPv4Fields.induct)
  case (1 prev val digLen fs)
  then show ?case
    by (auto simp: parseIPv4Fields.simps split: if_splits)
next
  case (2 prev val digLen fs c cs)
  show ?case
    using "2.prems" "2.IH" by (auto simp: parseIPv4Fields.simps(2) [of prev] split: if_splits)
qed

lemma v6_finish_length:
  "v6_finish s ip ell = Some r \<Longrightarrow> length ip \<le> 16 \<Longrightarrow> length r = 16"
  by (auto simp: v6_finish_def split: if_splits option.splits)

lemma v6_loop_length:
  "v6_loop s ip ell = Some r \<Longrightarrow> length ip \<le> 16 \<Longrightarrow> even (length ip) \<Longrightarrow> length r = 16"
proof (induction s ip ell rule: v6_loop.induct)
  case (1 s ip ell)
  have room: "length ip + 2 \<le> 16" if "\<not> 16 \<le> length ip"
    using that "1.prems"(3) by presburger
  have four: "length f = 4" if "parseIPv4Fields None 0 0 [] s = Some f" for f
    using parseIPv4Fields_length [OF that] by simp
  show ?case
    using "1.prems" "1.IH" room
    by (subst (asm) v6_loop.simps)
      (auto simp: Let_def split: if_splits option.splits prod.splits
        dest!: v6_finish_length four)
qed

lemma ParseAddr_length:
  assumes "ParseAddr s = Some a"
  shows "length (As16 a) = 16"
proof -
  have "length ip = 16" if "parseIPv6 s = Some (AddrV6 ip z)" for ip z
    using that by (auto simp: parseIPv6_def split: if_splits option.splits prod.splits dest: v6_loop_length)
  moreover have "length f = 4" if "parseIPv4 s = Some (AddrV4 f)" for f
    using that by (auto simp: parseIPv4_def dest: parseIPv4Fields_length)
  moreover have "\<exists>ip z. a = AddrV6 ip z" if "parseIPv6 s = Some a"
    using that by (auto simp: parseIPv6_def split: if_splits option.splits prod.splits)
  moreover have "\<exists>f. a = AddrV4 f" if "parseIPv4 s = Some a"
    using that by (auto simp: parseIPv4_def)
  ultimately show ?thesis
    using assms by (fastforce simp: ParseAddr_def split: option.splits if_splits)
qed

lemma ParseAddr_not_zero: "ParseAddr s \<noteq> Some AddrZero"
  by (auto simp: ParseAddr_def parseIPv6_def parseIPv4_def split: option.splits if_splits prod.splits)

lemma ParseCIDR_length: "ParseCIDR s = Some (ip, n) \<Longrightarrow> length ip = 16"
  by (auto simp: ParseCIDR_def Let_def ParseAddr_length split: option.splits if_splits)

section \<open>Round trips\<close>

lemma parse_digit:
  assumes "d < 10" and "digLen \<noteq> 1 \<or> val \<noteq> 0" and "val * 10 + d \<le> 255"
  shows "parseIPv4Fields prev val digLen fs (digit_char d # cs) =
         parseIPv4Fields (Some (digit_char d)) (val * 10 + d) (Suc digLen) fs cs"
proof -
  have "\<not> (digLen = 1 \<and> val = 0)" and "\<not> 255 < val * 10 + d"
    using assms by auto
  with assms(1) show ?thesis
    by (subst parseIPv4Fields.simps(2)) (simp only: is_digit_digit_char digit_val_digit_char if_True if_False)
qed

lemma parse_three:
  assumes "a < 10" "b < 10" "c < 10" "a \<noteq> 0" "(a * 10 + b) * 10 + c \<le> 255"
  shows "parseIPv4Fields prev 0 0 fs (digit_char a # digit_char b # digit_char c # cs) =
         parseIPv4Fields (Some (digit_char c)) ((a * 10 + b) * 10 + c) 3 fs cs"
  using assms by (simp add: parse_digit numeral_3_eq_3)

text \<open>Reading a printed octet leaves its value and its last digit as the previous character.\<close>

lemma parse_octet:
  assumes "n < 256"
  shows "\<exists>k. parseIPv4Fields prev 0 0 fs (appendDecimal n @ cs) =
             parseIPv4Fields (Some (digit_char (n mod 10))) n k fs cs"
proof -
  consider "n < 10" | "10 \<le> n" "n < 100" | "100 \<le> n" by linarith
  then show ?thesis
  proof cases
    case 1
    then have "appendDecimal n @ cs = digit_char (n mod 10) # cs" by (simp add: appendDecimal_def)
    moreover from 1 have "0 * 10 + n mod 10 = n" by simp
    ultimately show ?thesis
      using parse_digit [of "n mod 10" 0 0 prev fs cs] by auto
  next
    case 2
    then have "appendDecimal n @ cs = digit_char (n div 10) # digit_char (n mod 10) # cs"
      by (simp add: appendDecimal_def)
    moreover have "n div 10 < 10" "n div 10 \<noteq> 0" "n div 10 * 10 + n mod 10 = n"
      using 2 by auto
    ultimately show ?thesis
      using assms parse_digit [of "n div 10" 0 0 prev fs "digit_char (n mod 10) # cs"]
        parse_digit [of "n mod 10" "Suc 0" "n div 10" "Some (digit_char (n div 10))" fs cs]
      by auto
  next
    case 3
    let ?a = "n div 100" and ?b = "n div 10 mod 10" and ?c = "n mod 10"
    have shape: "appendDecimal n @ cs = digit_char ?a # digit_char ?b # digit_char ?c # cs"
      using 3 by (simp add: appendDecimal_def)
    have "?a * 10 + ?b = n div 10"
      using div_mult_mod_eq [of "n div 10" 10] by (simp add: div_mult2_eq [symmetric])
    then have sum: "(?a * 10 + ?b) * 10 + ?c = n"
      using div_mult_mod_eq [of n 10] by simp
    have "?a < 10" using assms by simp
    moreover have "?a \<noteq> 0" using 3 by simp
    moreover have "?b < 10" "?c < 10" by (rule mod_less_divisor, simp)+
    moreover from sum assms have "(?a * 10 + ?b) * 10 + ?c \<le> 255" by linarith
    ultimately have "parseIPv4Fields prev 0 0 fs (digit_char ?a # digit_char ?b # digit_char ?c # cs) =
        parseIPv4Fields (Some (digit_char ?c)) ((?a * 10 + ?b) * 10 + ?c) 3 fs cs"
      by (intro parse_three)
    then show ?thesis by (simp only: sum shape) blast
  qed
qed

lemma parse_dot:
  assumes "p \<noteq> CHR ''.''" and "cs \<noteq> []" and "length fs < 3"
  shows "parseIPv4Fields (Some p) n k fs (CHR ''.'' # cs) =
         parseIPv4Fields (Some (CHR ''.'')) 0 0 (fs @ [of_nat n]) cs"
  using assms by (subst parseIPv4Fields.simps(2)) simp

lemma digit_not_dot: "d < 10 \<Longrightarrow> digit_char d \<noteq> CHR ''.''"
  using is_digit_digit_char [of d] by fastforce

lemma parse_octet_dot:
  assumes "cs \<noteq> []" and "length fs < 3"
  shows "parseIPv4Fields prev 0 0 fs (appendDecimal (unat (b :: byte)) @ CHR ''.'' # cs) =
         parseIPv4Fields (Some (CHR ''.'')) 0 0 (fs @ [b]) cs"
proof -
  obtain k where "parseIPv4Fields prev 0 0 fs (appendDecimal (unat b) @ CHR ''.'' # cs) =
         parseIPv4Fields (Some (digit_char (unat b mod 10))) (unat b) k fs (CHR ''.'' # cs)"
    using parse_octet [OF unat_byte_less] by blast
  also have "\<dots> = parseIPv4Fields (Some (CHR ''.'')) 0 0 (fs @ [of_nat (unat b)]) cs"
    by (rule parse_dot) (use assms digit_not_dot in auto)
  finally show ?thesis by simp
qed

lemma parse_octet_end:
  assumes "length fs = 3"
  shows "parseIPv4Fields prev 0 0 fs (appendDecimal (unat (b :: byte))) = Some (fs @ [b])"
proof -
  obtain k where "parseIPv4Fields prev 0 0 fs (appendDecimal (unat b) @ []) =
         parseIPv4Fields (Some (digit_char (unat b mod 10))) (unat b) k fs []"
    using parse_octet [OF unat_byte_less, of prev fs b "[]"] by blast
  with assms show ?thesis by (simp add: parseIPv4Fields.simps)
qed

lemma appendDecimal_not_Nil [simp]: "appendDecimal n \<noteq> []"
  by (simp add: appendDecimal_def)

lemma string4_parts:
  "string4 [a, b, c, d] =
     appendDecimal (unat a) @ CHR ''.'' # appendDecimal (unat b) @ CHR ''.'' #
     appendDecimal (unat c) @ CHR ''.'' # appendDecimal (unat d)"
  by (simp add: string4_def)

lemma parseIPv4_string4: "parseIPv4 (string4 [a, b, c, d]) = Some (AddrV4 [a, b, c, d])"
  by (simp add: parseIPv4_def string4_parts parse_octet_dot parse_octet_end)

lemma address_kind_digits:
  "(\<And>c. c \<in> set w \<Longrightarrow> is_digit c) \<Longrightarrow> address_kind (w @ CHR ''.'' # rest) = Some (CHR ''.'')"
proof (induction w)
  case (Cons c w)
  have "is_digit c" using Cons.prems by simp
  then have "c \<noteq> CHR ''.''" "c \<noteq> CHR '':''" "c \<noteq> CHR 37" by (auto simp: is_digit_def)
  with Cons show ?case by simp
qed simp

lemma string4_chars: "x \<in> set (string4 [a, b, c, d]) \<Longrightarrow> is_digit x \<or> x = CHR ''.''"
  using itoa_digits by (auto simp: string4_4)

lemma ParseAddr_string4: "ParseAddr (string4 [a, b, c, d]) = Some (AddrV4 [a, b, c, d])"
proof -
  have "address_kind (string4 [a, b, c, d]) = Some (CHR ''.'')"
    unfolding string4_4 by (rule address_kind_digits) (rule itoa_digits)
  then show ?thesis by (simp add: ParseAddr_def parseIPv4_string4)
qed

lemma dtoi_itoa: "n < 0xFFFFFF \<Longrightarrow> dtoi (itoa n) = Some n"
  by (simp add: dtoi_def digits_value_itoa)

lemma ParseCIDR_v4_text:
  assumes "dtoi m = Some n" and "n \<le> 32"
  shows "ParseCIDR (string4 [a, b, c, d] @ CHR ''/'' # m) =
         Some (IPv4 a b c d,
               \<lparr>net_IP = and_bytes [a, b, c, d] (CIDRMask n 32), net_Mask = CIDRMask n 32\<rparr>)"
proof -
  have "CHR ''/'' \<notin> set (string4 [a, b, c, d])"
    using string4_chars [of "CHR ''/''"] by auto
  then have cut: "cut_at (CHR ''/'') (string4 [a, b, c, d] @ CHR ''/'' # m) =
      Some (string4 [a, b, c, d], m)"
    by (rule cut_at_append)
  have len: "length (CIDRMask n 32) = 4" using assms(2) by (rule length_CIDRMask)
  have "ip_Mask (v4InV6Prefix @ [a, b, c, d]) (CIDRMask n 32) =
      and_bytes [a, b, c, d] (CIDRMask n 32)"
    using len by (simp add: ip_Mask_def Let_def)
  with assms cut show ?thesis
    by (simp add: ParseCIDR_def ParseAddr_string4 IPv4_def Let_def)
qed

text \<open>
  The CIDR parser reads a printed IPv4 prefix back: the address in its 16-byte form and the
  network of the masked address.
\<close>

theorem ParseCIDR_v4:
  assumes "n \<le> 32"
  shows "ParseCIDR (string4 [a, b, c, d] @ CHR ''/'' # itoa n) =
         Some (IPv4 a b c d,
               \<lparr>net_IP = and_bytes [a, b, c, d] (CIDRMask n 32), net_Mask = CIDRMask n 32\<rparr>)"
  using assms by (intro ParseCIDR_v4_text dtoi_itoa) simp_all

lemma ParseIP_string4: "ParseIP (string4 [a, b, c, d]) = IPv4 a b c d"
  by (simp add: ParseIP_def ParseAddr_string4 IPv4_def)

text \<open>Membership in a parsed IPv4 network compares the masked addresses.\<close>

lemma Contains_parsed:
  assumes "n \<le> 32" and "To4 ip = Some v"
  shows "Contains \<lparr>net_IP = and_bytes [a, b, c, d] (CIDRMask n 32), net_Mask = CIDRMask n 32\<rparr> ip
    \<longleftrightarrow> and_bytes [a, b, c, d] (CIDRMask n 32) = and_bytes v (CIDRMask n 32)"
proof -
  have len: "length (CIDRMask n 32) = 4" using assms(1) by (rule length_CIDRMask)
  then have "length (and_bytes [a, b, c, d] (CIDRMask n 32)) = 4" by simp
  with assms(2) len show ?thesis
    by (simp add: Contains_v4 and_bytes_idem)
qed

text \<open>\<open>netip.AddrFromSlice\<close>; the second result is that the address is valid.\<close>

definition AddrFromSlice :: "bytes \<Rightarrow> Addr" where
  "AddrFromSlice b =
     (if length b = 4 then AddrV4 b else if length b = 16 then AddrV6 b [] else AddrZero)"

section \<open>Prefixes: netip.Prefix\<close>

text \<open>A prefix is an address and, when it is valid, a length.\<close>

type_synonym Prefix = "Addr \<times> nat option"

fun withoutZone :: "Addr \<Rightarrow> Addr" where
  "withoutZone (AddrV6 b _) = AddrV6 b []"
| "withoutZone a = a"

definition PrefixFrom :: "Addr \<Rightarrow> nat \<Rightarrow> Prefix" where
  "PrefixFrom a bits = (withoutZone a, if a \<noteq> AddrZero \<and> bits \<le> BitLen a then Some bits else None)"

definition Prefix_String :: "Prefix \<Rightarrow> string" where
  "Prefix_String p =
     (case snd p of None \<Rightarrow> ''invalid Prefix'' | Some n \<Rightarrow> Addr_String (fst p) @ CHR ''/'' # itoa n)"

lemma Prefix_String_v4:
  "n \<le> 32 \<Longrightarrow> Prefix_String (PrefixFrom (AddrV4 [a, b, c, d]) n) =
     string4 [a, b, c, d] @ CHR ''/'' # itoa n"
  by (simp add: Prefix_String_def PrefixFrom_def)

lemma ParseCIDR_invalid: "ParseCIDR ''invalid Prefix'' = None"
  by (simp add: ParseCIDR_def cut_at_def)

end
