(* ===== verification/Go_Addr.thy ===== *)
theory Go_Addr
  imports Go_Net
begin

text \<open>
  Host and port strings of Go's standard library: \<open>net.SplitHostPort\<close>, \<open>net.JoinHostPort\<close>,
  \<open>netip.ParseAddrPort\<close>, and the resolution of a literal address by \<open>net.ResolveUDPAddr\<close> and
  \<open>net.ResolveTCPAddr\<close>. Names that are not literals are looked up by a parameter.
\<close>

definition split_last_colon :: "string \<Rightarrow> (string \<times> string) option" where
  "split_last_colon s =
     (case cut_at (CHR '':'') (rev s) of None \<Rightarrow> None | Some (p, h) \<Rightarrow> Some (rev h, rev p))"

lemma split_last_colon_append:
  "CHR '':'' \<notin> set p \<Longrightarrow> split_last_colon (h @ CHR '':'' # p) = Some (h, p)"
  by (simp add: split_last_colon_def cut_at_append)

definition ParseUint16 :: "string \<Rightarrow> u16 option" where
  "ParseUint16 s =
     (case digits_value 0 s of
        None \<Rightarrow> None | Some n \<Rightarrow> if s = [] \<or> 65535 < n then None else Some (of_nat n))"

lemma ParseUint16_itoa: "n < 65536 \<Longrightarrow> ParseUint16 (itoa n) = Some (of_nat n)"
  by (simp add: ParseUint16_def digits_value_itoa)

definition ParseAddrPort :: "string \<Rightarrow> (Addr \<times> u16) option" where
  "ParseAddrPort s =
     (case split_last_colon s of
        None \<Rightarrow> None
      | Some (ip, port) \<Rightarrow>
          if ip = [] \<or> port = [] then None
          else let bracketed = (hd ip = CHR ''['')
               in if bracketed \<and> (length ip < 2 \<or> last ip \<noteq> CHR '']'') then None
                  else case (ParseUint16 port, ParseAddr (if bracketed then butlast (tl ip) else ip)) of
                    (Some p, Some a) \<Rightarrow> if (if bracketed then Is4 a else Is6 a) then None else Some (a, p)
                  | _ \<Rightarrow> None)"

definition SplitHostPort :: "string \<Rightarrow> (string \<times> string) option" where
  "SplitHostPort s =
     (case split_last_colon s of
        None \<Rightarrow> None
      | Some (h, port) \<Rightarrow>
          if s \<noteq> [] \<and> hd s = CHR ''['' then
            (case cut_at (CHR '']'') (tl s) of
               None \<Rightarrow> None
             | Some (host, rest) \<Rightarrow>
                 if rest \<noteq> CHR '':'' # port \<or> CHR ''['' \<in> set (tl s) \<or> CHR '']'' \<in> set port then None
                 else Some (host, port))
          else if CHR '':'' \<in> set h \<or> CHR ''['' \<in> set s \<or> CHR '']'' \<in> set s then None
          else Some (h, port))"

definition JoinHostPort :: "string \<Rightarrow> string \<Rightarrow> string" where
  "JoinHostPort host port =
     (if CHR '':'' \<in> set host \<or> CHR 37 \<in> set host then ''['' @ host @ '']:'' @ port
      else host @ '':'' @ port)"

record UDPAddr =
  udp_IP :: IP
  udp_Port :: nat
  udp_Zone :: string

text \<open>\<open>UDPAddr.String\<close>; an address without IP prints only the port.\<close>

definition UDPAddr_String :: "UDPAddr \<Rightarrow> string" where
  "UDPAddr_String a =
     JoinHostPort ((if udp_IP a = [] then [] else IP_String (udp_IP a)) @
                   (if udp_Zone a = [] then [] else CHR 37 # udp_Zone a)) (itoa (udp_Port a))"

record resolver =
  lookup_host :: "string \<Rightarrow> IP option"
  lookup_port :: "string \<Rightarrow> nat option"

definition resolve_port :: "resolver \<Rightarrow> string \<Rightarrow> nat option" where
  "resolve_port rs port =
     (if port = [] then Some 0
      else case digits_value 0 port of
        Some n \<Rightarrow> if 65535 < n then None else Some n
      | None \<Rightarrow> lookup_port rs port)"

definition ResolveAddr :: "resolver \<Rightarrow> string \<Rightarrow> UDPAddr option" where
  "ResolveAddr rs s =
     (case SplitHostPort s of
        None \<Rightarrow> None
      | Some (host, port) \<Rightarrow>
          (case resolve_port rs port of
             None \<Rightarrow> None
           | Some p \<Rightarrow>
               if host = [] then Some \<lparr>udp_IP = [], udp_Port = p, udp_Zone = []\<rparr>
               else case ParseAddr host of
                 Some a \<Rightarrow> Some \<lparr>udp_IP = As16 a, udp_Port = p, udp_Zone = Zone a\<rparr>
               | None \<Rightarrow> map_option (\<lambda>ip. \<lparr>udp_IP = ip, udp_Port = p, udp_Zone = []\<rparr>) (lookup_host rs host)))"

section \<open>Literal IPv4 endpoints\<close>

abbreviation endpoint4 :: "byte \<Rightarrow> byte \<Rightarrow> byte \<Rightarrow> byte \<Rightarrow> nat \<Rightarrow> string" where
  "endpoint4 a b c d port \<equiv> string4 [a, b, c, d] @ CHR '':'' # itoa port"

lemma itoa_char: "\<not> is_digit x \<Longrightarrow> x \<notin> set (itoa n)"
  using itoa_digits by blast

lemma string4_char: "\<not> is_digit x \<Longrightarrow> x \<noteq> CHR ''.'' \<Longrightarrow> x \<notin> set (string4 [a, b, c, d])"
  using string4_chars by blast

lemma not_digit_brackets [simp]:
  "\<not> is_digit (CHR ''['')" "\<not> is_digit (CHR '']'')" "\<not> is_digit (CHR ''-'')" "\<not> is_digit (CHR 37)"
  by (simp_all add: is_digit_def)

lemma string4_not_Nil [simp]: "string4 [a, b, c, d] \<noteq> []"
  by (simp add: string4_parts)

lemma hd_string4: "hd (string4 [a, b, c, d]) \<noteq> CHR ''[''"
proof
  assume "hd (string4 [a, b, c, d]) = CHR ''[''"
  moreover have "hd (string4 [a, b, c, d]) \<in> set (string4 [a, b, c, d])" by (rule hd_in_set) simp
  ultimately show False using string4_char [of "CHR ''[''" a b c d] by simp
qed

lemma split_endpoint4: "split_last_colon (endpoint4 a b c d port) = Some (string4 [a, b, c, d], itoa port)"
  using split_last_colon_append [of "itoa port" "string4 [a, b, c, d]"] by (simp add: itoa_char)

lemma ParseAddrPort_endpoint4:
  "port < 65536 \<Longrightarrow> ParseAddrPort (endpoint4 a b c d port) = Some (AddrV4 [a, b, c, d], of_nat port)"
  using split_endpoint4 [of a b c d port]
  by (simp add: ParseAddrPort_def ParseUint16_itoa ParseAddr_string4 hd_string4)

lemma SplitHostPort_endpoint4:
  "SplitHostPort (endpoint4 a b c d port) = Some (string4 [a, b, c, d], itoa port)"
  using split_endpoint4 [of a b c d port] hd_string4 [of a b c d]
  by (simp add: SplitHostPort_def string4_char itoa_char)

lemma ResolveAddr_endpoint4:
  "port < 65536 \<Longrightarrow>
   ResolveAddr rs (endpoint4 a b c d port) =
     Some \<lparr>udp_IP = IPv4 a b c d, udp_Port = port, udp_Zone = []\<rparr>"
  by (simp add: ResolveAddr_def SplitHostPort_endpoint4 resolve_port_def digits_value_itoa
      ParseAddr_string4 IPv4_def)

text \<open>An unbracketed host with a colon of its own is rejected by both parsers.\<close>

lemma SplitHostPort_colon:
  assumes "CHR '':'' \<in> set host" and "host = [] \<or> hd host \<noteq> CHR ''[''"
  shows "SplitHostPort (host @ CHR '':'' # itoa port) = None"
proof -
  have "split_last_colon (host @ CHR '':'' # itoa port) = Some (host, itoa port)"
    using split_last_colon_append [of "itoa port" host] by (simp add: itoa_char)
  with assms show ?thesis by (cases host) (auto simp: SplitHostPort_def)
qed

lemma ResolveAddr_colon:
  "CHR '':'' \<in> set host \<Longrightarrow> host = [] \<or> hd host \<noteq> CHR ''['' \<Longrightarrow>
   ResolveAddr rs (host @ CHR '':'' # itoa port) = None"
  using SplitHostPort_colon [of host port] by (simp add: ResolveAddr_def)

end
