(* ===== verification/Go_Sort.thy ===== *)
theory Go_Sort
  imports Prelude
begin

text \<open>
  The contract of Go's \<open>sort.Sort\<close>: the result is a permutation that no adjacent (hence no) pair
  violates, with no promise of stability. Clients are verified against the contract; the
  insertion sort that \<open>sort.Sort\<close> runs on up to twelve elements meets it.
\<close>

locale weak_order =
  fixes lt :: "'a \<Rightarrow> 'a \<Rightarrow> bool"
  assumes asymmetric: "lt x y \<Longrightarrow> \<not> lt y x"
    and not_less_trans: "\<not> lt y x \<Longrightarrow> \<not> lt z y \<Longrightarrow> \<not> lt z x"
begin

lemma irreflexive: "\<not> lt x x"
  using asymmetric by blast

end

locale sort_contract = weak_order lt for lt :: "'a \<Rightarrow> 'a \<Rightarrow> bool" +
  fixes srt :: "'a list \<Rightarrow> 'a list"
  assumes mset_srt: "mset (srt xs) = mset xs"
    and sorted_srt: "sorted_wrt (\<lambda>x y. \<not> lt y x) (srt xs)"
begin

lemma set_srt: "set (srt xs) = set xs"
  using mset_srt by (metis set_mset_mset)

lemma srt_not_Nil: "xs \<noteq> [] \<Longrightarrow> srt xs \<noteq> []"
  using set_srt by (metis set_empty)

lemma head_in: "xs \<noteq> [] \<Longrightarrow> hd (srt xs) \<in> set xs"
  using srt_not_Nil set_srt by (metis hd_in_set)

lemma head_minimal:
  assumes "x \<in> set xs"
  shows "\<not> lt x (hd (srt xs))"
proof -
  have "x \<in> set (srt xs)" using assms set_srt by simp
  then show ?thesis
    using sorted_srt [of xs] irreflexive by (cases "srt xs") auto
qed

lemma head_unique:
  assumes "m \<in> set xs" and "\<And>x. x \<in> set xs \<Longrightarrow> x \<noteq> m \<Longrightarrow> lt m x"
  shows "hd (srt xs) = m"
proof -
  have "hd (srt xs) \<in> set xs" using assms(1) by (intro head_in) auto
  with assms head_minimal [OF assms(1)] show ?thesis by blast
qed

end

section \<open>Insertion sort\<close>

text \<open>
  The sorted prefix is kept reversed, so that the element before position \<open>j\<close> is its head: the
  inner loop swaps the new element down while it is less than that one.
\<close>

fun insert_down :: "('a \<Rightarrow> 'a \<Rightarrow> bool) \<Rightarrow> 'a \<Rightarrow> 'a list \<Rightarrow> 'a list" where
  "insert_down lt x [] = [x]"
| "insert_down lt x (y # ys) = (if lt x y then y # insert_down lt x ys else x # y # ys)"

definition insertionSort :: "('a \<Rightarrow> 'a \<Rightarrow> bool) \<Rightarrow> 'a list \<Rightarrow> 'a list" where
  "insertionSort lt xs = rev (foldl (\<lambda>pre x. insert_down lt x pre) [] xs)"

lemma mset_insert_down [simp]: "mset (insert_down lt x ys) = add_mset x (mset ys)"
  by (induction ys) auto

lemma set_insert_down [simp]: "set (insert_down lt x ys) = insert x (set ys)"
  by (induction ys) auto

lemma mset_insertion_fold:
  "mset (foldl (\<lambda>pre x. insert_down lt x pre) pre xs) = mset pre + mset xs"
  by (induction xs arbitrary: pre) auto


context weak_order begin

lemma insert_down_sorted:
  "sorted_wrt (\<lambda>x y. \<not> lt x y) ys \<Longrightarrow> sorted_wrt (\<lambda>x y. \<not> lt x y) (insert_down lt x ys)"
proof (induction ys)
  case (Cons y ys)
  show ?case
  proof (cases "lt x y")
    case True
    with Cons asymmetric show ?thesis by auto
  next
    case False
    have "\<not> lt x z" if "z \<in> set ys" for z
      using that Cons.prems False not_less_trans [of y z x] by auto
    with False Cons.prems show ?thesis by auto
  qed
qed simp

lemma insertion_fold_sorted:
  "sorted_wrt (\<lambda>x y. \<not> lt x y) pre \<Longrightarrow>
   sorted_wrt (\<lambda>x y. \<not> lt x y) (foldl (\<lambda>pre x. insert_down lt x pre) pre xs)"
  by (induction xs arbitrary: pre) (auto intro: insert_down_sorted)

lemma insertionSort_sorts: "sort_contract lt (insertionSort lt)"
proof unfold_locales
  fix xs
  show "mset (insertionSort lt xs) = mset xs"
    by (simp add: insertionSort_def mset_insertion_fold)
  show "sorted_wrt (\<lambda>x y. \<not> lt y x) (insertionSort lt xs)"
    using insertion_fold_sorted [of "[]" xs] by (simp add: insertionSort_def sorted_wrt_rev)
qed

end

sublocale weak_order \<subseteq> insertion: sort_contract lt "insertionSort lt"
  by (rule insertionSort_sorts)

end
