(* ===== verification/Layout.thy ===== *)
theory Layout
  imports Prelude
begin

text \<open>
  How Go lays out a struct in memory. The Windows structures of the program are handed to the
  operating system, so their offsets must be those of the C declarations, on every architecture;
  the component theories declare the structures as data of the type below and compute their layout.
\<close>

named_theorems struct_layouts \<open>the declarations of the structures\<close>

text \<open>
  \<open>IntN n\<close> is an integer of \<open>n\<close> bytes (a bool is one byte), \<open>Ptr\<close> a pointer or \<open>uintptr\<close>. \<open>Ext\<close> is a type of
  another module, known by its size and alignment only.
\<close>

datatype ctype = IntN int | Ptr | Arr int ctype | Struct "(string \<times> ctype) list" | Ext string

text \<open>
  What an architecture fixes: the size of a pointer, the alignment of 8-byte integers (4 on 386),
  and the size and alignment of the external types.
\<close>

record abi =
  ptr_size :: int
  align8 :: int
  external :: "string \<Rightarrow> int \<times> int"

definition round_up :: "int \<Rightarrow> int \<Rightarrow> int" where
  "round_up n a = (n + a - 1) div a * a"

fun align_of :: "abi \<Rightarrow> ctype \<Rightarrow> int" and align_fields :: "abi \<Rightarrow> (string \<times> ctype) list \<Rightarrow> int" where
  "align_of m (IntN n) = (if n = 8 then align8 m else n)"
| "align_of m Ptr = ptr_size m"
| "align_of m (Arr n t) = align_of m t"
| "align_of m (Struct fs) = align_fields m fs"
| "align_of m (Ext x) = snd (external m x)"
| "align_fields m [] = 1"
| "align_fields m ((x, t) # fs) = max (align_of m t) (align_fields m fs)"

fun size_of :: "abi \<Rightarrow> ctype \<Rightarrow> int" and end_of :: "abi \<Rightarrow> int \<Rightarrow> (string \<times> ctype) list \<Rightarrow> int" where
  "size_of m (IntN n) = n"
| "size_of m Ptr = ptr_size m"
| "size_of m (Arr n t) = n * size_of m t"
| "size_of m (Struct fs) = round_up (end_of m 0 fs) (align_fields m fs)"
| "size_of m (Ext x) = fst (external m x)"
| "end_of m off [] = off"
| "end_of m off ((x, t) # fs) = end_of m (round_up off (align_of m t) + size_of m t) fs"

fun member_offsets :: "abi \<Rightarrow> int \<Rightarrow> (string \<times> ctype) list \<Rightarrow> (string \<times> int) list" where
  "member_offsets m off [] = []"
| "member_offsets m off ((x, t) # fs) =
     (let at = round_up off (align_of m t)
      in (if x = ''_'' then [] else [(x, at)]) @ member_offsets m (at + size_of m t) fs)"

definition layout :: "abi \<Rightarrow> (string \<times> ctype) list \<Rightarrow> int \<times> (string \<times> int) list" where
  "layout m fs = (size_of m (Struct fs), member_offsets m 0 fs)"

text \<open>
  The three kinds of architectures the program is built for. The external types are those of the
  Windows API: a \<open>GUID\<close> is 16 bytes aligned to 4, a \<open>SOCKET_ADDRESS\<close> a pointer and an int.
\<close>

definition windows_external :: "int \<Rightarrow> string \<Rightarrow> int \<times> int" where
  "windows_external p x = (if x = ''GUID'' then (16, 4) else (2 * p, p))"

definition abi_386 :: abi where
  "abi_386 = \<lparr>ptr_size = 4, align8 = 4, external = windows_external 4\<rparr>"

definition abi_arm :: abi where
  "abi_arm = \<lparr>ptr_size = 4, align8 = 8, external = windows_external 4\<rparr>"

definition abi_64 :: abi where
  "abi_64 = \<lparr>ptr_size = 8, align8 = 8, external = windows_external 8\<rparr>"

lemmas layout_simps = layout_def round_up_def Let_def abi_386_def abi_arm_def abi_64_def
  windows_external_def

lemma round_up_ge: "0 < a \<Longrightarrow> n \<le> round_up n a"
proof -
  assume a: "0 < a"
  have "n + a - 1 = (n + a - 1) div a * a + (n + a - 1) mod a" by simp
  moreover have "(n + a - 1) mod a < a" using a by simp
  ultimately show ?thesis unfolding round_up_def by linarith
qed

lemma round_up_dvd: "a dvd round_up n a"
  by (simp add: round_up_def)

text \<open>
  A structure with neither pointers nor 8-byte integers nor external types has one layout on all
  architectures.
\<close>

fun fixed_type :: "ctype \<Rightarrow> bool" and fixed_fields :: "(string \<times> ctype) list \<Rightarrow> bool" where
  "fixed_type (IntN n) \<longleftrightarrow> n \<noteq> 8"
| "fixed_type Ptr \<longleftrightarrow> False"
| "fixed_type (Arr n t) \<longleftrightarrow> fixed_type t"
| "fixed_type (Struct fs) \<longleftrightarrow> fixed_fields fs"
| "fixed_type (Ext x) \<longleftrightarrow> False"
| "fixed_fields [] \<longleftrightarrow> True"
| "fixed_fields ((x, t) # fs) \<longleftrightarrow> fixed_type t \<and> fixed_fields fs"

lemma fixed_align:
  "fixed_type t \<Longrightarrow> align_of m t = align_of m' t"
  "fixed_fields fs \<Longrightarrow> align_fields m fs = align_fields m' fs"
  by (induction t and fs rule: fixed_type_fixed_fields.induct) auto

lemma fixed_size:
  "fixed_type t \<Longrightarrow> size_of m t = size_of m' t"
  "fixed_fields fs \<Longrightarrow> end_of m off fs = end_of m' off fs"
proof (induction t and fs arbitrary: and off rule: fixed_type_fixed_fields.induct)
  case (4 fs)
  then show ?case using fixed_align(2) [of fs m m'] by simp
next
  case (7 x t fs)
  then show ?case using fixed_align(1) [of t m m'] by simp
qed auto

lemma fixed_members:
  "fixed_fields fs \<Longrightarrow> member_offsets m off fs = member_offsets m' off fs"
proof (induction fs arbitrary: off)
  case (Cons f fs)
  obtain x t where f: "f = (x, t)" by (cases f)
  from Cons.prems f have t: "fixed_type t" and fs: "fixed_fields fs" by auto
  show ?case
    using fixed_align(1) [OF t, of m m'] fixed_size(1) [OF t, of m m'] Cons.IH [OF fs]
    by (simp add: f Let_def)
qed simp

lemma fixed_layout: "fixed_fields fs \<Longrightarrow> layout m fs = layout m' fs"
  using fixed_members [of fs m 0 m'] fixed_size(2) [of fs m 0 m'] fixed_align(2) [of fs m m']
  by (simp add: layout_def)

end
