(* ===== verification/Model.thy ===== *)
theory Model
  imports Go_Net
begin

text \<open>
  Package \<open>model\<close>: the configuration records of \<open>contextConfig.go\<close>, the constants of \<open>CONST.go\<close>, the
  route record of \<open>route.go\<close> and the package variables of \<open>ipConfig.go\<close>, gathered in one record.
  Channels are modelled where they are used.
\<close>

section \<open>Constants\<close>

definition DNS_PORT :: u16 where "DNS_PORT = 53"

definition DEFAULT_IPNET :: IPNet where
  "DEFAULT_IPNET = \<lparr>net_IP = IPv4 0 0 0 0, net_Mask = [0, 0, 0, 0]\<rparr>"

definition DEFAULT_IF_NAME :: string where "DEFAULT_IF_NAME = ''DEFAULT''"

section \<open>Configuration\<close>

record App =
  app_Context :: string

record InitNet =
  initnet_Ip :: string

record ContextServer =
  server_Port :: string
  server_Ip :: string
  server_Path :: string
  server_Key :: string

record ContextClient =
  Direct :: bool
  EnableEnforceDns :: bool
  EnforceDOH :: string

record ContextConfig =
  cfg_Title :: string
  cfg_App :: App
  cfg_InitNet :: InitNet
  cfg_Server :: ContextServer
  cfg_Client :: ContextClient

section \<open>Routes and package variables\<close>

record CustomRoute =
  ifName :: string
  Subnet :: IPNet
  route_Ip :: IP
  Metric :: int
  IfIndex :: u32
  BitCount :: int

record globals =
  TunName :: string
  TunIp :: string
  DNS1 :: string
  DNS2 :: string
  OutBoundIpv4 :: IP
  OutBoundIpv6 :: IP
  MTU :: int
  ContextConfigImp :: ContextConfig
  Routes :: "CustomRoute list"

definition zero_config :: ContextConfig where
  "zero_config =
     \<lparr>cfg_Title = [], cfg_App = \<lparr>app_Context = []\<rparr>, cfg_InitNet = \<lparr>initnet_Ip = []\<rparr>,
      cfg_Server = \<lparr>server_Port = [], server_Ip = [], server_Path = [], server_Key = []\<rparr>,
      cfg_Client = \<lparr>Direct = False, EnableEnforceDns = False, EnforceDOH = []\<rparr>\<rparr>"

definition init_globals :: globals where
  "init_globals =
     \<lparr>TunName = ''anApp'', TunIp = ''10.0.0.2/24'', DNS1 = ''10.0.0.3'', DNS2 = ''10.0.0.4'',
      OutBoundIpv4 = [1, 1, 1, 1], OutBoundIpv6 = [], MTU = 1500,
      ContextConfigImp = zero_config, Routes = []\<rparr>"

definition SetContextConfig :: "globals \<Rightarrow> ContextConfig \<Rightarrow> globals" where
  "SetContextConfig g c = g\<lparr>ContextConfigImp := c\<rparr>"

text \<open>
  The receiver of the two methods is one configuration and the DOH address is read from the global
  one: the methods agree with the receiver only when it is the registered configuration.
\<close>

definition IsEnableEnforceDns :: "globals \<Rightarrow> ContextClient \<Rightarrow> u16 \<Rightarrow> bool" where
  "IsEnableEnforceDns g client port \<longleftrightarrow>
     DNS_PORT = port \<and> EnableEnforceDns client \<and> 0 < length (EnforceDOH (cfg_Client (ContextConfigImp g)))"

definition GetEnableEnforceDHO :: "globals \<Rightarrow> ContextClient \<Rightarrow> string" where
  "GetEnableEnforceDHO g client = EnforceDOH (cfg_Client (ContextConfigImp g))"

lemma IsEnableEnforceDns_registered:
  "IsEnableEnforceDns (SetContextConfig g c) (cfg_Client c) port \<longleftrightarrow>
     port = 53 \<and> EnableEnforceDns (cfg_Client c) \<and> GetEnableEnforceDHO (SetContextConfig g c) (cfg_Client c) \<noteq> []"
  by (auto simp: IsEnableEnforceDns_def GetEnableEnforceDHO_def SetContextConfig_def DNS_PORT_def)

text \<open>
  \<open>GetReleaseUdpPort\<close>: the operating system opens a listener on a free port (the parameter); the
  second result records whether the listener was closed again.
\<close>

definition GetReleaseUdpPort :: "int outcome \<Rightarrow> int outcome \<times> bool" where
  "GetReleaseUdpPort listen =
     (case listen of Inl e \<Rightarrow> (Inl e, False) | Inr port \<Rightarrow> (Inr port, True))"

end
