(* ===== verification/Win_Types.thy ===== *)
theory Win_Types
  imports Go_Net
begin

text \<open>
  \<open>winipcfg/types.go\<close>: socket addresses, address prefixes and the IP interface row, the structures
  the program exchanges with the Windows IP helper. A \<open>SOCKADDR_INET\<close> union is its family and the
  26 bytes after it, laid out as the IPv4 and IPv6 views of it are; the lemmas show that setting an
  address and reading it back through the same bytes gives the address.
\<close>

section \<open>Byte order\<close>

definition le16 :: "u16 \<Rightarrow> bytes" where
  "le16 c = [ucast c, ucast (drop_bit 8 c)]"

definition from_be16 :: "bytes \<Rightarrow> u16" where
  "from_be16 bs = of_nat (unat (bs ! 0) * 256 + unat (bs ! 1))"

definition from_le16 :: "bytes \<Rightarrow> u16" where
  "from_le16 bs = of_nat (unat (bs ! 1) * 256 + unat (bs ! 0))"

definition le32 :: "u32 \<Rightarrow> bytes" where
  "le32 w = map (\<lambda>k. ucast (drop_bit (8 * k) w)) [0..<4]"

definition from_le32 :: "bytes \<Rightarrow> u32" where
  "from_le32 bs = foldr (\<lambda>b acc. push_bit 8 acc OR ucast b) bs 0"

definition ntohs :: "u16 \<Rightarrow> u16" where
  "ntohs i = from_be16 (le16 i)"

definition htons :: "u16 \<Rightarrow> u16" where
  "htons i = from_le16 (be16 i)"

lemma from_be16_be16 [simp]: "from_be16 (be16 c) = c"
proof -
  have "unat (be16 c ! 0) * 256 + unat (be16 c ! 1) = unat c"
    by (simp only: be16_def nth_Cons_0 nth_Cons_Suc One_nat_def unat_hi8) (simp only: unat_lo8, simp)
  then show ?thesis by (simp only: from_be16_def) simp
qed

lemma from_le16_le16 [simp]: "from_le16 (le16 c) = c"
proof -
  have "unat (le16 c ! 1) * 256 + unat (le16 c ! 0) = unat c"
    by (simp only: le16_def nth_Cons_0 nth_Cons_Suc One_nat_def unat_hi8) (simp only: unat_lo8, simp)
  then show ?thesis by (simp only: from_le16_def) simp
qed

lemma le16_from_le16: "length bs = 2 \<Longrightarrow> le16 (from_le16 bs) = bs"
proof -
  assume "length bs = 2"
  then obtain x y where bs: "bs = [x, y]"
    by (auto simp: numeral_eq_Suc length_Suc_conv)
  have "unat y * 256 + unat x < 2 ^ LENGTH(16)"
    using unat_byte_less [of x] unat_byte_less [of y] by simp
  then have u: "unat (from_le16 bs) = unat y * 256 + unat x"
    by (simp only: from_le16_def bs nth_Cons_0 nth_Cons_Suc One_nat_def unat_of_nat mod_less)
  have "unat (ucast (from_le16 bs) :: byte) = unat x"
    using unat_byte_less [of x] by (simp add: unat_lo8 u)
  moreover have "unat (ucast (drop_bit 8 (from_le16 bs)) :: byte) = unat y"
    using unat_byte_less [of x] by (simp only: unat_hi8 u)
  ultimately show ?thesis by (simp add: le16_def bs word_unat_eq_iff)
qed

lemma le16_htons [simp]: "le16 (htons i) = be16 i"
  by (simp add: htons_def le16_from_le16 be16_def)

lemma ntohs_htons [simp]: "ntohs (htons i) = i"
  by (simp add: ntohs_def)

lemma ntohs_memory [simp]: "ntohs (from_le16 (be16 i)) = i"
  by (metis htons_def ntohs_htons)

lemma length_le32 [simp]: "length (le32 w) = 4"
  by (simp add: le32_def)

lemma length_be16 [simp]: "length (be16 c) = 2"
  by (simp add: be16_def)

lemma from_le32_le32 [simp]: "from_le32 (le32 w) = w"
proof (rule bit_word_eqI)
  fix n assume "n < LENGTH(32)"
  then show "bit (from_le32 (le32 w)) n = bit w n"
    by (cases "n < 8"; cases "n < 16"; cases "n < 24")
      (auto simp: from_le32_def le32_def bit_or_iff bit_push_bit_iff bit_ucast_iff bit_drop_bit_eq
        upt_conv_Cons)
qed

section \<open>SOCKADDR\_INET\<close>

definition AF_INET :: u16 where "AF_INET = 2"

definition AF_INET6 :: u16 where "AF_INET6 = 23"

record RawSockaddrInet =
  Family :: u16
  sa_data :: bytes

definition zero_sockaddr :: RawSockaddrInet where
  "zero_sockaddr = \<lparr>Family = 0, sa_data = replicate 26 0\<rparr>"

text \<open>\<open>strconv.ParseUint(z, 10, 32)\<close>; None is an error.\<close>

definition ParseUint32 :: "string \<Rightarrow> u32 option" where
  "ParseUint32 z =
     (if z = [] then None
      else case digits_value 0 z of
        None \<Rightarrow> None | Some n \<Rightarrow> if n < 2 ^ 32 then Some (of_nat n) else None)"

text \<open>
  The IPv4 view overlays port (2 bytes), address (4) and \<open>Zero\<close> (8); the IPv6 view overlays port,
  flow information (4), address (16) and scope id (4), which is all of the 26 bytes.
\<close>

definition SetAddrPort :: "RawSockaddrInet \<Rightarrow> Addr \<Rightarrow> u16 \<Rightarrow> RawSockaddrInet outcome" where
  "SetAddrPort addr a port =
     (case a of
        AddrV4 v \<Rightarrow>
          Inr \<lparr>Family = AF_INET,
               sa_data = le16 (htons port) @ v @ replicate 8 0 @ drop 14 (sa_data addr)\<rparr>
      | AddrV6 v zone \<Rightarrow>
          (let scopeId = (if zone \<noteq> [] then case ParseUint32 zone of Some s \<Rightarrow> s | None \<Rightarrow> 0 else 0)
           in Inr \<lparr>Family = AF_INET6,
                   sa_data = le16 (htons port) @ replicate 4 0 @ v @ le32 scopeId\<rparr>)
      | AddrZero \<Rightarrow> Inl (Err ''ERROR_INVALID_PARAMETER''))"

definition SetAddr :: "RawSockaddrInet \<Rightarrow> Addr \<Rightarrow> RawSockaddrInet outcome" where
  "SetAddr addr netAddr = SetAddrPort addr netAddr 0"

definition sockaddr_Addr :: "RawSockaddrInet \<Rightarrow> Addr" where
  "sockaddr_Addr addr =
     (if Family addr = AF_INET then AddrV4 (take 4 (drop 2 (sa_data addr)))
      else if Family addr = AF_INET6 then
        (let scope = from_le32 (take 4 (drop 22 (sa_data addr)))
         in AddrV6 (take 16 (drop 6 (sa_data addr))) (if scope \<noteq> 0 then itoa (unat scope) else []))
      else AddrZero)"

definition sockaddr_Port :: "RawSockaddrInet \<Rightarrow> u16" where
  "sockaddr_Port addr =
     (if Family addr = AF_INET \<or> Family addr = AF_INET6
      then ntohs (from_le16 (take 2 (sa_data addr))) else 0)"

definition sockaddr_AddrPort :: "RawSockaddrInet \<Rightarrow> Addr \<times> u16" where
  "sockaddr_AddrPort addr = (sockaddr_Addr addr, sockaddr_Port addr)"

text \<open>An address whose zone survives: none, or the decimal form of a non-zero 32-bit scope.\<close>

fun addr_wf :: "Addr \<Rightarrow> bool" where
  "addr_wf AddrZero = True"
| "addr_wf (AddrV4 v) = (length v = 4)"
| "addr_wf (AddrV6 v zone) = (length v = 16)"

fun numeric_zone :: "Addr \<Rightarrow> bool" where
  "numeric_zone (AddrV6 v zone) =
     (zone = [] \<or> (case digits_value 0 zone of
                      None \<Rightarrow> False | Some n \<Rightarrow> 0 < n \<and> n < 2 ^ 32 \<and> zone = itoa n))"
| "numeric_zone _ = True"

lemma AF_distinct [simp]: "AF_INET \<noteq> AF_INET6" "AF_INET6 \<noteq> AF_INET"
  by (simp_all add: AF_INET_def AF_INET6_def)

lemma ParseUint32_itoa: "n < 2 ^ 32 \<Longrightarrow> ParseUint32 (itoa n) = Some (of_nat n)"
  by (simp add: ParseUint32_def digits_value_itoa)

lemma SetAddrPort_port:
  "SetAddrPort r a port = Inr r' \<Longrightarrow> sockaddr_Port r' = port"
  by (auto simp: SetAddrPort_def sockaddr_Port_def ntohs_def le16_from_le16 from_be16_be16
      split: Addr.splits)

lemma SetAddrPort_reads:
  assumes "addr_wf a" and "numeric_zone a" and "a \<noteq> AddrZero"
  shows "\<exists>r'. SetAddrPort r a port = Inr r' \<and> sockaddr_Addr r' = a \<and> sockaddr_Port r' = port \<and>
    (length (sa_data r) = 26 \<longrightarrow> length (sa_data r') = 26)"
proof (cases a)
  case (AddrV4 v)
  with assms show ?thesis
    by (simp add: SetAddrPort_def sockaddr_Addr_def sockaddr_Port_def)
next
  case (AddrV6 v zone)
  then consider "zone = []" | n where "zone = itoa n" "0 < n" "n < 2 ^ 32"
    using assms(2) by (auto split: option.splits)
  then show ?thesis
  proof cases
    case 1
    with AddrV6 assms show ?thesis
      by (simp add: SetAddrPort_def sockaddr_Addr_def sockaddr_Port_def)
  next
    case 2
    then have "unat (of_nat n :: u32) = n" by (simp add: unat_of_nat)
    moreover from this 2 have "(of_nat n :: u32) \<noteq> 0" by (metis unat_0 less_not_refl)
    ultimately show ?thesis
      using 2 AddrV6 assms
      by (simp add: SetAddrPort_def sockaddr_Addr_def sockaddr_Port_def ParseUint32_itoa
          del: of_nat_unat)
  qed
qed (use assms in simp)

text \<open>
  Setting an address and a port on a socket address, whatever it held before, and reading them
  back gives the same address and port, for every IPv4 address and every IPv6 address whose zone
  is empty or a decimal scope id; the invalid address is refused.
\<close>

theorem sockaddr_roundtrip:
  assumes "addr_wf a" and "numeric_zone a" and "length (sa_data r) = 26"
  shows "(case SetAddrPort r a port of
            Inr r' \<Rightarrow> sockaddr_AddrPort r' = (a, port) \<and> length (sa_data r') = 26
          | Inl e \<Rightarrow> a = AddrZero \<and> e = Err ''ERROR_INVALID_PARAMETER'')"
proof (cases "a = AddrZero")
  case True
  then show ?thesis by (simp add: SetAddrPort_def)
next
  case False
  then show ?thesis
    using SetAddrPort_reads [OF assms(1,2), of r port] assms(3) by (auto simp: sockaddr_AddrPort_def)
qed

lemma sockaddr_roundtrip_witness:
  "(case SetAddrPort zero_sockaddr (AddrV4 [10, 0, 0, 2]) 53 of
      Inr r' \<Rightarrow> sockaddr_AddrPort r' = (AddrV4 [10, 0, 0, 2], 53) \<and> length (sa_data r') = 26
    | Inl e \<Rightarrow> AddrV4 [10, 0, 0, 2] = AddrZero \<and> e = Err ''ERROR_INVALID_PARAMETER'')"
  by (rule sockaddr_roundtrip) (simp_all add: zero_sockaddr_def)

text \<open>
  For an IPv4 address the last 12 bytes of the union keep what they held: the code clears the 8
  bytes of \<open>Zero\<close> only, where its comment says that all other members are set to zero.
\<close>

lemma SetAddrPort_v4_tail:
  assumes "length v = 4"
  shows "map_sum id (\<lambda>r'. drop 14 (sa_data r')) (SetAddrPort r (AddrV4 v) port) =
         Inr (drop 14 (sa_data r))"
  using assms by (simp add: SetAddrPort_def)

section \<open>Address prefixes\<close>

record IPAddressPrefix =
  RawPrefix :: RawSockaddrInet
  PrefixLength :: byte

definition SetPrefix :: "IPAddressPrefix \<Rightarrow> Prefix \<Rightarrow> IPAddressPrefix outcome" where
  "SetPrefix prefix netPrefix =
     (case SetAddr (RawPrefix prefix) (fst netPrefix) of
        Inl e \<Rightarrow> Inl e
      | Inr raw \<Rightarrow>
          Inr (prefix\<lparr>RawPrefix := raw,
                     PrefixLength := (case snd netPrefix of None \<Rightarrow> 255 | Some n \<Rightarrow> of_nat n)\<rparr>))"

definition IPAddressPrefix_Prefix :: "IPAddressPrefix \<Rightarrow> Prefix" where
  "IPAddressPrefix_Prefix prefix =
     (let raw = RawPrefix prefix; n = unat (PrefixLength prefix)
      in if Family raw = AF_INET then PrefixFrom (AddrV4 (take 4 (drop 2 (sa_data raw)))) n
         else if Family raw = AF_INET6 then PrefixFrom (AddrV6 (take 16 (drop 6 (sa_data raw))) []) n
         else (AddrZero, None))"

lemma unat_prefix_length: "n \<le> 128 \<Longrightarrow> unat (of_nat n :: byte) = n"
  by (simp add: unat_of_nat)

lemma SetPrefix_reads:
  assumes "addr_wf a" and "a \<noteq> AddrZero" and "n \<le> BitLen a"
  shows "\<exists>prefix'. SetPrefix prefix (PrefixFrom a n) = Inr prefix' \<and>
           IPAddressPrefix_Prefix prefix' = PrefixFrom a n"
proof (cases a)
  case (AddrV4 v)
  with assms have "unat (of_nat n :: byte) = n" by (simp add: unat_prefix_length)
  with AddrV4 assms show ?thesis
    by (simp add: SetPrefix_def SetAddr_def SetAddrPort_def IPAddressPrefix_Prefix_def PrefixFrom_def
        del: of_nat_unat)
next
  case (AddrV6 v zone)
  with assms have "unat (of_nat n :: byte) = n" by (simp add: unat_prefix_length)
  with AddrV6 assms show ?thesis
    by (simp add: SetPrefix_def SetAddr_def SetAddrPort_def IPAddressPrefix_Prefix_def PrefixFrom_def
        del: of_nat_unat)
qed (use assms in simp)

text \<open>
  A valid prefix stored in an \<open>IPAddressPrefix\<close> and read back is the same prefix.
\<close>

theorem prefix_roundtrip:
  assumes "addr_wf a" and "a \<noteq> AddrZero" and "n \<le> BitLen a"
  shows "\<exists>prefix'. SetPrefix prefix (PrefixFrom a n) = Inr prefix' \<and>
           IPAddressPrefix_Prefix prefix' = PrefixFrom a n"
  using assms by (rule SetPrefix_reads)

lemma prefix_roundtrip_witness:
  "\<exists>prefix'. SetPrefix \<lparr>RawPrefix = zero_sockaddr, PrefixLength = 0\<rparr>
               (PrefixFrom (AddrV4 [0, 0, 0, 0]) 0) = Inr prefix' \<and>
     IPAddressPrefix_Prefix prefix' = PrefixFrom (AddrV4 [0, 0, 0, 0]) 0"
  by (rule prefix_roundtrip) simp_all

section \<open>The IP interface row\<close>

type_synonym LUID = u64

text \<open>
  \<open>MIB_IPINTERFACE_ROW\<close>; enumerations are kept as their underlying integers.
\<close>

record MibIPInterfaceRow =
  if_Family :: u16
  if_InterfaceLUID :: LUID
  if_InterfaceIndex :: u32
  if_MaxReassemblySize :: u32
  if_InterfaceIdentifier :: u64
  if_MinRouterAdvertisementInterval :: u32
  if_MaxRouterAdvertisementInterval :: u32
  if_AdvertisingEnabled :: bool
  if_ForwardingEnabled :: bool
  if_WeakHostSend :: bool
  if_WeakHostReceive :: bool
  if_UseAutomaticMetric :: bool
  if_UseNeighborUnreachabilityDetection :: bool
  if_ManagedAddressConfigurationSupported :: bool
  if_OtherStatefulConfigurationSupported :: bool
  if_AdvertiseDefaultRoute :: bool
  if_RouterDiscoveryBehavior :: u32
  if_DadTransmits :: u32
  if_BaseReachableTime :: u32
  if_RetransmitTime :: u32
  if_PathMTUDiscoveryTimeout :: u32
  if_LinkLocalAddressBehavior :: u32
  if_LinkLocalAddressTimeout :: u32
  if_ZoneIndices :: "u32 list"
  if_SitePrefixLength :: u32
  if_Metric :: u32
  if_NLMTU :: u32
  if_Connected :: bool
  if_SupportsWakeUpPatterns :: bool
  if_SupportsNeighborDiscovery :: bool
  if_SupportsRouterDiscovery :: bool
  if_ReachableTime :: u32
  if_TransmitOffload :: byte
  if_ReceiveOffload :: byte
  if_DisableDefaultRoutes :: bool

text \<open>
  The method \<open>get\<close> calls \<open>GetIpInterfaceEntry\<close> (the parameter \<open>entry\<close>, which fills the row or fails)
  and repairs a site prefix length out of range.
\<close>

definition MibIPInterfaceRow_get ::
  "(MibIPInterfaceRow \<Rightarrow> MibIPInterfaceRow outcome) \<Rightarrow> MibIPInterfaceRow \<Rightarrow> MibIPInterfaceRow outcome"
where
  "MibIPInterfaceRow_get entry row0 =
     (case entry row0 of
        Inl e \<Rightarrow> Inl e
      | Inr row \<Rightarrow>
          Inr (if if_Family row = AF_INET then
                 (if 32 < if_SitePrefixLength row then row\<lparr>if_SitePrefixLength := 0\<rparr> else row)
               else if if_Family row = AF_INET6 then
                 (if 128 < if_SitePrefixLength row then row\<lparr>if_SitePrefixLength := 128\<rparr> else row)
               else row))"

definition zero_ip_row :: MibIPInterfaceRow where
  "zero_ip_row =
     \<lparr>if_Family = 0, if_InterfaceLUID = 0,
      if_InterfaceIndex = 0, if_MaxReassemblySize = 0,
      if_InterfaceIdentifier = 0, if_MinRouterAdvertisementInterval = 0,
      if_MaxRouterAdvertisementInterval = 0, if_AdvertisingEnabled = False,
      if_ForwardingEnabled = False, if_WeakHostSend = False,
      if_WeakHostReceive = False, if_UseAutomaticMetric = False,
      if_UseNeighborUnreachabilityDetection = False, if_ManagedAddressConfigurationSupported = False,
      if_OtherStatefulConfigurationSupported = False, if_AdvertiseDefaultRoute = False,
      if_RouterDiscoveryBehavior = 0, if_DadTransmits = 0,
      if_BaseReachableTime = 0, if_RetransmitTime = 0,
      if_PathMTUDiscoveryTimeout = 0, if_LinkLocalAddressBehavior = 0,
      if_LinkLocalAddressTimeout = 0, if_ZoneIndices = replicate 16 0,
      if_SitePrefixLength = 0, if_Metric = 0,
      if_NLMTU = 0, if_Connected = False,
      if_SupportsWakeUpPatterns = False, if_SupportsNeighborDiscovery = False,
      if_SupportsRouterDiscovery = False, if_ReachableTime = 0,
      if_TransmitOffload = 0, if_ReceiveOffload = 0,
      if_DisableDefaultRoutes = False\<rparr>"

text \<open>\<open>LUID.IPInterface\<close>; \<open>init\<close> is the operating system's default row.\<close>

definition LUID_IPInterface ::
  "(MibIPInterfaceRow \<Rightarrow> MibIPInterfaceRow) \<Rightarrow> (MibIPInterfaceRow \<Rightarrow> MibIPInterfaceRow outcome) \<Rightarrow>
   LUID \<Rightarrow> u16 \<Rightarrow> MibIPInterfaceRow outcome" where
  "LUID_IPInterface init entry luid family =
     MibIPInterfaceRow_get entry
       ((init zero_ip_row)\<lparr>if_InterfaceLUID := luid, if_Family := family\<rparr>)"

lemma MibIPInterfaceRow_get_site_prefix:
  assumes "MibIPInterfaceRow_get entry row0 = Inr row"
  shows "(if_Family row = AF_INET \<longrightarrow> if_SitePrefixLength row \<le> 32) \<and>
         (if_Family row = AF_INET6 \<longrightarrow> if_SitePrefixLength row \<le> 128)"
  using assms
  by (auto simp: MibIPInterfaceRow_get_def AF_INET_def AF_INET6_def
      split: sum.splits if_splits)

section \<open>The interface row\<close>

record MibIfRow2 =
  row2_InterfaceLUID :: LUID
  row2_InterfaceIndex :: u32
  row2_InterfaceGUID :: bytes
  row2_alias :: "u16 list"
  row2_description :: "u16 list"
  row2_physicalAddressLength :: u32
  row2_physicalAddress :: bytes
  row2_permanentPhysicalAddress :: bytes
  row2_MTU :: u32
  row2_Type :: u32
  row2_TunnelType :: u32
  row2_MediaType :: u32
  row2_PhysicalMediumType :: u32
  row2_AccessType :: u32
  row2_DirectionType :: u32
  row2_InterfaceAndOperStatusFlags :: byte
  row2_OperStatus :: u32
  row2_AdminStatus :: u32
  row2_MediaConnectState :: u32
  row2_NetworkGUID :: bytes
  row2_ConnectionType :: u32
  row2_TransmitLinkSpeed :: u64
  row2_ReceiveLinkSpeed :: u64
  row2_InOctets :: u64
  row2_InUcastPkts :: u64
  row2_InNUcastPkts :: u64
  row2_InDiscards :: u64
  row2_InErrors :: u64
  row2_InUnknownProtos :: u64
  row2_InUcastOctets :: u64
  row2_InMulticastOctets :: u64
  row2_InBroadcastOctets :: u64
  row2_OutOctets :: u64
  row2_OutUcastPkts :: u64
  row2_OutNUcastPkts :: u64
  row2_OutDiscards :: u64
  row2_OutErrors :: u64
  row2_OutUcastOctets :: u64
  row2_OutMulticastOctets :: u64
  row2_OutBroadcastOctets :: u64
  row2_OutQLen :: u64

definition zero_if_row :: MibIfRow2 where
  "zero_if_row =
     \<lparr>row2_InterfaceLUID = 0, row2_InterfaceIndex = 0,
      row2_InterfaceGUID = replicate 16 0, row2_alias = replicate 257 0,
      row2_description = replicate 257 0, row2_physicalAddressLength = 0,
      row2_physicalAddress = replicate 32 0, row2_permanentPhysicalAddress = replicate 32 0,
      row2_MTU = 0, row2_Type = 0,
      row2_TunnelType = 0, row2_MediaType = 0,
      row2_PhysicalMediumType = 0, row2_AccessType = 0,
      row2_DirectionType = 0, row2_InterfaceAndOperStatusFlags = 0,
      row2_OperStatus = 0, row2_AdminStatus = 0,
      row2_MediaConnectState = 0, row2_NetworkGUID = replicate 16 0,
      row2_ConnectionType = 0, row2_TransmitLinkSpeed = 0,
      row2_ReceiveLinkSpeed = 0, row2_InOctets = 0,
      row2_InUcastPkts = 0, row2_InNUcastPkts = 0,
      row2_InDiscards = 0, row2_InErrors = 0,
      row2_InUnknownProtos = 0, row2_InUcastOctets = 0,
      row2_InMulticastOctets = 0, row2_InBroadcastOctets = 0,
      row2_OutOctets = 0, row2_OutUcastPkts = 0,
      row2_OutNUcastPkts = 0, row2_OutDiscards = 0,
      row2_OutErrors = 0, row2_OutUcastOctets = 0,
      row2_OutMulticastOctets = 0, row2_OutBroadcastOctets = 0,
      row2_OutQLen = 0\<rparr>"

definition MediaConnectStateConnected :: u32 where "MediaConnectStateConnected = 1"

text \<open>Slicing the address array past its 32 bytes panics.\<close>

definition MibIfRow2_PhysicalAddress :: "MibIfRow2 \<Rightarrow> bytes outcome" where
  "MibIfRow2_PhysicalAddress row =
     (if unat (row2_physicalAddressLength row) \<le> length (row2_physicalAddress row)
      then Inr (take (unat (row2_physicalAddressLength row)) (row2_physicalAddress row))
      else Inl (Panic ''slice bounds out of range''))"

definition MibIfRow2_PermanentPhysicalAddress :: "MibIfRow2 \<Rightarrow> bytes outcome" where
  "MibIfRow2_PermanentPhysicalAddress row =
     (if unat (row2_physicalAddressLength row) \<le> length (row2_permanentPhysicalAddress row)
      then Inr (take (unat (row2_physicalAddressLength row)) (row2_permanentPhysicalAddress row))
      else Inl (Panic ''slice bounds out of range''))"

section \<open>The route row\<close>

record MibIPforwardRow2 =
  fwd_InterfaceLUID :: LUID
  fwd_InterfaceIndex :: u32
  fwd_DestinationPrefix :: IPAddressPrefix
  fwd_NextHop :: RawSockaddrInet
  fwd_SitePrefixLength :: byte
  fwd_ValidLifetime :: u32
  fwd_PreferredLifetime :: u32
  fwd_Metric :: u32
  fwd_Protocol :: u32
  fwd_Loopback :: bool
  fwd_AutoconfigureAddress :: bool
  fwd_Publish :: bool
  fwd_Immortal :: bool
  fwd_Age :: u32
  fwd_Origin :: u32

definition zero_forward_row :: MibIPforwardRow2 where
  "zero_forward_row =
     \<lparr>fwd_InterfaceLUID = 0, fwd_InterfaceIndex = 0,
      fwd_DestinationPrefix = \<lparr>RawPrefix = zero_sockaddr, PrefixLength = 0\<rparr>,
      fwd_NextHop = zero_sockaddr, fwd_SitePrefixLength = 0, fwd_ValidLifetime = 0,
      fwd_PreferredLifetime = 0, fwd_Metric = 0, fwd_Protocol = 0, fwd_Loopback = False,
      fwd_AutoconfigureAddress = False, fwd_Publish = False, fwd_Immortal = False,
      fwd_Age = 0, fwd_Origin = 0\<rparr>"

end
