(* ===== verification/Route.thy ===== *)
theory Route
  imports Model Go_Sort Win_Types
begin

text \<open>
  Route selection: \<open>model/route.go\<close>, the construction of the route table in
  \<open>model/route_windows.go\<close> and \<open>model/route_linux.go\<close>. The operating system's tables and calls are
  parameters.
\<close>

section \<open>Selecting a route (route.go)\<close>

definition SortRoutes_Less :: "CustomRoute \<Rightarrow> CustomRoute \<Rightarrow> bool" where
  "SortRoutes_Less r s =
     (if BitCount r = BitCount s then Metric r < Metric s else BitCount r > BitCount s)"

interpretation routes: weak_order SortRoutes_Less
  by unfold_locales (auto simp: SortRoutes_Less_def split: if_splits)

text \<open>
  The other two methods of \<open>sort.Interface\<close>; the sorts only ever swap, so they permute the routes.
\<close>

definition SortRoutes_Len :: "CustomRoute list \<Rightarrow> int" where
  "SortRoutes_Len a = int (length a)"

definition SortRoutes_Swap :: "int \<Rightarrow> int \<Rightarrow> CustomRoute list \<Rightarrow> CustomRoute list outcome" where
  "SortRoutes_Swap i j a =
     (if 0 \<le> i \<and> i < SortRoutes_Len a \<and> 0 \<le> j \<and> j < SortRoutes_Len a
      then Inr (a[nat i := a ! nat j, nat j := a ! nat i])
      else Inl (Panic ''index out of range''))"

lemma SortRoutes_Swap_permutes: "SortRoutes_Swap i j a = Inr b \<Longrightarrow> mset b = mset a"
  by (auto simp: SortRoutes_Swap_def SortRoutes_Len_def mset_swap split: if_splits)

lemma swap_again:
  "i < length xs \<Longrightarrow> j < length xs \<Longrightarrow> ys = xs[i := xs ! j, j := xs ! i] \<Longrightarrow>
     ys[i := ys ! j, j := ys ! i] = xs"
  by (rule nth_equalityI) (simp_all add: nth_list_update)

lemma SortRoutes_Swap_again:
  assumes "SortRoutes_Swap i j a = Inr b"
  shows "SortRoutes_Swap i j b = Inr a"
proof -
  have r: "0 \<le> i" "0 \<le> j" "nat i < length a" "nat j < length a"
    and b: "b = a[nat i := a ! nat j, nat j := a ! nat i]"
    using assms by (auto simp: SortRoutes_Swap_def SortRoutes_Len_def split: if_splits)
  have "i < int (length a)" "j < int (length a)" "length b = length a" using r b by simp_all
  with r(1,2) swap_again [OF r(3,4) b] show ?thesis by (simp add: SortRoutes_Swap_def SortRoutes_Len_def)
qed

definition getDefaultRoute :: "globals \<Rightarrow> CustomRoute" where
  "getDefaultRoute g =
     \<lparr>ifName = DEFAULT_IF_NAME, Subnet = snd (the (ParseCIDR ''0.0.0.0/0'')),
      route_Ip = OutBoundIpv4 g, Metric = 0, IfIndex = 0, BitCount = 0\<rparr>"

definition FindContainRoute ::
  "(CustomRoute list \<Rightarrow> CustomRoute list) \<Rightarrow> globals \<Rightarrow> IP \<Rightarrow> CustomRoute list \<Rightarrow> CustomRoute" where
  "FindContainRoute srt g destIp rs =
     (if rs = [] then getDefaultRoute g
      else let customRoutes = filter (\<lambda>r. Contains (Subnet r) destIp) rs
           in if customRoutes = [] then getDefaultRoute g else srt customRoutes ! 0)"

lemma ParseCIDR_default:
  "ParseCIDR ''0.0.0.0/0'' = Some (IPv4 0 0 0 0, \<lparr>net_IP = [0, 0, 0, 0], net_Mask = [0, 0, 0, 0]\<rparr>)"
proof -
  have "string4 [0, 0, 0, 0] @ CHR ''/'' # itoa 0 = ''0.0.0.0/0''" by code_simp
  moreover have "and_bytes [0, 0, 0, 0] (CIDRMask 0 32) = [0, 0, 0, 0]" by code_simp
  moreover have "CIDRMask 0 32 = [0, 0, 0, 0]" by code_simp
  ultimately show ?thesis using ParseCIDR_v4 [of 0 0 0 0 0] by simp
qed

lemma FindContainRoute_none:
  "(\<forall>r \<in> set rs. \<not> Contains (Subnet r) ip) \<Longrightarrow> FindContainRoute srt g ip rs = getDefaultRoute g"
  by (simp add: FindContainRoute_def Let_def)

text \<open>
  The candidate set of a destination, and when one route is preferred to another.
\<close>

definition candidates :: "IP \<Rightarrow> CustomRoute list \<Rightarrow> CustomRoute list" where
  "candidates ip rs = filter (\<lambda>r. Contains (Subnet r) ip) rs"

lemma set_candidates [simp]: "r \<in> set (candidates ip rs) \<longleftrightarrow> r \<in> set rs \<and> Contains (Subnet r) ip"
  by (auto simp: candidates_def)

lemma FindContainRoute_candidates:
  "FindContainRoute srt g ip rs =
     (if candidates ip rs = [] then getDefaultRoute g else srt (candidates ip rs) ! 0)"
  by (simp add: FindContainRoute_def candidates_def Let_def)

lemma getDefaultRoute_covers: "To4 ip \<noteq> None \<Longrightarrow> Contains (Subnet (getDefaultRoute g)) ip"
proof -
  assume "To4 ip \<noteq> None"
  then obtain v where v: "To4 ip = Some v" by auto
  have "and_bytes [0, 0, 0, 0] [0, 0, 0, 0] = and_bytes v [0, 0, 0, 0]"
    using To4_length [OF v] by (auto simp: length_4_iff)
  with v show ?thesis
    by (simp add: getDefaultRoute_def ParseCIDR_default Contains_v4)
qed

lemma FindContainRoute_chosen:
  assumes "sort_contract SortRoutes_Less srt" and "candidates ip rs \<noteq> []"
  shows "FindContainRoute srt g ip rs = hd (srt (candidates ip rs))"
  using assms sort_contract.srt_not_Nil [OF assms(1)]
  by (simp add: FindContainRoute_candidates hd_conv_nth)

lemma not_SortRoutes_Less:
  "\<not> SortRoutes_Less s r \<longleftrightarrow> BitCount s < BitCount r \<or> BitCount s = BitCount r \<and> Metric r \<le> Metric s"
  by (auto simp: SortRoutes_Less_def)

lemma FindContainRoute_in:
  assumes "sort_contract SortRoutes_Less srt" and "r \<in> set rs" and "Contains (Subnet r) ip"
  shows "FindContainRoute srt g ip rs \<in> set (candidates ip rs)"
    and "\<not> SortRoutes_Less r (FindContainRoute srt g ip rs)"
proof -
  have r: "r \<in> set (candidates ip rs)" using assms(2,3) by simp
  then have ne: "candidates ip rs \<noteq> []" by (metis empty_iff empty_set)
  show "FindContainRoute srt g ip rs \<in> set (candidates ip rs)"
    using sort_contract.head_in [OF assms(1) ne]
    by (simp only: FindContainRoute_chosen [OF assms(1) ne])
  show "\<not> SortRoutes_Less r (FindContainRoute srt g ip rs)"
    using sort_contract.head_minimal [OF assms(1) r]
    by (simp add: FindContainRoute_chosen [OF assms(1) ne])
qed

text \<open>The sort Go runs on short lists meets the contract, so the hypothesis can be discharged.\<close>

lemma insertionSort_routes: "sort_contract SortRoutes_Less (insertionSort SortRoutes_Less)"
  by (rule routes.insertion.sort_contract_axioms)

definition direct_route :: "string \<Rightarrow> IPNet \<Rightarrow> IP \<Rightarrow> int \<Rightarrow> int \<Rightarrow> CustomRoute" where
  "direct_route name net ip metric bits =
     \<lparr>ifName = name, Subnet = net, route_Ip = ip, Metric = metric, IfIndex = 1, BitCount = bits\<rparr>"

text \<open>
  C3: whatever order \<open>sort.Sort\<close> leaves equal routes in, the selected route is one of the table whose
  subnet contains the destination, and no such route has a larger bit count, or the same bit count
  and a smaller metric. Without any such route the default route is selected.
\<close>

theorem route_selection:
  assumes "sort_contract SortRoutes_Less srt"
  shows "if \<exists>r \<in> set rs. Contains (Subnet r) ip
         then FindContainRoute srt g ip rs \<in> set rs \<and>
              Contains (Subnet (FindContainRoute srt g ip rs)) ip \<and>
              (\<forall>r \<in> set rs. Contains (Subnet r) ip \<longrightarrow>
                 BitCount r < BitCount (FindContainRoute srt g ip rs) \<or>
                 BitCount r = BitCount (FindContainRoute srt g ip rs) \<and>
                 Metric (FindContainRoute srt g ip rs) \<le> Metric r)
         else FindContainRoute srt g ip rs = getDefaultRoute g"
proof (cases "\<exists>r \<in> set rs. Contains (Subnet r) ip")
  case True
  then obtain r where r: "r \<in> set rs" "Contains (Subnet r) ip" by auto
  have "FindContainRoute srt g ip rs \<in> set rs \<and> Contains (Subnet (FindContainRoute srt g ip rs)) ip"
    using FindContainRoute_in(1) [OF assms r, of g] by simp
  with True show ?thesis
    using FindContainRoute_in(2) [OF assms, of _ rs ip g] by (simp add: not_SortRoutes_Less)
next
  case False
  then show ?thesis by (simp add: FindContainRoute_none)
qed

lemma route_selection_witness:
  "FindContainRoute (insertionSort SortRoutes_Less) init_globals [8, 8, 8, 8]
     [direct_route ''a'' DEFAULT_IPNET [10, 0, 0, 1] 5 0, direct_route ''b'' DEFAULT_IPNET [10, 0, 0, 2] 3 0]
   \<in> set [direct_route ''a'' DEFAULT_IPNET [10, 0, 0, 1] 5 0, direct_route ''b'' DEFAULT_IPNET [10, 0, 0, 2] 3 0]"
proof -
  have "Contains DEFAULT_IPNET [8, 8, 8, 8]"
    unfolding DEFAULT_IPNET_def by (rule Contains_default_net) simp
  then show ?thesis
    using route_selection [OF insertionSort_routes,
        of "[direct_route ''a'' DEFAULT_IPNET [10, 0, 0, 1] 5 0,
             direct_route ''b'' DEFAULT_IPNET [10, 0, 0, 2] 3 0]" "[8, 8, 8, 8]" init_globals]
    by (auto simp: direct_route_def)
qed

text \<open>
  A destination with an IPv4 form always gets a route whose subnet contains it: route lookup is
  total and never hands out a route for another network.
\<close>

theorem route_total:
  assumes "sort_contract SortRoutes_Less srt" and "To4 ip \<noteq> None"
  shows "Contains (Subnet (FindContainRoute srt g ip rs)) ip"
proof (cases "\<exists>r \<in> set rs. Contains (Subnet r) ip")
  case True
  then show ?thesis using FindContainRoute_in(1) [OF assms(1), where g = g] by auto
next
  case False
  then show ?thesis
    using getDefaultRoute_covers [OF assms(2)] by (simp add: FindContainRoute_none)
qed

lemma route_total_witness:
  "Contains (Subnet (FindContainRoute (insertionSort SortRoutes_Less) init_globals [8, 8, 8, 8] [])) [8, 8, 8, 8]"
  by (rule route_total [OF insertionSort_routes]) simp

section \<open>Counting bits (route_windows.go)\<close>

definition getBit :: "byte \<Rightarrow> int \<Rightarrow> int" where
  "getBit b n = (if n < 0 \<or> 7 < n then - 1 else int (unat (drop_bit (nat n) b AND 1)))"

text \<open>The inner loop over the bit indices of one byte; the state is \<open>recJ\<close> and the count.\<close>

fun count_byte :: "int \<Rightarrow> byte \<Rightarrow> int list \<Rightarrow> int \<times> int \<Rightarrow> int \<times> int" where
  "count_byte m b [] st = st"
| "count_byte m b (i # is) (recJ, cnt) =
     (if recJ \<le> m
      then count_byte m b is (recJ + 1, if getBit b i = 1 then cnt + 1 else cnt)
      else (recJ, cnt))"

definition countBits :: "IP \<Rightarrow> int \<Rightarrow> int" where
  "countBits ip m =
     (if ip = [] then 0
      else case To4 ip of
        None \<Rightarrow> 0
      | Some ip4 \<Rightarrow> snd (foldl (\<lambda>st b. count_byte m b [0..7] st) (1, 0) ip4))"

lemma getBit_bit: "k < 8 \<Longrightarrow> getBit b (int k) = of_bool (bit b k)"
proof -
  assume "k < 8"
  moreover have "(drop_bit k b AND 1 :: byte) = of_bool (bit b k)"
    by (simp add: and_one_eq bit_iff_odd_drop_bit mod_2_eq_odd)
  ultimately show ?thesis by (simp add: getBit_def)
qed

text \<open>The number of set bits among the first \<open>n\<close>, byte by byte, least significant bit first.\<close>

definition low_bits_set :: "bytes \<Rightarrow> nat \<Rightarrow> nat" where
  "low_bits_set bs n = length (filter (\<lambda>k. bit (bs ! (k div 8)) (k mod 8)) [0..<n])"

lemma low_bits_set_Cons:
  "low_bits_set (b # bs) n = length (filter (bit b) [0..<min 8 n]) + low_bits_set bs (n - 8)"
proof -
  have low: "filter (\<lambda>k. bit ((b # bs) ! (k div 8)) (k mod 8)) [0..<l] = filter (bit b) [0..<l]"
    if "l \<le> 8" for l
    using that by (intro filter_cong) auto
  show ?thesis
  proof (cases "n \<le> 8")
    case True
    with low [OF True] show ?thesis by (simp add: low_bits_set_def)
  next
    case False
    then obtain k where n: "n = 8 + k" by (metis le_iff_add linear)
    have "[0..<n] = [0..<8] @ map (\<lambda>i. i + 8) [0..<k]"
      using upt_add_eq_append [of 0 8 k] by (simp add: n map_add_upt add.commute del: upt_Suc)
    moreover have "(x + 8) div 8 - Suc 0 = x div 8" for x :: nat by simp
    ultimately show ?thesis
      using False low [of 8] by (simp add: low_bits_set_def filter_map comp_def n del: upt_Suc)
  qed
qed

lemma count_byte_spec:
  assumes "j \<le> 8"
  shows "count_byte m b (map int [j..<8]) (int r + 1, c) =
           (int (min (r + (8 - j)) (max r (nat m))) + 1,
            c + int (length (filter (bit b) [j..<j + min (8 - j) (nat m - r)])))"
  using assms
proof (induction j arbitrary: r c rule: inc_induct)
  case base
  then show ?case by simp
next
  case (step j)
  show ?case
  proof (cases "r < nat m")
    case True
    then obtain d where d: "nat m = Suc (r + d)" by (metis less_imp_Suc_add add_Suc_right)
    have eqs: "[j..<8] = j # [Suc j..<8]" "j + min (8 - j) (Suc d) = Suc (j + min (8 - Suc j) d)"
      using step.hyps by (auto simp: upt_conv_Cons)
    have "[j..<Suc (j + min (8 - Suc j) d)] = j # [Suc j..<Suc j + min (8 - Suc j) d]"
      by (simp add: upt_conv_Cons del: upt_Suc)
    moreover have "int r + 1 \<le> m" using True by simp
    ultimately show ?thesis
      using step.hyps step.IH [of "Suc r" "if bit b j then c + 1 else c"] getBit_bit [of j b] d
      by (simp add: eqs add.commute)
  next
    case False
    then show ?thesis using step.hyps by (simp add: upt_conv_Cons)
  qed
qed

lemma count_bytes_spec:
  "foldl (\<lambda>st b. count_byte m b [0..7] st) (int r + 1, c) bs =
     (int (min (r + 8 * length bs) (max r (nat m))) + 1,
      c + int (low_bits_set bs (min (8 * length bs) (nat m - r))))"
proof (induction bs arbitrary: r c)
  case Nil
  then show ?case by (simp add: low_bits_set_def)
next
  case (Cons b bs)
  define r' where "r' = min (r + 8) (max r (nat m))"
  define h where "h = length (filter (bit b) [0..<min 8 (nat m - r)])"
  have ints: "[0..7] = map int [0..<8]" by code_simp
  have one: "count_byte m b [0..7] (int r + 1, c) = (int r' + 1, c + int h)"
    unfolding ints r'_def h_def using count_byte_spec [of 0 m b r c] by simp
  have n: "min 8 (min (8 * length (b # bs)) (nat m - r)) = min 8 (nat m - r)"
    "min (8 * length (b # bs)) (nat m - r) - 8 = min (8 * length bs) (nat m - r')"
    by (auto simp: r'_def min_def max_def)
  have len: "min (r' + 8 * length bs) (max r' (nat m)) = min (r + 8 * length (b # bs)) (max r (nat m))"
    by (auto simp: r'_def min_def max_def)
  show ?case
    by (simp only: foldl_Cons one Cons.IH low_bits_set_Cons n len h_def [symmetric] of_nat_add add.assoc)
qed

lemma countBits_eq:
  "countBits ip m =
     (case To4 ip of None \<Rightarrow> 0 | Some v \<Rightarrow> int (low_bits_set v (min 32 (nat m))))"
proof (cases "To4 ip")
  case (Some v)
  then have "ip \<noteq> []" by auto
  with Some show ?thesis
    using count_bytes_spec [of m 0 0 v] To4_length [OF Some] by (simp add: countBits_def)
qed (simp add: countBits_def)

lemma low_bits_set_le: "low_bits_set v n \<le> n"
  unfolding low_bits_set_def using length_filter_le [of _ "[0..<n]"] by simp

lemma countBits_bounds: "0 \<le> countBits ip m" "countBits ip m \<le> max 0 (min 32 m)"
proof -
  show "0 \<le> countBits ip m" by (auto simp: countBits_eq split: option.split)
  have "int (low_bits_set v (min 32 (nat m))) \<le> max 0 (min 32 m)" for v
    using low_bits_set_le [of v "min 32 (nat m)"] by (auto split: if_splits)
  then show "countBits ip m \<le> max 0 (min 32 m)" by (auto simp: countBits_eq split: option.split)
qed

text \<open>
  \<open>countBits\<close> is the number of bits set in the interface address itself, among the bits the mask
  length selects, counted from the least significant bit of each byte; it never exceeds the mask
  length and ignores anything past 32 bits.
\<close>

theorem countBits_spec:
  "countBits ip m =
     (case To4 ip of None \<Rightarrow> 0 | Some v \<Rightarrow> int (low_bits_set v (min 32 (nat m)))) \<and>
   0 \<le> countBits ip m \<and> countBits ip m \<le> max 0 (min 32 m)"
  using countBits_eq countBits_bounds by blast

section \<open>The adapter addresses (route_windows.go)\<close>

text \<open>
  \<open>sys k len\<close> is the answer of the \<open>k\<close>-th call of \<open>GetAdaptersAddresses\<close> on a buffer of \<open>len\<close> bytes: the
  error code, if any, and the length it stores. The result is the final length and the number of
  calls, or None when the function gives up. A retry needs a strictly larger length, so the loop
  ends for every operating system.
\<close>

definition ERROR_BUFFER_OVERFLOW :: nat where "ERROR_BUFFER_OVERFLOW = 111"

function adapter_buffer :: "(nat \<Rightarrow> u32 \<Rightarrow> nat option \<times> u32) \<Rightarrow> nat \<Rightarrow> u32 \<Rightarrow> (u32 \<times> nat) option" where
  "adapter_buffer sys k l =
     (case fst (sys k l) of
        None \<Rightarrow> if snd (sys k l) = 0 then None else Some (snd (sys k l), Suc k)
      | Some errno \<Rightarrow>
          if errno \<noteq> ERROR_BUFFER_OVERFLOW then None
          else if snd (sys k l) \<le> l then None
          else adapter_buffer sys (Suc k) (snd (sys k l)))"
  by pat_completeness auto
termination
proof (relation "measure (\<lambda>(sys, k, l). 2 ^ 32 - unat (l :: u32))")
  fix sys :: "nat \<Rightarrow> u32 \<Rightarrow> nat option \<times> u32" and k l
  assume "\<not> snd (sys k l) \<le> l"
  then have "unat l < unat (snd (sys k l))" by (simp add: not_le word_less_nat_alt)
  moreover have "unat (snd (sys k l)) < 2 ^ 32"
    using unsigned_less [of "snd (sys k l)", where 'a = nat] by simp
  ultimately show "((sys, Suc k, snd (sys k l)), (sys, k, l)) \<in> measure (\<lambda>(sys, k, l). 2 ^ 32 - unat l)"
    by simp
qed simp

declare adapter_buffer.simps [simp del]

text \<open>What \<open>Sockaddr()\<close> gives for the first unicast address: an error, or a socket address.\<close>

datatype sockaddr = SockaddrInet4 byte byte byte byte | SockaddrOther

record IpAdapterAddresses =
  FirstUnicastAddress :: "sockaddr outcome option"
  aa_IfIndex :: u32

fun adapter_walk :: "IpAdapterAddresses list \<Rightarrow> (u32 \<rightharpoonup> IP) \<Rightarrow> (u32 \<rightharpoonup> IP) outcome" where
  "adapter_walk [] result = Inr result"
| "adapter_walk (aa # aas) result =
     (case FirstUnicastAddress aa of
        None \<Rightarrow> Inr result
      | Some (Inl _) \<Rightarrow> adapter_walk aas result
      | Some (Inr SockaddrOther) \<Rightarrow> Inl (Panic ''interface conversion'')
      | Some (Inr (SockaddrInet4 a b c d)) \<Rightarrow> adapter_walk aas (result(aa_IfIndex aa \<mapsto> IPv4 a b c d)))"

definition adapterAddresses ::
  "(nat \<Rightarrow> u32 \<Rightarrow> nat option \<times> u32) \<Rightarrow> (nat \<Rightarrow> IpAdapterAddresses list) \<Rightarrow> (u32 \<rightharpoonup> IP) outcome" where
  "adapterAddresses sys contents =
     (case adapter_buffer sys 0 15000 of
        None \<Rightarrow> Inr Map.empty
      | Some (_, k) \<Rightarrow> adapter_walk (contents k) Map.empty)"

text \<open>
  The walk stops at the first adapter without a unicast address, not at the end of the list: later
  adapters get no address.
\<close>

lemma adapter_walk_stops:
  "FirstUnicastAddress aa = None \<Longrightarrow> adapter_walk (pre @ aa # post) result = adapter_walk pre result"
  by (induction pre result rule: adapter_walk.induct) (auto split: option.split sum.split sockaddr.split)

section \<open>The Windows route table (route_windows.go)\<close>

text \<open>
  The operating system: the forwarding table, \<open>GetIfEntry2\<close> (the row after the call at loop position
  \<open>i\<close>; its error is ignored by the code), the two calls of \<open>LUID.IPInterface\<close>, and
  \<open>UTF16ToString\<close>.
\<close>

record win_os =
  os_forward_table :: "MibIPforwardRow2 list outcome"
  os_if_entry :: "nat \<Rightarrow> MibIfRow2 \<Rightarrow> MibIfRow2"
  os_init_row :: "MibIPInterfaceRow \<Rightarrow> MibIPInterfaceRow"
  os_ip_entry :: "nat \<Rightarrow> MibIPInterfaceRow \<Rightarrow> MibIPInterfaceRow outcome"
  os_utf16 :: "u16 list \<Rightarrow> string"

record find_state =
  mibIfRow2Map :: "LUID \<rightharpoonup> MibIfRow2"
  mibIPIfRowMap :: "LUID \<rightharpoonup> MibIPInterfaceRow option"
  found :: "CustomRoute list"

definition query_row :: "win_os \<Rightarrow> nat \<Rightarrow> MibIfRow2 \<Rightarrow> u32 \<Rightarrow> MibIfRow2" where
  "query_row os i row index = os_if_entry os i (row\<lparr>row2_InterfaceIndex := index\<rparr>)"

definition query_row2 :: "win_os \<Rightarrow> nat \<Rightarrow> MibIfRow2 \<Rightarrow> MibIPInterfaceRow option" where
  "query_row2 os i row =
     (case LUID_IPInterface (os_init_row os) (os_ip_entry os i) (row2_InterfaceLUID row) AF_INET of
        Inl _ \<Rightarrow> None | Inr row2 \<Rightarrow> Some row2)"

text \<open>The rest of the loop body once the two rows are known: the routes to append, or a panic.\<close>

definition row_routes ::
  "win_os \<Rightarrow> globals \<Rightarrow> (u32 \<rightharpoonup> IP) \<Rightarrow> MibIPforwardRow2 \<Rightarrow> MibIfRow2 \<Rightarrow> MibIPInterfaceRow option \<Rightarrow>
   CustomRoute list outcome" where
  "row_routes os g addresses t row row2 =
     (if row2_MediaConnectState row = MediaConnectStateConnected \<and>
         os_utf16 os (row2_alias row) \<noteq> TunName g then
        let ip = (case addresses (row2_InterfaceIndex row) of Some a \<Rightarrow> a | None \<Rightarrow> [])
        in case ParseCIDR (Prefix_String (IPAddressPrefix_Prefix (fwd_DestinationPrefix t))) of
             None \<Rightarrow> Inr []
           | Some (_, ipNet) \<Rightarrow>
               (case row2 of
                  None \<Rightarrow> Inl (Panic ''nil pointer dereference'')
                | Some r2 \<Rightarrow>
                    let ones = int (fst (mask_Size (net_Mask ipNet)))
                    in Inr [\<lparr>ifName = os_utf16 os (row2_alias row), Subnet = ipNet, route_Ip = ip,
                             Metric = int (unat (fwd_Metric t + if_Metric r2)),
                             IfIndex = fwd_InterfaceIndex t,
                             BitCount = (if 0 < ones then countBits ip ones else 0)\<rparr>])
      else Inr [])"

definition FindRoutes_row ::
  "win_os \<Rightarrow> globals \<Rightarrow> (u32 \<rightharpoonup> IP) \<Rightarrow> nat \<Rightarrow> MibIPforwardRow2 \<Rightarrow> find_state \<Rightarrow> find_state outcome" where
  "FindRoutes_row os g addresses i t st =
     (let luid = fwd_InterfaceLUID t;
          (row, row2, st') =
            (case (mibIfRow2Map st luid, mibIPIfRowMap st luid) of
               (Some r, Some r2) \<Rightarrow> (r, r2, st)
             | (cached, _) \<Rightarrow>
                 let r = query_row os i (case cached of Some r \<Rightarrow> r | None \<Rightarrow> zero_if_row) (fwd_InterfaceIndex t);
                     r2 = query_row2 os i r
                 in (r, r2, st\<lparr>mibIfRow2Map := (mibIfRow2Map st)(luid \<mapsto> r),
                                mibIPIfRowMap := (mibIPIfRowMap st)(luid \<mapsto> r2)\<rparr>))
      in bind_outcome (row_routes os g addresses t row row2)
           (\<lambda>rs. Inr (st'\<lparr>found := found st' @ rs\<rparr>)))"

fun FindRoutes_loop ::
  "win_os \<Rightarrow> globals \<Rightarrow> (u32 \<rightharpoonup> IP) \<Rightarrow> nat \<Rightarrow> MibIPforwardRow2 list \<Rightarrow> find_state \<Rightarrow> find_state outcome" where
  "FindRoutes_loop os g addresses i [] st = Inr st"
| "FindRoutes_loop os g addresses i (t # ts) st =
     bind_outcome (FindRoutes_row os g addresses i t st) (FindRoutes_loop os g addresses (Suc i) ts)"

definition FindRoutes_windows ::
  "win_os \<Rightarrow> globals \<Rightarrow> (u32 \<rightharpoonup> IP) outcome \<Rightarrow> CustomRoute list outcome" where
  "FindRoutes_windows os g adapters =
     (case os_forward_table os of
        Inl (Panic p) \<Rightarrow> Inl (Panic p)
      | Inl (Err _) \<Rightarrow> Inr []
      | Inr table2 \<Rightarrow>
          bind_outcome adapters (\<lambda>addresses.
            bind_outcome
              (FindRoutes_loop os g addresses 0 table2
                 \<lparr>mibIfRow2Map = Map.empty, mibIPIfRowMap = Map.empty, found = []\<rparr>)
              (\<lambda>st. Inr (found st))))"

text \<open>What one table entry may contribute.\<close>

definition windows_route :: "globals \<Rightarrow> CustomRoute \<Rightarrow> bool" where
  "windows_route g r \<longleftrightarrow>
     ifName r \<noteq> TunName g \<and> 0 \<le> BitCount r \<and> BitCount r \<le> int (fst (mask_Size (net_Mask (Subnet r)))) \<and>
     0 \<le> Metric r \<and> Metric r < 2 ^ 32"

lemma countBits_le: "0 < m \<Longrightarrow> countBits ip m \<le> m"
  using countBits_bounds(2) [of ip m] by auto

lemma row_routes_windows:
  assumes "row_routes os g addresses t row row2 = Inr rs" and "r \<in> set rs"
  shows "windows_route g r"
proof -
  have "unat (w :: u32) < 4294967296" for w
    using unsigned_less [of w, where 'a = nat] by simp
  then have "int (unat (w :: u32)) < 4294967296" for w
    by (metis of_nat_less_iff of_nat_numeral)
  with assms show ?thesis
    by (auto simp: row_routes_def windows_route_def Let_def countBits_bounds(1) countBits_le
        split: if_splits option.splits prod.splits)
qed

text \<open>What holds of the routes of every entry holds of the whole table.\<close>

lemma FindRoutes_row_all:
  assumes "FindRoutes_row os g addresses i t st = Inr st'"
    and "\<And>row row2 rs r. row_routes os g addresses t row row2 = Inr rs \<Longrightarrow> r \<in> set rs \<Longrightarrow> P r"
    and "\<forall>r \<in> set (found st). P r"
  shows "\<forall>r \<in> set (found st'). P r"
  using assms by (auto simp: FindRoutes_row_def Let_def bind_outcome_Inr_iff split: option.splits)

lemma FindRoutes_loop_all:
  assumes "\<And>t row row2 rs r. row_routes os g addresses t row row2 = Inr rs \<Longrightarrow> r \<in> set rs \<Longrightarrow> P r"
  shows "FindRoutes_loop os g addresses i ts st = Inr st' \<Longrightarrow> \<forall>r \<in> set (found st). P r \<Longrightarrow>
         \<forall>r \<in> set (found st'). P r"
proof (induction ts arbitrary: i st)
  case (Cons t ts)
  then obtain st1 where "FindRoutes_row os g addresses i t st = Inr st1"
    and rest: "FindRoutes_loop os g addresses (Suc i) ts st1 = Inr st'"
    by (auto simp: bind_outcome_Inr_iff)
  with Cons.prems(2) have "\<forall>r \<in> set (found st1). P r"
    using FindRoutes_row_all [where P = P] assms by blast
  with rest show ?case by (rule Cons.IH)
qed simp

lemma FindRoutes_windows_all:
  assumes "FindRoutes_windows os g adapters = Inr rs" and "r \<in> set rs"
    and "\<And>addresses t row row2 rs r. adapters = Inr addresses \<Longrightarrow>
           row_routes os g addresses t row row2 = Inr rs \<Longrightarrow> r \<in> set rs \<Longrightarrow> P r"
  shows "P r"
proof -
  obtain table2 where "os_forward_table os = Inr table2"
    using assms(1,2) by (auto simp: FindRoutes_windows_def split: sum.splits failure.splits)
  then obtain addresses st where "adapters = Inr addresses" "found st = rs"
    and "FindRoutes_loop os g addresses 0 table2
           \<lparr>mibIfRow2Map = Map.empty, mibIPIfRowMap = Map.empty, found = []\<rparr> = Inr st"
    using assms(1) by (auto simp: FindRoutes_windows_def bind_outcome_Inr_iff)
  then have "\<forall>r \<in> set rs. P r"
    using FindRoutes_loop_all [of os g addresses P] assms(3) by fastforce
  with assms(2) show ?thesis by blast
qed

lemma FindRoutes_windows_wf:
  assumes "FindRoutes_windows os g adapters = Inr rs" and "r \<in> set rs"
  shows "windows_route g r"
  using FindRoutes_windows_all [OF assms, of "windows_route g"] row_routes_windows by blast

text \<open>What is selected from a freshly built table.\<close>

lemma windows_selected:
  assumes "FindRoutes_windows os g adapters = Inr rs" and "sort_contract SortRoutes_Less srt"
  shows "FindContainRoute srt g' ip rs = getDefaultRoute g' \<or>
         windows_route g (FindContainRoute srt g' ip rs) \<and>
         Contains (Subnet (FindContainRoute srt g' ip rs)) ip \<and> FindContainRoute srt g' ip rs \<in> set rs"
proof (cases "\<exists>r \<in> set rs. Contains (Subnet r) ip")
  case True
  then have "FindContainRoute srt g' ip rs \<in> set (candidates ip rs)"
    using FindContainRoute_in(1) [OF assms(2)] by blast
  then show ?thesis
    using FindRoutes_windows_wf [OF assms(1)] by simp
next
  case False
  then show ?thesis by (simp add: FindContainRoute_none)
qed


section \<open>The caches of the Windows table\<close>

text \<open>The reference: every entry asks the operating system.\<close>

definition entry_routes :: "win_os \<Rightarrow> globals \<Rightarrow> (u32 \<rightharpoonup> IP) \<Rightarrow> MibIPforwardRow2 \<Rightarrow> CustomRoute list outcome" where
  "entry_routes os g addresses t =
     (let row = query_row os 0 zero_if_row (fwd_InterfaceIndex t)
      in row_routes os g addresses t row (query_row2 os 0 row))"

fun collect_routes :: "(MibIPforwardRow2 \<Rightarrow> CustomRoute list outcome) \<Rightarrow> MibIPforwardRow2 list \<Rightarrow> CustomRoute list outcome" where
  "collect_routes f [] = Inr []"
| "collect_routes f (t # ts) =
     bind_outcome (f t) (\<lambda>rs. bind_outcome (collect_routes f ts) (\<lambda>rest. Inr (rs @ rest)))"

text \<open>The operating system answers the same throughout, and an interface has one index.\<close>

definition stable_os :: "win_os \<Rightarrow> bool" where
  "stable_os os \<longleftrightarrow> (\<forall>i. os_if_entry os i = os_if_entry os 0 \<and> os_ip_entry os i = os_ip_entry os 0)"

definition index_of_luid :: "(LUID \<Rightarrow> u32) \<Rightarrow> MibIPforwardRow2 list \<Rightarrow> bool" where
  "index_of_luid index ts \<longleftrightarrow> (\<forall>t \<in> set ts. fwd_InterfaceIndex t = index (fwd_InterfaceLUID t))"

definition cache_ok :: "win_os \<Rightarrow> (LUID \<Rightarrow> u32) \<Rightarrow> find_state \<Rightarrow> bool" where
  "cache_ok os index st \<longleftrightarrow>
     (\<forall>luid. mibIfRow2Map st luid \<in> {None, Some (query_row os 0 zero_if_row (index luid))} \<and>
        (mibIfRow2Map st luid = None \<longrightarrow> mibIPIfRowMap st luid = None) \<and>
        (mibIfRow2Map st luid \<noteq> None \<longrightarrow>
           mibIPIfRowMap st luid = Some (query_row2 os 0 (query_row os 0 zero_if_row (index luid)))))"

lemma stable_query:
  assumes "stable_os os"
  shows "query_row os i = query_row os 0" and "query_row2 os i = query_row2 os 0"
proof -
  have "os_if_entry os i = os_if_entry os 0" and "os_ip_entry os i = os_ip_entry os 0"
    using assms by (simp_all add: stable_os_def)
  then show "query_row os i = query_row os 0" and "query_row2 os i = query_row2 os 0"
    by (auto simp: query_row_def query_row2_def intro!: ext)
qed

lemma FindRoutes_row_cached:
  assumes "stable_os os" and "cache_ok os index st" and "fwd_InterfaceIndex t = index (fwd_InterfaceLUID t)"
  shows "\<exists>st'. cache_ok os index st' \<and> found st' = found st \<and>
           FindRoutes_row os g addresses i t st =
             bind_outcome (entry_routes os g addresses t) (\<lambda>rs. Inr (st'\<lparr>found := found st @ rs\<rparr>))"
proof (cases "mibIfRow2Map st (fwd_InterfaceLUID t)")
  case None
  then have none: "mibIPIfRowMap st (fwd_InterfaceLUID t) = None"
    using assms(2) by (simp add: cache_ok_def)
  define row where "row = query_row os 0 zero_if_row (fwd_InterfaceIndex t)"
  define st' where "st' = st\<lparr>mibIfRow2Map := (mibIfRow2Map st)(fwd_InterfaceLUID t \<mapsto> row),
      mibIPIfRowMap := (mibIPIfRowMap st)(fwd_InterfaceLUID t \<mapsto> query_row2 os 0 row)\<rparr>"
  have "cache_ok os index st'"
    using assms(2,3) by (simp add: cache_ok_def st'_def row_def)
  moreover have "FindRoutes_row os g addresses i t st =
      bind_outcome (entry_routes os g addresses t) (\<lambda>rs. Inr (st'\<lparr>found := found st @ rs\<rparr>))"
    using None none
    by (simp add: FindRoutes_row_def entry_routes_def Let_def stable_query [OF assms(1), of i] st'_def row_def)
  ultimately show ?thesis by (intro exI [of _ st']) (simp add: st'_def)
next
  case (Some row)
  then have "row = query_row os 0 zero_if_row (fwd_InterfaceIndex t)"
    "mibIPIfRowMap st (fwd_InterfaceLUID t) = Some (query_row2 os 0 row)"
    using assms(2,3) by (force simp: cache_ok_def)+
  with Some assms(2) show ?thesis
    by (intro exI [of _ st]) (simp add: FindRoutes_row_def entry_routes_def Let_def)
qed

lemma cache_ok_found [simp]: "cache_ok os index (st\<lparr>found := rs\<rparr>) = cache_ok os index st"
  by (simp add: cache_ok_def)

lemma bind_outcome_assoc: "bind_outcome (bind_outcome r f) h = bind_outcome r (\<lambda>a. bind_outcome (f a) h)"
  by (cases r) auto

lemma FindRoutes_loop_cached:
  assumes "stable_os os" and "cache_ok os index st" and "index_of_luid index ts"
  shows "bind_outcome (FindRoutes_loop os g addresses i ts st) (\<lambda>st. Inr (found st)) =
         bind_outcome (collect_routes (entry_routes os g addresses) ts) (\<lambda>rs. Inr (found st @ rs))"
  using assms(2,3)
proof (induction ts arbitrary: i st)
  case (Cons t ts)
  then obtain st' where st': "cache_ok os index st'"
    "FindRoutes_row os g addresses i t st =
       bind_outcome (entry_routes os g addresses t) (\<lambda>rs. Inr (st'\<lparr>found := found st @ rs\<rparr>))"
    using FindRoutes_row_cached [OF assms(1), of index st t g addresses i] by (auto simp: index_of_luid_def)
  show ?case
  proof (cases "entry_routes os g addresses t")
    case (Inr rs)
    have "index_of_luid index ts" using Cons.prems(2) by (simp add: index_of_luid_def)
    then have "bind_outcome (FindRoutes_loop os g addresses (Suc i) ts (st'\<lparr>found := found st @ rs\<rparr>))
          (\<lambda>st. Inr (found st)) =
        bind_outcome (collect_routes (entry_routes os g addresses) ts) (\<lambda>rest. Inr ((found st @ rs) @ rest))"
      using st'(1) by (subst Cons.IH) simp_all
    with Inr show ?thesis by (simp add: st'(2) bind_outcome_assoc)
  qed (simp add: st'(2))
qed simp

lemma cached_routes:
  assumes "stable_os os" and "os_forward_table os = Inr table2" and "index_of_luid index table2"
  shows "FindRoutes_windows os g adapters =
         bind_outcome adapters (\<lambda>addresses. collect_routes (entry_routes os g addresses) table2)"
proof -
  have "cache_ok os index \<lparr>mibIfRow2Map = Map.empty, mibIPIfRowMap = Map.empty, found = []\<rparr>"
    by (simp add: cache_ok_def)
  note loop = FindRoutes_loop_cached [OF assms(1) this assms(3)]
  have "bind_outcome (collect_routes f ts) Inr = collect_routes f ts" for f ts
    by (cases "collect_routes f ts") simp_all
  then show ?thesis
    using loop by (simp add: FindRoutes_windows_def assms(2))
qed

text \<open>
  The two per-interface caches are transparent. When the operating system answers the same
  throughout the loop and an interface has one index, the table equals the one built by asking for
  every entry, panics included.
\<close>

theorem route_cache_transparent:
  assumes "stable_os os" and "os_forward_table os = Inr table2" and "index_of_luid index table2"
  shows "FindRoutes_windows os g adapters =
         bind_outcome adapters (\<lambda>addresses. collect_routes (entry_routes os g addresses) table2)"
  by (rule cached_routes [OF assms])

text \<open>A small machine: one connected adapter with one /8 route, queried twice.\<close>

definition sample_entry :: MibIPforwardRow2 where
  "sample_entry = zero_forward_row\<lparr>fwd_InterfaceLUID := 7, fwd_InterfaceIndex := 3, fwd_Metric := 20,
     fwd_DestinationPrefix :=
       \<lparr>RawPrefix = zero_sockaddr\<lparr>Family := AF_INET, sa_data := [0, 0, 10, 0, 0, 0]\<rparr>, PrefixLength = 8\<rparr>\<rparr>"

definition sample_os :: "MibIPInterfaceRow outcome \<Rightarrow> win_os" where
  "sample_os ip_entry =
     \<lparr>os_forward_table = Inr [sample_entry, sample_entry],
      os_if_entry = (\<lambda>i row. row\<lparr>row2_MediaConnectState := 1, row2_InterfaceLUID := 7\<rparr>),
      os_init_row = (\<lambda>row. row), os_ip_entry = (\<lambda>i row. ip_entry), os_utf16 = (\<lambda>cs. ''eth'')\<rparr>"

definition sample_route :: CustomRoute where
  "sample_route =
     \<lparr>ifName = ''eth'', Subnet = \<lparr>net_IP = [10, 0, 0, 0], net_Mask = [255, 0, 0, 0]\<rparr>,
      route_Ip = [10, 0, 0, 9], Metric = 45, IfIndex = 3, BitCount = 2\<rparr>"

definition sample_ip_row :: "MibIPInterfaceRow outcome" where
  "sample_ip_row = Inr (zero_ip_row\<lparr>if_Family := AF_INET, if_Metric := 25\<rparr>)"

lemma sample_entry_cidr:
  "ParseCIDR (Prefix_String (IPAddressPrefix_Prefix (fwd_DestinationPrefix sample_entry))) =
     Some (IPv4 10 0 0 0, \<lparr>net_IP = [10, 0, 0, 0], net_Mask = [255, 0, 0, 0]\<rparr>)"
proof -
  have "IPAddressPrefix_Prefix (fwd_DestinationPrefix sample_entry) = PrefixFrom (AddrV4 [10, 0, 0, 0]) 8"
    by (simp add: sample_entry_def IPAddressPrefix_Prefix_def Let_def)
  moreover have "CIDRMask 8 32 = [255, 0, 0, 0]" by code_simp
  ultimately show ?thesis
    by (simp add: Prefix_String_v4 ParseCIDR_v4)
qed

lemma sample_mask: "mask_Size [255, 0, 0, 0] = (8, 32)" by code_simp

lemma sample_bits: "countBits [10, 0, 0, 9] 8 = 2" by code_simp

lemma sample_query:
  "query_row (sample_os ip_entry) 0 zero_if_row index =
     zero_if_row\<lparr>row2_InterfaceIndex := index, row2_MediaConnectState := 1, row2_InterfaceLUID := 7\<rparr>"
  by (simp add: query_row_def sample_os_def)

lemma sample_query2: "query_row2 (sample_os sample_ip_row) 0 row =
    Some (zero_ip_row\<lparr>if_Family := AF_INET, if_Metric := 25\<rparr>)"
  by (simp add: query_row2_def sample_os_def LUID_IPInterface_def MibIPInterfaceRow_get_def
      sample_ip_row_def zero_ip_row_def)

lemma sample_utf16: "os_utf16 (sample_os ip_entry) cs = ''eth''"
  by (simp add: sample_os_def)

lemma sample_index: "fwd_InterfaceIndex sample_entry = 3" "fwd_Metric sample_entry = 20"
  by (simp_all add: sample_entry_def)

lemma sample_entry_routes:
  "entry_routes (sample_os sample_ip_row) init_globals [3 \<mapsto> [10, 0, 0, 9]] sample_entry = Inr [sample_route]"
  by (simp add: entry_routes_def row_routes_def sample_entry_cidr sample_mask sample_bits sample_query
      sample_query2 sample_index Let_def MediaConnectStateConnected_def sample_utf16
      init_globals_def zero_ip_row_def sample_route_def)

lemma sample_stable:
  "stable_os (sample_os ip_entry)" "index_of_luid (\<lambda>_. 3) [sample_entry, sample_entry]"
  "os_forward_table (sample_os ip_entry) = Inr [sample_entry, sample_entry]"
  by (simp_all add: stable_os_def sample_os_def index_of_luid_def sample_index)

lemma route_cache_transparent_witness:
  "FindRoutes_windows (sample_os sample_ip_row) init_globals (Inr [3 \<mapsto> [10, 0, 0, 9]]) =
     Inr [sample_route, sample_route]"
  by (simp add: route_cache_transparent [OF sample_stable(1,3,2)] sample_entry_routes)

lemma sample_routes:
  "FindRoutes_windows (sample_os sample_ip_row) init_globals (Inr [3 \<mapsto> [10, 0, 0, 9]]) = Inr [sample_route, sample_route]"
  by (simp add: cached_routes [OF sample_stable(1,3,2)] sample_entry_routes)


text \<open>
  A connected adapter whose IPv4 interface row cannot be read is not skipped: the metric is read
  through the nil row, and building the table panics.
\<close>

theorem windows_nil_interface_row:
  "FindRoutes_windows (sample_os (Inl (Err ''not found''))) init_globals adapters =
     (case adapters of Inl e \<Rightarrow> Inl e | Inr _ \<Rightarrow> Inl (Panic ''nil pointer dereference''))"
proof -
  have "query_row2 (sample_os (Inl (Err ''not found''))) 0 row = None" for row
    by (simp add: query_row2_def sample_os_def LUID_IPInterface_def MibIPInterfaceRow_get_def)
  then have "entry_routes (sample_os (Inl (Err ''not found''))) init_globals addresses sample_entry =
      Inl (Panic ''nil pointer dereference'')" for addresses
    by (simp add: entry_routes_def row_routes_def sample_entry_cidr sample_query Let_def
        MediaConnectStateConnected_def sample_utf16 init_globals_def)
  then show ?thesis
    by (cases adapters) (simp_all add: cached_routes [OF sample_stable(1,3,2)])
qed

text \<open>
  The sort key is not the prefix length. A /16 route over an adapter with few address bits set
  loses to a /8 route over one with more of them.
\<close>

definition via :: "nat \<Rightarrow> bytes \<Rightarrow> IP \<Rightarrow> CustomRoute" where
  "via n net ip = direct_route ''eth'' \<lparr>net_IP = net, net_Mask = CIDRMask n 32\<rparr> ip 0 (countBits ip (int n))"

text \<open>
  Selection is not by longest prefix. For 10.1.2.3 the table below has a /16 and a /8 route with
  equal metrics, their bit counts as the code computes them, and the /8 route is selected.
\<close>

theorem longest_prefix_not_selected:
  "Contains (Subnet (via 16 [10, 1, 0, 0] [1, 0, 0, 1])) [10, 1, 2, 3] \<and>
   FindContainRoute (insertionSort SortRoutes_Less) g [10, 1, 2, 3]
     [via 16 [10, 1, 0, 0] [1, 0, 0, 1], via 8 [10, 0, 0, 0] [10, 0, 0, 9]] =
   via 8 [10, 0, 0, 0] [10, 0, 0, 9]"
proof -
  have c: "Contains (Subnet (via 16 [10, 1, 0, 0] [1, 0, 0, 1])) [10, 1, 2, 3]"
    "Contains (Subnet (via 8 [10, 0, 0, 0] [10, 0, 0, 9])) [10, 1, 2, 3]"
    by code_simp+
  have "BitCount (via 16 [10, 1, 0, 0] [1, 0, 0, 1]) = 1" "BitCount (via 8 [10, 0, 0, 0] [10, 0, 0, 9]) = 2"
    by code_simp+
  with c show ?thesis
    by (simp add: FindContainRoute_candidates candidates_def insertionSort_def SortRoutes_Less_def)
qed

section \<open>The Linux route table (route_linux.go)\<close>

text \<open>
  The code looks at the first link only: its index, its priority, and the first address of its
  interface. An empty list, a missing interface and an address that is not an \<open>IPNet\<close> panic.
\<close>

record link_route =
  LinkIndex :: int
  Priority :: int

definition FindRoutes_linux ::
  "link_route list \<Rightarrow> (int \<Rightarrow> (string \<times> IPNet option list) option) \<Rightarrow> CustomRoute list outcome" where
  "FindRoutes_linux list interface =
     (case list of
        [] \<Rightarrow> Inl (Panic ''index out of range'')
      | l # _ \<Rightarrow>
          (case interface (LinkIndex l) of
             None \<Rightarrow> Inl (Panic ''nil pointer dereference'')
           | Some (name, addrs) \<Rightarrow>
               bind_outcome
                 (case addrs of
                    [] \<Rightarrow> Inr []
                  | None # _ \<Rightarrow> Inl (Panic ''interface conversion'')
                  | Some n # _ \<Rightarrow> Inr (net_IP n))
                 (\<lambda>ip. Inr [\<lparr>ifName = name, Subnet = DEFAULT_IPNET, route_Ip = ip,
                             Metric = Priority l, IfIndex = word_of_int (LinkIndex l), BitCount = 32\<rparr>])))"

text \<open>
  On Linux every IPv4 destination leaves through the interface of the first route of the main
  table, whatever the sort.
\<close>

theorem linux_single_exit:
  assumes "FindRoutes_linux (l # ls) interface = Inr rs" and "To4 ip \<noteq> None"
    and "sort_contract SortRoutes_Less srt"
  shows "rs = [FindContainRoute srt g ip rs] \<and>
         IfIndex (FindContainRoute srt g ip rs) = word_of_int (LinkIndex l) \<and>
         interface (LinkIndex l) \<noteq> None \<and>
         ifName (FindContainRoute srt g ip rs) = fst (the (interface (LinkIndex l)))"
proof -
  obtain r where r: "rs = [r]" "Subnet r = DEFAULT_IPNET" "IfIndex r = word_of_int (LinkIndex l)"
    "interface (LinkIndex l) \<noteq> None" "ifName r = fst (the (interface (LinkIndex l)))"
    using assms(1) by (auto simp: FindRoutes_linux_def bind_outcome_Inr_iff split: option.splits list.splits)
  have "Contains (Subnet r) ip"
    using Contains_default_net [OF assms(2)] by (simp add: r(2) DEFAULT_IPNET_def)
  then have "FindContainRoute srt g ip rs = r"
    using FindContainRoute_in(1) [OF assms(3), of r rs ip g] by (simp add: r(1))
  with r show ?thesis by simp
qed

lemma linux_single_exit_witness:
  "let rs = [\<lparr>ifName = ''eth0'', Subnet = DEFAULT_IPNET, route_Ip = [192, 168, 1, 5], Metric = 100,
              IfIndex = 2, BitCount = 32\<rparr>]
   in rs = [FindContainRoute (insertionSort SortRoutes_Less) init_globals [8, 8, 8, 8] rs]"
  using linux_single_exit [of "\<lparr>LinkIndex = 2, Priority = 100\<rparr>" "[]"
      "\<lambda>i. Some (''eth0'', [Some \<lparr>net_IP = [192, 168, 1, 5], net_Mask = [255, 255, 255, 0]\<rparr>])"
      "[\<lparr>ifName = ''eth0'', Subnet = DEFAULT_IPNET, route_Ip = [192, 168, 1, 5], Metric = 100,
         IfIndex = 2, BitCount = 32\<rparr>]" "[8, 8, 8, 8]", OF _ _ insertionSort_routes, of init_globals]
  by (simp add: FindRoutes_linux_def)

end
