(* ===== verification/Route_Types.thy ===== *)
theory Route_Types
  imports Route
begin

text \<open>
  The type invariant of the route table of \<open>model/route_windows.go\<close>: what the fields of every
  \<open>CustomRoute\<close> that \<open>FindRoutes\<close> builds hold, so that \<open>FindContainRoute\<close> and the dialers can rely on
  it. A network is canonical when its mask is a run of ones and its address has no bit outside it.
\<close>

definition canonical_net :: "IPNet \<Rightarrow> bool" where
  "canonical_net n \<longleftrightarrow>
     (length (net_IP n) = 4 \<or> length (net_IP n) = 16) \<and>
     list_ex (\<lambda>k. net_Mask n = CIDRMask k (8 * length (net_IP n))) [0..<Suc (8 * length (net_IP n))] \<and>
     and_bytes (net_IP n) (net_Mask n) = net_IP n"

definition interface_ip :: "IP \<Rightarrow> bool" where
  "interface_ip ip \<longleftrightarrow> ip = [] \<or> length ip = 16 \<and> take 12 ip = v4InV6Prefix"

definition typed_route :: "globals \<Rightarrow> CustomRoute \<Rightarrow> bool" where
  "typed_route g r \<longleftrightarrow>
     windows_route g r \<and> canonical_net (Subnet r) \<and> interface_ip (route_Ip r)"

section \<open>Parsed networks are canonical\<close>

lemma canonical_netI:
  assumes "bits = 32 \<or> bits = 128" and "8 * length ip = bits" and "k \<le> bits"
  shows "canonical_net \<lparr>net_IP = and_bytes ip (CIDRMask k bits), net_Mask = CIDRMask k bits\<rparr>"
proof -
  have "length (CIDRMask k bits) = length ip" using assms by (auto simp: CIDRMask_def)
  moreover from this have "and_bytes (and_bytes ip (CIDRMask k bits)) (CIDRMask k bits) = and_bytes ip (CIDRMask k bits)"
    by (simp add: and_bytes_idem)
  ultimately show ?thesis
    using assms by (auto simp: canonical_net_def list_ex_iff simp del: upt_Suc)
qed

lemma canonical_ip_Mask:
  assumes "length v = 4" and "k \<le> 32"
  shows "canonical_net \<lparr>net_IP = ip_Mask (v4InV6Prefix @ v) (CIDRMask k 32), net_Mask = CIDRMask k 32\<rparr>"
proof -
  have "length (CIDRMask k 32) = 4" using assms(2) by (rule length_CIDRMask)
  with assms show ?thesis
    using canonical_netI [of 32 v k] by (simp add: ip_Mask_def Let_def)
qed

lemma canonical_ip_Mask6:
  assumes "length b = 16" and "k \<le> 128"
  shows "canonical_net \<lparr>net_IP = ip_Mask b (CIDRMask k 128), net_Mask = CIDRMask k 128\<rparr>"
proof -
  have "length (CIDRMask k 128) = 16" using assms(2) by (simp add: CIDRMask_def)
  with assms show ?thesis
    using canonical_netI [of 128 b k] by (simp add: ip_Mask_def Let_def)
qed

lemma ParseCIDR_canonical:
  assumes "ParseCIDR s = Some (ip, n)"
  shows "canonical_net n"
proof -
  obtain addr msk a k where a: "ParseAddr addr = Some a" "k \<le> BitLen a"
    and n: "n = \<lparr>net_IP = ip_Mask (As16 a) (CIDRMask k (BitLen a)), net_Mask = CIDRMask k (BitLen a)\<rparr>"
    using assms by (auto simp: ParseCIDR_def Let_def not_less split: option.splits if_splits)
  show ?thesis
  proof (cases a)
    case AddrZero
    with a show ?thesis by (simp add: ParseAddr_not_zero)
  next
    case (AddrV4 v)
    with a have "length v = 4" using ParseAddr_length [of addr a] by simp
    with AddrV4 a n show ?thesis by (simp add: canonical_ip_Mask)
  next
    case (AddrV6 b z)
    with a have "length b = 16" using ParseAddr_length [of addr a] by simp
    with AddrV6 a n show ?thesis by (simp add: canonical_ip_Mask6)
  qed
qed

text \<open>A canonical network contains its own address.\<close>

lemma canonical_self:
  assumes "canonical_net n"
  shows "Contains n (net_IP n)"
proof -
  have "length (net_Mask n) = length (net_IP n)"
    using assms by (auto simp: canonical_net_def list_ex_iff CIDRMask_def simp del: upt_Suc split: if_splits)
  with assms show ?thesis
    by (auto simp: Contains_def networkNumberAndMask_def Let_def canonical_net_def dest: To4_length
        split: option.splits)
qed

section \<open>The addresses of the adapters\<close>

lemma typed_IPv4: "interface_ip (IPv4 a b c d)"
  by (simp add: interface_ip_def IPv4_def)

lemma adapter_walk_typed:
  "adapter_walk aas result = Inr result' \<Longrightarrow> \<forall>ip \<in> ran result. interface_ip ip \<Longrightarrow>
   ip \<in> ran result' \<Longrightarrow> interface_ip ip"
proof (induction aas arbitrary: result)
  case (Cons aa aas)
  have "\<forall>ip \<in> ran (result(i \<mapsto> IPv4 a b c d)). interface_ip ip" for i a b c d
    using Cons.prems(2) by (auto simp: ran_def typed_IPv4)
  then have stored: "interface_ip ip" if "adapter_walk aas (result(i \<mapsto> IPv4 a b c d)) = Inr result'" for i a b c d
    using Cons.IH that Cons.prems(3) by blast
  show ?case
    using Cons.prems Cons.IH stored by (auto simp del: fun_upd_apply split: option.splits sum.splits sockaddr.splits)
qed auto

lemma adapterAddresses_typed:
  "adapterAddresses sys contents = Inr addresses \<Longrightarrow> addresses i = Some ip \<Longrightarrow> interface_ip ip"
  using adapter_walk_typed [of _ Map.empty addresses ip]
  by (auto simp: adapterAddresses_def ranI split: option.splits)

section \<open>The table\<close>

lemma no_address: "interface_ip []"
  by (simp add: interface_ip_def)

lemma row_routes_typed:
  assumes "row_routes os g addresses t row row2 = Inr rs" and "r \<in> set rs"
    and "\<And>i ip. addresses i = Some ip \<Longrightarrow> interface_ip ip"
  shows "typed_route g r"
  unfolding typed_route_def
proof (intro conjI)
  show "windows_route g r" using assms(1,2) by (rule row_routes_windows)
  show "canonical_net (Subnet r)"
    using assms(1,2)
    by (auto simp: row_routes_def Let_def split: if_splits option.splits prod.splits dest: ParseCIDR_canonical)
  show "interface_ip (route_Ip r)"
    using assms no_address
    by (auto simp: row_routes_def Let_def split: if_splits option.splits prod.splits)
qed

text \<open>
  C10: the route table of Windows is well typed whatever the operating system answers: every route
  has a canonical network, which contains its own address, an interface address that is empty or
  IPv4 in its 16 byte form, a metric of 32 bits, a bit count within the prefix length and a name
  other than the tunnel's.
\<close>

theorem route_table_typed:
  assumes "FindRoutes_windows os g (adapterAddresses sys contents) = Inr rs" and "r \<in> set rs"
  shows "typed_route g r \<and> Contains (Subnet r) (net_IP (Subnet r))"
proof -
  have "typed_route g r"
    by (rule FindRoutes_windows_all [OF assms]) (metis row_routes_typed adapterAddresses_typed)
  then show ?thesis by (simp add: typed_route_def canonical_self)
qed

section \<open>One adapter and one entry\<close>

definition sample_adapters :: "(u32 \<rightharpoonup> IP) outcome" where
  "sample_adapters =
     adapterAddresses (\<lambda>k l. (None, 640))
       (\<lambda>k. [\<lparr>FirstUnicastAddress = Some (Inr (SockaddrInet4 10 0 0 9)), aa_IfIndex = 3\<rparr>])"

lemma sample_addresses: "sample_adapters = Inr [3 \<mapsto> IPv4 10 0 0 9]"
  by (simp add: sample_adapters_def adapterAddresses_def adapter_buffer.simps)

lemma typed_entry_routes:
  "entry_routes (sample_os sample_ip_row) init_globals [3 \<mapsto> IPv4 10 0 0 9] sample_entry =
     Inr [sample_route\<lparr>route_Ip := IPv4 10 0 0 9\<rparr>]"
proof -
  have "countBits (IPv4 10 0 0 9) 8 = 2" by code_simp
  then show ?thesis
    by (simp add: entry_routes_def row_routes_def sample_entry_cidr sample_mask sample_query
      sample_query2 sample_index Let_def MediaConnectStateConnected_def sample_utf16
      init_globals_def zero_ip_row_def sample_route_def)
qed

lemma typed_sample_routes:
  "FindRoutes_windows (sample_os sample_ip_row) init_globals sample_adapters =
     Inr [sample_route\<lparr>route_Ip := IPv4 10 0 0 9\<rparr>, sample_route\<lparr>route_Ip := IPv4 10 0 0 9\<rparr>]"
  unfolding sample_addresses
  by (simp add: cached_routes [OF sample_stable(1,3,2)] typed_entry_routes)

lemma route_table_typed_witness:
  "typed_route init_globals (sample_route\<lparr>route_Ip := IPv4 10 0 0 9\<rparr>) \<and>
   Contains \<lparr>net_IP = [10, 0, 0, 0], net_Mask = [255, 0, 0, 0]\<rparr> [10, 0, 0, 0]"
  using route_table_typed [OF typed_sample_routes [unfolded sample_adapters_def],
      of "sample_route\<lparr>route_Ip := IPv4 10 0 0 9\<rparr>"]
  by (simp add: sample_route_def)

end
