(* ===== verification/Win_Change.thy ===== *)
theory Win_Change
  imports Steps Win_Types
begin

text \<open>
  The change notifications of \<open>winipcfg\<close>: \<open>route_change_handler.go\<close>, \<open>interface_change_handler.go\<close>
  and \<open>unicast_address_change_handler.go\<close>. The three files differ in the type of the row only, so
  one state machine, polymorphic in the row, models each; the package holds three of them.

  The state is the package variables of one file, the objects handed to callers (numbered in the
  order of their allocation), the goroutines \<open>routeChanged\<close> has started, and the registrations the
  operating system keeps. A step is one locked section: \<open>Register\<close> holds both mutexes throughout,
  so it is one step; \<open>Unregister\<close> holds the outer mutex throughout and the inner one only while it
  deletes, so it is four steps, and the holder of the outer mutex is part of the state. The system
  may call \<open>routeChanged\<close> at any moment at which the inner mutex is free.
\<close>

section \<open>State\<close>

datatype unregistration = Entered nat | Deleted nat bool | Waited nat bool

record 'row change_state =
  ch_allocated :: nat
  ch_callbacks :: "nat set"
  ch_handle :: u64
  ch_wait :: "nat \<Rightarrow> nat"
  ch_tasks :: "(nat \<times> nat \<times> 'row) multiset"
  ch_holder :: "unregistration option"
  ch_live :: "u64 set"

definition init_change :: "'row change_state" where
  "init_change =
     \<lparr>ch_allocated = 0, ch_callbacks = {}, ch_handle = 0, ch_wait = (\<lambda>_. 0), ch_tasks = {#},
      ch_holder = None, ch_live = {}\<rparr>"

section \<open>Operations\<close>

text \<open>
  \<open>notify\<close> is the outcome of the system's \<open>Notify...Change\<close>: an error, or the handle it stores. The
  handle is written through the pointer to the package variable.
\<close>

definition register_callback ::
  "u64 outcome \<Rightarrow> 'row change_state \<Rightarrow> 'row change_state \<times> nat outcome" where
  "register_callback notify s =
     (let c = ch_allocated s;
          s1 = s\<lparr>ch_allocated := Suc c, ch_callbacks := insert c (ch_callbacks s)\<rparr>
      in if ch_handle s1 = 0 then
           (case notify of
              Inl e \<Rightarrow> (s1\<lparr>ch_callbacks := ch_callbacks s1 - {c}, ch_handle := 0\<rparr>, Inl e)
            | Inr h \<Rightarrow> (s1\<lparr>ch_handle := h, ch_live := insert h (ch_live s1)\<rparr>, Inr c))
         else (s1, Inr c))"

definition unregister_delete :: "nat \<Rightarrow> 'row change_state \<Rightarrow> 'row change_state" where
  "unregister_delete c s =
     (let s1 = s\<lparr>ch_callbacks := ch_callbacks s - {c}\<rparr>;
          removeIt = (ch_callbacks s1 = {} \<and> ch_handle s1 \<noteq> 0)
      in s1\<lparr>ch_holder := Some (Deleted c removeIt)\<rparr>)"

text \<open>\<open>cancel\<close> is the outcome of \<open>CancelMibChangeNotify2\<close>; \<open>None\<close> is success.\<close>

definition unregister_finish ::
  "failure option \<Rightarrow> bool \<Rightarrow> 'row change_state \<Rightarrow> 'row change_state \<times> unit outcome" where
  "unregister_finish cancel removeIt s =
     (if removeIt then
        (case cancel of
           Some e \<Rightarrow> (s\<lparr>ch_holder := None\<rparr>, Inl e)
         | None \<Rightarrow>
             (s\<lparr>ch_handle := 0, ch_live := ch_live s - {ch_handle s}, ch_holder := None\<rparr>, Inr ()))
      else (s\<lparr>ch_holder := None\<rparr>, Inr ()))"

text \<open>One turn of the loop of \<open>routeChanged\<close>: \<open>cb.wait.Add(1)\<close> and the \<open>go\<close> statement.\<close>

definition start_callback :: "nat \<Rightarrow> 'row \<Rightarrow> nat \<Rightarrow> 'row change_state \<Rightarrow> 'row change_state" where
  "start_callback notificationType row cb s =
     s\<lparr>ch_wait := (ch_wait s)(cb := Suc (ch_wait s cb)),
       ch_tasks := add_mset (cb, notificationType, row) (ch_tasks s)\<rparr>"

text \<open>\<open>order\<close> is the order in which Go ranges over the map, which it leaves open.\<close>

definition change_notified ::
  "nat list \<Rightarrow> nat \<Rightarrow> 'row \<Rightarrow> 'row change_state \<Rightarrow> 'row change_state" where
  "change_notified order notificationType row s = fold (start_callback notificationType row) order s"

definition callback_done :: "nat \<Rightarrow> nat \<Rightarrow> 'row \<Rightarrow> 'row change_state \<Rightarrow> 'row change_state" where
  "callback_done c notificationType row s =
     s\<lparr>ch_tasks := ch_tasks s - {#(c, notificationType, row)#},
       ch_wait := (ch_wait s)(c := ch_wait s c - 1)\<rparr>"

text \<open>A whole \<open>Unregister\<close> that meets no other goroutine; \<open>None\<close>: it blocks in \<open>Wait\<close>.\<close>

definition unregister_alone ::
  "failure option \<Rightarrow> nat \<Rightarrow> 'row change_state \<Rightarrow> ('row change_state \<times> unit outcome) option" where
  "unregister_alone cancel c s =
     (let s1 = unregister_delete c s
      in if ch_wait s1 c = 0 then
           (case ch_holder s1 of
              Some (Deleted _ removeIt) \<Rightarrow> Some (unregister_finish cancel removeIt s1)
            | _ \<Rightarrow> None)
         else None)"

section \<open>Steps\<close>

datatype 'row change_event =
    Registers "u64 outcome" "nat outcome"
  | Enters nat
  | Deletes
  | Waits
  | Finishes nat "failure option" "unit outcome"
  | Changes "nat list" nat 'row
  | Completes nat nat 'row

text \<open>
  A successful notification returns a handle that is not zero and not in use, and \<open>Unregister\<close> is
  called on an object that \<open>Register\<close> has allocated.
\<close>

inductive change_step ::
  "'row change_state \<Rightarrow> 'row change_event \<Rightarrow> 'row change_state \<Rightarrow> bool" where
  registers: "ch_holder s = None \<Longrightarrow> (\<And>h. notify = Inr h \<Longrightarrow> h \<noteq> 0 \<and> h \<notin> ch_live s) \<Longrightarrow>
    register_callback notify s = (s', r) \<Longrightarrow> change_step s (Registers notify r) s'"
| enters: "ch_holder s = None \<Longrightarrow> c < ch_allocated s \<Longrightarrow>
    change_step s (Enters c) (s\<lparr>ch_holder := Some (Entered c)\<rparr>)"
| deletes: "ch_holder s = Some (Entered c) \<Longrightarrow> change_step s Deletes (unregister_delete c s)"
| waits: "ch_holder s = Some (Deleted c removeIt) \<Longrightarrow> ch_wait s c = 0 \<Longrightarrow>
    change_step s Waits (s\<lparr>ch_holder := Some (Waited c removeIt)\<rparr>)"
| finishes: "ch_holder s = Some (Waited c removeIt) \<Longrightarrow>
    unregister_finish cancel removeIt s = (s', r) \<Longrightarrow> change_step s (Finishes c cancel r) s'"
| changes: "distinct order \<Longrightarrow> set order = ch_callbacks s \<Longrightarrow>
    change_step s (Changes order notificationType row)
      (change_notified order notificationType row s)"
| completes: "(c, notificationType, row) \<in># ch_tasks s \<Longrightarrow>
    change_step s (Completes c notificationType row) (callback_done c notificationType row s)"

inductive_cases change_stepE: "change_step s ev s'"

inductive_simps change_step_simps [simp]:
  "change_step s (Registers notify r) s'"
  "change_step s (Enters c) s'"
  "change_step s Deletes s'"
  "change_step s Waits s'"
  "change_step s (Finishes c cancel r) s'"
  "change_step s (Changes order notificationType row) s'"
  "change_step s (Completes c notificationType row) s'"

abbreviation change_runs ::
  "'row change_state \<Rightarrow> 'row change_event list \<Rightarrow> 'row change_state \<Rightarrow> bool" where
  "change_runs \<equiv> runs change_step"

lemmas change_runs_cons = runs_cons [where step = change_step]
lemmas change_runs_trans = runs_trans [where step = change_step]

section \<open>What the loop of a notification does\<close>

lemma change_notified_Nil [simp]: "change_notified [] t row s = s"
  by (simp add: change_notified_def)

lemma change_notified_Cons [simp]:
  "change_notified (c # cs) t row s = change_notified cs t row (start_callback t row c s)"
  by (simp add: change_notified_def)

lemma change_notified_frame [simp]:
  "ch_allocated (change_notified order t row s) = ch_allocated s"
  "ch_callbacks (change_notified order t row s) = ch_callbacks s"
  "ch_handle (change_notified order t row s) = ch_handle s"
  "ch_holder (change_notified order t row s) = ch_holder s"
  "ch_live (change_notified order t row s) = ch_live s"
  by (induction order arbitrary: s) (simp_all add: start_callback_def)

lemma change_notified_wait [simp]:
  "ch_wait (change_notified order t row s) = (\<lambda>c. ch_wait s c + count_list order c)"
  by (induction order arbitrary: s) (auto simp: start_callback_def fun_eq_iff)

lemma change_notified_tasks [simp]:
  "ch_tasks (change_notified order t row s) =
     ch_tasks s + image_mset (\<lambda>c. (c, t, row)) (mset order)"
  by (induction order arbitrary: s) (auto simp: start_callback_def)

section \<open>The invariant\<close>

definition tasks_of :: "nat \<Rightarrow> 'row change_state \<Rightarrow> nat" where
  "tasks_of c s = size (filter_mset (\<lambda>t. fst t = c) (ch_tasks s))"

text \<open>The object an \<open>Unregister\<close> in progress is at, once it is no longer in the map.\<close>

fun leaving :: "unregistration option \<Rightarrow> nat set" where
  "leaving (Some (Deleted c _)) = {c}"
| "leaving (Some (Waited c _)) = {c}"
| "leaving _ = {}"

fun entering :: "unregistration option \<Rightarrow> nat set" where
  "entering (Some (Entered c)) = {c}"
| "entering _ = {}"

fun settled :: "unregistration option \<Rightarrow> nat set" where
  "settled (Some (Waited c _)) = {c}"
| "settled _ = {}"

fun must_cancel :: "unregistration option \<Rightarrow> bool" where
  "must_cancel (Some (Deleted _ b)) = b"
| "must_cancel (Some (Waited _ b)) = b"
| "must_cancel _ = False"

definition change_inv :: "'row change_state \<Rightarrow> bool" where
  "change_inv s \<longleftrightarrow>
     ch_callbacks s \<subseteq> {..<ch_allocated s} \<and>
     (\<forall>c. ch_wait s c = tasks_of c s) \<and>
     (\<forall>c \<ge> ch_allocated s. tasks_of c s = 0) \<and>
     (\<forall>c \<in> settled (ch_holder s). tasks_of c s = 0) \<and>
     (ch_callbacks s \<noteq> {} \<longrightarrow> ch_handle s \<noteq> 0) \<and>
     ch_live s = (if ch_handle s = 0 then {} else {ch_handle s}) \<and>
     leaving (ch_holder s) \<inter> ch_callbacks s = {} \<and>
     (leaving (ch_holder s) \<union> entering (ch_holder s)) \<subseteq> {..<ch_allocated s} \<and>
     (must_cancel (ch_holder s) \<longrightarrow> ch_callbacks s = {} \<and> ch_handle s \<noteq> 0)"

lemma change_inv_init: "change_inv init_change"
  by (simp add: change_inv_def init_change_def tasks_of_def)

lemma tasks_of_frame [simp]:
  "tasks_of c (s\<lparr>ch_allocated := n\<rparr>) = tasks_of c s"
  "tasks_of c (s\<lparr>ch_callbacks := cbs\<rparr>) = tasks_of c s"
  "tasks_of c (s\<lparr>ch_handle := h\<rparr>) = tasks_of c s"
  "tasks_of c (s\<lparr>ch_holder := u\<rparr>) = tasks_of c s"
  "tasks_of c (s\<lparr>ch_live := l\<rparr>) = tasks_of c s"
  by (simp_all add: tasks_of_def)

lemma size_filter_image:
  "size (filter_mset (\<lambda>t. fst t = c) (image_mset (\<lambda>c. (c, t, row)) (mset order))) =
     count_list order c"
  by (induction order) auto

lemma tasks_of_notified [simp]:
  "tasks_of c (change_notified order t row s) = tasks_of c s + count_list order c"
  by (simp add: tasks_of_def size_filter_image)

lemma tasks_of_done:
  assumes "(c, t, row) \<in># ch_tasks s"
  shows "tasks_of d (callback_done c t row s) = tasks_of d s - (if d = c then 1 else 0)"
proof -
  obtain T where T: "ch_tasks s = add_mset (c, t, row) T"
    using assms by (metis multi_member_split)
  show ?thesis
    by (simp add: tasks_of_def callback_done_def T)
qed

lemma callback_done_frame [simp]:
  "ch_allocated (callback_done c t row s) = ch_allocated s"
  "ch_callbacks (callback_done c t row s) = ch_callbacks s"
  "ch_handle (callback_done c t row s) = ch_handle s"
  "ch_holder (callback_done c t row s) = ch_holder s"
  "ch_live (callback_done c t row s) = ch_live s"
  "ch_wait (callback_done c t row s) = (ch_wait s)(c := ch_wait s c - 1)"
  by (simp_all add: callback_done_def)

lemma settled_leaving: "settled u \<subseteq> leaving u"
  by (cases u rule: settled.cases) auto

lemma change_inv_register:
  assumes inv: "change_inv s" and free: "ch_holder s = None"
    and fresh: "\<And>h. notify = Inr h \<Longrightarrow> h \<noteq> 0 \<and> h \<notin> ch_live s"
  shows "change_inv (fst (register_callback notify s))"
proof (cases "ch_handle s = 0")
  case True
  have empty: "ch_callbacks s = {}"
    using inv True by (auto simp: change_inv_def)
  show ?thesis
    using inv free fresh True empty
    by (cases notify)
      (auto simp: change_inv_def register_callback_def Let_def)
next
  case False
  then show ?thesis
    using inv free
    by (auto simp: change_inv_def register_callback_def Let_def)
qed

lemma change_inv_step: "change_step s ev s' \<Longrightarrow> change_inv s \<Longrightarrow> change_inv s'"
proof (induction rule: change_step.induct)
  case (registers s notify s' r)
  then show ?case
    using change_inv_register [of s notify] by (metis fst_conv)
next
  case (enters s c)
  then show ?case
    by (auto simp: change_inv_def)
next
  case (deletes s c)
  then show ?case
    by (auto simp: change_inv_def unregister_delete_def Let_def)
next
  case (waits s c removeIt)
  then show ?case
    by (auto simp: change_inv_def)
next
  case (finishes s c removeIt cancel s' r)
  then show ?case
    by (auto simp: change_inv_def unregister_finish_def
        split: if_splits option.splits)
next
  case (changes order s t row)
  then show ?case
    using settled_leaving [of "ch_holder s"] by (auto simp: change_inv_def count_list_0_iff)
next
  case (completes c t row s)
  then show ?case
    by (auto simp: change_inv_def tasks_of_done)
qed

interpretation handler: invariant change_step "\<lambda>_. True" change_inv
  by unfold_locales (rule change_inv_step)

lemma change_inv_runs: "change_runs s evs s' \<Longrightarrow> change_inv s \<Longrightarrow> change_inv s'"
  using handler.runs_keep by (simp add: list_all_iff)

section \<open>An unregistered callback is dead\<close>

definition dead_callback :: "nat \<Rightarrow> 'row change_state \<Rightarrow> bool" where
  "dead_callback c s \<longleftrightarrow> c < ch_allocated s \<and> c \<notin> ch_callbacks s \<and> tasks_of c s = 0"

lemma dead_callback_step:
  "change_step s ev s' \<Longrightarrow> dead_callback c s \<Longrightarrow> dead_callback c s'"
proof (induction rule: change_step.induct)
  case (registers s notify s' r)
  then show ?case
    by (auto simp: dead_callback_def register_callback_def Let_def split: if_splits sum.splits)
next
  case (deletes s d)
  then show ?case
    by (auto simp: dead_callback_def unregister_delete_def Let_def)
next
  case (finishes s d removeIt cancel s' r)
  then show ?case
    by (auto simp: dead_callback_def unregister_finish_def split: if_splits option.splits)
next
  case (completes d t row s)
  then show ?case
    by (auto simp: dead_callback_def tasks_of_done)
qed (auto simp: dead_callback_def count_list_0_iff)

interpretation dead: invariant change_step "\<lambda>_. True" "dead_callback c" for c
  by unfold_locales (rule dead_callback_step)

lemma dead_callback_runs:
  "change_runs s evs s' \<Longrightarrow> dead_callback c s \<Longrightarrow> dead_callback c s'"
  using dead.runs_keep by (simp add: list_all_iff)

lemma dead_callback_finishes:
  assumes "change_inv s" and "change_step s (Finishes c cancel r) s'"
    and "ch_holder s = Some (Waited c removeIt)"
  shows "dead_callback c s'"
  using assms
  by (auto simp: dead_callback_def change_inv_def unregister_finish_def
      split: if_splits option.splits)

lemma tasks_of_0_iff: "tasks_of c s = 0 \<longleftrightarrow> (\<forall>t row. (c, t, row) \<notin># ch_tasks s)"
  by (auto simp: tasks_of_def simp flip: set_mset_eq_empty_iff)

text \<open>
  C29: Once \<open>Unregister\<close> has returned, with an error or without, the callback is not running and
  never runs again, in any continuation of any interleaving of registrations, notifications,
  goroutines and other \<open>Unregister\<close> calls.
\<close>

theorem unregistered_callback_is_dead:
  assumes "change_runs init_change evs s" and "change_step s (Finishes c cancel r) s1"
    and "change_runs s1 evs' s2"
  shows "c \<notin> ch_callbacks s2 \<and> (\<forall>t row. (c, t, row) \<notin># ch_tasks s2)"
proof -
  have "change_inv s"
    using assms(1) change_inv_init by (rule change_inv_runs)
  then have "dead_callback c s1"
    using assms(2) dead_callback_finishes [OF _ assms(2)] by auto
  then have "dead_callback c s2"
    using assms(3) by (blast intro: dead_callback_runs)
  then show ?thesis
    by (simp add: dead_callback_def tasks_of_0_iff)
qed

section \<open>A run of one callback, for the witnesses\<close>

definition demo_registered :: "nat change_state" where
  "demo_registered = fst (register_callback (Inr 5) init_change)"

definition demo_notified :: "nat change_state" where
  "demo_notified = change_notified [0] 1 7 demo_registered"

definition demo_deleted :: "nat change_state" where
  "demo_deleted = unregister_delete 0 (demo_notified\<lparr>ch_holder := Some (Entered 0)\<rparr>)"

definition demo_waited :: "nat change_state" where
  "demo_waited = (callback_done 0 1 7 demo_deleted)\<lparr>ch_holder := Some (Waited 0 True)\<rparr>"

definition demo_finished :: "nat change_state" where
  "demo_finished = fst (unregister_finish None True demo_waited)"

lemmas demo_defs = demo_registered_def demo_notified_def demo_deleted_def demo_waited_def
  demo_finished_def register_callback_def unregister_delete_def callback_done_def
  start_callback_def unregister_finish_def init_change_def Let_def

lemma demo_holder [simp]:
  "ch_holder demo_deleted = Some (Deleted 0 True)" "ch_holder demo_waited = Some (Waited 0 True)"
  "ch_tasks demo_deleted = {#(0, 1, 7)#}"
  by (simp_all add: demo_defs)

lemma demo_runs_deleted:
  "change_runs init_change [Registers (Inr 5) (Inr 0), Changes [0] 1 7, Enters 0, Deletes] demo_deleted"
  by (intro change_runs_cons [of _ _ demo_registered] change_runs_cons [of _ _ demo_notified]
      change_runs_cons [of _ _ "demo_notified\<lparr>ch_holder := Some (Entered 0)\<rparr>"]
      change_runs_cons [of _ _ demo_deleted] runs.idle) (simp_all add: demo_defs)

lemma demo_runs_waited: "change_runs demo_deleted [Completes 0 1 7, Waits] demo_waited"
proof -
  have "change_step demo_deleted (Completes 0 1 7) (callback_done 0 1 7 demo_deleted)"
    by simp
  moreover have "change_step (callback_done 0 1 7 demo_deleted) Waits demo_waited"
    unfolding demo_waited_def by (rule change_step.waits) (simp_all add: demo_defs)
  ultimately show ?thesis
    by (blast intro: change_runs_cons runs.idle)
qed

lemma demo_step_finished: "change_step demo_waited (Finishes 0 None (Inr ())) demo_finished"
  by (rule change_step.finishes [of _ _ True]) (simp_all add: demo_finished_def unregister_finish_def)

lemma unregistered_callback_is_dead_witness:
  "0 \<notin> ch_callbacks demo_finished \<and> (\<forall>t row. (0, t, row) \<notin># ch_tasks demo_finished)"
  by (rule unregistered_callback_is_dead [OF change_runs_trans [OF demo_runs_waited demo_runs_deleted]
        demo_step_finished runs.idle])

section \<open>The registration with the operating system\<close>

definition failed_cancel :: "'row change_event \<Rightarrow> bool" where
  "failed_cancel ev = (case ev of Finishes _ cancel _ \<Rightarrow> cancel \<noteq> None | _ \<Rightarrow> False)"

definition tight :: "'row change_state \<Rightarrow> bool" where
  "tight s \<longleftrightarrow> ch_callbacks s = {} \<longrightarrow> ch_handle s \<noteq> 0 \<longrightarrow> must_cancel (ch_holder s)"

lemma tight_step:
  "change_step s ev s' \<Longrightarrow> \<not> failed_cancel ev \<Longrightarrow> tight s \<Longrightarrow> tight s'"
proof (induction rule: change_step.induct)
  case (registers s notify s' r)
  then show ?case
    by (auto simp: tight_def register_callback_def Let_def split: if_splits sum.splits)
next
  case (finishes s d removeIt cancel s' r)
  then show ?case
    by (auto simp: tight_def unregister_finish_def failed_cancel_def
        split: if_splits option.splits)
qed (auto simp: tight_def unregister_delete_def Let_def)

interpretation tight: invariant change_step "\<lambda>ev. \<not> failed_cancel ev" tight
  by unfold_locales (rule tight_step)

lemma tight_runs:
  "change_runs s evs s' \<Longrightarrow> \<not> list_ex failed_cancel evs \<Longrightarrow> tight s \<Longrightarrow> tight s'"
  using tight.runs_keep by (auto simp: list_all_iff list_ex_iff)

text \<open>
  C30: The system holds at most one registration, the one the package handle names, and holds one
  whenever a callback is registered; and while no cancellation fails, it holds none once the last
  callback is unregistered. So no failed or repeated call leaks a registration or loses one.
\<close>

theorem change_registration_exact:
  assumes "change_runs init_change evs s"
  shows "ch_live s = (if ch_handle s = 0 then {} else {ch_handle s}) \<and>
    (ch_callbacks s = {} \<or> ch_live s \<noteq> {}) \<and>
    (list_ex failed_cancel evs \<or> ch_holder s \<noteq> None \<or> (ch_live s = {}) = (ch_callbacks s = {}))"
proof -
  have inv: "change_inv s"
    using assms change_inv_init by (rule change_inv_runs)
  have tight: "tight s" if "\<not> list_ex failed_cancel evs"
    using tight_runs [OF assms that] by (simp add: tight_def init_change_def)
  show ?thesis
    using inv tight by (auto simp: change_inv_def tight_def)
qed

lemma change_registration_exact_witness:
  "ch_live demo_deleted = (if ch_handle demo_deleted = 0 then {} else {ch_handle demo_deleted})"
  using change_registration_exact [OF demo_runs_deleted] by simp

section \<open>Unregistering returns, unless the callback itself calls it\<close>

lemma leaving_step_tasks:
  "change_step s ev s' \<Longrightarrow> c \<notin> ch_callbacks s \<Longrightarrow> c < ch_allocated s \<Longrightarrow> tasks_of c s' \<le> tasks_of c s"
proof (induction rule: change_step.induct)
  case (registers s notify s' r)
  then show ?case
    by (auto simp: register_callback_def Let_def split: if_splits sum.splits)
next
  case (finishes s d removeIt cancel s' r)
  then show ?case
    by (auto simp: unregister_finish_def split: if_splits option.splits)
qed (auto simp: unregister_delete_def Let_def tasks_of_done count_list_0_iff)

lemma unregister_drains:
  assumes "change_inv s" and "ch_holder s = Some (Deleted c removeIt)" and "tasks_of c s = n"
  shows "\<exists>evs s'. change_runs s evs s' \<and> ch_holder s' = None \<and> length evs = n + 2"
  using assms
proof (induction n arbitrary: s)
  case 0
  let ?s1 = "s\<lparr>ch_holder := Some (Waited c removeIt)\<rparr>"
  obtain s' r where fin: "unregister_finish None removeIt ?s1 = (s', r)"
    by fastforce
  have "ch_wait s c = 0"
    using 0 by (simp add: change_inv_def)
  then have "change_step s Waits ?s1"
    using 0 by auto
  moreover have "change_step ?s1 (Finishes c None r) s'"
    using fin by auto
  moreover have "ch_holder s' = None"
    using fin by (auto simp: unregister_finish_def split: if_splits)
  ultimately have "change_runs s [Waits, Finishes c None r] s' \<and> ch_holder s' = None"
    by (blast intro: change_runs_cons runs.idle)
  then show ?case
    by fastforce
next
  case (Suc n)
  then have "tasks_of c s \<noteq> 0"
    by simp
  then obtain t row where task: "(c, t, row) \<in># ch_tasks s"
    by (auto simp: tasks_of_0_iff)
  let ?s1 = "callback_done c t row s"
  have step: "change_step s (Completes c t row) ?s1"
    using task by simp
  have "change_inv ?s1" "ch_holder ?s1 = Some (Deleted c removeIt)" "tasks_of c ?s1 = n"
    using change_inv_step [OF step] Suc.prems task by (simp_all add: tasks_of_done)
  then obtain evs s' where "change_runs ?s1 evs s'" "ch_holder s' = None" "length evs = n + 2"
    using Suc.IH by blast
  then show ?case
    using change_runs_cons [OF step] by (metis add_Suc length_Cons)
qed

text \<open>
  C31: An \<open>Unregister\<close> that has deleted its callback can always return: no step starts another run of
  the callback, and once the runs already started are over two more steps release the mutex.
\<close>

theorem unregister_returns:
  assumes "change_runs init_change evs s" and "ch_holder s = Some (Deleted c removeIt)"
  shows "(\<exists>evs' s'. change_runs s evs' s' \<and> ch_holder s' = None \<and> length evs' = tasks_of c s + 2) \<and>
    (\<forall>ev s'. change_step s ev s' \<longrightarrow> tasks_of c s' \<le> tasks_of c s)"
proof -
  have inv: "change_inv s"
    using assms(1) change_inv_init by (rule change_inv_runs)
  then have "c \<notin> ch_callbacks s" "c < ch_allocated s"
    using assms(2) by (auto simp: change_inv_def)
  then show ?thesis
    using unregister_drains [OF inv assms(2) refl] leaving_step_tasks by blast
qed

lemma unregister_returns_witness:
  "\<exists>evs' s'. change_runs demo_deleted evs' s' \<and> ch_holder s' = None \<and>
     length evs' = tasks_of 0 demo_deleted + 2"
  using unregister_returns [OF demo_runs_deleted demo_holder(1)] by simp

definition self_waiting :: "nat \<Rightarrow> bool \<Rightarrow> nat \<Rightarrow> 'row \<Rightarrow> 'row change_state \<Rightarrow> bool" where
  "self_waiting c removeIt t row s \<longleftrightarrow>
     ch_holder s = Some (Deleted c removeIt) \<and> (c, t, row) \<in># ch_tasks s"

lemma self_waiting_step:
  "change_step s ev s' \<Longrightarrow> change_inv s \<Longrightarrow> ev \<noteq> Completes c t row \<Longrightarrow>
     self_waiting c removeIt t row s \<Longrightarrow> self_waiting c removeIt t row s'"
proof (induction rule: change_step.induct)
  case (waits s d b)
  have "ch_wait s c \<noteq> 0"
    using waits tasks_of_0_iff [of c s] by (auto simp: self_waiting_def change_inv_def)
  then show ?case
    using waits by (auto simp: self_waiting_def)
next
  case (completes d u x s)
  then have "(c, t, row) \<in># ch_tasks s - {#(d, u, x)#}"
    by (auto simp: self_waiting_def in_diff_count)
  then show ?case
    using completes by (simp add: self_waiting_def callback_done_def)
qed (auto simp: self_waiting_def)

interpretation self_waiting: invariant change_step "\<lambda>ev. ev \<noteq> Completes c t row"
  "\<lambda>s. change_inv s \<and> self_waiting c removeIt t row s" for c removeIt t row
  by unfold_locales (auto intro: change_inv_step self_waiting_step)

lemma self_waiting_runs:
  "change_runs s evs s' \<Longrightarrow> change_inv s \<Longrightarrow> Completes c t row \<notin> set evs \<Longrightarrow>
     self_waiting c removeIt t row s \<Longrightarrow> self_waiting c removeIt t row s'"
  using self_waiting.runs_keep [of s evs s' c t row removeIt] by (auto simp: list_all_iff)

text \<open>
  A callback that calls \<open>Unregister\<close> on itself never returns: as its run completes only after the
  call, the call waits for ever, and it keeps the outer mutex, so from then on no callback can be
  registered or unregistered.
\<close>

theorem unregister_from_callback_deadlocks:
  assumes "change_runs init_change evs s" and "ch_holder s = Some (Deleted c removeIt)"
    and "(c, t, row) \<in># ch_tasks s"
    and "change_runs s evs' s'" and "Completes c t row \<notin> set evs'"
  shows "ch_holder s' = Some (Deleted c removeIt) \<and> \<not> change_step s' Waits s'' \<and>
    \<not> change_step s' (Enters d) s'' \<and> \<not> change_step s' (Registers notify r) s''"
proof -
  have inv: "change_inv s"
    using assms(1) change_inv_init by (rule change_inv_runs)
  have self: "self_waiting c removeIt t row s'"
    using assms(2,3,5) by (intro self_waiting_runs [OF assms(4) inv]) (simp_all add: self_waiting_def)
  have "change_inv s'"
    using assms(4) inv by (rule change_inv_runs)
  then have "ch_wait s' c \<noteq> 0"
    using self tasks_of_0_iff [of c s'] by (auto simp: self_waiting_def change_inv_def)
  then show ?thesis
    using self by (auto simp: self_waiting_def)
qed

lemma unregister_from_callback_deadlocks_witness:
  "\<not> change_step demo_deleted Waits demo_deleted"
  using unregister_from_callback_deadlocks
    [OF demo_runs_deleted demo_holder(1) _ runs.idle, of 1 7 demo_deleted]
  by simp

section \<open>The three handlers of the package\<close>

text \<open>
  The package variables of the three files, and the calls a client makes: \<open>Unregister\<close> is written for
  a caller that meets no other goroutine. Each call works on the variables of its own file.
\<close>

record ('r, 'i, 'a) winipcfg_changes =
  routeChange :: "'r change_state"
  interfaceChange :: "'i change_state"
  unicastAddressChange :: "'a change_state"

definition RegisterRouteChangeCallback ::
  "u64 outcome \<Rightarrow> ('r, 'i, 'a) winipcfg_changes \<Rightarrow> ('r, 'i, 'a) winipcfg_changes \<times> nat outcome" where
  "RegisterRouteChangeCallback notify w =
     (let (s, r) = register_callback notify (routeChange w) in (w\<lparr>routeChange := s\<rparr>, r))"

definition RegisterInterfaceChangeCallback ::
  "u64 outcome \<Rightarrow> ('r, 'i, 'a) winipcfg_changes \<Rightarrow> ('r, 'i, 'a) winipcfg_changes \<times> nat outcome" where
  "RegisterInterfaceChangeCallback notify w =
     (let (s, r) = register_callback notify (interfaceChange w) in (w\<lparr>interfaceChange := s\<rparr>, r))"

definition RegisterUnicastAddressChangeCallback ::
  "u64 outcome \<Rightarrow> ('r, 'i, 'a) winipcfg_changes \<Rightarrow> ('r, 'i, 'a) winipcfg_changes \<times> nat outcome" where
  "RegisterUnicastAddressChangeCallback notify w =
     (let (s, r) = register_callback notify (unicastAddressChange w)
      in (w\<lparr>unicastAddressChange := s\<rparr>, r))"

definition RouteChangeCallback_Unregister ::
  "failure option \<Rightarrow> nat \<Rightarrow> ('r, 'i, 'a) winipcfg_changes \<Rightarrow>
   (('r, 'i, 'a) winipcfg_changes \<times> unit outcome) option" where
  "RouteChangeCallback_Unregister cancel c w =
     map_option (\<lambda>(s, r). (w\<lparr>routeChange := s\<rparr>, r)) (unregister_alone cancel c (routeChange w))"

definition InterfaceChangeCallback_Unregister ::
  "failure option \<Rightarrow> nat \<Rightarrow> ('r, 'i, 'a) winipcfg_changes \<Rightarrow>
   (('r, 'i, 'a) winipcfg_changes \<times> unit outcome) option" where
  "InterfaceChangeCallback_Unregister cancel c w =
     map_option (\<lambda>(s, r). (w\<lparr>interfaceChange := s\<rparr>, r)) (unregister_alone cancel c (interfaceChange w))"

definition UnicastAddressChangeCallback_Unregister ::
  "failure option \<Rightarrow> nat \<Rightarrow> ('r, 'i, 'a) winipcfg_changes \<Rightarrow>
   (('r, 'i, 'a) winipcfg_changes \<times> unit outcome) option" where
  "UnicastAddressChangeCallback_Unregister cancel c w =
     map_option (\<lambda>(s, r). (w\<lparr>unicastAddressChange := s\<rparr>, r))
       (unregister_alone cancel c (unicastAddressChange w))"

definition routeChanged ::
  "nat list \<Rightarrow> nat \<Rightarrow> 'r \<Rightarrow> ('r, 'i, 'a) winipcfg_changes \<Rightarrow> ('r, 'i, 'a) winipcfg_changes" where
  "routeChanged order t row w = w\<lparr>routeChange := change_notified order t row (routeChange w)\<rparr>"

definition interfaceChanged ::
  "nat list \<Rightarrow> nat \<Rightarrow> 'i \<Rightarrow> ('r, 'i, 'a) winipcfg_changes \<Rightarrow> ('r, 'i, 'a) winipcfg_changes" where
  "interfaceChanged order t row w =
     w\<lparr>interfaceChange := change_notified order t row (interfaceChange w)\<rparr>"

definition unicastAddressChanged ::
  "nat list \<Rightarrow> nat \<Rightarrow> 'a \<Rightarrow> ('r, 'i, 'a) winipcfg_changes \<Rightarrow> ('r, 'i, 'a) winipcfg_changes" where
  "unicastAddressChanged order t row w =
     w\<lparr>unicastAddressChange := change_notified order t row (unicastAddressChange w)\<rparr>"

text \<open>The whole call is the four steps in a row.\<close>

lemma unregister_alone_runs:
  assumes "ch_holder s = None" and "c < ch_allocated s"
    and "unregister_alone cancel c s = Some (s', r)"
  shows "change_runs s [Enters c, Deletes, Waits, Finishes c cancel r] s'"
proof -
  let ?s1 = "s\<lparr>ch_holder := Some (Entered c)\<rparr>"
  obtain b where b: "ch_holder (unregister_delete c s) = Some (Deleted c b)"
    by (simp add: unregister_delete_def Let_def)
  have same: "unregister_delete c ?s1 = unregister_delete c s"
    by (simp add: unregister_delete_def Let_def)
  let ?s2 = "unregister_delete c s"
  let ?s3 = "?s2\<lparr>ch_holder := Some (Waited c b)\<rparr>"
  have fin: "unregister_finish cancel b ?s2 = (s', r)" and idle: "ch_wait ?s2 c = 0"
    using assms(3) b by (auto simp: unregister_alone_def Let_def split: if_splits)
  have "unregister_finish cancel b ?s3 = (s', r)"
    using fin by (auto simp: unregister_finish_def split: if_splits option.splits)
  then have "change_step ?s3 (Finishes c cancel r) s'"
    by auto
  moreover have "change_step ?s2 Waits ?s3"
    using b idle by auto
  moreover have "change_step ?s1 Deletes ?s2"
    using same by auto
  moreover have "change_step s (Enters c) ?s1"
    using assms by auto
  ultimately show ?thesis
    by (blast intro: change_runs_cons runs.idle)
qed

text \<open>
  A notification starts every registered callback exactly once with the row it carries, in
  whichever order the map is ranged over, and nothing else; the other two handlers are untouched.
\<close>

theorem notification_reaches_every_callback:
  assumes "distinct order" and "set order = ch_callbacks (interfaceChange w)"
  shows "(\<forall>c. count (ch_tasks (interfaceChange (interfaceChanged order t row w))) (c, t, row) =
      count (ch_tasks (interfaceChange w)) (c, t, row) +
        (if c \<in> ch_callbacks (interfaceChange w) then 1 else 0)) \<and>
    routeChange (interfaceChanged order t row w) = routeChange w \<and>
    unicastAddressChange (interfaceChanged order t row w) = unicastAddressChange w"
proof -
  have "count (image_mset (\<lambda>c. (c, t, row)) (mset order)) (c, t, row) =
      (if c \<in> set order then 1 else 0)" for c
    using assms(1) by (induction order) auto
  then show ?thesis
    using assms(2) by (simp add: interfaceChanged_def)
qed

lemma notification_reaches_every_callback_witness:
  "count (ch_tasks (interfaceChange (interfaceChanged [0] 1 7
     \<lparr>routeChange = (init_change :: nat change_state), interfaceChange = demo_registered,
      unicastAddressChange = (init_change :: nat change_state)\<rparr>))) (0, 1, 7) = 1"
  using notification_reaches_every_callback
    [of "[0]" "\<lparr>routeChange = (init_change :: nat change_state), interfaceChange = demo_registered,
        unicastAddressChange = (init_change :: nat change_state)\<rparr>" 1 7]
  by (simp add: demo_defs)

end
