(* ===== verification/Win_Routes.thy ===== *)
theory Win_Routes
  imports Win_Change Steps
begin

text \<open>
  The route table on Windows as it follows the system's: \<open>InitRoute\<close> of \<open>model/route_windows.go\<close> registers
  one callback for changes of interfaces and one for changes of routes, and each of their runs, a
  goroutine of its own, assigns \<open>FindRoutes()\<close> to the package variable \<open>Routes\<close>: it reads the system's
  table and stores the result later. \<open>'t\<close> is what \<open>FindRoutes\<close> returns; the rows are ignored.
\<close>

section \<open>State\<close>

datatype ('r, 'i) origin = OfRoute nat nat 'r | OfInterface nat nat 'i

datatype 't reader = Fresh | Held 't | Ended

record ('r, 'i, 'a, 't) route_watch =
  rt_changes :: "('r, 'i, 'a) winipcfg_changes"
  rt_table :: 't
  rt_Routes :: 't
  rt_running :: "(('r, 'i) origin \<times> 't reader) list"

text \<open>\<open>InitRoute\<close>: the errors of both calls are dropped, and the table is not read.\<close>

definition InitRoute_windows ::
  "u64 outcome \<Rightarrow> u64 outcome \<Rightarrow> ('r, 'i, 'a, 't) route_watch \<Rightarrow> ('r, 'i, 'a, 't) route_watch" where
  "InitRoute_windows notify_interface notify_route s =
     s\<lparr>rt_changes :=
         fst (RegisterRouteChangeCallback notify_route
                (fst (RegisterInterfaceChangeCallback notify_interface (rt_changes s))))\<rparr>"

text \<open>The callback: \<open>FindRoutes()\<close> and the assignment, then the end of the goroutine.\<close>

definition callback_reads :: "nat \<Rightarrow> ('r, 'i, 'a, 't) route_watch \<Rightarrow> ('r, 'i, 'a, 't) route_watch" where
  "callback_reads k s = s\<lparr>rt_running := (rt_running s)[k := (fst (rt_running s ! k), Held (rt_table s))]\<rparr>"

fun origin_done :: "('r, 'i) origin \<Rightarrow> ('r, 'i, 'a) winipcfg_changes \<Rightarrow> ('r, 'i, 'a) winipcfg_changes" where
  "origin_done (OfRoute c n row) w = w\<lparr>routeChange := callback_done c n row (routeChange w)\<rparr>"
| "origin_done (OfInterface c n row) w = w\<lparr>interfaceChange := callback_done c n row (interfaceChange w)\<rparr>"

definition callback_stores :: "nat \<Rightarrow> 't \<Rightarrow> ('r, 'i, 'a, 't) route_watch \<Rightarrow> ('r, 'i, 'a, 't) route_watch" where
  "callback_stores k t s =
     s\<lparr>rt_Routes := t, rt_changes := origin_done (fst (rt_running s ! k)) (rt_changes s),
       rt_running := (rt_running s)[k := (fst (rt_running s ! k), Ended)]\<rparr>"

section \<open>Steps\<close>

datatype ('r, 'i, 't) route_event =
    TableChanges 't
  | RouteNotified "nat list" nat 'r
  | InterfaceNotified "nat list" nat 'i
  | Reads nat
  | Stores nat

inductive route_step ::
  "('r, 'i, 'a, 't) route_watch \<Rightarrow> ('r, 'i, 't) route_event \<Rightarrow> ('r, 'i, 'a, 't) route_watch \<Rightarrow> bool" where
  table: "route_step s (TableChanges t) (s\<lparr>rt_table := t\<rparr>)"
| route: "distinct order \<Longrightarrow> set order = ch_callbacks (routeChange (rt_changes s)) \<Longrightarrow>
    route_step s (RouteNotified order n row)
      (s\<lparr>rt_changes := routeChanged order n row (rt_changes s),
         rt_running := rt_running s @ map (\<lambda>c. (OfRoute c n row, Fresh)) order\<rparr>)"
| interface: "distinct order \<Longrightarrow> set order = ch_callbacks (interfaceChange (rt_changes s)) \<Longrightarrow>
    route_step s (InterfaceNotified order n irow)
      (s\<lparr>rt_changes := interfaceChanged order n irow (rt_changes s),
         rt_running := rt_running s @ map (\<lambda>c. (OfInterface c n irow, Fresh)) order\<rparr>)"
| reads: "k < length (rt_running s) \<Longrightarrow> snd (rt_running s ! k) = Fresh \<Longrightarrow>
    route_step s (Reads k) (callback_reads k s)"
| stores: "k < length (rt_running s) \<Longrightarrow> snd (rt_running s ! k) = Held t \<Longrightarrow>
    route_step s (Stores k) (callback_stores k t s)"

inductive_simps route_step_simps [simp]:
  "route_step s (TableChanges t) s'"
  "route_step s (RouteNotified order n row) s'"
  "route_step s (InterfaceNotified order n irow) s'"
  "route_step s (Reads k) s'"
  "route_step s (Stores k) s'"

fun notification :: "('r, 'i, 't) route_event \<Rightarrow> bool" where
  "notification (RouteNotified order _ _) = (order \<noteq> [])"
| "notification (InterfaceNotified order _ _) = (order \<noteq> [])"
| "notification _ = False"

fun changes_table :: "('r, 'i, 't) route_event \<Rightarrow> bool" where
  "changes_table (TableChanges _) = True"
| "changes_table _ = False"

definition quiet :: "('r, 'i, 'a, 't) route_watch \<Rightarrow> bool" where
  "quiet s \<longleftrightarrow> (\<forall>x \<in> set (rt_running s). snd x = Ended)"

section \<open>Before the first notification\<close>

text \<open>The table is never read before a notification starts a callback.\<close>

definition untouched :: "'t \<Rightarrow> ('r, 'i, 'a, 't) route_watch \<Rightarrow> bool" where
  "untouched t s \<longleftrightarrow> rt_Routes s = t \<and> rt_running s = []"

interpretation untouched: invariant route_step "\<lambda>ev. \<not> notification ev" "untouched t" for t
  by unfold_locales (erule route_step.cases; auto simp: untouched_def)

lemma routes_unread:
  "runs route_step s evs s' \<Longrightarrow> untouched t s \<Longrightarrow> \<not> list_ex notification evs \<Longrightarrow> rt_Routes s' = t"
  using untouched.runs_keep [of s evs s' t] by (auto simp: list_all_iff list_ex_iff untouched_def)

section \<open>After a notification\<close>

text \<open>
  With the table settled at \<open>t\<close>, every callback that has read holds \<open>t\<close>; of the \<open>n\<close> goroutines of before
  none runs, and once one of the later ones has ended, \<open>Routes\<close> is \<open>t\<close>.
\<close>

definition following :: "nat \<Rightarrow> 't \<Rightarrow> ('r, 'i, 'a, 't) route_watch \<Rightarrow> bool" where
  "following n t s \<longleftrightarrow>
     rt_table s = t \<and> n < length (rt_running s) \<and>
     (\<forall>k < length (rt_running s). \<forall>u. snd (rt_running s ! k) = Held u \<longrightarrow> u = t) \<and>
     (snd (rt_running s ! n) = Ended \<longrightarrow> rt_Routes s = t)"

lemma following_step:
  assumes "route_step s ev s'" and "\<not> changes_table ev" and "following n t s"
  shows "following n t s'"
  using assms
proof (induction rule: route_step.induct)
  case (reads k s)
  then show ?case
    by (auto simp: following_def callback_reads_def nth_list_update)
next
  case (stores k s u)
  then show ?case
    by (auto simp: following_def callback_stores_def nth_list_update)
qed (auto simp: following_def nth_append)

interpretation following: invariant route_step "\<lambda>ev. \<not> changes_table ev" "following n t" for n t
  by unfold_locales (rule following_step)

lemma following_start:
  assumes "quiet s" and "route_step s ev s'" and "notification ev"
  shows "following (length (rt_running s)) (rt_table s') s'"
proof -
  have over: "snd (rt_running s ! k) = Ended" if "k < length (rt_running s)" for k
    using assms(1) that by (simp add: quiet_def)
  show ?thesis
    using assms(2,3) by (cases ev) (auto simp: following_def nth_append over)
qed

text \<open>
  C28: on Windows the routes follow the system's table once callbacks do not overlap: when a
  notification arrives while no callback runs and the table does not change any more, then as soon
  as all callbacks have ended \<open>Routes\<close> is the system's table, however they interleave and however many
  notifications follow. Before the first notification \<open>Routes\<close> is what it was before \<open>InitRoute\<close>.
\<close>

theorem routes_follow_table:
  assumes "runs route_step (InitRoute_windows ni nr s) evs s0" and "rt_running s = []"
    and "quiet s0" and "route_step s0 ev s1" and "notification ev"
    and "runs route_step s1 evs' s2" and "\<not> list_ex changes_table evs'" and "quiet s2"
  shows "rt_Routes s2 = rt_table s2 \<and> (list_ex notification evs \<or> rt_Routes s0 = rt_Routes s)"
proof
  have "following (length (rt_running s0)) (rt_table s1) s2"
    using following.runs_keep [OF assms(6)] following_start [OF assms(3-5)] assms(7)
    by (auto simp: list_all_iff list_ex_iff)
  with assms(8) show "rt_Routes s2 = rt_table s2"
    by (auto simp: following_def quiet_def)
  show "list_ex notification evs \<or> rt_Routes s0 = rt_Routes s"
    using routes_unread [OF assms(1), of "rt_Routes s"] assms(2)
    by (auto simp: untouched_def InitRoute_windows_def)
qed

section \<open>Runs\<close>

fun route_exec ::
  "('r, 'i, 't) route_event \<Rightarrow> ('r, 'i, 'a, 't) route_watch \<Rightarrow> ('r, 'i, 'a, 't) route_watch option" where
  "route_exec (TableChanges t) s = Some (s\<lparr>rt_table := t\<rparr>)"
| "route_exec (RouteNotified order n row) s =
     (if distinct order \<and> set order = ch_callbacks (routeChange (rt_changes s))
      then Some (s\<lparr>rt_changes := routeChanged order n row (rt_changes s),
                   rt_running := rt_running s @ map (\<lambda>c. (OfRoute c n row, Fresh)) order\<rparr>)
      else None)"
| "route_exec (InterfaceNotified order n irow) s =
     (if distinct order \<and> set order = ch_callbacks (interfaceChange (rt_changes s))
      then Some (s\<lparr>rt_changes := interfaceChanged order n irow (rt_changes s),
                   rt_running := rt_running s @ map (\<lambda>c. (OfInterface c n irow, Fresh)) order\<rparr>)
      else None)"
| "route_exec (Reads k) s =
     (if k < length (rt_running s) \<and> snd (rt_running s ! k) = Fresh then Some (callback_reads k s) else None)"
| "route_exec (Stores k) s =
     (if k < length (rt_running s)
      then (case snd (rt_running s ! k) of Held t \<Rightarrow> Some (callback_stores k t s) | _ \<Rightarrow> None)
      else None)"

lemma route_exec_step: "route_exec ev s = Some s' \<Longrightarrow> route_step s ev s'"
  by (cases ev) (auto split: if_splits reader.splits)

lemma route_exec_runs: "exec_events route_exec evs s = Some s' \<Longrightarrow> runs route_step s evs s'"
proof (induction evs arbitrary: s)
  case Nil
  then show ?case by (auto intro: runs.idle)
next
  case (Cons ev evs)
  then show ?case by (auto simp: bind_eq_Some_conv intro: runs_cons route_exec_step)
qed

definition demo_watch :: "(unit, unit, unit, nat) route_watch" where
  "demo_watch =
     \<lparr>rt_changes = \<lparr>routeChange = init_change, interfaceChange = init_change, unicastAddressChange = init_change\<rparr>,
      rt_table = 1, rt_Routes = 0, rt_running = []\<rparr>"

definition demo_init :: "(unit, unit, unit, nat) route_watch" where
  "demo_init = InitRoute_windows (Inr 5) (Inr 6) demo_watch"

lemmas demo_watch_defs = demo_init_def demo_watch_def InitRoute_windows_def RegisterRouteChangeCallback_def
  RegisterInterfaceChangeCallback_def register_callback_def init_change_def Let_def
  routeChanged_def interfaceChanged_def start_callback_def callback_reads_def callback_stores_def callback_done_def

text \<open>
  When two callbacks overlap, the one that has read the older table may store last: every callback
  has ended, the system has notified every change, and \<open>Routes\<close> stays stale.
\<close>

definition stale_run :: "(unit, unit, nat) route_event list" where
  "stale_run =
     [RouteNotified [0] 0 (), Reads 0, TableChanges 2, RouteNotified [0] 0 (), Reads 1, Stores 1, Stores 0]"

theorem routes_go_stale:
  "\<exists>s. exec_events route_exec stale_run demo_init = Some s \<and> quiet s \<and> rt_table s = 2 \<and> rt_Routes s = 1"
  by (simp add: stale_run_def demo_watch_defs quiet_def)

definition fresh_run :: "(unit, unit, nat) route_event list" where
  "fresh_run = [Reads 0, Stores 0]"

lemma routes_follow_table_witness:
  "\<exists>s1 s2. route_exec (InterfaceNotified [0] 0 ()) demo_init = Some s1 \<and>
     exec_events route_exec fresh_run s1 = Some s2 \<and> rt_Routes s2 = rt_table s2 \<and> rt_table s2 = 1"
proof -
  define s1 where "s1 = the (route_exec (InterfaceNotified [0] 0 ()) demo_init)"
  define s2 where "s2 = the (exec_events route_exec fresh_run s1)"
  have s1: "route_exec (InterfaceNotified [0] 0 ()) demo_init = Some s1"
    by (simp add: s1_def demo_watch_defs)
  have s2: "exec_events route_exec fresh_run s1 = Some s2" "quiet s2" "rt_table s2 = 1"
    by (simp_all add: s2_def s1_def fresh_run_def demo_watch_defs quiet_def)
  have start: "runs route_step (InitRoute_windows (Inr 5) (Inr 6) demo_watch) [] demo_init"
    by (simp add: demo_init_def runs.idle)
  have quiet: "rt_running demo_watch = []" "quiet demo_init"
    by (simp_all add: demo_watch_def demo_init_def InitRoute_windows_def quiet_def)
  have "rt_Routes s2 = rt_table s2"
    using routes_follow_table [OF start quiet route_exec_step [OF s1] _ route_exec_runs [OF s2(1)] _ s2(2)]
    by (simp add: fresh_run_def)
  with s1 s2 show ?thesis by blast
qed

end
