(* ===== verification/Checksum.thy ===== *)
theory Checksum
  imports Go_Net
begin

text \<open>
  \<open>tool/tool.go\<close>: the Internet checksum over a byte slice, its TCP variant, the conversion of an
  IPv4 address to a 32-bit number, and the classification of a parsed IP header. The sums are
  kept in 32-bit words, as in the code; the specification is the ones' complement sum of the
  16-bit big-endian words over the natural numbers.
\<close>

section \<open>The two checksum functions\<close>

text \<open>The loop over pairs of bytes: \<open>sum += uint32(data[i])<<8 | uint32(data[i+1])\<close>.\<close>

fun sum_words_or :: "u32 \<Rightarrow> bytes \<Rightarrow> u32" where
  "sum_words_or acc (a # b # rest) = sum_words_or (acc + (push_bit 8 (ucast a) OR ucast b)) rest"
| "sum_words_or acc _ = acc"

text \<open>The loop \<open>for (sum >> 16) > 0 { sum = (sum & 0xffff) + (sum >> 16) }\<close>.\<close>

lemma fold_carry_decreases:
  assumes "0 < drop_bit 16 (s :: u32)"
  shows "unat ((s AND 0xffff) + drop_bit 16 s) < unat s"
    and "unat ((s AND 0xffff) + drop_bit 16 s) = unat s mod 65536 + unat s div 65536"
proof -
  have pos: "0 < unat s div 65536"
    using assms by (metis unat_high16 unat_gt_0 word_gt_0)
  have bound: "unat s < 2 ^ 32" using unsigned_less [of s] by simp
  have small: "unat s mod 65536 + unat s div 65536 < 2 ^ 32"
    using mod_less_divisor [of 65536 "unat s"] less_mult_imp_div_less [of "unat s" 65536 65536] bound
    by simp
  then show eq: "unat ((s AND 0xffff) + drop_bit 16 s) = unat s mod 65536 + unat s div 65536"
    by (subst unat_add_lem [THEN iffD1]) (simp_all add: word_nat)
  show "unat ((s AND 0xffff) + drop_bit 16 s) < unat s"
    unfolding eq using pos div_mult_mod_eq [of "unat s" 65536] by linarith
qed

function fold_carry :: "u32 \<Rightarrow> u32" where
  "fold_carry s =
     (if 0 < drop_bit 16 s then fold_carry ((s AND 0xffff) + drop_bit 16 s) else s)"
  by pat_completeness auto
termination
  by (relation "measure unat") (auto simp: fold_carry_decreases(1))

declare fold_carry.simps [simp del]

definition CalculateChecksum :: "bytes \<Rightarrow> u16" where
  "CalculateChecksum data =
     (let total = sum_words_or 0 data;
          total = (if length data mod 2 \<noteq> 0 then total + push_bit 8 (ucast (last data)) else total)
      in ucast (NOT (fold_carry total)))"

text \<open>The TCP variant: \<open>word := uint32(data[i])<<8 + uint32(data[i+1])\<close>; an odd last byte is
  added unshifted.\<close>

fun sum_words_plus :: "u32 \<Rightarrow> bytes \<Rightarrow> u32" where
  "sum_words_plus acc (a # b # rest) =
     sum_words_plus (acc + (push_bit 8 (ucast a) + ucast b)) rest"
| "sum_words_plus acc _ = acc"

definition CalculateTcpChecksum :: "bytes \<Rightarrow> u16" where
  "CalculateTcpChecksum data =
     (let total = sum_words_plus 0 data;
          total = (if length data mod 2 \<noteq> 0 then total + ucast (last data) else total)
      in NOT (ucast (fold_carry total)))"

section \<open>Specification\<close>

fun be_sum :: "bytes \<Rightarrow> nat" where
  "be_sum (a # b # rest) = unat a * 256 + unat b + be_sum rest"
| "be_sum [a] = unat a * 256"
| "be_sum [] = 0"

text \<open>The ones' complement sum of a total: zero only for zero, else a residue in 1..65535.\<close>

definition ones_fold :: "nat \<Rightarrow> nat" where
  "ones_fold s = (if s = 0 then 0 else (s - 1) mod 65535 + 1)"

lemma ones_fold_le: "ones_fold s \<le> 65535"
  using mod_less_divisor [of 65535 "s - 1"] by (simp add: ones_fold_def Suc_le_eq)

lemma ones_fold_step:
  "ones_fold (s mod 65536 + s div 65536) = ones_fold s"
proof (cases "s = 0")
  case False
  define t where "t = s mod 65536 + s div 65536"
  have s: "s = t + 65535 * (s div 65536)"
    unfolding t_def using div_mult_mod_eq [of s 65536] by linarith
  then have "t \<noteq> 0" using False by auto
  with s have "s - 1 = (t - 1) + 65535 * (s div 65536)" by linarith
  then have "(s - 1) mod 65535 = (t - 1) mod 65535" by simp
  with False \<open>t \<noteq> 0\<close> show ?thesis by (simp add: ones_fold_def t_def)
qed (simp add: ones_fold_def)

lemma unat_fold_carry: "unat (fold_carry s) = ones_fold (unat s)"
proof (induction s rule: fold_carry.induct)
  case (1 s)
  show ?case
  proof (cases "0 < drop_bit 16 s")
    case True
    with 1 show ?thesis
      by (subst fold_carry.simps) (simp add: fold_carry_decreases(2) ones_fold_step)
  next
    case False
    then have "unat s div 65536 = 0"
      by (metis unat_0 unat_high16 word_gt_0)
    then have "unat s < 65536" by (simp add: div_eq_0_iff)
    with False show ?thesis
      by (subst fold_carry.simps) (auto simp: ones_fold_def)
  qed
qed

lemma or_is_plus:
  "(push_bit 8 (ucast (a :: byte)) :: u32) OR ucast (b :: byte) = push_bit 8 (ucast a) + ucast b"
proof (rule disjunctive_add [symmetric])
  fix n
  show "\<not> bit (push_bit 8 (ucast a) :: u32) n \<or> \<not> bit (ucast b :: u32) n"
    by (auto simp: bit_push_bit_iff bit_ucast_iff dest: bit_imp_le_length)
qed

lemma sum_words_same: "sum_words_or acc data = sum_words_plus acc data"
  by (induction acc data rule: sum_words_or.induct) (simp_all add: or_is_plus)

lemma unat_word_pair:
  "unat (push_bit 8 (ucast (a :: byte)) + ucast (b :: byte) :: u32) = unat a * 256 + unat b"
proof -
  have "unat a * 256 + unat b < 2 ^ 32"
    using unat_byte_less [of a] unat_byte_less [of b] by simp
  then show ?thesis
    by (subst unat_add_lem [THEN iffD1]) (simp_all only: word_nat, simp_all)
qed

fun even_sum :: "bytes \<Rightarrow> nat" where
  "even_sum (a # b # rest) = unat a * 256 + unat b + even_sum rest"
| "even_sum _ = 0"

lemma even_sum_le: "even_sum data \<le> 65535 * (length data div 2)"
proof (induction data rule: even_sum.induct)
  case (1 a b rest)
  then show ?case using unat_byte_less [of a] unat_byte_less [of b] by simp
qed auto

lemma unat_sum_words:
  "unat acc + even_sum data < 2 ^ 32 \<Longrightarrow>
   unat (sum_words_plus acc data) = unat acc + even_sum data"
proof (induction acc data rule: sum_words_plus.induct)
  case (1 acc a b rest)
  have "unat (acc + (push_bit 8 (ucast a) + ucast b)) = unat acc + (unat a * 256 + unat b)"
    using 1(2) by (subst unat_add_lem [THEN iffD1]) (simp_all only: unat_word_pair, simp)
  with 1 show ?case by simp
qed auto

lemma be_sum_even_part:
  "be_sum data = even_sum data + (if length data mod 2 \<noteq> 0 then unat (last data) * 256 else 0)"
  by (induction data rule: even_sum.induct) (auto split: if_splits)

lemma be_sum_le: "be_sum data \<le> 65535 * ((length data + 1) div 2)"
proof (induction data rule: be_sum.induct)
  case (1 a b rest)
  then show ?case using unat_byte_less [of a] unat_byte_less [of b] by simp
next
  case (2 a)
  then show ?case using unat_byte_less [of a] by simp
qed auto

lemma unat_not_low16:
  assumes "unat (f :: u32) < 65536"
  shows "unat (ucast (NOT f) :: u16) = 65535 - unat f"
    and "unat (NOT (ucast f :: u16)) = 65535 - unat f"
proof -
  have u: "unat (ucast f :: u16) = unat f"
    using assms by (simp add: unsigned_ucast_eq take_bit_nat_eq_self_iff)
  have "NOT (ucast f :: u16) = ucast (NOT f)"
    by (rule bit_word_eqI) (simp add: bit_ucast_iff bit_not_iff)
  moreover have "NOT (ucast f :: u16) = - 1 - ucast f"
    by (simp add: not_eq_complement)
  then show "unat (NOT (ucast f :: u16)) = 65535 - unat f"
    using u unat_sub [of "ucast f :: u16" "- 1"]
    by (simp add: unsigned_minus_1_eq_mask mask_eq_exp_minus_1)
  ultimately show "unat (ucast (NOT f) :: u16) = 65535 - unat f" by metis
qed

lemma unat_total:
  assumes "length data \<le> 131074" and "length data mod 2 \<noteq> 0 \<Longrightarrow> unat extra \<le> unat (last data) * 256"
  shows "unat (let total = sum_words_plus 0 data
               in if length data mod 2 \<noteq> 0 then total + extra else total) =
         even_sum data + (if length data mod 2 \<noteq> 0 then unat extra else 0)"
proof -
  have "(length data + 1) div 2 \<le> 65537" using assms(1) by simp
  then have "be_sum data \<le> 65535 * 65537"
    by (meson be_sum_le le_trans mult_le_mono2)
  then have "be_sum data < 2 ^ 32" by simp
  then have total: "even_sum data + (if length data mod 2 \<noteq> 0 then unat extra else 0) < 2 ^ 32"
    using assms(2) by (auto simp: be_sum_even_part split: if_splits)
  then have "unat (sum_words_plus 0 data) = even_sum data"
    using unat_sum_words [of 0 data] by (auto split: if_splits)
  with total show ?thesis
    by (auto simp: Let_def unat_add_lem [THEN iffD1])
qed

lemma ones_fold_small: "ones_fold s < 65536"
  using ones_fold_le [of s] by simp

lemma CalculateChecksum_value:
  assumes "length data \<le> 131074"
  shows "unat (CalculateChecksum data) = 65535 - ones_fold (be_sum data)"
proof -
  let ?total = "let total = sum_words_plus 0 data
                in if length data mod 2 \<noteq> 0 then total + push_bit 8 (ucast (last data)) else total"
  have "unat ?total = be_sum data"
    using unat_total [OF assms, of "push_bit 8 (ucast (last data))"]
    by (simp only: word_nat be_sum_even_part) simp
  then have "unat (fold_carry ?total) = ones_fold (be_sum data)"
    by (simp only: unat_fold_carry)
  moreover from this have "unat (fold_carry ?total) < 65536"
    by (simp only: ones_fold_small)
  ultimately show ?thesis
    using unat_not_low16(1) [of "fold_carry ?total"]
    by (simp only: CalculateChecksum_def sum_words_same Let_def)
qed

lemma CalculateTcpChecksum_value:
  assumes "length data \<le> 131074"
  shows "unat (CalculateTcpChecksum data) =
         65535 - ones_fold (even_sum data + (if length data mod 2 \<noteq> 0 then unat (last data) else 0))"
proof -
  let ?total = "let total = sum_words_plus 0 data
                in if length data mod 2 \<noteq> 0 then total + ucast (last data) else total"
  have "unat ?total = even_sum data + (if length data mod 2 \<noteq> 0 then unat (last data) else 0)"
    using unat_total [OF assms, of "ucast (last data)"] by (simp only: word_nat)
  then have "unat (fold_carry ?total) =
      ones_fold (even_sum data + (if length data mod 2 \<noteq> 0 then unat (last data) else 0))"
    by (simp only: unat_fold_carry)
  moreover from this have "unat (fold_carry ?total) < 65536"
    by (simp only: ones_fold_small)
  ultimately show ?thesis
    using unat_not_low16(2) [of "fold_carry ?total"]
    by (simp only: CalculateTcpChecksum_def Let_def)
qed

lemma be_sum_append:
  "even (length xs) \<Longrightarrow> be_sum (xs @ ys) = be_sum xs + be_sum ys"
proof (induction xs rule: be_sum.induct)
  case (2 a)
  then show ?case by simp
qed auto

lemma ones_fold_complement: "ones_fold (s + (65535 - ones_fold s)) = 65535"
proof (cases "s = 0")
  case True
  then show ?thesis by (simp add: ones_fold_def)
next
  case False
  define r where "r = (s - 1) mod 65535"
  have r: "r < 65535" by (simp add: r_def)
  have "s - 1 = (s - 1) div 65535 * 65535 + r"
    unfolding r_def by simp
  with r False have "s + (65535 - (r + 1)) - 1 = 65534 + (s - 1) div 65535 * 65535"
    by linarith
  then have "(s + (65535 - (r + 1)) - 1) mod 65535 = 65534"
    by simp
  with False show ?thesis by (simp add: ones_fold_def r_def)
qed

lemma be_sum_be16: "be_sum (be16 c) = unat c"
  by (simp only: be16_def be_sum.simps unat_hi8) (simp only: unat_lo8, simp)

lemma sum_words_plus_append:
  "even (length xs) \<Longrightarrow> sum_words_plus acc (xs @ ys) = sum_words_plus (sum_words_plus acc xs) ys"
  by (induction acc xs rule: sum_words_plus.induct) auto

lemma even_mod2: "even n \<Longrightarrow> n mod 2 = 0" "even n \<Longrightarrow> Suc n mod 2 = 1"
  by presburger+

lemma checksum_odd_pads_right:
  assumes "even (length w)"
  shows "CalculateChecksum (w @ [x]) = CalculateChecksum (w @ [x, 0])"
  using assms
  by (simp add: CalculateChecksum_def sum_words_same sum_words_plus_append even_mod2 Let_def)

lemma tcp_checksum_odd_pads_left:
  assumes "even (length w)"
  shows "CalculateTcpChecksum (w @ [x]) = CalculateTcpChecksum (w @ [0, x])"
  using assms
  by (simp add: CalculateTcpChecksum_def sum_words_plus_append even_mod2 Let_def)

lemma tcp_checksum_agrees_on_even:
  "even (length data) \<Longrightarrow> CalculateTcpChecksum data = CalculateChecksum data"
proof -
  assume ev: "even (length data)"
  have "NOT (ucast f :: u16) = ucast (NOT f)" for f :: u32
    by (rule bit_word_eqI) (simp add: bit_ucast_iff bit_not_iff)
  with ev show ?thesis
    by (simp add: CalculateTcpChecksum_def CalculateChecksum_def sum_words_same even_mod2 Let_def)
qed

section \<open>Properties of the checksums\<close>



text \<open>
  The checksum of a message of even length that carries its own checksum, in network byte
  order, at its end is 0: what a receiver tests.
\<close>

theorem checksum_verifies:
  assumes "even (length data)" and "length data \<le> 131072"
  shows "CalculateChecksum (data @ be16 (CalculateChecksum data)) = 0"
proof -
  let ?c = "CalculateChecksum data"
  have "be_sum (data @ be16 ?c) = be_sum data + (65535 - ones_fold (be_sum data))"
    using assms by (simp add: be_sum_append be_sum_be16 CalculateChecksum_value)
  then have "unat (CalculateChecksum (data @ be16 ?c)) = 0"
    using assms by (subst CalculateChecksum_value) (simp_all add: ones_fold_complement be16_def)
  then show ?thesis by (simp add: unat_eq_0)
qed

lemma checksum_verifies_witness:
  "CalculateChecksum ([0x45, 0, 0, 0x73] @ be16 (CalculateChecksum [0x45, 0, 0, 0x73])) = 0"
  using checksum_verifies [of "[0x45, 0, 0, 0x73]"] by simp

text \<open>
  The two functions agree on every slice of even length; on a slice of odd length
  \<open>CalculateChecksum\<close> pads with a zero byte on the right (RFC 1071), \<open>CalculateTcpChecksum\<close> pads
  on the left of the last byte, and so the two differ, already on one byte.
\<close>

theorem tcp_checksum_padding:
  assumes "even (length w)"
  shows "CalculateTcpChecksum w = CalculateChecksum w \<and>
         CalculateChecksum (w @ [x]) = CalculateChecksum (w @ [x, 0]) \<and>
         CalculateTcpChecksum (w @ [x]) = CalculateChecksum (w @ [0, x])"
  using assms tcp_checksum_agrees_on_even [of w] tcp_checksum_agrees_on_even [of "w @ [0, x]"]
  by (simp add: checksum_odd_pads_right tcp_checksum_odd_pads_left)

lemma tcp_checksum_padding_witness:
  "CalculateTcpChecksum ([] @ [1]) = CalculateChecksum ([] @ [0, 1]) \<and>
   CalculateTcpChecksum [1] \<noteq> CalculateChecksum [1]"
proof -
  have "CalculateTcpChecksum ([] @ [1]) = CalculateChecksum ([] @ [0, 1])"
    using tcp_checksum_padding [of "[]" 1] by simp
  moreover have "CalculateTcpChecksum [1] \<noteq> CalculateChecksum [1]"
    by code_simp
  ultimately show ?thesis by blast
qed

section \<open>Addresses as numbers\<close>

definition IPToUInt32 :: "IP \<Rightarrow> u32 outcome" where
  "IPToUInt32 ipnr =
     (let bits = split_on (CHR ''.'') (IP_String ipnr)
      in if length bits < 4 then Inl (Panic ''index out of range'')
         else let b = (\<lambda>i. fst (Atoi (bits ! i)))
         in Inr (push_bit 24 (word_of_int (b 0)) + push_bit 16 (word_of_int (b 1)) +
                 push_bit 8 (word_of_int (b 2)) + word_of_int (b 3)))"

text \<open>
  \<open>IPToUInt32\<close> gives the big-endian number of the four octets for every IPv4 address, in
  4-byte and in mapped 16-byte form, and panics (an index out of range) for every other slice,
  nil and IPv6 addresses included.
\<close>

theorem IPToUInt32_spec:
  "(case To4 ip of
      Some v \<Rightarrow> (\<exists>n. IPToUInt32 ip = Inr n \<and>
                  unat n = unat (v ! 0) * 2 ^ 24 + unat (v ! 1) * 2 ^ 16 + unat (v ! 2) * 2 ^ 8 + unat (v ! 3))
    | None \<Rightarrow> IPToUInt32 ip = Inl (Panic ''index out of range''))"
proof (cases "To4 ip")
  case None
  then show ?thesis
    by (simp add: IPToUInt32_def split_on_no_sep [OF IP_String_no_dot])
next
  case (Some v)
  then have "length v = 4" by (rule To4_length)
  then obtain a b c d where v: "v = [a, b, c, d]"
    by (auto simp: length_4_iff)
  have big: "unat x < 2 ^ 63" for x :: byte
    using unat_byte_less [of x] by simp
  have word: "word_of_int (int (unat x)) = (ucast x :: u32)" for x :: byte
    by (simp add: of_nat_unat)
  let ?n = "push_bit 24 (ucast a) + push_bit 16 (ucast b) + push_bit 8 (ucast c) + ucast d :: u32"
  have "IPToUInt32 ip = Inr ?n"
    using Some unfolding v
    by (simp add: IPToUInt32_def IP_String_v4 split_string4 Atoi_itoa [OF big] word)
  moreover have "unat ?n = unat a * 2 ^ 24 + unat b * 2 ^ 16 + unat c * 2 ^ 8 + unat d"
  proof -
    have "unat a * 2 ^ 24 + unat b * 2 ^ 16 + unat c * 2 ^ 8 + unat d < 2 ^ 32"
      using unat_byte_less [of a] unat_byte_less [of b] unat_byte_less [of c] unat_byte_less [of d]
      by simp
    then show ?thesis
      by (subst unat_add_lem [THEN iffD1]; (subst unat_add_lem [THEN iffD1])?;
          (subst unat_add_lem [THEN iffD1])?; simp add: word_nat)
  qed
  ultimately show ?thesis using Some v by simp
qed

section \<open>Parsed IP packets\<close>

text \<open>
  \<open>ParseIpData\<close>. The header parser (\<open>golang.org/x/net/ipv4\<close>) is not part of the repository: it
  is the parameter \<open>parse\<close>, with \<open>proto\<close> the protocol field of its header. An error of the parser
  is raised as a panic. \<open>Data\<close> is never filled.
\<close>

record 'h IpPacket =
  Header :: 'h
  Data :: bytes
  Protocol :: string

definition ParseIpData :: "(bytes \<Rightarrow> 'h outcome) \<Rightarrow> ('h \<Rightarrow> int) \<Rightarrow> bytes \<Rightarrow> 'h IpPacket outcome" where
  "ParseIpData parse proto data =
     (case parse data of
        Inl e \<Rightarrow> Inl (Panic (case e of Err m \<Rightarrow> m | Panic m \<Rightarrow> m))
      | Inr h \<Rightarrow>
          Inr \<lparr>Header = h, Data = [],
               Protocol = (if proto h = 1 then ''icmp'' else if proto h = 6 then ''tcp''
                           else if proto h = 17 then ''udp'' else ''unknown'')\<rparr>)"

end
