(* ===== verification/Doh.thy ===== *)
theory Doh
  imports Prelude
begin

text \<open>
  DNS over HTTPS, \<open>protocol/dns/dohTools.go\<close>, with the raw URL base64 encoding of Go's standard
  library that it puts the query in. The HTTP client and the DNS message parser, used for the log
  only, are parameters.
\<close>

section \<open>Raw URL base64\<close>

definition alphabet :: string where
  "alphabet = ''ABCDEFGHIJKLMNOPQRSTUVWXYZabcdefghijklmnopqrstuvwxyz0123456789-_''"

definition sextet_char :: "nat \<Rightarrow> char" where
  "sextet_char n = alphabet ! n"

fun index_of :: "char \<Rightarrow> string \<Rightarrow> nat option" where
  "index_of c [] = None"
| "index_of c (d # ds) = (if c = d then Some 0 else map_option Suc (index_of c ds))"

definition char_sextet :: "char \<Rightarrow> nat option" where
  "char_sextet c = index_of c alphabet"

fun EncodeToString :: "bytes \<Rightarrow> string" where
  "EncodeToString (a # b # c # rest) =
     (let v = unat a * 65536 + unat b * 256 + unat c
      in [sextet_char (v div 262144), sextet_char (v div 4096 mod 64),
          sextet_char (v div 64 mod 64), sextet_char (v mod 64)] @ EncodeToString rest)"
| "EncodeToString [a, b] =
     (let v = unat a * 65536 + unat b * 256
      in [sextet_char (v div 262144), sextet_char (v div 4096 mod 64), sextet_char (v div 64 mod 64)])"
| "EncodeToString [a] =
     (let v = unat a * 65536 in [sextet_char (v div 262144), sextet_char (v div 4096 mod 64)])"
| "EncodeToString [] = []"

text \<open>The decoding every DNS over HTTPS server applies to the \<open>dns\<close> parameter.\<close>

fun decode_sextets :: "nat list \<Rightarrow> bytes option" where
  "decode_sextets (p # q # r # s # rest) =
     (let v = p * 262144 + q * 4096 + r * 64 + s
      in map_option (\<lambda>bs. [of_nat (v div 65536), of_nat (v div 256), of_nat v] @ bs) (decode_sextets rest))"
| "decode_sextets [p, q, r] =
     (let v = p * 262144 + q * 4096 + r * 64 in Some [of_nat (v div 65536), of_nat (v div 256)])"
| "decode_sextets [p, q] = (let v = p * 262144 + q * 4096 in Some [of_nat (v div 65536)])"
| "decode_sextets [p] = None"
| "decode_sextets [] = Some []"

fun those :: "'a option list \<Rightarrow> 'a list option" where
  "those [] = Some []"
| "those (x # xs) = (case (x, those xs) of (Some a, Some as) \<Rightarrow> Some (a # as) | _ \<Rightarrow> None)"

definition DecodeString :: "string \<Rightarrow> bytes option" where
  "DecodeString s = Option.bind (those (map char_sextet s)) decode_sextets"

lemma char_sextet_char: "n < 64 \<Longrightarrow> char_sextet (sextet_char n) = Some n"
proof -
  have "\<forall>k \<in> set [0..<64]. char_sextet (sextet_char k) = Some k" by code_simp
  then show "n < 64 \<Longrightarrow> ?thesis" by simp
qed

lemma those_sextets: "\<forall>n \<in> set ns. n < 64 \<Longrightarrow> those (map char_sextet (map sextet_char ns)) = Some ns"
  by (induction ns) (auto simp: char_sextet_char)

text \<open>Encoding by way of sextets.\<close>

fun sextets :: "bytes \<Rightarrow> nat list" where
  "sextets (a # b # c # rest) =
     (let v = unat a * 65536 + unat b * 256 + unat c
      in [v div 262144, v div 4096 mod 64, v div 64 mod 64, v mod 64] @ sextets rest)"
| "sextets [a, b] =
     (let v = unat a * 65536 + unat b * 256 in [v div 262144, v div 4096 mod 64, v div 64 mod 64])"
| "sextets [a] = (let v = unat a * 65536 in [v div 262144, v div 4096 mod 64])"
| "sextets [] = []"

lemma EncodeToString_sextets: "EncodeToString bs = map sextet_char (sextets bs)"
  by (induction bs rule: EncodeToString.induct) (simp_all add: Let_def)

lemma three_bytes: "unat (a :: byte) * 65536 + unat (b :: byte) * 256 + unat (c :: byte) < 16777216"
  using unat_byte_less [of a] unat_byte_less [of b] unat_byte_less [of c] by linarith

lemma top_sextet: "v < 16777216 \<Longrightarrow> v div 262144 < (64 :: nat)"
  by (simp add: less_mult_imp_div_less)

lemma sextets_bound: "\<forall>n \<in> set (sextets bs). n < 64"
proof (induction bs rule: sextets.induct)
  case (1 a b c rest)
  then show ?case using three_bytes [of a b c] by (auto simp: Let_def intro: top_sextet)
next
  case (2 a b)
  show ?case using three_bytes [of a b 0] by (auto simp: Let_def intro!: top_sextet)
next
  case (3 a)
  show ?case using three_bytes [of a 0 0] by (auto simp: Let_def intro!: top_sextet)
qed simp

lemma sextet_sum:
  "(v div 262144) * 262144 + (v div 4096 mod 64) * 4096 + (v div 64 mod 64) * 64 + v mod 64 = (v :: nat)"
proof -
  define x y z where "x = v div 64" and "y = x div 64" and "z = y div 64"
  have "v div 262144 = z" "v div 4096 = y" "v div 64 = x"
    by (simp_all add: x_def y_def z_def div_mult2_eq [symmetric])
  moreover have "x * 64 + v mod 64 = v" "y * 64 + x mod 64 = x" "z * 64 + y mod 64 = y"
    by (simp_all add: x_def y_def z_def)
  ultimately show ?thesis by simp
qed

lemma of_nat_byte_mod: "m mod 256 = unat b \<Longrightarrow> (of_nat m :: byte) = b"
  by (simp add: word_unat_eq_iff unat_of_nat del: of_nat_unat)

lemma split_256: "r < 256 \<Longrightarrow> (q * 256 + r) div 256 = (q :: nat) \<and> (q * 256 + r) mod 256 = r"
  by simp

lemma bytes_of_three:
  assumes "v = unat a * 65536 + unat b * 256 + unat c"
  shows "of_nat (v div 65536) = (a :: byte)" and "of_nat (v div 256) = (b :: byte)" and "of_nat v = (c :: byte)"
proof -
  define q where "q = unat a * 256 + unat b"
  have v: "v = q * 256 + unat c" by (simp add: assms q_def)
  have c: "v div 256 = q" "v mod 256 = unat c"
    unfolding v using split_256 [of "unat c" q] unat_byte_less [of c] by auto
  have q: "q div 256 = unat a" "q mod 256 = unat b"
    unfolding q_def using split_256 [of "unat b" "unat a"] unat_byte_less [of b] by auto
  have "v div 65536 = v div 256 div 256" by (simp add: div_mult2_eq [symmetric])
  with c q unat_byte_less [of a] show "of_nat (v div 65536) = a" "of_nat (v div 256) = b" "of_nat v = c"
    by (simp_all only: of_nat_byte_mod mod_less)
qed

lemma decode_sextets: "decode_sextets (sextets bs) = Some bs"
proof (induction bs rule: sextets.induct)
  case (1 a b c rest)
  then show ?case
    using sextet_sum bytes_of_three [of "unat a * 65536 + unat b * 256 + unat c" a b c]
    by (simp only: sextets.simps Let_def append.simps decode_sextets.simps option.map)
next
  case (2 a b)
  define v where "v = unat a * 65536 + unat b * 256"
  have "v mod 64 = 0" by (simp add: v_def mod_eq_0_iff_dvd)
  then show ?case
    using sextet_sum [of v] bytes_of_three [of v a b 0]
    by (simp only: sextets.simps Let_def append.simps decode_sextets.simps option.map v_def [symmetric])
      (simp add: v_def)
next
  case (3 a)
  define v where "v = unat a * 65536"
  have "v div 64 mod 64 = 0" "v mod 64 = 0" by (simp_all add: v_def mod_eq_0_iff_dvd)
  then show ?case
    using sextet_sum [of v] bytes_of_three [of v a 0 0]
    by (simp only: sextets.simps Let_def append.simps decode_sextets.simps option.map v_def [symmetric])
      (simp add: v_def)
qed simp

lemma DecodeString_EncodeToString: "DecodeString (EncodeToString bs) = Some bs"
  unfolding DecodeString_def EncodeToString_sextets
  by (simp only: those_sextets [OF sextets_bound] Option.bind.simps decode_sextets)

section \<open>SendDoh\<close>

text \<open>
  The reply of \<open>http.Get\<close>: an error, or a status and what reading the body gives (the bytes read and
  the error, if any). A panic of the parser or the client is recovered into two nil results.
\<close>

record http_response =
  status :: nat
  body :: bytes
  body_error :: "string option"

definition SendDoh ::
  "(bytes \<Rightarrow> bool) \<Rightarrow> (string \<Rightarrow> http_response outcome) \<Rightarrow> string \<Rightarrow> bytes \<Rightarrow>
   bytes option \<times> string option" where
  "SendDoh unpack_panics http_get dohUrl source =
     (if length source \<le> 0 then (None, Some ''doh: no data'')
      else if unpack_panics source then (None, None)
      else case http_get (dohUrl @ ''?dns='' @ EncodeToString source) of
        Inl (Err e) \<Rightarrow> (None, Some e)
      | Inl (Panic _) \<Rightarrow> (None, None)
      | Inr resp \<Rightarrow> (Some (body resp), body_error resp))"

text \<open>
  C39: the query survives the URL. Every non-empty query is sent in one GET whose \<open>dns\<close> parameter
  decodes to exactly the query, and whatever body is read comes back untouched, with no check of
  the status.
\<close>

theorem doh_query_roundtrip:
  assumes "source \<noteq> []" and "\<not> unpack_panics source"
    and "\<And>enc. DecodeString enc = Some source \<Longrightarrow> http_get (url @ ''?dns='' @ enc) = Inr resp"
  shows "SendDoh unpack_panics http_get url source = (Some (body resp), body_error resp)"
  using assms(1,2) assms(3) [OF DecodeString_EncodeToString] by (simp add: SendDoh_def)

text \<open>A server that answers a query with the query itself, whatever its status.\<close>

definition echo_server :: "string \<Rightarrow> http_response outcome" where
  "echo_server url =
     (case DecodeString (drop 6 url) of
        None \<Rightarrow> Inl (Err ''bad query'')
      | Some q \<Rightarrow> Inr \<lparr>status = 404, body = q, body_error = None\<rparr>)"

lemma doh_query_roundtrip_witness:
  "SendDoh (\<lambda>_. False) echo_server ''u'' [1, 2, 3, 4] = (Some [1, 2, 3, 4], None)"
  using doh_query_roundtrip [of "[1, 2, 3, 4]" "\<lambda>_. False" echo_server "''u''"
      "\<lparr>status = 404, body = [1, 2, 3, 4], body_error = None\<rparr>"]
  by (simp add: echo_server_def)

end
