(* ===== verification/Dialer.thy ===== *)
theory Dialer
  imports Model
begin

text \<open>
  Binding an outgoing socket to the interface of its route: \<open>protocol/socket/socket_linux.go\<close> and
  \<open>socket_windows.go\<close>. The system call is a parameter.
\<close>

definition from_bytes_le :: "bytes \<Rightarrow> u32" where
  "from_bytes_le bs = foldr (\<lambda>b acc. push_bit 8 acc OR ucast b) bs 0"

definition PutUint32_be :: "u32 \<Rightarrow> bytes" where
  "PutUint32_be w = [ucast (drop_bit 24 w), ucast (drop_bit 16 w), ucast (drop_bit 8 w), ucast w]"

text \<open>
  \<open>bind4\<close>: the index is written in network order and read back as the machine word (Windows runs on
  little-endian machines) that \<open>setsockopt\<close> gets.
\<close>

definition bind4 :: "(u32 \<Rightarrow> string option) \<Rightarrow> u32 \<Rightarrow> string option" where
  "bind4 setsockopt ifaceIdx = setsockopt (from_bytes_le (PutUint32_be ifaceIdx))"

definition bind6 :: "(u32 \<Rightarrow> string option) \<Rightarrow> u32 \<Rightarrow> string option" where
  "bind6 setsockopt ifaceIdx = setsockopt ifaceIdx"

text \<open>
  The control function of \<open>GetDialer\<close>: on Windows a failed bind panics, on Linux it is logged and the
  dial goes on; the result says whether the socket is bound.
\<close>

definition GetDialer_windows :: "(u32 \<Rightarrow> string option) \<Rightarrow> CustomRoute \<Rightarrow> bool outcome" where
  "GetDialer_windows setsockopt route =
     (case bind4 setsockopt (IfIndex route) of Some e \<Rightarrow> Inl (Panic e) | None \<Rightarrow> Inr True)"

definition GetDialer_linux :: "(string \<Rightarrow> string option) \<Rightarrow> CustomRoute \<Rightarrow> bool outcome" where
  "GetDialer_linux bind_to_device route =
     (case bind_to_device (ifName route) of Some e \<Rightarrow> Inr False | None \<Rightarrow> Inr True)"

text \<open>Little-endian memory of a word.\<close>

definition memory :: "u32 \<Rightarrow> bytes" where
  "memory w = [ucast w, ucast (drop_bit 8 w), ucast (drop_bit 16 w), ucast (drop_bit 24 w)]"

lemma memory_from_bytes_le: "length bs = 4 \<Longrightarrow> memory (from_bytes_le bs) = bs"
proof -
  assume "length bs = 4"
  then obtain a b c d where bs: "bs = [a, b, c, d]" by (auto simp: length_4_iff)
  show ?thesis
    unfolding bs memory_def from_bytes_le_def
    by (simp, intro conjI; rule bit_eqI; auto simp: bit_simps dest: bit_imp_le_length)
qed

text \<open>
  What \<open>setsockopt\<close> reads from memory is the interface index in network byte order, and on
  Windows a socket that is not bound to the interface of its route is never used.
\<close>

theorem windows_socket_bound:
  "memory (from_bytes_le (PutUint32_be i)) = PutUint32_be i \<and>
   (GetDialer_windows setsockopt route = Inr ok \<longleftrightarrow>
      ok \<and> setsockopt (from_bytes_le (PutUint32_be (IfIndex route))) = None)"
  by (auto simp: memory_from_bytes_le PutUint32_be_def GetDialer_windows_def bind4_def split: option.split)

text \<open>
  On Linux the dial goes on when the bind fails, with an unbound socket, whose packets the
  system may route back into the tunnel.
\<close>

theorem linux_dial_unbound:
  "GetDialer_linux bind_to_device route = Inr (bind_to_device (ifName route) = None)"
  by (simp add: GetDialer_linux_def split: option.split)

end
