(* ===== verification/Stream_Copy.thy ===== *)
theory Stream_Copy
  imports Prelude
begin

text \<open>
  Copying a stream: \<open>copyBuffer\<close> of \<open>tool/ioutil/ioutil.go\<close> (the loop of \<open>io.Copy\<close>), verified once
  against the contract of \<open>io.Writer\<close>, and the writer of \<open>forwardState.go\<close> that meets the contract.
\<close>

section \<open>The loop\<close>

text \<open>
  A read gives a chunk and an error, if any; the writer is a function of its state. The result is
  the count, the error and the writer's state, or None when the source has no further read to
  offer, that is, while the copy blocks.
\<close>

type_synonym read_result = "bytes \<times> string option"
type_synonym 'w writer = "'w \<Rightarrow> bytes \<Rightarrow> int \<times> string option \<times> 'w"

definition copy_buffer_size :: "int option \<Rightarrow> int" where
  "copy_buffer_size limited =
     (case limited of
        None \<Rightarrow> 32 * 1024
      | Some n \<Rightarrow> if 32 * 1024 > n then (if n < 1 then 1 else n) else 32 * 1024)"

fun copyBuffer :: "'w writer \<Rightarrow> read_result list \<Rightarrow> int \<Rightarrow> 'w \<Rightarrow> (int \<times> string option \<times> 'w) option" where
  "copyBuffer wr [] written w = None"
| "copyBuffer wr ((chunk, er) # reads) written w =
     (let nr = int (length chunk);
          (nw0, ew0, w') = (if 0 < nr then wr w chunk else (0, None, w));
          bad = (nw0 < 0 \<or> nr < nw0);
          nw = (if bad then 0 else nw0);
          ew = (if bad \<and> ew0 = None then Some ''invalid write result'' else ew0);
          written' = written + (if 0 < nr then nw else 0)
      in if 0 < nr \<and> ew \<noteq> None then Some (written', ew, w')
         else if 0 < nr \<and> nr \<noteq> nw then Some (written', Some ''short write'', w')
         else if er \<noteq> None then Some (written', if er = Some ''EOF'' then None else er, w')
         else copyBuffer wr reads written' w')"

declare copyBuffer.simps [simp del]

lemma copy_buffer_size_bounds: "1 \<le> copy_buffer_size l \<and> copy_buffer_size l \<le> 32768"
  by (auto simp: copy_buffer_size_def split: option.split)

text \<open>What the source offers up to and including its first read with an error.\<close>

fun offered :: "read_result list \<Rightarrow> bytes" where
  "offered [] = []"
| "offered ((chunk, er) # reads) = chunk @ (if er = None then offered reads else [])"

fun source_error :: "read_result list \<Rightarrow> string option" where
  "source_error [] = None"
| "source_error ((chunk, er) # reads) = (if er = None then source_error reads else er)"

section \<open>The contract of io.Writer\<close>

text \<open>
  \<open>out\<close> is what the writer has accepted: a write accepts a prefix of its argument, reports its
  length, and reports an error when that is not all of it.
\<close>

locale io_writer =
  fixes wr :: "'w writer" and out :: "'w \<Rightarrow> bytes"
  assumes write_contract:
    "wr w p = (n, e, w') \<Longrightarrow>
       0 \<le> n \<and> n \<le> int (length p) \<and> out w' = out w @ take (nat n) p \<and> (n < int (length p) \<longrightarrow> e \<noteq> None)"
begin

text \<open>
  One iteration: the writer has taken a prefix of the chunk, and the loop goes on only when it was
  all of it.
\<close>

lemma copyBuffer_prefix:
  "copyBuffer wr reads written w = Some (n_all, err, w') \<Longrightarrow>
   \<exists>k \<le> length (offered reads). n_all = written + int k \<and> out w' = out w @ take k (offered reads) \<and>
     (err = None \<longrightarrow> k = length (offered reads) \<and> source_error reads = Some ''EOF'')"
proof (induction reads arbitrary: written w)
  case Nil
  then show ?case by (simp add: copyBuffer.simps)
next
  case (Cons rd reads)
  obtain chunk er where rd: "rd = (chunk, er)" by fastforce
  show ?case
  proof (cases "chunk = []")
    case True
    show ?thesis
    proof (cases er)
      case None
      with Cons True rd show ?thesis by (simp add: copyBuffer.simps)
    next
      case (Some e)
      with Cons.prems True rd show ?thesis by (auto simp: copyBuffer.simps Let_def split: if_splits)
    qed
  next
    case False
    obtain n e w1 where res: "wr w chunk = (n, e, w1)" by (metis prod_cases3)
    note c = write_contract [OF res]
    consider (short) "e \<noteq> None" | (last) er' where "e = None" "er = Some er'" | (more) "e = None" "er = None"
      by blast
    then show ?thesis
    proof cases
      case short
      then have "n_all = written + n" "err = e" "w' = w1"
        using Cons.prems False res c by (auto simp: copyBuffer.simps rd Let_def)
      then show ?thesis
        using c short by (intro exI [of _ "nat n"]) (auto simp: rd)
    next
      case last
      with c have "n = int (length chunk)" "out w1 = out w @ chunk" by auto
      with Cons.prems False res last rd show ?thesis
        by (intro exI [of _ "length chunk"]) (auto simp: copyBuffer.simps Let_def split: if_splits)
    next
      case more
      with c have n: "n = int (length chunk)" "out w1 = out w @ chunk" by auto
      have step: "copyBuffer wr reads (written + n) w1 = Some (n_all, err, w')"
        using Cons.prems False res n more by (simp add: copyBuffer.simps rd)
      from Cons.IH [OF step] obtain k where "k \<le> length (offered reads)" "n_all = written + n + int k"
        "out w' = out w1 @ take k (offered reads)"
        "err = None \<longrightarrow> k = length (offered reads) \<and> source_error reads = Some ''EOF''"
        by auto
      with n more rd show ?thesis by (intro exI [of _ "length chunk + k"]) simp
    qed
  qed
qed

end

section \<open>The writer of a UDP flow\<close>

text \<open>
  \<open>connectionState.Write\<close>: the state is what \<open>sendLocal\<close> has delivered so far; \<open>sendLocal\<close> takes a
  datagram whole or fails.
\<close>

definition connectionState_Write :: "(bytes \<Rightarrow> bytes \<Rightarrow> string option) \<Rightarrow> bytes writer" where
  "connectionState_Write sendLocal got p =
     (case sendLocal got p of
        Some e \<Rightarrow> (0, Some e, got)
      | None \<Rightarrow> (int (length p), None, got @ p))"

interpretation flow_writer: io_writer "connectionState_Write sendLocal" "\<lambda>w. w" for sendLocal
  by unfold_locales (auto simp: connectionState_Write_def split: option.splits)



end
