(* ===== verification/Log_Tool.thy ===== *)
theory Log_Tool
  imports Prelude
begin

text \<open>
  The log writer of \<open>tool/log/logTool.go\<close>: a writer of several sinks that must survive the failure
  of some of them, and the creation of the log directory.
\<close>

section \<open>The multi writer\<close>

text \<open>
  A sink is a function of its state. \<open>MultiWriter\<close> flattens the multi writers among its arguments.
\<close>

type_synonym 'w sink = "'w \<Rightarrow> bytes \<Rightarrow> int \<times> string option \<times> 'w"

datatype 'w any_writer = Plain 'w | Multi "'w list"

fun flatten_writers :: "'w list \<Rightarrow> 'w any_writer list \<Rightarrow> 'w list" where
  "flatten_writers allWriters [] = allWriters"
| "flatten_writers allWriters (Multi ws # rest) = flatten_writers (allWriters @ ws) rest"
| "flatten_writers allWriters (Plain w # rest) = flatten_writers (allWriters @ [w]) rest"

definition MultiWriter :: "'w any_writer list \<Rightarrow> 'w any_writer" where
  "MultiWriter ws = Multi (flatten_writers [] ws)"

text \<open>\<open>Write\<close>: the errors of single sinks are forgotten.\<close>

fun multi_loop :: "'w sink \<Rightarrow> 'w list \<Rightarrow> bytes \<Rightarrow> 'w list" where
  "multi_loop wr [] p = []"
| "multi_loop wr (w # ws) p =
     (let (n, err, w') = wr w p
      in if err \<noteq> None then w' # multi_loop wr ws p
         else if n \<noteq> int (length p) then w' # multi_loop wr ws p
         else w' # multi_loop wr ws p)"

definition multi_Write :: "'w sink \<Rightarrow> 'w list \<Rightarrow> bytes \<Rightarrow> int \<times> string option \<times> 'w list" where
  "multi_Write wr ws p = (int (length p), None, multi_loop wr ws p)"

text \<open>\<open>WriteString\<close>: the loop breaks at the first sink that fails or writes short.\<close>

fun multi_string_loop :: "('w \<Rightarrow> bool) \<Rightarrow> 'w sink \<Rightarrow> 'w sink \<Rightarrow> 'w list \<Rightarrow> bytes \<Rightarrow> 'w list" where
  "multi_string_loop is_sw ws_string wr [] p = []"
| "multi_string_loop is_sw ws_string wr (w # ws) p =
     (let (n, err, w') = (if is_sw w then ws_string w p else wr w p)
      in if err \<noteq> None then w' # ws
         else if n \<noteq> int (length p) then w' # ws
         else w' # multi_string_loop is_sw ws_string wr ws p)"

definition multi_WriteString ::
  "('w \<Rightarrow> bool) \<Rightarrow> 'w sink \<Rightarrow> 'w sink \<Rightarrow> 'w list \<Rightarrow> bytes \<Rightarrow> int \<times> string option \<times> 'w list" where
  "multi_WriteString is_sw ws_string wr ws p =
     (int (length p), None, multi_string_loop is_sw ws_string wr ws p)"

lemma flatten_writers_concat:
  "flatten_writers acc ws = acc @ concat (map (\<lambda>w. case w of Plain x \<Rightarrow> [x] | Multi xs \<Rightarrow> xs) ws)"
  by (induction acc ws rule: flatten_writers.induct) auto

lemma multi_loop_map: "multi_loop wr ws p = map (\<lambda>w. snd (snd (wr w p))) ws"
  by (induction ws) (auto split: prod.split)

text \<open>
  A log record reaches every sink of nested multi writers, once and in order, whatever the other
  sinks do, and the logger is told that all of it was written.
\<close>

theorem log_record_reaches_every_sink:
  "\<exists>ws. MultiWriter (map Plain front @ MultiWriter (map Plain mid) # map Plain back) = Multi ws \<and>
     multi_Write wr ws p = (int (length p), None, map (\<lambda>w. snd (snd (wr w p))) (front @ mid @ back))"
  by (simp add: MultiWriter_def flatten_writers_concat multi_Write_def multi_loop_map comp_def)

text \<open>
  \<open>WriteString\<close> does not have this property: after a sink that fails, the later ones get nothing,
  and the caller is still told that everything was written.
\<close>

theorem write_string_starves_later_sinks:
  assumes "fst (snd (ws_string w p)) \<noteq> None" and "is_sw w"
  shows "multi_WriteString is_sw ws_string wr (w # ws) p =
           (int (length p), None, snd (snd (ws_string w p)) # ws)"
proof -
  obtain n e w' where "ws_string w p = (n, e, w')" by (metis prod_cases3)
  with assms show ?thesis by (auto simp: multi_WriteString_def)
qed

lemma write_string_starves_later_sinks_witness:
  "multi_WriteString (\<lambda>_. True) (\<lambda>w p. if w = [] then (0, Some ''closed'', w) else (int (length p), None, w @ p))
     (\<lambda>w p. (0, None, w)) [[], [7]] [1, 2] = (2, None, [[], [7 :: byte]])"
  by (subst write_string_starves_later_sinks) simp_all

section \<open>The log directory\<close>

text \<open>What \<open>os.Stat\<close> says, and what \<open>createDir\<close> does: whether it calls \<open>os.Mkdir\<close>.\<close>

datatype stat_result = Present | NotExist | StatError string

definition PathExists :: "stat_result \<Rightarrow> bool \<times> string option" where
  "PathExists st =
     (case st of Present \<Rightarrow> (True, None) | NotExist \<Rightarrow> (False, None) | StatError e \<Rightarrow> (False, Some e))"

definition createDir :: "stat_result \<Rightarrow> bool" where
  "createDir st = (case PathExists st of (_, Some e) \<Rightarrow> False | (found, None) \<Rightarrow> \<not> found)"

text \<open>
  \<open>CreatLog\<close>: whether it makes the directory, and the writer the log is set to, if the file opens.
\<close>

definition CreatLog :: "'w \<Rightarrow> stat_result \<Rightarrow> 'w outcome \<Rightarrow> bool \<times> 'w any_writer option" where
  "CreatLog stdout st open_file =
     (createDir st,
      case open_file of Inl _ \<Rightarrow> None | Inr f \<Rightarrow> Some (MultiWriter [Plain stdout, Plain f]))"

lemma createDir_iff: "createDir st \<longleftrightarrow> st = NotExist"
  by (auto simp: createDir_def PathExists_def split: stat_result.split)

end
