(* ===== verification/Udp_State.thy ===== *)
theory Udp_State
  imports Steps
begin

text \<open>
  The connection table of outgoing UDP flows, \<open>handler/remoteSocketHandler/udp/forwardState.go\<close>.

  Every packet runs \<open>attachConnect\<close> in a goroutine of its own, with a fresh \<open>connectionState\<close>. The
  model keeps all goroutines and all connection objects: a call and the object it was given share
  one number. An event is one step of one goroutine, so a list of events is an interleaving; the
  locked sections are atomic only where the code holds the same lock throughout.
\<close>

section \<open>State\<close>

text \<open>
  A dialled \<open>connectionState\<close>. \<open>key\<close> is the table key of the call that dialled it; \<open>identify\<close> is the
  field of that name. \<open>sent\<close> and \<open>delivered\<close> are the datagrams written to the socket and those
  handed to \<open>sendLocal\<close>; \<open>running\<close> says that its \<open>run\<close> goroutine has been started and not ended.
\<close>

record connectionState =
  key :: string
  identify :: string
  is_open :: bool
  running :: bool
  sent :: "bytes list"
  delivered :: "bytes list"

datatype fate = Sent | LostOnClosed | DroppedOnRecheck | DialFailed

text \<open>Where a call of \<open>attachConnect\<close> stands, in source order.\<close>

datatype pc =
    Look
  | WaitLock
  | Look2
  | Dialling
  | StartRun
  | Register
  | WriteFirst
  | WriteTo nat
  | Returned fate

record call =
  call_identify :: string
  call_buff :: bytes
  call_pc :: pc

record ForwardState =
  connections :: "string \<rightharpoonup> nat"
  conns :: "nat \<rightharpoonup> connectionState"
  calls :: "nat \<rightharpoonup> call"
  lock :: "nat option"

definition init_forward :: ForwardState where
  "init_forward = \<lparr>connections = Map.empty, conns = Map.empty, calls = Map.empty, lock = None\<rparr>"

section \<open>Steps\<close>

datatype event =
    Spawn nat string bytes
  | Step nat
  | Dial nat bool
  | Deliver nat bytes
  | Stop nat

definition set_pc :: "nat \<Rightarrow> pc \<Rightarrow> ForwardState \<Rightarrow> ForwardState" where
  "set_pc t p s =
     (case calls s t of None \<Rightarrow> s | Some c \<Rightarrow> s\<lparr>calls := (calls s)(t \<mapsto> c\<lparr>call_pc := p\<rparr>)\<rparr>)"

text \<open>
  \<open>conn.Write(buff)\<close>, its error ignored: on an open socket the datagram is sent, on a closed one it is
  lost, and the call returns nil in both cases.
\<close>

definition conn_write :: "nat \<Rightarrow> bytes \<Rightarrow> ForwardState \<Rightarrow> ForwardState \<times> fate" where
  "conn_write j b s =
     (case conns s j of
        None \<Rightarrow> (s, LostOnClosed)
      | Some c \<Rightarrow>
          if is_open c then (s\<lparr>conns := (conns s)(j \<mapsto> c\<lparr>sent := sent c @ [b]\<rparr>)\<rparr>, Sent)
          else (s, LostOnClosed))"

text \<open>One step of the call \<open>t\<close>, other than the dial.\<close>

definition attach_step :: "nat \<Rightarrow> call \<Rightarrow> ForwardState \<Rightarrow> ForwardState option" where
  "attach_step t c s =
     (case call_pc c of
        Look \<Rightarrow>
          (case connections s (call_identify c) of
             None \<Rightarrow> Some (set_pc t WaitLock s)
           | Some j \<Rightarrow> Some (set_pc t (WriteTo j) s))
      | WaitLock \<Rightarrow>
          (if lock s = None then Some (set_pc t Look2 (s\<lparr>lock := Some t\<rparr>)) else None)
      | Look2 \<Rightarrow>
          (case connections s (call_identify c) of
             None \<Rightarrow> Some (set_pc t Dialling s)
           | Some _ \<Rightarrow> Some (set_pc t (Returned DroppedOnRecheck) (s\<lparr>lock := None\<rparr>)))
      | Dialling \<Rightarrow> None
      | StartRun \<Rightarrow>
          (case conns s t of
             None \<Rightarrow> None
           | Some k \<Rightarrow> Some (set_pc t Register (s\<lparr>conns := (conns s)(t \<mapsto> k\<lparr>running := True\<rparr>)\<rparr>)))
      | Register \<Rightarrow>
          Some (set_pc t WriteFirst (s\<lparr>connections := (connections s)(call_identify c \<mapsto> t)\<rparr>))
      | WriteFirst \<Rightarrow>
          (let (s', f) = conn_write t (call_buff c) s
           in Some (set_pc t (Returned f) (s'\<lparr>lock := None\<rparr>)))
      | WriteTo j \<Rightarrow>
          (let (s', f) = conn_write j (call_buff c) s in Some (set_pc t (Returned f) s'))
      | Returned _ \<Rightarrow> None)"

text \<open>
  The dial, under the lock. \<open>readRemoteDate\<close> builds the object without an \<open>identify\<close>, so the field is
  the empty string.
\<close>

definition attach_dial :: "nat \<Rightarrow> call \<Rightarrow> bool \<Rightarrow> ForwardState \<Rightarrow> ForwardState option" where
  "attach_dial t c ok s =
     (if call_pc c \<noteq> Dialling then None
      else if ok then
        Some (set_pc t StartRun
          (s\<lparr>conns := (conns s)(t \<mapsto>
             \<lparr>key = call_identify c, identify = [], is_open = True, running = False,
              sent = [], delivered = []\<rparr>)\<rparr>))
      else Some (set_pc t (Returned DialFailed) (s\<lparr>lock := None\<rparr>)))"

text \<open>
  The \<open>run\<close> goroutine: \<open>io.Copy\<close> hands each datagram of the socket to \<open>sendLocal\<close>; when it ends, the
  deferred function closes the socket and deletes the table entry of the field \<open>identify\<close>.
\<close>

definition run_deliver :: "nat \<Rightarrow> bytes \<Rightarrow> ForwardState \<Rightarrow> ForwardState option" where
  "run_deliver t b s =
     (case conns s t of
        None \<Rightarrow> None
      | Some k \<Rightarrow>
          if running k \<and> is_open k
          then Some (s\<lparr>conns := (conns s)(t \<mapsto> k\<lparr>delivered := delivered k @ [b]\<rparr>)\<rparr>) else None)"

definition run_stop :: "nat \<Rightarrow> ForwardState \<Rightarrow> ForwardState option" where
  "run_stop t s =
     (case conns s t of
        None \<Rightarrow> None
      | Some k \<Rightarrow>
          if running k
          then Some (s\<lparr>conns := (conns s)(t \<mapsto> k\<lparr>is_open := False, running := False\<rparr>),
                       connections := (connections s)(identify k := None)\<rparr>)
          else None)"

text \<open>
  A call starts with a non-empty identification: \<open>readRemoteDate\<close> always puts a dash into it.
\<close>

fun exec :: "event \<Rightarrow> ForwardState \<Rightarrow> ForwardState option" where
  "exec (Spawn t i b) s =
     (if calls s t = None \<and> i \<noteq> []
      then Some (s\<lparr>calls := (calls s)(t \<mapsto> \<lparr>call_identify = i, call_buff = b, call_pc = Look\<rparr>)\<rparr>)
      else None)"
| "exec (Step t) s = (case calls s t of None \<Rightarrow> None | Some c \<Rightarrow> attach_step t c s)"
| "exec (Dial t ok) s = (case calls s t of None \<Rightarrow> None | Some c \<Rightarrow> attach_dial t c ok s)"
| "exec (Deliver t b) s = run_deliver t b s"
| "exec (Stop t) s = run_stop t s"

abbreviation reaches :: "ForwardState \<Rightarrow> ForwardState \<Rightarrow> bool" where
  "reaches \<equiv> reachable (executes exec)"

section \<open>The invariant\<close>

definition critical :: "pc \<Rightarrow> bool" where
  "critical p \<longleftrightarrow> p \<in> {Look2, Dialling, StartRun, Register, WriteFirst}"

definition call_ok :: "ForwardState \<Rightarrow> nat \<Rightarrow> call \<Rightarrow> bool" where
  "call_ok s t c \<longleftrightarrow>
     call_identify c \<noteq> [] \<and> (critical (call_pc c) \<longleftrightarrow> lock s = Some t) \<and>
     (call_pc c \<in> {Dialling, StartRun, Register} \<longrightarrow> connections s (call_identify c) = None) \<and>
     (call_pc c \<in> {StartRun, Register} \<longrightarrow> (\<exists>k. conns s t = Some k \<and> key k = call_identify c)) \<and>
     (call_pc c = WriteFirst \<longrightarrow> connections s (call_identify c) = Some t) \<and>
     (\<forall>j. call_pc c = WriteTo j \<longrightarrow> connections s (call_identify c) = Some j)"

definition conn_ok :: "ForwardState \<Rightarrow> nat \<Rightarrow> connectionState \<Rightarrow> bool" where
  "conn_ok s j k \<longleftrightarrow>
     identify k = [] \<and>
     (\<exists>c. calls s j = Some c \<and> call_identify c = key k \<and>
        (connections s (key k) = Some j \<or> call_pc c \<in> {StartRun, Register}))"

definition state_ok :: "ForwardState \<Rightarrow> bool" where
  "state_ok s \<longleftrightarrow>
     (\<forall>t c. calls s t = Some c \<longrightarrow> call_ok s t c) \<and>
     (\<forall>t. lock s = Some t \<longrightarrow> calls s t \<noteq> None) \<and>
     (\<forall>j k. conns s j = Some k \<longrightarrow> conn_ok s j k) \<and>
     (\<forall>i j. connections s i = Some j \<longrightarrow> i \<noteq> [] \<and> (\<exists>k. conns s j = Some k \<and> key k = i))"

lemma init_ok: "state_ok init_forward"
  by (simp add: state_ok_def init_forward_def)

lemma state_okD:
  assumes "state_ok s"
  shows "calls s t = Some c \<Longrightarrow> call_ok s t c"
    and "lock s = Some t \<Longrightarrow> calls s t \<noteq> None"
    and "conns s j = Some k \<Longrightarrow> conn_ok s j k"
    and "connections s i = Some j \<Longrightarrow> i \<noteq> [] \<and> (\<exists>k. conns s j = Some k \<and> key k = i)"
  using assms by (auto simp: state_ok_def)

lemma set_pc_simps [simp]:
  "connections (set_pc t p s) = connections s" "conns (set_pc t p s) = conns s" "lock (set_pc t p s) = lock s"
  by (auto simp: set_pc_def split: option.split)

lemma calls_set_pc:
  "calls (set_pc t p s) =
     (case calls s t of None \<Rightarrow> calls s | Some c \<Rightarrow> (calls s)(t \<mapsto> c\<lparr>call_pc := p\<rparr>))"
  by (auto simp: set_pc_def split: option.split)

text \<open>Changing an object's traffic or its liveness keeps the invariant.\<close>

lemma state_ok_traffic:
  assumes "state_ok s" and "conns s j = Some k" and "key k' = key k" and "identify k' = identify k"
  shows "state_ok (s\<lparr>conns := (conns s)(j \<mapsto> k')\<rparr>)"
proof -
  note D = state_okD [OF assms(1)]
  have "call_ok (s\<lparr>conns := (conns s)(j \<mapsto> k')\<rparr>) t c" if "calls s t = Some c" for t c
    using D(1) [OF that] assms(2,3) by (auto simp: call_ok_def)
  moreover have "conn_ok (s\<lparr>conns := (conns s)(j \<mapsto> k')\<rparr>) i l"
    if "((conns s)(j \<mapsto> k')) i = Some l" for i l
    using D(3) [of i] D(3) [OF assms(2)] that assms(3,4) by (auto simp: conn_ok_def split: if_splits)
  moreover have "\<exists>l. ((conns s)(j \<mapsto> k')) n = Some l \<and> key l = i" if "connections s i = Some n" for i n
    using D(4) [OF that] assms(2,3) by auto
  ultimately show ?thesis
    using D(2,4) by (simp add: state_ok_def)
qed

lemma call_ok_set_pc [simp]: "call_ok (set_pc t p s) u d = call_ok s u d"
  by (simp add: call_ok_def)

lemma call_ok_lock:
  "call_ok s u d \<Longrightarrow> (l = Some u) = (lock s = Some u) \<Longrightarrow> call_ok (s\<lparr>lock := l\<rparr>) u d"
  by (simp add: call_ok_def)

text \<open>Moving one call on: its own condition is re-established, the others and the lock permitting.\<close>

lemma state_ok_move:
  assumes "state_ok s" and "calls s t = Some c"
    and "call_ok (s\<lparr>lock := l\<rparr>) t (c\<lparr>call_pc := p\<rparr>)"
    and "l = lock s \<or> lock s = None \<and> l = Some t \<or> lock s = Some t \<and> l = None"
    and "call_pc c \<in> {StartRun, Register} \<longrightarrow> p \<in> {StartRun, Register}"
  shows "state_ok (set_pc t p (s\<lparr>lock := l\<rparr>))"
proof -
  note D = state_okD [OF assms(1)]
  have calls: "calls (set_pc t p (s\<lparr>lock := l\<rparr>)) = (calls s)(t \<mapsto> c\<lparr>call_pc := p\<rparr>)"
    by (simp add: calls_set_pc assms(2))
  have "call_ok (set_pc t p (s\<lparr>lock := l\<rparr>)) u d" if "((calls s)(t \<mapsto> c\<lparr>call_pc := p\<rparr>)) u = Some d" for u d
  proof (cases "u = t")
    case True
    with assms(3) that show ?thesis by simp
  next
    case False
    with assms(4) have "(l = Some u) = (lock s = Some u)" by auto
    with D(1) [of u d] False that show ?thesis by (simp add: call_ok_lock)
  qed
  moreover have "conn_ok (set_pc t p (s\<lparr>lock := l\<rparr>)) j k" if "conns s j = Some k" for j k
    using D(3) [OF that] assms(2,5) by (auto simp: conn_ok_def calls)
  moreover have "((calls s)(t \<mapsto> c\<lparr>call_pc := p\<rparr>)) u \<noteq> None" if "l = Some u" for u
    using D(2) [of u] assms(2,4) that by auto
  ultimately show ?thesis
    unfolding state_ok_def calls set_pc_simps ForwardState.select_convs ForwardState.update_convs
    using D(4) by simp
qed

lemma lock_same [simp]: "s\<lparr>lock := lock s\<rparr> = s"
  by (cases s) simp

lemma state_ok_move_same:
  assumes "state_ok s" and "calls s t = Some c" and "call_ok s t (c\<lparr>call_pc := p\<rparr>)"
    and "call_pc c \<in> {StartRun, Register} \<longrightarrow> p \<in> {StartRun, Register}"
  shows "state_ok (set_pc t p s)"
  using state_ok_move [of s t c "lock s" p] assms by simp

lemma conn_write_ok:
  assumes "state_ok s" and "conn_write j b s = (s', f)"
  shows "state_ok s' \<and> calls s' = calls s \<and> connections s' = connections s \<and> lock s' = lock s"
  using assms state_ok_traffic [OF assms(1)]
  by (auto simp: conn_write_def split: option.splits if_splits)

lemma ok_Spawn: "state_ok s \<Longrightarrow> exec (Spawn t i b) s = Some s' \<Longrightarrow> state_ok s'"
proof -
  assume ok: "state_ok s" and ex: "exec (Spawn t i b) s = Some s'"
  note D = state_okD [OF ok]
  have new: "calls s t = None" "i \<noteq> []"
    and s': "s' = s\<lparr>calls := (calls s)(t \<mapsto> \<lparr>call_identify = i, call_buff = b, call_pc = Look\<rparr>)\<rparr>"
    using ex by (auto split: if_splits)
  have "lock s \<noteq> Some t" using D(2) [of t] new by auto
  have "call_ok s' u d" if "calls s' u = Some d" for u d
    using D(1) [of u d] that new \<open>lock s \<noteq> Some t\<close>
    by (cases "u = t") (auto simp: s' call_ok_def critical_def)
  moreover have "conn_ok s' j k" if "conns s j = Some k" for j k
    using D(3) [OF that] new by (auto simp: s' conn_ok_def)
  moreover have "calls s' u \<noteq> None" if "lock s = Some u" for u
    using D(2) [OF that] by (simp add: s')
  ultimately show "state_ok s'"
    using D(4) unfolding state_ok_def by (simp add: s')
qed

lemma ok_Register:
  assumes "state_ok s" and "calls s t = Some c" and "call_pc c = Register"
  shows "state_ok (set_pc t WriteFirst (s\<lparr>connections := (connections s)(call_identify c \<mapsto> t)\<rparr>))"
    (is "state_ok ?s")
proof -
  note D = state_okD [OF assms(1)]
  have c: "lock s = Some t" "connections s (call_identify c) = None" "call_identify c \<noteq> []"
    using D(1) [OF assms(2)] assms(3) by (auto simp: call_ok_def critical_def)
  obtain k where k: "conns s t = Some k" "key k = call_identify c"
    using D(1) [OF assms(2)] assms(3) by (auto simp: call_ok_def)
  have calls: "calls ?s = (calls s)(t \<mapsto> c\<lparr>call_pc := WriteFirst\<rparr>)"
    by (simp add: calls_set_pc assms(2))
  have "call_ok ?s u d" if "calls ?s u = Some d" for u d
  proof (cases "u = t")
    case True
    with that c show ?thesis by (auto simp: calls call_ok_def critical_def)
  next
    case False
    with that have d: "calls s u = Some d" by (simp add: calls)
    with c(1) False have "\<not> critical (call_pc d)" using D(1) [OF d] by (simp add: call_ok_def)
    with D(1) [OF d] c(2) show ?thesis by (auto simp: call_ok_def critical_def)
  qed
  moreover have "conn_ok ?s j l" if "conns s j = Some l" for j l
  proof -
    have l: "conn_ok s j l" by (rule D(3) [OF that])
    show ?thesis
    proof (cases "j = t")
      case True
      with l k that show ?thesis by (auto simp: conn_ok_def calls)
    next
      case False
      from l obtain d where d: "calls s j = Some d" "call_identify d = key l" "identify l = []"
        "connections s (key l) = Some j \<or> call_pc d \<in> {StartRun, Register}"
        by (auto simp: conn_ok_def)
      have "\<not> critical (call_pc d)" using D(1) [OF d(1)] c(1) False by (simp add: call_ok_def)
      with d have "connections s (key l) = Some j" by (auto simp: critical_def)
      with c(2) d False show ?thesis by (auto simp: conn_ok_def calls)
    qed
  qed
  moreover have "calls ?s u \<noteq> None" if "lock s = Some u" for u
    using D(2) [OF that] by (simp add: calls)
  moreover have "i \<noteq> [] \<and> (\<exists>l. conns s j = Some l \<and> key l = i)" if "connections ?s i = Some j" for i j
    using D(4) [of i j] that k c(3) by (auto split: if_splits)
  ultimately show ?thesis
    unfolding state_ok_def by simp
qed

text \<open>A successful dial: the call \<open>t\<close> owns a new open connection that is in no table entry yet.\<close>

lemma ok_dialled:
  assumes sok: "state_ok s" and c: "calls s t = Some c" "call_pc c = Dialling"
    and s': "s' = set_pc t StartRun (s\<lparr>conns := (conns s)(t \<mapsto>
      \<lparr>key = call_identify c, identify = [], is_open = True, running = False, sent = [], delivered = []\<rparr>)\<rparr>)"
  shows "state_ok s'"
proof -
  note D = state_okD [OF sok]
  have cok: "lock s = Some t" "connections s (call_identify c) = None" "call_identify c \<noteq> []"
    using D(1) [OF c(1)] c(2) by (auto simp: call_ok_def critical_def)
  have calls: "calls s' = (calls s)(t \<mapsto> c\<lparr>call_pc := StartRun\<rparr>)"
    by (simp add: s' calls_set_pc c(1))
  have fresh: "conns s t = None"
    using D(3) [of t] c cok(2) by (cases "conns s t") (auto simp: conn_ok_def)
  have "call_ok s' u d" if "calls s' u = Some d" for u d
  proof (cases "u = t")
    case True
    with that have "d = c\<lparr>call_pc := StartRun\<rparr>" by (simp add: calls)
    with True c cok show ?thesis by (auto simp: call_ok_def critical_def s')
  next
    case False
    with that have d: "calls s u = Some d" by (simp add: calls)
    with D(1) [OF d] False show ?thesis by (auto simp: call_ok_def s')
  qed
  moreover have "conn_ok s' j l" if "conns s' j = Some l" for j l
    using that c D(3) [of j l] by (cases "j = t") (auto simp: s' conn_ok_def calls_set_pc)
  moreover have "calls s' u \<noteq> None" if "lock s' = Some u" for u
    using D(2) [of u] that by (simp add: s' calls_set_pc c(1))
  moreover have "i \<noteq> [] \<and> (\<exists>l. conns s' j = Some l \<and> key l = i)" if "connections s' i = Some j" for i j
    using D(4) [of i j] that fresh by (auto simp: s')
  ultimately show ?thesis
    unfolding state_ok_def by simp
qed

lemma ok_Dial: "state_ok s \<Longrightarrow> exec (Dial t ok) s = Some s' \<Longrightarrow> state_ok s'"
proof -
  assume sok: "state_ok s" and ex: "exec (Dial t ok) s = Some s'"
  obtain c where c: "calls s t = Some c" "call_pc c = Dialling"
    using ex by (auto simp: attach_dial_def split: option.splits if_splits)
  show "state_ok s'"
  proof (cases ok)
    case False
    then have "s' = set_pc t (Returned DialFailed) (s\<lparr>lock := None\<rparr>)"
      using ex c by (simp add: attach_dial_def)
    with sok c state_okD(1) [OF sok c(1)] show ?thesis
      by (auto intro!: state_ok_move simp: call_ok_def critical_def)
  next
    case True
    with ex c show ?thesis by (intro ok_dialled [OF sok c]) (simp add: attach_dial_def)
  qed
qed

text \<open>The goroutine of the new connection is started.\<close>

lemma ok_StartRun:
  assumes sok: "state_ok s" and c: "calls s t = Some c" "call_pc c = StartRun"
    and st: "attach_step t c s = Some s'"
  shows "state_ok s'"
proof -
  note cok = state_okD(1) [OF sok c(1)]
  obtain k where k: "conns s t = Some k" "key k = call_identify c"
    using cok c(2) by (auto simp: call_ok_def)
  have "state_ok (s\<lparr>conns := (conns s)(t \<mapsto> k\<lparr>running := True\<rparr>)\<rparr>)" (is "state_ok ?s")
    by (rule state_ok_traffic [OF sok k(1)]) simp_all
  moreover have "s' = set_pc t Register ?s"
    using st c(2) k(1) by (simp add: attach_step_def)
  ultimately show ?thesis
    using c cok k by (auto simp: call_ok_def critical_def intro!: state_ok_move_same)
qed

lemma ok_Step: "state_ok s \<Longrightarrow> exec (Step t) s = Some s' \<Longrightarrow> state_ok s'"
proof -
  assume sok: "state_ok s" and ex: "exec (Step t) s = Some s'"
  then obtain c where c: "calls s t = Some c" and st: "attach_step t c s = Some s'"
    by (auto split: option.splits)
  note cok = state_okD(1) [OF sok c]
  show "state_ok s'"
  proof (cases "call_pc c")
    case Look
    with st cok show ?thesis
      by (auto simp: attach_step_def call_ok_def critical_def split: option.splits
          intro!: state_ok_move_same [OF sok c])
  next
    case WaitLock
    with st cok show ?thesis
      by (auto simp: attach_step_def call_ok_def critical_def split: if_splits
          intro!: state_ok_move [OF sok c])
  next
    case Look2
    with st cok show ?thesis
      by (auto simp: attach_step_def call_ok_def critical_def split: option.splits
          intro!: state_ok_move_same [OF sok c] state_ok_move [OF sok c])
  next
    case StartRun
    then show ?thesis by (rule ok_StartRun [OF sok c _ st])
  next
    case Register
    with st ok_Register [OF sok c] show ?thesis by (simp add: attach_step_def)
  next
    case WriteFirst
    obtain s1 f where w: "conn_write t (call_buff c) s = (s1, f)" by fastforce
    then have s': "s' = set_pc t (Returned f) (s1\<lparr>lock := None\<rparr>)"
      using st WriteFirst by (simp add: attach_step_def)
    show ?thesis
      unfolding s' using conn_write_ok [OF sok w] c cok WriteFirst
      by (auto simp: call_ok_def critical_def intro!: state_ok_move)
  next
    case (WriteTo j)
    obtain s1 f where w: "conn_write j (call_buff c) s = (s1, f)" by fastforce
    then have s': "s' = set_pc t (Returned f) s1"
      using st WriteTo by (simp add: attach_step_def)
    show ?thesis
      unfolding s' using conn_write_ok [OF sok w] c cok WriteTo
      by (auto simp: call_ok_def critical_def intro!: state_ok_move_same)
  qed (use st in \<open>simp_all add: attach_step_def\<close>)
qed

lemma ok_Deliver: "state_ok s \<Longrightarrow> exec (Deliver t b) s = Some s' \<Longrightarrow> state_ok s'"
  by (auto simp: run_deliver_def intro: state_ok_traffic split: option.splits if_splits)

lemma ok_Stop: "state_ok s \<Longrightarrow> exec (Stop t) s = Some s' \<Longrightarrow> state_ok s'"
proof -
  assume sok: "state_ok s" and ex: "exec (Stop t) s = Some s'"
  then obtain k where k: "conns s t = Some k" and
    s': "s' = s\<lparr>conns := (conns s)(t \<mapsto> k\<lparr>is_open := False, running := False\<rparr>),
                connections := (connections s)(identify k := None)\<rparr>"
    by (auto simp: run_stop_def split: option.splits if_splits)
  have "identify k = []" using state_okD(3) [OF sok k] by (simp add: conn_ok_def)
  moreover have "connections s [] = None" using state_okD(4) [OF sok, of "[]"] by fastforce
  ultimately have "(connections s)(identify k := None) = connections s" by auto
  with s' have "s' = s\<lparr>conns := (conns s)(t \<mapsto> k\<lparr>is_open := False, running := False\<rparr>)\<rparr>" by simp
  with state_ok_traffic [OF sok k] show "state_ok s'" by simp
qed

lemma exec_ok: "state_ok s \<Longrightarrow> exec e s = Some s' \<Longrightarrow> state_ok s'"
  by (cases e) (auto intro: ok_Spawn ok_Step ok_Dial ok_Deliver ok_Stop simp del: exec.simps)

interpretation table: safety "executes exec" state_ok
  by unfold_locales (auto simp: executes_def intro: exec_ok)

lemmas reaches_ok = table.reachable_keeps

lemmas reachable_ok = reaches_ok [OF _ init_ok]

section \<open>One socket per flow, and no crossing\<close>

lemma key_unique:
  assumes "state_ok s" and "conns s t = Some k" and "conns s u = Some l" and "key k = key l"
  shows "t = u"
proof -
  note D = state_okD [OF assms(1)]
  obtain c where c: "calls s t = Some c" "call_identify c = key k"
    "connections s (key k) = Some t \<or> call_pc c \<in> {StartRun, Register}"
    using D(3) [OF assms(2)] by (auto simp: conn_ok_def)
  obtain d where d: "calls s u = Some d" "call_identify d = key l"
    "connections s (key l) = Some u \<or> call_pc d \<in> {StartRun, Register}"
    using D(3) [OF assms(3)] by (auto simp: conn_ok_def)
  have "connections s (key k) = None \<and> lock s = Some t" if "call_pc c \<in> {StartRun, Register}"
    using D(1) [OF c(1)] c(2) that by (auto simp: call_ok_def critical_def)
  moreover have "connections s (key k) = None \<and> lock s = Some u" if "call_pc d \<in> {StartRun, Register}"
    using D(1) [OF d(1)] d(2) that assms(4) by (auto simp: call_ok_def critical_def)
  ultimately show ?thesis using c(3) d(3) assms(4) by (metis option.inject option.distinct(1))
qed

definition traffic_ok :: "ForwardState \<Rightarrow> bool" where
  "traffic_ok s \<longleftrightarrow>
     (\<forall>j k. conns s j = Some k \<longrightarrow>
        (\<forall>b \<in> set (sent k). \<exists>u c. calls s u = Some c \<and> call_identify c = key k \<and> call_buff c = b))"

text \<open>What every step leaves alone: the arguments of a call and the key of an object.\<close>

lemma call_same: "\<exists>p. c = c\<lparr>call_pc := p\<rparr>"
  by (intro exI [of _ "call_pc c"]) simp

lemma set_pc_keeps: "calls s u = Some c \<Longrightarrow> \<exists>p. calls (set_pc t q s) u = Some (c\<lparr>call_pc := p\<rparr>)"
  by (cases "u = t") (auto simp: calls_set_pc split: option.split intro: call_same)

lemma calls_conn_write: "conn_write j b s = (s', f) \<Longrightarrow> calls s' = calls s"
  by (auto simp: conn_write_def split: option.splits if_splits)

lemma attach_step_shape: "attach_step t c s = Some s' \<Longrightarrow> \<exists>q s1. s' = set_pc t q s1 \<and> calls s1 = calls s"
  by (cases "call_pc c")
    (auto simp: attach_step_def split: option.splits if_splits prod.splits
      dest: calls_conn_write intro!: exI)

lemma exec_calls:
  assumes "exec e s = Some s'" and "calls s u = Some c"
  shows "\<exists>p. calls s' u = Some (c\<lparr>call_pc := p\<rparr>)"
proof (cases e)
  case (Step t)
  with assms(1) obtain d where "attach_step t d s = Some s'" by (auto split: option.splits)
  from attach_step_shape [OF this] obtain q s1 where s1: "s' = set_pc t q s1" "calls s1 = calls s"
    by blast
  show ?thesis unfolding s1(1) by (rule set_pc_keeps) (simp add: s1(2) assms(2))
next
  case (Dial t ok)
  with assms(1) obtain q s1 where s1: "s' = set_pc t q s1" "calls s1 = calls s"
    by (fastforce simp: attach_dial_def split: option.splits if_splits)
  show ?thesis unfolding s1(1) by (rule set_pc_keeps) (simp add: s1(2) assms(2))
qed (use assms in \<open>auto simp: run_deliver_def run_stop_def split: option.splits if_splits
      intro: call_same\<close>)

lemma conn_write_sent:
  assumes "conn_write j b s = (s', f)" and "conns s' i = Some k'"
  shows "\<exists>k. conns s i = Some k \<and> key k' = key k \<and> is_open k' = is_open k \<and>
             (sent k' = sent k \<or> i = j \<and> is_open k \<and> sent k' = sent k @ [b])"
  using assms by (auto simp: conn_write_def split: option.splits if_splits)

text \<open>Every datagram on a socket is written by a call that stands at one of the two writes.\<close>

lemma exec_sent:
  assumes "exec e s = Some s'" and "conns s' i = Some k'"
  shows "(\<exists>t. e = Dial t True \<and> i = t \<and> sent k' = []) \<or>
         (\<exists>k. conns s i = Some k \<and> key k' = key k \<and> (is_open k' \<longrightarrow> is_open k) \<and>
            (sent k' = sent k \<or>
             is_open k \<and> (\<exists>t c. calls s t = Some c \<and> sent k' = sent k @ [call_buff c] \<and>
                (call_pc c = WriteFirst \<and> i = t \<or> call_pc c = WriteTo i))))"
proof (cases e)
  case (Step t)
  with assms obtain c where c: "calls s t = Some c" "attach_step t c s = Some s'"
    by (auto split: option.splits)
  show ?thesis
  proof (cases "call_pc c")
    case WriteFirst
    obtain s1 f where w: "conn_write t (call_buff c) s = (s1, f)" by fastforce
    with c WriteFirst assms(2) have "conns s1 i = Some k'" by (auto simp: attach_step_def)
    from conn_write_sent [OF w this] c(1) WriteFirst show ?thesis by blast
  next
    case (WriteTo j)
    obtain s1 f where w: "conn_write j (call_buff c) s = (s1, f)" by fastforce
    with c WriteTo assms(2) have "conns s1 i = Some k'" by (auto simp: attach_step_def)
    from conn_write_sent [OF w this] c(1) WriteTo show ?thesis by blast
  qed (use c assms(2) in \<open>auto simp: attach_step_def split: option.splits if_splits\<close>)
qed (use assms in \<open>auto simp: attach_dial_def run_deliver_def run_stop_def split: option.splits if_splits\<close>)

lemma traffic_exec:
  assumes "state_ok s" and "traffic_ok s" and "exec e s = Some s'"
  shows "traffic_ok s'"
  unfolding traffic_ok_def
proof (intro allI impI ballI)
  fix i k' b
  assume k': "conns s' i = Some k'" and b: "b \<in> set (sent k')"
  have keep: "\<exists>u c. calls s' u = Some c \<and> call_identify c = n \<and> call_buff c = b"
    if "calls s u = Some c" "call_identify c = n" "call_buff c = b" for u c n
    using exec_calls [OF assms(3) that(1)] that by force
  note D = state_okD [OF assms(1)]
  from exec_sent [OF assms(3) k'] b
  obtain k where k: "conns s i = Some k" "key k' = key k"
    and cases: "sent k' = sent k \<or> (\<exists>t c. calls s t = Some c \<and> sent k' = sent k @ [call_buff c] \<and>
                (call_pc c = WriteFirst \<and> i = t \<or> call_pc c = WriteTo i))"
    by auto
  from cases show "\<exists>u c. calls s' u = Some c \<and> call_identify c = key k' \<and> call_buff c = b"
  proof
    assume "sent k' = sent k"
    then show ?thesis using assms(2) k b keep by (fastforce simp: traffic_ok_def)
  next
    assume "\<exists>t c. calls s t = Some c \<and> sent k' = sent k @ [call_buff c] \<and>
                (call_pc c = WriteFirst \<and> i = t \<or> call_pc c = WriteTo i)"
    then obtain t c where c: "calls s t = Some c" "sent k' = sent k @ [call_buff c]"
      "call_pc c = WriteFirst \<and> i = t \<or> call_pc c = WriteTo i" by auto
    have "connections s (call_identify c) = Some i" using D(1) [OF c(1)] c(3) by (auto simp: call_ok_def)
    with D(4) [OF this] k(1) have "call_identify c = key k" by auto
    then show ?thesis using assms(2) c k b keep by (fastforce simp: traffic_ok_def)
  qed
qed

interpretation traffic: safety "executes exec" "\<lambda>s. state_ok s \<and> traffic_ok s"
  by unfold_locales (auto simp: executes_def intro: exec_ok traffic_exec)

lemma reachable_traffic: "reaches init_forward s \<Longrightarrow> traffic_ok s"
  using traffic.reachable_keeps [of init_forward s] init_ok by (simp add: traffic_ok_def init_forward_def)

text \<open>A run of one flow: call 0 dials and writes; \<open>dead_run\<close> also ends its copy loop.\<close>

definition open_run :: "string \<Rightarrow> bytes \<Rightarrow> event list" where
  "open_run i b = [Spawn 0 i b, Step 0, Step 0, Step 0, Dial 0 True, Step 0, Step 0, Step 0]"

definition flow_conn :: "string \<Rightarrow> bytes list \<Rightarrow> bool \<Rightarrow> connectionState" where
  "flow_conn i bs op = \<lparr>key = i, identify = [], is_open = op, running = op, sent = bs, delivered = []\<rparr>"

definition after_open :: "string \<Rightarrow> bytes \<Rightarrow> bool \<Rightarrow> ForwardState" where
  "after_open i b op =
     \<lparr>connections = [i \<mapsto> 0], conns = [0 \<mapsto> flow_conn i [b] op],
      calls = [0 \<mapsto> \<lparr>call_identify = i, call_buff = b, call_pc = Returned Sent\<rparr>], lock = None\<rparr>"

lemma open_run_result: "i \<noteq> [] \<Longrightarrow> exec_events exec (open_run i b) init_forward = Some (after_open i b True)"
  by (simp add: open_run_def init_forward_def attach_step_def attach_dial_def set_pc_def
      conn_write_def after_open_def flow_conn_def)

lemma stop_result: "i \<noteq> [] \<Longrightarrow> exec (Stop 0) (after_open i b True) = Some (after_open i b False)"
  by (simp add: run_stop_def after_open_def flow_conn_def)

lemma open_reachable: "i \<noteq> [] \<Longrightarrow> reaches init_forward (after_open i b True)"
  by (rule exec_events_reachable [OF open_run_result])

lemma dead_reachable: "i \<noteq> [] \<Longrightarrow> reaches init_forward (after_open i b False)"
  by (rule executes_reachable [OF open_reachable stop_result])

text \<open>
  C6: in every interleaving of packets, at most one socket is ever dialled per flow
  identification, and at most one call is inside the locked section.
\<close>

theorem udp_one_socket_per_flow:
  assumes "reaches init_forward s"
  shows "(\<forall>t u k l. conns s t = Some k \<and> conns s u = Some l \<and> key k = key l \<longrightarrow> t = u) \<and>
         (\<forall>t u c d. calls s t = Some c \<and> calls s u = Some d \<and> critical (call_pc c) \<and> critical (call_pc d) \<longrightarrow> t = u)"
proof -
  have ok: "state_ok s" by (rule reachable_ok [OF assms])
  have "t = u" if "calls s t = Some c" "calls s u = Some d" "critical (call_pc c)" "critical (call_pc d)"
    for t u c d
    using state_okD(1) [OF ok that(1)] state_okD(1) [OF ok that(2)] that(3,4) by (simp add: call_ok_def)
  with key_unique [OF ok] show ?thesis by blast
qed

lemma udp_one_socket_per_flow_witness:
  "conns (after_open ''a'' [1] True) 1 \<noteq> Some (flow_conn ''a'' [[2]] True)"
proof
  assume two: "conns (after_open ''a'' [1] True) 1 = Some (flow_conn ''a'' [[2]] True)"
  have one: "conns (after_open ''a'' [1] True) 0 = Some (flow_conn ''a'' [[1]] True)"
    by (simp add: after_open_def)
  have "key (flow_conn ''a'' [[1]] True) = key (flow_conn ''a'' [[2]] True)" by (simp add: flow_conn_def)
  with udp_one_socket_per_flow [OF open_reachable [of "''a''" "[1]"]] one two
  have "(0::nat) = 1" by blast
  then show False by simp
qed

text \<open>
  C7: flows do not cross. Every datagram on a socket is the payload of a packet whose flow
  identification is the one the socket was dialled for.
\<close>

theorem udp_flow_isolation:
  assumes "reaches init_forward s" and "conns s j = Some k" and "b \<in> set (sent k)"
  shows "\<exists>t c. calls s t = Some c \<and> call_identify c = key k \<and> call_buff c = b"
  using reachable_traffic [OF assms(1)] assms(2,3) unfolding traffic_ok_def by blast

lemma udp_flow_isolation_witness:
  "\<exists>t c. calls (after_open ''a'' [1] True) t = Some c \<and> call_identify c = ''a'' \<and> call_buff c = [1]"
  using udp_flow_isolation [OF open_reachable [of "''a''" "[1]"], of 0 "flow_conn ''a'' [[1]] True" "[1]"]
  by (simp add: after_open_def flow_conn_def)

section \<open>The fate of a closed flow\<close>

text \<open>
  The table entry of flow \<open>i\<close> is the closed object \<open>j\<close> that has sent \<open>bs\<close>, and every call outside
  \<open>old\<close> for the flow has gone nowhere but to the closed socket.
\<close>

definition dead_flow :: "string \<Rightarrow> nat \<Rightarrow> bytes list \<Rightarrow> nat set \<Rightarrow> ForwardState \<Rightarrow> bool" where
  "dead_flow i j bs old s \<longleftrightarrow>
     connections s i = Some j \<and>
     (\<exists>k. conns s j = Some k \<and> key k = i \<and> \<not> is_open k \<and> sent k = bs) \<and>
     (\<forall>t c. t \<notin> old \<and> calls s t = Some c \<and> call_identify c = i \<longrightarrow>
        call_pc c \<in> {Look, WriteTo j, Returned LostOnClosed})"

lemma dead_flowD:
  "dead_flow i j bs old s \<Longrightarrow> t \<notin> old \<Longrightarrow> calls s t = Some c \<Longrightarrow> call_identify c = i \<Longrightarrow>
   call_pc c \<in> {Look, WriteTo j, Returned LostOnClosed}"
  unfolding dead_flow_def by blast

lemma exec_connections:
  assumes "state_ok s" and "exec e s = Some s'" and "connections s i = Some j"
  shows "connections s' i = Some j"
proof (cases e)
  case (Step t)
  with assms(2) obtain c where c: "calls s t = Some c" "attach_step t c s = Some s'"
    by (auto split: option.splits)
  note cok = state_okD(1) [OF assms(1) c(1)]
  show ?thesis
  proof (cases "call_pc c")
    case WriteFirst
    obtain s1 f where "conn_write t (call_buff c) s = (s1, f)" by fastforce
    with conn_write_ok [OF assms(1) this] c WriteFirst assms(3) show ?thesis
      by (auto simp: attach_step_def)
  next
    case (WriteTo u)
    obtain s1 f where "conn_write u (call_buff c) s = (s1, f)" by fastforce
    with conn_write_ok [OF assms(1) this] c WriteTo assms(3) show ?thesis
      by (auto simp: attach_step_def)
  qed (use c cok assms(3) in \<open>auto simp: attach_step_def call_ok_def split: option.splits if_splits\<close>)
next
  case (Stop t)
  with assms(2) obtain k where k: "conns s t = Some k" "connections s' = (connections s)(identify k := None)"
    by (auto simp: run_stop_def split: option.splits if_splits)
  have "identify k = []" using state_okD(3) [OF assms(1) k(1)] by (simp add: conn_ok_def)
  moreover have "i \<noteq> []" using state_okD(4) [OF assms(1,3)] by simp
  ultimately show ?thesis using k(2) assms(3) by simp
qed (use assms in \<open>auto simp: attach_dial_def run_deliver_def split: option.splits if_splits\<close>)

lemma exec_conns_kept:
  assumes "exec e s = Some s'" and "conns s j = Some k" and "\<not> (\<exists>t. e = Dial t True \<and> j = t)"
  shows "\<exists>k'. conns s' j = Some k'"
  using assms
  by (cases e)
    (auto simp: attach_step_def attach_dial_def conn_write_def run_deliver_def run_stop_def
      split: option.splits if_splits pc.splits)

lemma calls_set_pc_other: "u \<noteq> t \<Longrightarrow> calls (set_pc t p s) u = calls s u"
  by (simp add: calls_set_pc split: option.split)

lemma exec_calls_other:
  assumes "exec e s = Some s'" and "calls s' u = Some c'"
    and "e \<noteq> Step u" and "\<forall>ok. e \<noteq> Dial u ok" and "\<forall>i b. e \<noteq> Spawn u i b"
  shows "calls s u = Some c'"
proof (cases e)
  case (Step t)
  with assms(1) obtain d where "attach_step t d s = Some s'" by (auto split: option.splits)
  from attach_step_shape [OF this] Step assms(2,3) show ?thesis by (auto simp: calls_set_pc_other)
qed (use assms in \<open>auto simp: attach_dial_def run_deliver_def run_stop_def calls_set_pc_other
      split: option.splits if_splits\<close>)

text \<open>The owner of a registered connection has finished dialling.\<close>

lemma registered_not_dialled:
  assumes "state_ok s" and "connections s i = Some j" "conns s j = Some k" "key k = i"
  shows "exec (Dial j ok) s \<noteq> Some s'"
proof
  assume "exec (Dial j ok) s = Some s'"
  then obtain c where c: "calls s j = Some c" "call_pc c = Dialling"
    by (auto simp: attach_dial_def split: option.splits if_splits)
  have "call_identify c = i" using state_okD(3) [OF assms(1,3)] c(1) assms(4) by (auto simp: conn_ok_def)
  with state_okD(1) [OF assms(1) c(1)] c(2) assms(2) show False by (simp add: call_ok_def)
qed

text \<open>A new call of a dead flow finds the closed connection and can only write to it.\<close>

lemma dead_calls:
  assumes dead: "dead_flow i j bs old s" and ex: "exec e s = Some s'"
    and t: "t \<notin> old" "calls s' t = Some c" "call_identify c = i"
  shows "call_pc c \<in> {Look, WriteTo j, Returned LostOnClosed}"
proof -
  obtain k where k: "connections s i = Some j" "conns s j = Some k" "key k = i" "\<not> is_open k" "sent k = bs"
    using dead by (auto simp: dead_flow_def)
  have before: "call_identify d = i \<and> call_pc d \<in> {Look, WriteTo j, Returned LostOnClosed}"
    if d: "calls s t = Some d" for d
  proof -
    have "call_identify d = i" using exec_calls [OF ex d] t(2,3) by auto
    with dead t(1) d show ?thesis by (auto simp: dead_flow_def)
  qed
  consider (step) "e = Step t" | (spawn) i b where "e = Spawn t i b" | (dial) ok where "e = Dial t ok"
    | (other) "e \<noteq> Step t" "\<nexists>i b. e = Spawn t i b" "\<nexists>ok. e = Dial t ok"
    by blast
  then show ?thesis
  proof cases
    case step
    with ex obtain d where d: "calls s t = Some d" "attach_step t d s = Some s'"
      by (auto split: option.splits)
    with before [OF d(1)] t(2) k show ?thesis
      by (auto simp: attach_step_def conn_write_def calls_set_pc)
  next
    case spawn
    then show ?thesis using ex t(2) by (auto split: if_splits)
  next
    case dial
    with ex obtain d where "calls s t = Some d" "call_pc d = Dialling"
      by (auto simp: attach_dial_def split: option.splits if_splits)
    with before show ?thesis by fastforce
  next
    case other
    then have "calls s t = Some c" by (intro exec_calls_other [OF ex t(2)]) auto
    with before show ?thesis by blast
  qed
qed

lemma dead_exec:
  assumes "state_ok s" and "dead_flow i j bs old s" and "exec e s = Some s'"
  shows "dead_flow i j bs old s'"
proof -
  obtain k where k: "connections s i = Some j" "conns s j = Some k" "key k = i" "\<not> is_open k" "sent k = bs"
    using assms(2) by (auto simp: dead_flow_def)
  have not_dial: "e \<noteq> Dial j ok" for ok
    using registered_not_dialled [OF assms(1) k(1-3)] assms(3) by metis
  obtain k' where k': "conns s' j = Some k'"
    using exec_conns_kept [OF assms(3) k(2)] not_dial by auto
  have "key k' = i \<and> \<not> is_open k' \<and> sent k' = bs"
    using exec_sent [OF assms(3) k'] not_dial k(2-5) by auto
  moreover have "call_pc c \<in> {Look, WriteTo j, Returned LostOnClosed}"
    if "t \<notin> old" "calls s' t = Some c" "call_identify c = i" for t c
    by (rule dead_calls [OF assms(2,3) that])
  ultimately show ?thesis
    using exec_connections [OF assms(1,3) k(1)] k' by (auto simp: dead_flow_def)
qed

interpretation dead: safety "executes exec" "\<lambda>s. state_ok s \<and> dead_flow i j bs old s" for i j bs old
  by unfold_locales (auto simp: executes_def intro: exec_ok dead_exec)

lemma dead_reaches:
  "reaches s s' \<Longrightarrow> state_ok s \<Longrightarrow> dead_flow i j bs old s \<Longrightarrow> dead_flow i j bs old s'"
  using dead.reachable_keeps by blast

text \<open>
  C14: a flow whose socket has been closed is never served again. The deferred deletion uses the
  field \<open>identify\<close>, which nobody sets, so the table keeps the closed connection: whatever happens
  afterwards, no further datagram of the flow is sent, no new socket is dialled for it, and a
  packet that arrives later and whose call returns has been written to the closed socket, with a
  nil error.
\<close>

theorem udp_closed_flow_is_dead:
  assumes "reaches init_forward s" and "connections s i = Some j" and "conns s j = Some k" and "\<not> is_open k"
    and "reaches s s'"
  shows "(\<forall>u l. conns s' u = Some l \<and> key l = i \<longrightarrow> u = j \<and> \<not> is_open l \<and> sent l = sent k) \<and>
         (\<forall>t c f. calls s t = None \<and> calls s' t = Some c \<and> call_identify c = i \<and> call_pc c = Returned f \<longrightarrow>
            f = LostOnClosed)"
proof -
  have ok: "state_ok s" "state_ok s'"
    using reachable_ok [OF assms(1)] reaches_ok [OF assms(5)] by auto
  have "key k = i" using state_okD(4) [OF ok(1) assms(2)] assms(3) by auto
  then have "dead_flow i j (sent k) {t. calls s t \<noteq> None} s"
    using assms(2-4) by (auto simp: dead_flow_def)
  then have dead: "dead_flow i j (sent k) {t. calls s t \<noteq> None} s'"
    by (rule dead_reaches [OF assms(5) ok(1)])
  have "u = j \<and> \<not> is_open l \<and> sent l = sent k" if "conns s' u = Some l" "key l = i" for u l
  proof -
    obtain m where m: "conns s' j = Some m" "key m = i" "\<not> is_open m" "sent m = sent k"
      using dead by (auto simp: dead_flow_def)
    moreover have "u = j" using key_unique [OF ok(2) that(1) m(1)] that(2) m(2) by simp
    ultimately show ?thesis using that(1) by simp
  qed
  moreover have "f = LostOnClosed"
    if "calls s t = None" "calls s' t = Some c" "call_identify c = i" "call_pc c = Returned f" for t c f
    using dead_flowD [OF dead _ that(2,3)] that(1,4) by simp
  ultimately show ?thesis by blast
qed

lemma udp_closed_flow_is_dead_witness:
  "\<exists>s' l. exec_events exec [Spawn 1 ''a'' [2], Step 1, Step 1] (after_open ''a'' [1] False) = Some s' \<and>
     conns s' 0 = Some l \<and> \<not> is_open l \<and> sent l = [[1]]"
proof -
  define s where "s = after_open ''a'' [1] False"
  have "\<exists>s' l. exec_events exec [Spawn 1 ''a'' [2], Step 1, Step 1] s = Some s' \<and> conns s' 0 = Some l \<and> key l = ''a''"
    by (simp add: s_def after_open_def flow_conn_def attach_step_def set_pc_def conn_write_def)
  then obtain s' l where s': "exec_events exec [Spawn 1 ''a'' [2], Step 1, Step 1] s = Some s'"
    "conns s' 0 = Some l" "key l = ''a''" by blast
  have "reaches s s'" by (rule exec_events_reachable [OF s'(1)])
  with udp_closed_flow_is_dead [of s "''a''" 0 "flow_conn ''a'' [[1]] False" s'] s'(2,3)
  have "\<not> is_open l \<and> sent l = [[1]]"
    using dead_reachable [of "''a''" "[1]"] by (auto simp: s_def after_open_def flow_conn_def)
  with s' show ?thesis unfolding s_def by blast
qed

section \<open>Calls that run alone\<close>

text \<open>
  Without interference \<open>attachConnect\<close> does its job. A packet of a new flow dials one socket, for
  its own identification, registers it and sends the payload on it; a packet of a flow with an
  open socket is appended to that socket and touches nothing else; if the dial fails the lock is
  released and nothing is registered.
\<close>

theorem udp_alone:
  assumes "calls s t = None" and "i \<noteq> []" and "lock s = None"
  shows "(connections s i = None \<longrightarrow>
           (\<exists>s'. exec_events exec [Spawn t i b, Step t, Step t, Step t, Dial t True, Step t, Step t, Step t] s = Some s' \<and>
                connections s' = (connections s)(i \<mapsto> t) \<and> lock s' = None \<and>
                conns s' = (conns s)(t \<mapsto> flow_conn i [b] True))) \<and>
         (connections s i = None \<longrightarrow>
           (\<exists>s'. exec_events exec [Spawn t i b, Step t, Step t, Step t, Dial t False] s = Some s' \<and>
                connections s' = connections s \<and> lock s' = None \<and> conns s' = conns s)) \<and>
         (\<forall>j k. connections s i = Some j \<and> conns s j = Some k \<and> is_open k \<longrightarrow>
           (\<exists>s'. exec_events exec [Spawn t i b, Step t, Step t] s = Some s' \<and>
                connections s' = connections s \<and> lock s' = None \<and>
                conns s' = (conns s)(j \<mapsto> k\<lparr>sent := sent k @ [b]\<rparr>)))"
  using assms
  by (simp add: attach_step_def attach_dial_def set_pc_def conn_write_def flow_conn_def)

lemma udp_alone_witness:
  "\<exists>s'. exec_events exec [Spawn 1 ''a'' [2], Step 1, Step 1] (after_open ''a'' [1] True) = Some s' \<and>
     conns s' = (conns (after_open ''a'' [1] True))(0 \<mapsto> (flow_conn ''a'' [[1]] True)\<lparr>sent := [[1]] @ [[2]]\<rparr>)"
  using udp_alone [of "after_open ''a'' [1] True" 1 "''a''" "[2]"]
  by (auto simp: after_open_def flow_conn_def)

text \<open>
  Two packets of a new flow that arrive together lose one. Both miss in the unlocked lookup; the
  second, once it holds the lock, finds the entry the first has registered and returns nil without
  writing its payload anywhere.
\<close>

theorem udp_recheck_drops:
  "\<exists>s. exec_events exec [Spawn 0 ''a'' [1], Spawn 1 ''a'' [2], Step 0, Step 1, Step 0, Step 0, Dial 0 True,
         Step 0, Step 0, Step 0, Step 1, Step 1] init_forward = Some s \<and>
       (\<exists>c. calls s 1 = Some c \<and> call_buff c = [2] \<and> call_pc c = Returned DroppedOnRecheck) \<and>
       conns s = [0 \<mapsto> flow_conn ''a'' [[1]] True] \<and> connections s = [''a'' \<mapsto> 0]"
  by (simp add: init_forward_def attach_step_def attach_dial_def set_pc_def conn_write_def flow_conn_def)

end
