(* ===== verification/Udp_Forwarder.thy ===== *)
theory Udp_Forwarder
  imports Steps Go_Net "HOL-Library.AList"
begin

text \<open>
  The reverse NAT forwarder of \<open>handler/remoteSocketHandler/udp/forwardUtil.go\<close>: the goroutines of
  \<open>handle\<close>, the janitor, and \<open>Close\<close>. A section under \<open>connectionsMutex\<close> is one step; what happens
  outside it is a step of its own. A panic of a goroutine ends the process.
\<close>

section \<open>State\<close>

text \<open>
  A call of \<open>handle\<close> creates at most one \<open>connection\<close> and dials at most one socket, which carry its
  number. \<open>available\<close> says that the channel has been closed.
\<close>

record connection =
  available :: bool
  udp :: "nat option"
  lastActive :: int

record socket =
  sock_open :: bool
  sock_sent :: "bytes list"

datatype handle_pc =
    Enter | Dialing | Publish | Connected | FirstWrite | ReadLoop | Notify
  | Await nat | Touch | Retouch | Finished

record handle =
  h_addr :: string
  h_data :: bytes
  h_pc :: handle_pc

record Forwarder =
  dst :: IP
  timeout :: int
  closed :: bool
  listening :: bool
  f_connections :: "(string \<times> nat) list"
  objects :: "nat \<rightharpoonup> connection"
  sockets :: "nat \<rightharpoonup> socket"
  handles :: "nat \<rightharpoonup> handle"
  janitor :: "string list option"
  clock :: int
  connectCallback :: nat
  disconnectCallback :: nat
  callbacks :: "(bool \<times> nat \<times> string) list"
  to_client :: "(string \<times> bytes) list"

text \<open>\<open>Forward\<close>: both addresses must resolve and the listener must open.\<close>

definition Forward ::
  "IP outcome \<Rightarrow> IP outcome \<Rightarrow> unit outcome \<Rightarrow> int \<Rightarrow> int \<Rightarrow> Forwarder outcome" where
  "Forward src target listen tmo now =
     bind_outcome src (\<lambda>_. bind_outcome target (\<lambda>d. bind_outcome listen (\<lambda>_.
       Inr \<lparr>dst = d, timeout = tmo, closed = False, listening = True, f_connections = [],
            objects = Map.empty, sockets = Map.empty, handles = Map.empty, janitor = None,
            clock = now, connectCallback = 0, disconnectCallback = 0, callbacks = [], to_client = []\<rparr>)))"

section \<open>Steps\<close>

text \<open>
  None: the step is not enabled. \<open>Some (Inl p)\<close>: the goroutine panics.
\<close>

type_synonym step_result = "Forwarder outcome option"

definition nil_deref :: step_result where
  "nil_deref = Some (Inl (Panic ''nil pointer dereference''))"

definition goto :: "nat \<Rightarrow> handle_pc \<Rightarrow> Forwarder \<Rightarrow> Forwarder" where
  "goto t p f =
     (case handles f t of None \<Rightarrow> f | Some h \<Rightarrow> f\<lparr>handles := (handles f)(t \<mapsto> h\<lparr>h_pc := p\<rparr>)\<rparr>)"

definition send_on :: "nat \<Rightarrow> bytes \<Rightarrow> Forwarder \<Rightarrow> Forwarder" where
  "send_on j b f =
     (case sockets f j of
        None \<Rightarrow> f
      | Some k \<Rightarrow> if sock_open k then f\<lparr>sockets := (sockets f)(j \<mapsto> k\<lparr>sock_sent := sock_sent k @ [b]\<rparr>)\<rparr> else f)"

definition close_socket :: "nat \<Rightarrow> Forwarder \<Rightarrow> Forwarder" where
  "close_socket j f =
     (case sockets f j of None \<Rightarrow> f | Some k \<Rightarrow> f\<lparr>sockets := (sockets f)(j \<mapsto> k\<lparr>sock_open := False\<rparr>)\<rparr>)"

text \<open>\<open>run\<close>: a datagram from a client starts a goroutine, as long as the listener is open.\<close>

definition run_receive :: "nat \<Rightarrow> string \<Rightarrow> bytes \<Rightarrow> Forwarder \<Rightarrow> step_result" where
  "run_receive t addr data f =
     (if listening f \<and> handles f t = None
      then Some (Inr (f\<lparr>handles := (handles f)(t \<mapsto> \<lparr>h_addr = addr, h_data = take 4096 data, h_pc = Enter\<rparr>)\<rparr>))
      else None)"

text \<open>One step of \<open>handle\<close>, other than the dial and the read.\<close>

definition handle_step :: "nat \<Rightarrow> handle \<Rightarrow> Forwarder \<Rightarrow> step_result" where
  "handle_step t h f =
     (case h_pc h of
        Enter \<Rightarrow>
          (case map_of (f_connections f) (h_addr h) of
             None \<Rightarrow>
               Some (Inr (goto t Dialing
                 (f\<lparr>f_connections := AList.update (h_addr h) t (f_connections f),
                    objects := (objects f)(t \<mapsto> \<lparr>available = False, udp = None, lastActive = clock f\<rparr>)\<rparr>)))
           | Some j \<Rightarrow> Some (Inr (goto t (Await j) f)))
      | Publish \<Rightarrow>
          (case map_of (f_connections f) (h_addr h) of
             None \<Rightarrow> nil_deref
           | Some j \<Rightarrow>
               (case objects f j of
                  None \<Rightarrow> nil_deref
                | Some c \<Rightarrow>
                    if available c then Some (Inl (Panic ''close of closed channel''))
                    else Some (Inr (goto t Connected
                           (f\<lparr>objects := (objects f)(j \<mapsto> c\<lparr>udp := Some t, lastActive := clock f, available := True\<rparr>)\<rparr>)))))
      | Connected \<Rightarrow> Some (Inr (goto t FirstWrite (f\<lparr>callbacks := callbacks f @ [(True, connectCallback f, h_addr h)]\<rparr>)))
      | FirstWrite \<Rightarrow> Some (Inr (goto t ReadLoop (send_on t (h_data h) f)))
      | Notify \<Rightarrow> Some (Inr (goto t Finished (f\<lparr>callbacks := callbacks f @ [(False, disconnectCallback f, h_addr h)]\<rparr>)))
      | Await j \<Rightarrow>
          (case objects f j of
             None \<Rightarrow> None
           | Some c \<Rightarrow>
               if \<not> available c then None
               else (case udp c of
                       None \<Rightarrow> nil_deref
                     | Some k \<Rightarrow> Some (Inr (goto t Touch (send_on k (h_data h) f)))))
      | Touch \<Rightarrow>
          (case map_of (f_connections f) (h_addr h) of
             None \<Rightarrow> Some (Inr (goto t Finished f))
           | Some j \<Rightarrow>
               (case objects f j of
                  None \<Rightarrow> nil_deref
                | Some c \<Rightarrow>
                    Some (Inr (goto t (if lastActive c < clock f + timeout f div 4 then Retouch else Finished) f))))
      | Retouch \<Rightarrow>
          (case map_of (f_connections f) (h_addr h) of
             None \<Rightarrow> Some (Inr (goto t Finished f))
           | Some j \<Rightarrow>
               (case objects f j of
                  None \<Rightarrow> nil_deref
                | Some c \<Rightarrow>
                    Some (Inr (goto t Finished (f\<lparr>objects := (objects f)(j \<mapsto> c\<lparr>lastActive := clock f\<rparr>)\<rparr>)))))
      | _ \<Rightarrow> None)"

text \<open>
  The dial. A destination that is not IPv4 panics on \<open>To4()[0]\<close>; a failed dial deletes the entry
  without the lock and leaves the channel open.
\<close>

definition handle_dial :: "nat \<Rightarrow> handle \<Rightarrow> bool \<Rightarrow> Forwarder \<Rightarrow> step_result" where
  "handle_dial t h ok f =
     (if h_pc h \<noteq> Dialing then None
      else if To4 (dst f) = None then Some (Inl (Panic ''index out of range''))
      else if ok then
        Some (Inr (goto t Publish (f\<lparr>sockets := (sockets f)(t \<mapsto> \<lparr>sock_open = True, sock_sent = []\<rparr>)\<rparr>)))
      else Some (Inr (goto t Finished (f\<lparr>f_connections := AList.delete (h_addr h) (f_connections f)\<rparr>))))"

text \<open>
  The read loop: a datagram of the server goes to the client; an error closes the socket and
  deletes whatever entry the client has by then.
\<close>

definition handle_read :: "nat \<Rightarrow> handle \<Rightarrow> bytes option \<Rightarrow> Forwarder \<Rightarrow> step_result" where
  "handle_read t h r f =
     (if h_pc h \<noteq> ReadLoop then None
      else case r of
        Some b \<Rightarrow>
          (case sockets f t of
             None \<Rightarrow> None
           | Some k \<Rightarrow>
               if \<not> sock_open k then None
               else Some (Inr (if listening f then f\<lparr>to_client := to_client f @ [(h_addr h, take 4096 b)]\<rparr> else f)))
      | None \<Rightarrow>
          Some (Inr (goto t Notify
            ((close_socket t f)\<lparr>f_connections := AList.delete (h_addr h) (f_connections f)\<rparr>))))"

section \<open>The janitor and Close\<close>

definition idle :: "Forwarder \<Rightarrow> string \<times> nat \<Rightarrow> bool" where
  "idle f e = (case objects f (snd e) of None \<Rightarrow> False | Some c \<Rightarrow> lastActive c < clock f - timeout f)"

text \<open>The read-locked section collects the idle keys, in any order.\<close>

definition janitor_collect :: "string list \<Rightarrow> Forwarder \<Rightarrow> step_result" where
  "janitor_collect ks f =
     (if \<not> closed f \<and> janitor f = None \<and> mset ks = mset (map fst (filter (idle f) (f_connections f)))
      then Some (Inr (f\<lparr>janitor := Some ks\<rparr>)) else None)"

text \<open>The locked section closes and deletes them; the callbacks follow outside the lock.\<close>

fun janitor_delete :: "string list \<Rightarrow> Forwarder \<Rightarrow> Forwarder outcome" where
  "janitor_delete [] f = Inr f"
| "janitor_delete (k # ks) f =
     (case map_of (f_connections f) k of
        None \<Rightarrow> Inl (Panic ''nil pointer dereference'')
      | Some j \<Rightarrow>
          (case objects f j of
             None \<Rightarrow> Inl (Panic ''nil pointer dereference'')
           | Some c \<Rightarrow>
               (case udp c of
                  None \<Rightarrow> Inl (Panic ''nil pointer dereference'')
                | Some s \<Rightarrow>
                    janitor_delete ks ((close_socket s f)\<lparr>f_connections := AList.delete k (f_connections f)\<rparr>))))"

definition janitor_sweep :: "Forwarder \<Rightarrow> step_result" where
  "janitor_sweep f =
     (case janitor f of
        None \<Rightarrow> None
      | Some ks \<Rightarrow>
          Some (bind_outcome (janitor_delete ks f)
            (\<lambda>f'. Inr (f'\<lparr>janitor := None, callbacks := callbacks f' @ map (\<lambda>k. (False, disconnectCallback f', k)) ks\<rparr>))))"

fun close_all :: "nat list \<Rightarrow> Forwarder \<Rightarrow> Forwarder outcome" where
  "close_all [] f = Inr f"
| "close_all (j # js) f =
     (case objects f j of
        None \<Rightarrow> Inl (Panic ''nil pointer dereference'')
      | Some c \<Rightarrow>
          (case udp c of
             None \<Rightarrow> Inl (Panic ''nil pointer dereference'')
           | Some s \<Rightarrow> close_all js (close_socket s f)))"

definition forwarder_Close :: "Forwarder \<Rightarrow> Forwarder outcome" where
  "forwarder_Close f =
     bind_outcome (close_all (map snd (f_connections f)) (f\<lparr>closed := True\<rparr>))
       (\<lambda>f'. Inr (f'\<lparr>listening := False\<rparr>))"

definition forwarder_Connected :: "Forwarder \<Rightarrow> string list" where
  "forwarder_Connected f = map fst (f_connections f)"

text \<open>The setters of the two callbacks; a callback is known by a number, 0 is the empty function.\<close>

definition OnConnect :: "nat \<Rightarrow> Forwarder \<Rightarrow> Forwarder" where [simp]:
  "OnConnect callback f = f\<lparr>connectCallback := callback\<rparr>"

definition OnDisconnect :: "nat \<Rightarrow> Forwarder \<Rightarrow> Forwarder" where [simp]:
  "OnDisconnect callback f = f\<lparr>disconnectCallback := callback\<rparr>"

datatype fwd_event =
    Receive nat string bytes | Handle nat | Dialled nat bool | Read nat "bytes option"
  | Collect "string list" | Sweep | CloseAll | Tick nat | SetConnect nat | SetDisconnect nat

fun fwd_exec :: "fwd_event \<Rightarrow> Forwarder \<Rightarrow> step_result" where
  "fwd_exec (Receive t a b) f = run_receive t a b f"
| "fwd_exec (Handle t) f = (case handles f t of None \<Rightarrow> None | Some h \<Rightarrow> handle_step t h f)"
| "fwd_exec (Dialled t ok) f = (case handles f t of None \<Rightarrow> None | Some h \<Rightarrow> handle_dial t h ok f)"
| "fwd_exec (Read t r) f = (case handles f t of None \<Rightarrow> None | Some h \<Rightarrow> handle_read t h r f)"
| "fwd_exec (Collect ks) f = janitor_collect ks f"
| "fwd_exec Sweep f = janitor_sweep f"
| "fwd_exec CloseAll f = Some (forwarder_Close f)"
| "fwd_exec (Tick n) f = Some (Inr (f\<lparr>clock := clock f + int n\<rparr>))"
| "fwd_exec (SetConnect callback) f = Some (Inr (OnConnect callback f))"
| "fwd_exec (SetDisconnect callback) f = Some (Inr (OnDisconnect callback f))"

fun fwd_exec_all :: "fwd_event list \<Rightarrow> Forwarder \<Rightarrow> step_result" where
  "fwd_exec_all [] f = Some (Inr f)"
| "fwd_exec_all (e # es) f =
     (case fwd_exec e f of
        None \<Rightarrow> None | Some (Inl p) \<Rightarrow> Some (Inl p) | Some (Inr f') \<Rightarrow> fwd_exec_all es f')"

text \<open>A step that crashes the program has no successor.\<close>

definition fwd_next :: "fwd_event \<Rightarrow> Forwarder \<Rightarrow> Forwarder option" where
  "fwd_next e f = (case fwd_exec e f of Some (Inr f') \<Rightarrow> Some f' | _ \<Rightarrow> None)"

abbreviation fwd_reaches :: "Forwarder \<Rightarrow> Forwarder \<Rightarrow> bool" where
  "fwd_reaches \<equiv> reachable (executes fwd_next)"

lemma executes_fwd_next [simp]: "executes fwd_next f e f' \<longleftrightarrow> fwd_exec e f = Some (Inr f')"
  by (auto simp: executes_def fwd_next_def split: option.splits sum.splits)

lemma fwd_exec_reaches: "fwd_reaches f f' \<Longrightarrow> fwd_exec e f' = Some (Inr f'') \<Longrightarrow> fwd_reaches f f''"
  by (rule reachable_step) simp_all

lemma fwd_exec_all_reaches:
  "fwd_exec_all es f' = Some (Inr f'') \<Longrightarrow> fwd_reaches f f' \<Longrightarrow> fwd_reaches f f''"
  by (induction es arbitrary: f') (auto split: option.splits sum.splits intro: fwd_exec_reaches)

section \<open>Frame facts\<close>

lemma goto_frame [frame, simp]:
  "f_connections (goto t p f) = f_connections f" "objects (goto t p f) = objects f"
  "sockets (goto t p f) = sockets f" "janitor (goto t p f) = janitor f" "clock (goto t p f) = clock f"
  "timeout (goto t p f) = timeout f"
  by (auto simp: goto_def split: option.split)

lemma handles_goto:
  "handles (goto t p f) =
     (case handles f t of None \<Rightarrow> handles f | Some h \<Rightarrow> (handles f)(t \<mapsto> h\<lparr>h_pc := p\<rparr>))"
  by (auto simp: goto_def split: option.split)

lemma send_on_frame [frame, simp]:
  "f_connections (send_on j b f) = f_connections f" "objects (send_on j b f) = objects f"
  "handles (send_on j b f) = handles f" "clock (send_on j b f) = clock f" "timeout (send_on j b f) = timeout f"
  by (auto simp: send_on_def split: option.split)

lemma close_socket_frame [frame, simp]:
  "f_connections (close_socket j f) = f_connections f" "objects (close_socket j f) = objects f"
  "handles (close_socket j f) = handles f" "clock (close_socket j f) = clock f"
  "timeout (close_socket j f) = timeout f"
  by (auto simp: close_socket_def split: option.split)

lemma janitor_delete_frame:
  "janitor_delete ks f = Inr f' \<Longrightarrow>
     map_of (f_connections f') = (map_of (f_connections f)) |` (- set ks) \<and>
     objects f' = objects f \<and> handles f' = handles f \<and> clock f' = clock f \<and> timeout f' = timeout f"
proof (induction ks f rule: janitor_delete.induct)
  case (2 k ks f)
  then show ?case
    by (auto split: option.splits simp: delete_conv' restrict_map_def fun_eq_iff)
qed (simp add: restrict_map_def)

lemma janitor_delete_callbacks:
  "janitor_delete ks f = Inr f' \<Longrightarrow>
     callbacks f' = callbacks f \<and> connectCallback f' = connectCallback f \<and>
     disconnectCallback f' = disconnectCallback f"
  by (induction ks f rule: janitor_delete.induct)
    (auto simp: close_socket_def split: option.splits)

lemma close_all_frame:
  "close_all js f = Inr f' \<Longrightarrow>
     f_connections f' = f_connections f \<and> objects f' = objects f \<and> handles f' = handles f \<and>
     clock f' = clock f \<and> timeout f' = timeout f"
  by (induction js f rule: close_all.induct) (auto split: option.splits)

text \<open>What the two events that close many sockets leave of the table, the objects and the calls.\<close>

lemma sweep_frame:
  assumes "fwd_exec Sweep f = Some (Inr f')"
  obtains ks where "map_of (f_connections f') = (map_of (f_connections f)) |` (- set ks)"
    "objects f' = objects f" "handles f' = handles f" "clock f' = clock f"
  using assms by (auto simp: janitor_sweep_def bind_outcome_Inr_iff split: option.splits dest!: janitor_delete_frame)

lemma close_frame:
  assumes "fwd_exec CloseAll f = Some (Inr f')"
  shows "f_connections f' = f_connections f" "objects f' = objects f" "handles f' = handles f" "clock f' = clock f"
  using assms by (auto simp: forwarder_Close_def bind_outcome_Inr_iff dest!: close_all_frame)

section \<open>A failed dial\<close>

text \<open>The object \<open>j\<close> is in no table entry and its channel is open; the calls in \<open>W\<close> wait for it.\<close>

definition orphaned :: "nat \<Rightarrow> nat set \<Rightarrow> Forwarder \<Rightarrow> bool" where
  "orphaned j W f \<longleftrightarrow>
     j \<notin> ran (map_of (f_connections f)) \<and> (\<exists>c. objects f j = Some c \<and> \<not> available c) \<and>
     (\<forall>t \<in> W. \<exists>h. handles f t = Some h \<and> h_pc h = Await j) \<and>
     (\<exists>h. handles f j = Some h \<and> h_pc h \<noteq> Enter)"

lemma orphanedD:
  assumes "orphaned j W f"
  shows "map_of (f_connections f) a \<noteq> Some j" and "\<exists>c. objects f j = Some c \<and> \<not> available c"
    and "t \<in> W \<Longrightarrow> \<exists>h. handles f t = Some h \<and> h_pc h = Await j"
    and "\<exists>h. handles f j = Some h \<and> h_pc h \<noteq> Enter"
  using assms by (auto simp: orphaned_def ran_def)

text \<open>Moving a call that does not wait for \<open>j\<close>, without putting \<open>j\<close> back into the table.\<close>

lemma orphaned_goto:
  assumes "orphaned j W f" and "handles f t = Some h" and "h_pc h \<noteq> Await j" and "p \<noteq> Enter"
    and "handles g = handles f" and "j \<notin> ran (map_of (f_connections g))" and "objects g j = objects f j"
  shows "orphaned j W (goto t p g)"
proof -
  have "t \<notin> W" using orphanedD(3) [OF assms(1), of t] assms(2,3) by auto
  with assms show ?thesis
    by (auto simp: orphaned_def handles_goto)
qed

lemma ran_update: "x \<noteq> j \<Longrightarrow> j \<notin> ran m \<Longrightarrow> j \<notin> ran (m(a \<mapsto> x))"
  by (auto simp: ran_def)

lemma ran_delete: "j \<notin> ran m \<Longrightarrow> j \<notin> ran (m(a := None))"
  by (auto simp: ran_def)

lemma ran_restrict: "j \<notin> ran m \<Longrightarrow> j \<notin> ran (m |` A)"
  by (auto simp: ran_def restrict_map_def)

lemma orphaned_handle:
  assumes o: "orphaned j W f" and h: "handles f t = Some h" and ex: "handle_step t h f = Some (Inr f')"
  shows "orphaned j W f'"
proof -
  have free: "j \<notin> ran (map_of (f_connections f))" using o by (simp add: orphaned_def)
  have not_j: "map_of (f_connections f) a \<noteq> Some j" for a by (rule orphanedD(1) [OF o])
  have no_wait: "h_pc h \<noteq> Await j" using ex orphanedD(2) [OF o] by (auto simp: handle_step_def)
  have enter: "t \<noteq> j" if "h_pc h = Enter" using orphanedD(4) [OF o] h that by auto
  show ?thesis
    using ex no_wait enter not_j
    by (cases "h_pc h")
      (auto simp: handle_step_def nil_deref_def update_conv' ran_update free
        split: option.splits if_splits intro!: orphaned_goto [OF o h])
qed

lemma orphaned_exec:
  assumes o: "orphaned j W f" and ex: "fwd_exec e f = Some (Inr f')"
  shows "orphaned j W f'"
proof -
  have free: "j \<notin> ran (map_of (f_connections f))" using o by (simp add: orphaned_def)
  show ?thesis
  proof (cases e)
    case (Handle t)
    with ex show ?thesis by (auto split: option.splits intro: orphaned_handle [OF o])
  next
    case (Dialled t ok)
    with ex obtain h where h: "handles f t = Some h" "handle_dial t h ok f = Some (Inr f')"
      by (auto split: option.splits)
    then show ?thesis
      by (auto simp: handle_dial_def delete_conv' ran_delete free split: if_splits
          intro!: orphaned_goto [OF o h(1)])
  next
    case (Read t r)
    with ex obtain h where h: "handles f t = Some h" "handle_read t h r f = Some (Inr f')"
      by (auto split: option.splits)
    show ?thesis
    proof (cases r)
      case None
      with h(2) have f': "f' = goto t Notify ((close_socket t f)\<lparr>f_connections := AList.delete (h_addr h) (f_connections f)\<rparr>)"
        "h_pc h = ReadLoop"
        by (auto simp: handle_read_def split: if_splits)
      show ?thesis unfolding f'(1)
        by (rule orphaned_goto [OF o h(1)]) (simp_all add: f'(2) delete_conv' ran_delete free)
    next
      case (Some b)
      with h o show ?thesis
        by (auto simp: handle_read_def orphaned_def split: if_splits option.splits)
    qed
  next
    case Sweep
    with ex obtain ks where "map_of (f_connections f') = (map_of (f_connections f)) |` (- set ks)"
      "objects f' = objects f" "handles f' = handles f" "clock f' = clock f"
      using sweep_frame by metis
    with o show ?thesis by (simp add: orphaned_def ran_restrict)
  next
    case CloseAll
    with o close_frame [of f f'] ex show ?thesis by (simp add: orphaned_def)
  next
    case (Receive t a b)
    with ex o show ?thesis by (fastforce simp: run_receive_def orphaned_def split: if_splits)
  qed (use ex o in \<open>auto simp: janitor_collect_def orphaned_def split: if_splits\<close>)
qed

interpretation orphans: safety "executes fwd_next" "orphaned j W" for j W
  by unfold_locales (auto intro: orphaned_exec)

lemmas orphaned_reaches = orphans.reachable_keeps

section \<open>The invariant of the table\<close>

definition entries_ok :: "Forwarder \<Rightarrow> bool" where
  "entries_ok f \<longleftrightarrow>
     (\<forall>a j. map_of (f_connections f) a = Some j \<longrightarrow>
        (\<exists>h. handles f j = Some h \<and> h_addr h = a \<and> h_pc h \<noteq> Enter) \<and> objects f j \<noteq> None)"

definition objects_ok :: "Forwarder \<Rightarrow> bool" where
  "objects_ok f \<longleftrightarrow>
     (\<forall>j c. objects f j = Some c \<longrightarrow> lastActive c \<le> clock f \<and> (available c \<longrightarrow> udp c \<noteq> None))"

lemma entries_okD:
  "entries_ok f \<Longrightarrow> map_of (f_connections f) a = Some j \<Longrightarrow>
   (\<exists>h. handles f j = Some h \<and> h_addr h = a \<and> h_pc h \<noteq> Enter) \<and> objects f j \<noteq> None"
  unfolding entries_ok_def by blast

lemma objects_okD:
  "objects_ok f \<Longrightarrow> objects f j = Some c \<Longrightarrow> lastActive c \<le> clock f \<and> (available c \<longrightarrow> udp c \<noteq> None)"
  unfolding objects_ok_def by blast

lemma objects_ok_udp: "objects_ok f \<Longrightarrow> objects f j = Some c \<Longrightarrow> available c \<Longrightarrow> \<exists>y. udp c = Some y"
  using objects_okD by fastforce

lemma entries_goto:
  assumes "entries_ok f" and "handles f t = Some h" and "p \<noteq> Enter" and "handles g = handles f"
    and "\<And>a j. map_of (f_connections g) a = Some j \<Longrightarrow>
           map_of (f_connections f) a = Some j \<or> a = h_addr h \<and> j = t"
    and "\<And>j. objects f j \<noteq> None \<Longrightarrow> objects g j \<noteq> None"
    and "map_of (f_connections g) (h_addr h) = Some t \<Longrightarrow> objects g t \<noteq> None"
  shows "entries_ok (goto t p g)"
  unfolding entries_ok_def
proof (intro allI impI)
  fix a j
  assume "map_of (f_connections (goto t p g)) a = Some j"
  then have e: "map_of (f_connections g) a = Some j" by simp
  from assms(5) [OF e]
  show "(\<exists>h. handles (goto t p g) j = Some h \<and> h_addr h = a \<and> h_pc h \<noteq> Enter) \<and>
        objects (goto t p g) j \<noteq> None"
  proof
    assume "map_of (f_connections f) a = Some j"
    from entries_okD [OF assms(1) this] assms(2,3,4,6) show ?thesis
      by (auto simp: handles_goto)
  next
    assume "a = h_addr h \<and> j = t"
    with e assms(2,3,4,7) show ?thesis by (simp add: handles_goto)
  qed
qed

lemma entries_handle:
  assumes "entries_ok f" and "handles f t = Some h" and "handle_step t h f = Some (Inr f')"
  shows "entries_ok f'"
  using assms(3)
  by (cases "h_pc h")
    (auto simp: handle_step_def nil_deref_def update_conv' split: option.splits if_splits
      dest: entries_okD [OF assms(1)] intro!: entries_goto [OF assms(1,2)])

lemma map_of_delete_SomeD: "map_of (AList.delete k al) a = Some j \<Longrightarrow> map_of al a = Some j"
  by (auto simp: delete_conv' split: if_splits)

lemma entries_exec:
  assumes ok: "entries_ok f" and ex: "fwd_exec e f = Some (Inr f')"
  shows "entries_ok f'"
proof (cases e)
  case (Handle t)
  with ex show ?thesis by (auto split: option.splits intro: entries_handle [OF ok])
next
  case (Dialled t b)
  with ex obtain h where h: "handles f t = Some h" "handle_dial t h b f = Some (Inr f')"
    by (auto split: option.splits)
  then show ?thesis
    by (auto simp: handle_dial_def delete_conv' split: if_splits dest: entries_okD [OF ok]
        intro!: entries_goto [OF ok h(1)])
next
  case (Read t r)
  with ex obtain h where h: "handles f t = Some h" "handle_read t h r f = Some (Inr f')"
    by (auto split: option.splits)
  show ?thesis
  proof (cases r)
    case None
    with h(2) have f': "f' = goto t Notify ((close_socket t f)\<lparr>f_connections := AList.delete (h_addr h) (f_connections f)\<rparr>)"
      by (auto simp: handle_read_def split: if_splits)
    show ?thesis unfolding f'
      by (rule entries_goto [OF ok h(1)]) (auto dest: map_of_delete_SomeD entries_okD [OF ok])
  next
    case (Some b)
    with h ok show ?thesis by (auto simp: handle_read_def entries_ok_def split: if_splits option.splits)
  qed
next
  case Sweep
  with ex obtain ks where "map_of (f_connections f') = (map_of (f_connections f)) |` (- set ks)"
    "objects f' = objects f" "handles f' = handles f" "clock f' = clock f"
    using sweep_frame by metis
  with ok show ?thesis by (simp add: entries_ok_def restrict_map_def)
next
  case CloseAll
  with ok close_frame [of f f'] ex show ?thesis by (simp add: entries_ok_def)
next
  case (Receive t a b)
  with ex have "handles f t = None" and
    f': "f' = f\<lparr>handles := (handles f)(t \<mapsto> \<lparr>h_addr = a, h_data = take 4096 b, h_pc = Enter\<rparr>)\<rparr>"
    by (auto simp: run_receive_def split: if_splits)
  with entries_okD [OF ok] show ?thesis by (fastforce simp: entries_ok_def)
qed (use ex ok in \<open>auto simp: janitor_collect_def entries_ok_def split: if_splits\<close>)

lemma objects_exec:
  assumes ok: "objects_ok f" and ex: "fwd_exec e f = Some (Inr f')"
  shows "objects_ok f'"
proof (cases e)
  case (Handle t)
  with ex obtain h where h: "handles f t = Some h" "handle_step t h f = Some (Inr f')"
    by (auto split: option.splits)
  show ?thesis
  proof (cases "h_pc h")
    case Retouch
    then consider "objects f' = objects f \<and> clock f' = clock f" | j c where "objects f j = Some c"
      "objects f' = (objects f)(j \<mapsto> c\<lparr>lastActive := clock f\<rparr>)" "clock f' = clock f"
      using h(2) by (auto simp: handle_step_def nil_deref_def split: option.splits)
    then show ?thesis
      using ok by cases (auto simp: objects_ok_def)
  qed (use h(2) in \<open>auto simp: handle_step_def nil_deref_def objects_ok_def split: option.splits if_splits
        dest: objects_okD [OF ok]\<close>)
next
  case (Dialled t b)
  with ex objects_okD [OF ok] show ?thesis
    by (fastforce simp: objects_ok_def handle_dial_def split: option.splits if_splits)
next
  case (Read t r)
  with ex objects_okD [OF ok] show ?thesis
    by (fastforce simp: objects_ok_def handle_read_def split: option.splits if_splits)
next
  case Sweep
  with ex obtain ks where "map_of (f_connections f') = (map_of (f_connections f)) |` (- set ks)"
    "objects f' = objects f" "handles f' = handles f" "clock f' = clock f"
    using sweep_frame by metis
  with ok show ?thesis by (simp add: objects_ok_def)
next
  case CloseAll
  with ok close_frame [of f f'] ex show ?thesis by (simp add: objects_ok_def)
next
  case (Tick n)
  with ex objects_okD [OF ok] show ?thesis by (fastforce simp: objects_ok_def)
qed (use ex ok in \<open>auto simp: janitor_collect_def run_receive_def objects_ok_def split: if_splits\<close>)

interpretation entries: safety "executes fwd_next" "\<lambda>f. entries_ok f \<and> objects_ok f"
  by unfold_locales (auto intro: entries_exec objects_exec)

lemma forwarder_invariants:
  assumes "Forward src target listen tmo now = Inr f0" and "fwd_reaches f0 f"
  shows "entries_ok f" and "objects_ok f"
proof -
  have "entries_ok f0 \<and> objects_ok f0"
    using assms(1) by (auto simp: Forward_def bind_outcome_Inr_iff entries_ok_def objects_ok_def)
  then show "entries_ok f" "objects_ok f" using entries.reachable_keeps [OF assms(2)] by auto
qed

text \<open>A forwarder to 10.0.0.1 with a timeout of 300, at time 1000, and what it does with two packets.\<close>

definition start_forwarder :: Forwarder where
  "start_forwarder =
     \<lparr>dst = [10, 0, 0, 1], timeout = 300, closed = False, listening = True, f_connections = [],
      objects = Map.empty, sockets = Map.empty, handles = Map.empty, janitor = None,
      clock = 1000, connectCallback = 0, disconnectCallback = 0, callbacks = [], to_client = []\<rparr>"

lemma start_forwarder: "Forward (Inr [127, 0, 0, 1]) (Inr [10, 0, 0, 1]) (Inr ()) 300 1000 = Inr start_forwarder"
  by (simp add: Forward_def start_forwarder_def)

definition waiting_events :: "fwd_event list" where
  "waiting_events = [Receive 0 ''a'' [1], Handle 0, Receive 1 ''a'' [2], Handle 1]"

definition waiting_forwarder :: Forwarder where
  "waiting_forwarder =
     start_forwarder\<lparr>f_connections := [(''a'', 0)],
       objects := [0 \<mapsto> \<lparr>available = False, udp = None, lastActive = 1000\<rparr>],
       handles := [0 \<mapsto> \<lparr>h_addr = ''a'', h_data = [1], h_pc = Dialing\<rparr>,
                   1 \<mapsto> \<lparr>h_addr = ''a'', h_data = [2], h_pc = Await 0\<rparr>]\<rparr>"

lemma waiting_result: "fwd_exec_all waiting_events start_forwarder = Some (Inr waiting_forwarder)"
  by (simp add: waiting_events_def waiting_forwarder_def start_forwarder_def run_receive_def
      handle_step_def goto_def)

text \<open>
  C37: when the dial of a client's first packet fails, the packets of that client already waiting
  for the connection wait for ever: the entry is deleted but its channel is never closed, and no
  later step of any goroutine, a later successful dial for the same client included, wakes them.
\<close>

theorem forwarder_failed_dial_strands_waiters:
  assumes "Forward src target listen tmo now = Inr f0" and "fwd_reaches f0 f"
    and "handles f t = Some h" and "objects f t = Some c" and "\<not> available c"
    and "fwd_exec (Dialled t False) f = Some (Inr f')"
    and "handles f' u = Some g" and "h_pc g = Await t" and "fwd_reaches f' f''"
  shows "\<exists>g'. handles f'' u = Some g' \<and> h_pc g' = Await t"
proof -
  have ok: "entries_ok f" by (rule forwarder_invariants(1) [OF assms(1,2)])
  have h: "h_pc h = Dialing"
    and f': "f' = goto t Finished (f\<lparr>f_connections := AList.delete (h_addr h) (f_connections f)\<rparr>)"
    using assms(3,6) by (auto simp: handle_dial_def split: if_splits option.splits)
  have "t \<notin> ran (map_of (f_connections f'))"
    using entries_okD [OF ok, of _ t] assms(3) by (auto simp: f' ran_def delete_conv' split: if_splits)
  then have "orphaned t {u} f'"
    using assms(3,4,5,7,8) by (auto simp: orphaned_def f' handles_goto)
  then have "orphaned t {u} f''" by (rule orphaned_reaches [OF assms(9)])
  then show ?thesis by (auto simp: orphaned_def)
qed

lemma forwarder_failed_dial_strands_waiters_witness:
  "\<exists>f' f'' g'. fwd_exec (Dialled 0 False) waiting_forwarder = Some (Inr f') \<and>
     fwd_exec_all [Receive 2 ''a'' [3], Handle 2, Dialled 2 True, Handle 2] f' = Some (Inr f'') \<and>
     handles f'' 1 = Some g' \<and> h_pc g' = Await 0"
proof -
  let ?es = "[Receive 2 ''a'' [3], Handle 2, Dialled 2 True, Handle 2]"
  obtain f' where f': "fwd_exec (Dialled 0 False) waiting_forwarder = Some (Inr f')"
    and f'_def: "f' = waiting_forwarder\<lparr>f_connections := [],
       handles := [0 \<mapsto> \<lparr>h_addr = ''a'', h_data = [1], h_pc = Finished\<rparr>,
                   1 \<mapsto> \<lparr>h_addr = ''a'', h_data = [2], h_pc = Await 0\<rparr>]\<rparr>"
    by (simp add: waiting_forwarder_def start_forwarder_def handle_dial_def goto_def fun_upd_twist)
  have "\<exists>f''. fwd_exec_all ?es f' = Some (Inr f'')"
    by (simp add: f'_def waiting_forwarder_def start_forwarder_def run_receive_def handle_step_def
        handle_dial_def goto_def)
  then obtain f'' where f'': "fwd_exec_all ?es f' = Some (Inr f'')" by auto
  have start: "fwd_reaches start_forwarder waiting_forwarder"
    by (rule fwd_exec_all_reaches [OF waiting_result reachable_refl])
  have after: "fwd_reaches f' f''"
    by (rule fwd_exec_all_reaches [OF f'' reachable_refl])
  have "\<exists>g'. handles f'' 1 = Some g' \<and> h_pc g' = Await 0"
    using forwarder_failed_dial_strands_waiters [OF start_forwarder start _ _ _ f' _ _ after, of _ _ 1]
    by (simp add: waiting_forwarder_def f'_def)
  with f' f'' show ?thesis by blast
qed

section \<open>Races that end the process\<close>

definition connect_events :: "fwd_event list" where
  "connect_events = [Receive 0 ''a'' [1], Handle 0, Dialled 0 True, Handle 0, Handle 0, Handle 0]"

text \<open>
  Three interleavings crash the process with a nil dereference. A dial that outlasts the timeout
  meets the janitor; a dial under way meets \<open>Close\<close>; and after an eviction, the reader of the
  closed socket deletes the entry of the client's next packet, whose dial then finds none.
\<close>

theorem forwarder_crashes:
  "fwd_exec_all [Receive 0 ''a'' [1], Handle 0, Tick 301, Collect [''a''], Sweep] start_forwarder = nil_deref \<and>
   fwd_exec_all [Receive 0 ''a'' [1], Handle 0, CloseAll] start_forwarder = nil_deref \<and>
   fwd_exec_all (connect_events @ [Tick 301, Collect [''a''], Sweep, Receive 1 ''a'' [2], Handle 1,
         Read 0 None, Dialled 1 True, Handle 1]) start_forwarder = nil_deref"
  by (simp add: connect_events_def start_forwarder_def run_receive_def handle_step_def handle_dial_def
      handle_read_def goto_def send_on_def close_socket_def janitor_collect_def janitor_sweep_def idle_def
      forwarder_Close_def nil_deref_def)

section \<open>Keeping a client\<close>

text \<open>
  A packet of a connected client always renews the client. The test that should renew at most
  once per quarter of the timeout compares with a moment in the future, so it never fails.
\<close>

theorem forwarder_always_renews:
  assumes "Forward src target listen tmo now = Inr f0" and "fwd_reaches f0 f"
    and "handles f t = Some h" and "h_pc h = Touch" and "map_of (f_connections f) (h_addr h) = Some j"
    and "4 \<le> timeout f"
  shows "\<exists>f2 c. fwd_exec_all [Handle t, Handle t] f = Some (Inr f2) \<and>
           objects f2 j = Some c \<and> lastActive c = clock f"
proof -
  have ok: "entries_ok f" "objects_ok f" by (rule forwarder_invariants [OF assms(1,2)])+
  then obtain c where c: "objects f j = Some c" using entries_okD [OF ok(1) assms(5)] by auto
  then have "lastActive c \<le> clock f" using objects_okD [OF ok(2)] by simp
  then have "lastActive c < clock f + timeout f div 4" using assms(6) by linarith
  with c assms(3-5) show ?thesis
    by (simp add: handle_step_def handles_goto)
qed

definition touching_events :: "fwd_event list" where
  "touching_events = connect_events @ [Receive 1 ''a'' [2], Handle 1, Handle 1, Tick 50]"

definition touching_forwarder :: Forwarder where
  "touching_forwarder =
     start_forwarder\<lparr>f_connections := [(''a'', 0)],
       objects := [0 \<mapsto> \<lparr>available = True, udp = Some 0, lastActive = 1000\<rparr>],
       sockets := [0 \<mapsto> \<lparr>sock_open = True, sock_sent = [[1], [2]]\<rparr>],
       handles := [0 \<mapsto> \<lparr>h_addr = ''a'', h_data = [1], h_pc = ReadLoop\<rparr>,
                   1 \<mapsto> \<lparr>h_addr = ''a'', h_data = [2], h_pc = Touch\<rparr>],
       clock := 1050, callbacks := [(True, 0, ''a'')]\<rparr>"

lemma touching_result: "fwd_exec_all touching_events start_forwarder = Some (Inr touching_forwarder)"
  by (simp add: touching_events_def connect_events_def touching_forwarder_def start_forwarder_def
      run_receive_def handle_step_def handle_dial_def goto_def send_on_def)

lemma forwarder_always_renews_witness:
  "\<exists>f2 c. fwd_exec_all [Handle 1, Handle 1] touching_forwarder = Some (Inr f2) \<and>
     objects f2 0 = Some c \<and> lastActive c = 1050"
  using forwarder_always_renews [OF start_forwarder
      fwd_exec_all_reaches [OF touching_result reachable_refl], of 1 _ 0]
  by (simp add: touching_forwarder_def start_forwarder_def)

section \<open>The sweep\<close>

lemma distinct_exec:
  assumes "distinct (map fst (f_connections f))" and "fwd_exec e f = Some (Inr f')"
  shows "distinct (map fst (f_connections f'))"
proof -
  have del: "janitor_delete ks f = Inr g \<Longrightarrow> distinct (map fst (f_connections f)) \<Longrightarrow>
      distinct (map fst (f_connections g))" for ks f g
    by (induction ks f rule: janitor_delete.induct) (auto split: option.splits simp: distinct_delete)
  show ?thesis
    using assms
    by (cases e)
      (auto simp: run_receive_def handle_step_def handle_dial_def handle_read_def janitor_collect_def
        janitor_sweep_def forwarder_Close_def nil_deref_def bind_outcome_Inr_iff distinct_update distinct_delete
        split: option.splits if_splits handle_pc.splits dest: del close_all_frame)
qed

interpretation clients: safety "executes fwd_next" "\<lambda>f. distinct (map fst (f_connections f))"
  by unfold_locales (auto intro: distinct_exec)

lemma forwarder_distinct:
  assumes "Forward src target listen tmo now = Inr f0" and "fwd_reaches f0 f"
  shows "distinct (map fst (f_connections f))"
proof -
  have "distinct (map fst (f_connections f0))" using assms(1) by (auto simp: Forward_def bind_outcome_Inr_iff)
  with assms(2) show ?thesis by (rule clients.reachable_keeps)
qed

text \<open>
  A sweep that runs straight after its collection, when no dial is under way, cannot crash, and
  removes exactly the clients that have been idle for longer than the timeout.
\<close>

theorem janitor_removes_idle:
  assumes "Forward src target listen tmo now = Inr f0" and "fwd_reaches f0 f"
    and "fwd_exec (Collect ks) f = Some (Inr f1)"
    and "\<forall>j c. objects f j = Some c \<longrightarrow> available c"
  shows "\<exists>f2. fwd_exec Sweep f1 = Some (Inr f2) \<and>
           (\<forall>a. map_of (f_connections f2) a =
              (case map_of (f_connections f) a of
                 None \<Rightarrow> None
               | Some j \<Rightarrow> if lastActive (the (objects f j)) < clock f - timeout f then None else Some j)) \<and>
           callbacks f2 = callbacks f @ map (\<lambda>k. (False, disconnectCallback f, k)) ks"
proof -
  note ok = forwarder_invariants [OF assms(1,2)] and dist = forwarder_distinct [OF assms(1,2)]
  have f1: "f1 = f\<lparr>janitor := Some ks\<rparr>" and ks: "mset ks = mset (map fst (filter (idle f) (f_connections f)))"
    using assms(3) by (auto simp: janitor_collect_def split: if_splits)
  have dks: "distinct ks"
  proof -
    have "distinct (map fst (filter (idle f) (f_connections f)))"
      using dist by (simp add: distinct_map inj_on_def)
    with ks show ?thesis by (metis mset_eq_imp_distinct_iff)
  qed
  have set_ks: "a \<in> set ks \<longleftrightarrow> (\<exists>j. map_of (f_connections f) a = Some j \<and> idle f (a, j))" for a
  proof -
    have "set ks = fst ` {e \<in> set (f_connections f). idle f e}"
      using ks by (metis set_filter set_map set_mset_mset)
    then show ?thesis using dist by (auto simp: image_iff)
  qed
  have run: "\<exists>g'. janitor_delete l g = Inr g'"
    if "distinct l" "\<forall>a \<in> set l. \<exists>j c. map_of (f_connections g) a = Some j \<and> objects g j = Some c \<and> udp c \<noteq> None"
    for l g
    using that
  proof (induction l g rule: janitor_delete.induct)
    case (2 k l g)
    then obtain j c s where j: "map_of (f_connections g) k = Some j" "objects g j = Some c" "udp c = Some s"
      by auto
    have "\<forall>a \<in> set l. \<exists>j c. map_of (AList.delete k (f_connections g)) a = Some j \<and> objects g j = Some c \<and> udp c \<noteq> None"
      using 2(2,3) by (auto simp: delete_conv')
    then show ?case using 2(1) [OF j] 2(2) j by simp
  qed simp
  have "\<forall>a \<in> set ks. \<exists>j c. map_of (f_connections f1) a = Some j \<and> objects f1 j = Some c \<and> udp c \<noteq> None"
    using set_ks objects_ok_udp [OF ok(2)] assms(4) by (fastforce simp: f1 idle_def split: option.splits)
  then obtain g where g: "janitor_delete ks f1 = Inr g"
    using run [OF dks] by blast
  have "map_of (f_connections g) a =
      (case map_of (f_connections f) a of
         None \<Rightarrow> None
       | Some j \<Rightarrow> if lastActive (the (objects f j)) < clock f - timeout f then None else Some j)" for a
    using janitor_delete_frame [OF g] set_ks [of a] entries_okD [OF ok(1), of a]
    by (auto simp: f1 restrict_map_def idle_def split: option.split)
  then show ?thesis
    using g janitor_delete_callbacks [OF g] by (simp add: janitor_sweep_def f1)
qed

lemma janitor_removes_idle_witness:
  "\<exists>f1 f2. fwd_exec (Collect [''a'']) (touching_forwarder\<lparr>clock := 1351\<rparr>) = Some (Inr f1) \<and>
     fwd_exec Sweep f1 = Some (Inr f2) \<and> map_of (f_connections f2) ''a'' = None"
proof -
  let ?f = "touching_forwarder\<lparr>clock := 1351\<rparr>"
  have "fwd_exec (Tick 301) touching_forwarder = Some (Inr ?f)"
    by (simp add: touching_forwarder_def)
  then have reach: "fwd_reaches start_forwarder ?f"
    by (rule fwd_exec_reaches [OF fwd_exec_all_reaches [OF touching_result reachable_refl]])
  obtain f1 where f1: "fwd_exec (Collect [''a'']) ?f = Some (Inr f1)"
    by (simp add: janitor_collect_def idle_def touching_forwarder_def start_forwarder_def)
  have "\<forall>j c. objects ?f j = Some c \<longrightarrow> available c" by (simp add: touching_forwarder_def)
  from janitor_removes_idle [OF start_forwarder reach f1 this]
  obtain f2 where "fwd_exec Sweep f1 = Some (Inr f2)" "map_of (f_connections f2) ''a'' = None"
    by (auto simp: touching_forwarder_def start_forwarder_def)
  with f1 show ?thesis by blast
qed

end
