(* ===== verification/Udp_Stack.thy ===== *)
theory Udp_Stack
  imports Go_Addr Doh Dialer Route
begin

text \<open>
  UDP packets of the user-space network stack, \<open>handler/remoteSocketHandler/udp/forwardUdp.go\<close>: a
  packet from the tunnel becomes a DNS over HTTPS query or a datagram of an outgoing flow, and a
  reply becomes a packet back into the tunnel. The gvisor types are parameters.
\<close>

section \<open>The stack\<close>

record UdpStack =
  noChecksum :: bool
  useDefaultTTL :: bool
  ttl :: byte
  tos :: byte

definition NewUdpStack :: "bool \<Rightarrow> UdpStack" where
  "NewUdpStack no_checksum = \<lparr>noChecksum = True, useDefaultTTL = True, ttl = 0, tos = 0\<rparr>"

text \<open>
  What a route of gvisor says of itself, the checksum functions and the write; a write fails with
  an error text.
\<close>

record gv_route =
  RequiresTXTransportChecksum :: bool
  is_ipv6 :: bool
  DefaultTTL :: byte
  PseudoHeaderChecksum :: "u16 \<Rightarrow> u16"
  CalculateUdpChecksum :: "u16 \<Rightarrow> u16 \<Rightarrow> u16 \<Rightarrow> u16 \<Rightarrow> u16"

record udp_packet =
  SrcPort :: u16
  DstPort :: u16
  UdpLength :: u16
  UdpChecksum :: u16
  Payload :: bytes
  packet_ttl :: byte
  packet_tos :: byte

record udp_stats =
  PacketsSent :: nat
  PacketSendErrors :: nat

text \<open>
  \<open>send\<close>. The identification of the packet it answers gives the ports: the local port is the remote
  server's. \<open>write\<close> is \<open>WritePacket\<close>.
\<close>

definition UdpStack_send ::
  "(udp_packet \<Rightarrow> string option) \<Rightarrow> gv_route \<Rightarrow> u16 \<Rightarrow> u16 \<Rightarrow> bytes \<Rightarrow> UdpStack \<times> udp_stats \<Rightarrow>
   string option \<times> udp_packet \<times> UdpStack \<times> udp_stats" where
  "UdpStack_send write route localPort remotePort data st =
     (let udpStack = fst st; stats = snd st;
          len = of_nat (8 + length data);
          xsum = (if RequiresTXTransportChecksum route \<and> (\<not> noChecksum udpStack \<or> is_ipv6 route)
                  then NOT (CalculateUdpChecksum route localPort remotePort len (PseudoHeaderChecksum route len))
                  else 0);
          udpStack' = (if useDefaultTTL udpStack then udpStack\<lparr>ttl := DefaultTTL route\<rparr> else udpStack);
          pkt = \<lparr>SrcPort = localPort, DstPort = remotePort, UdpLength = len, UdpChecksum = xsum,
                 Payload = data, packet_ttl = ttl udpStack', packet_tos = tos udpStack'\<rparr>
      in case write pkt of
           Some e \<Rightarrow> (Some e, pkt, udpStack', stats\<lparr>PacketSendErrors := PacketSendErrors stats + 1\<rparr>)
         | None \<Rightarrow> (None, pkt, udpStack', stats\<lparr>PacketsSent := PacketsSent stats + 1\<rparr>))"

section \<open>Dispatch of a packet\<close>

text \<open>
  What \<open>readRemoteDate\<close> does: it answers from DNS over HTTPS, fails, or starts \<open>attachConnect\<close> with an
  identification, the destination and the route of its dialer.
\<close>

datatype remote_action =
    DohFailed "string option"
  | SendLocal bytes
  | AttachConnect string bytes UDPAddr CustomRoute

record world =
  w_globals :: globals
  w_sort :: "CustomRoute list \<Rightarrow> CustomRoute list"
  w_resolver :: resolver
  w_unpack_panics :: "bytes \<Rightarrow> bool"
  w_http :: "string \<Rightarrow> http_response outcome"

definition flow_identify :: "CustomRoute \<Rightarrow> string \<Rightarrow> string \<Rightarrow> string" where
  "flow_identify route port remote = IP_String (route_Ip route) @ port @ ''-'' @ remote"

definition readRemoteDate :: "world \<Rightarrow> bytes \<Rightarrow> string \<Rightarrow> string \<Rightarrow> remote_action outcome" where
  "readRemoteDate w data remoteAddressStr port =
     (let g = w_globals w; client = cfg_Client (ContextConfigImp g);
          addrPort = (case ParseAddrPort remoteAddressStr of None \<Rightarrow> 0 | Some (_, p) \<Rightarrow> p)
      in if IsEnableEnforceDns g client addrPort then
           (case SendDoh (w_unpack_panics w) (w_http w) (GetEnableEnforceDHO g client) data of
              (None, e) \<Rightarrow> Inr (DohFailed e)
            | (Some b, Some e) \<Rightarrow> Inr (DohFailed (Some e))
            | (Some b, None) \<Rightarrow> Inr (SendLocal b))
         else case ResolveAddr (w_resolver w) remoteAddressStr of
           None \<Rightarrow> Inl (Panic ''nil pointer dereference'')
         | Some remoteAddr \<Rightarrow>
             let route = FindContainRoute (w_sort w) g (udp_IP remoteAddr) (Routes g)
             in Inr (AttachConnect (flow_identify route port remoteAddressStr) data remoteAddr route))"

text \<open>
  A packet as \<open>HandleRemotePacket\<close> sees it: the buffer with its headers, and the addresses. Both
  \<open>ReadAt\<close> and the text of a gvisor address are parameters.
\<close>

record udp_inbound =
  in_buffer :: bytes
  in_HeaderSize :: nat
  in_Destination :: bytes
  in_LocalPort :: u16
  in_RemotePort :: u16

definition HandleRemotePacket ::
  "(bytes \<Rightarrow> nat \<Rightarrow> nat \<Rightarrow> bytes \<times> string option) \<Rightarrow> (bytes \<Rightarrow> string) \<Rightarrow> world \<Rightarrow> udp_inbound \<Rightarrow>
   remote_action option" where
  "HandleRemotePacket read_at addr_string w p =
     (let (data, perr) = read_at (in_buffer p) 2024 (in_HeaderSize p)
      in if perr \<noteq> None \<and> perr \<noteq> Some ''EOF'' then None
         else case readRemoteDate w data
                (addr_string (in_Destination p) @ '':'' @ itoa (unat (in_LocalPort p)))
                (itoa (unat (in_RemotePort p))) of
           Inl _ \<Rightarrow> None
         | Inr action \<Rightarrow> Some action)"

text \<open>\<open>HandlePacket\<close> claims every packet and handles it in a goroutine of its own.\<close>

definition HandlePacket :: "udp_inbound \<Rightarrow> udp_inbound list \<Rightarrow> bool \<times> udp_inbound list" where
  "HandlePacket p goroutines = (True, goroutines @ [p])"

text \<open>The contract of \<open>io.ReaderAt\<close> on a buffer, and how a four-byte address prints.\<close>

definition reads_at :: "(bytes \<Rightarrow> nat \<Rightarrow> nat \<Rightarrow> bytes \<times> string option) \<Rightarrow> bool" where
  "reads_at read_at \<longleftrightarrow>
     (\<forall>b n off. read_at b n off =
        (take n (drop off b), if length b - off < n then Some ''EOF'' else None))"

definition prints_dotted :: "(bytes \<Rightarrow> string) \<Rightarrow> bool" where
  "prints_dotted addr_string \<longleftrightarrow> (\<forall>b. length b = 4 \<longrightarrow> addr_string b = string4 b)"

lemma readRemoteDate_endpoint4:
  fixes port :: u16
  shows "readRemoteDate w data (endpoint4 a b c d (unat port)) src =
     (let g = w_globals w; client = cfg_Client (ContextConfigImp g)
      in if IsEnableEnforceDns g client port then
           (case SendDoh (w_unpack_panics w) (w_http w) (GetEnableEnforceDHO g client) data of
              (None, e) \<Rightarrow> Inr (DohFailed e)
            | (Some b, Some e) \<Rightarrow> Inr (DohFailed (Some e))
            | (Some b, None) \<Rightarrow> Inr (SendLocal b))
         else let route = FindContainRoute (w_sort w) g (IPv4 a b c d) (Routes g)
              in Inr (AttachConnect (flow_identify route src (endpoint4 a b c d (unat port))) data
                   \<lparr>udp_IP = IPv4 a b c d, udp_Port = unat port, udp_Zone = []\<rparr> route))"
proof -
  have "unat port < 65536" using unsigned_less [of port, where 'a = nat] by simp
  then show ?thesis
    using ParseAddrPort_endpoint4 [of "unat port" a b c d]
      ResolveAddr_endpoint4 [of "unat port" "w_resolver w" a b c d]
    by (simp add: readRemoteDate_def Let_def)
qed


definition sample_world :: world where
  "sample_world =
     \<lparr>w_globals = init_globals, w_sort = insertionSort SortRoutes_Less,
      w_resolver = \<lparr>lookup_host = (\<lambda>_. None), lookup_port = (\<lambda>_. None)\<rparr>,
      w_unpack_panics = (\<lambda>_. False), w_http = echo_server\<rparr>"

definition sample_read_at :: "bytes \<Rightarrow> nat \<Rightarrow> nat \<Rightarrow> bytes \<times> string option" where
  "sample_read_at b n off = (take n (drop off b), if length b - off < n then Some ''EOF'' else None)"


text \<open>
  C2: with DNS enforcement on, no query on port 53 reaches the DNS server the application chose: the
  packet is answered over HTTPS or dropped, and never becomes a datagram of an outgoing flow.
\<close>

theorem enforced_dns_never_leaks:
  assumes "prints_dotted addr_string" and "length (in_Destination p) = 4" and "in_LocalPort p = 53"
    and "EnableEnforceDns (cfg_Client (ContextConfigImp (w_globals w)))"
    and "EnforceDOH (cfg_Client (ContextConfigImp (w_globals w))) \<noteq> []"
  shows "HandleRemotePacket read_at addr_string w p \<noteq> Some (AttachConnect ident data remote route)"
proof -
  obtain a b c d where dest: "in_Destination p = [a, b, c, d]"
    using assms(2) by (auto simp: length_4_iff)
  have dotted: "addr_string [a, b, c, d] = string4 [a, b, c, d]"
    using assms(1) by (simp add: prints_dotted_def)
  have "IsEnableEnforceDns (w_globals w) (cfg_Client (ContextConfigImp (w_globals w))) 53"
    using assms(4,5) by (simp add: IsEnableEnforceDns_def DNS_PORT_def)
  then show ?thesis
    using readRemoteDate_endpoint4 [of w _ a b c d "in_LocalPort p"]
    by (auto simp: HandleRemotePacket_def dest dotted assms(3) Let_def
        split: prod.splits option.splits if_splits)
qed

definition doh_world :: world where
  "doh_world = sample_world\<lparr>w_globals := SetContextConfig init_globals
     (zero_config\<lparr>cfg_Client := \<lparr>Direct = False, EnableEnforceDns = True, EnforceDOH = ''u''\<rparr>\<rparr>)\<rparr>"

lemma enforced_dns_never_leaks_witness:
  "HandleRemotePacket sample_read_at string4 doh_world
     \<lparr>in_buffer = [1, 2, 3], in_HeaderSize = 0, in_Destination = [8, 8, 8, 8], in_LocalPort = 53, in_RemotePort = 7\<rparr>
   \<noteq> Some (AttachConnect ''x'' [1, 2, 3] \<lparr>udp_IP = [], udp_Port = 53, udp_Zone = []\<rparr> (getDefaultRoute init_globals))"
  by (rule enforced_dns_never_leaks)
    (simp_all add: prints_dotted_def doh_world_def sample_world_def SetContextConfig_def)

section \<open>IPv6 destinations\<close>

lemma address_kind_in: "address_kind s = Some c \<Longrightarrow> c \<in> set s"
  by (induction s) (auto split: if_splits)

lemma ParseAddr_no_dot: "CHR ''.'' \<notin> set s \<Longrightarrow> ParseAddr s = Some a \<Longrightarrow> Is6 a"
  using address_kind_in [of s]
  by (fastforce simp: ParseAddr_def parseIPv6_def Let_def split: option.splits if_splits prod.splits)

text \<open>
  No UDP packet to an IPv6 destination is ever forwarded. The address and the port are joined
  without brackets, neither parser accepts the result, and the nil address is dereferenced; the
  panic is recovered and the packet is gone.
\<close>

theorem udp_ipv6_lost:
  assumes "CHR '':'' \<in> set (addr_string (in_Destination p))" and "CHR ''.'' \<notin> set (addr_string (in_Destination p))"
    and "hd (addr_string (in_Destination p)) \<noteq> CHR ''[''"
  shows "HandleRemotePacket read_at addr_string w p = None"
proof -
  define s where "s = addr_string (in_Destination p)"
  define port where "port = itoa (unat (in_LocalPort p))"
  have "split_last_colon (s @ CHR '':'' # port) = Some (s, port)"
    unfolding port_def by (rule split_last_colon_append) (simp add: itoa_char)
  then have parse: "ParseAddrPort (s @ CHR '':'' # port) = None"
    using assms(3) ParseAddr_no_dot [of s] assms(2)
    by (auto simp: ParseAddrPort_def s_def split: option.splits)
  have "ResolveAddr (w_resolver w) (s @ CHR '':'' # port) = None"
    unfolding port_def s_def using assms by (intro ResolveAddr_colon) auto
  then have "\<exists>e. readRemoteDate w data (s @ CHR '':'' # port) src = Inl e" for data src
    using parse by (simp add: readRemoteDate_def Let_def IsEnableEnforceDns_def DNS_PORT_def)
  then show ?thesis
    by (auto simp: HandleRemotePacket_def s_def port_def split: prod.splits sum.splits)
      (metis sum.distinct(1))+
qed

lemma udp_ipv6_lost_witness:
  "HandleRemotePacket sample_read_at (\<lambda>_. ''2001:db8::1'') sample_world
     \<lparr>in_buffer = [1, 2, 3], in_HeaderSize = 0, in_Destination = [32, 1, 13, 184, 0, 0, 0, 0, 0, 0, 0, 0, 0, 0, 0, 1],
      in_LocalPort = 123, in_RemotePort = 7\<rparr> = None"
  by (rule udp_ipv6_lost) simp_all

section \<open>Flow identifications\<close>

lemma append_sep_inject:
  assumes "(c :: char) \<notin> set xs" and "c \<notin> set xs'"
  shows "xs @ c # ys = xs' @ c # ys' \<longleftrightarrow> xs = xs' \<and> ys = ys'"
proof
  assume eq: "xs @ c # ys = xs' @ c # ys'"
  have "Some (xs, ys) = cut_at c (xs @ c # ys)" by (rule cut_at_append [OF assms(1), symmetric])
  also have "\<dots> = cut_at c (xs' @ c # ys')" by (simp only: eq)
  also have "\<dots> = Some (xs', ys')" by (rule cut_at_append [OF assms(2)])
  finally show "xs = xs' \<and> ys = ys'" by simp
qed simp

text \<open>
  Over routes with one egress address, different source ports or different destinations have
  different flow identifications.
\<close>

theorem flow_identify_injective:
  assumes "route_Ip r = route_Ip r'" and "port < 65536" and "port' < 65536"
  shows "flow_identify r (itoa src) (endpoint4 a b c d port) = flow_identify r' (itoa src') (endpoint4 a' b' c' d' port')
         \<longleftrightarrow> src = src' \<and> [a, b, c, d] = [a', b', c', d'] \<and> port = port'"
proof -
  have ends: "endpoint4 a b c d port = endpoint4 a' b' c' d' port' \<longleftrightarrow> [a, b, c, d] = [a', b', c', d'] \<and> port = port'"
    (is "?e = ?e' \<longleftrightarrow> _")
  proof
    assume eq: "?e = ?e'"
    have "Some (string4 [a, b, c, d], itoa port) = split_last_colon ?e" by (rule split_endpoint4 [symmetric])
    also have "\<dots> = Some (string4 [a', b', c', d'], itoa port')" unfolding eq by (rule split_endpoint4)
    finally have "itoa port = itoa port'" by simp
    moreover have "Some (AddrV4 [a, b, c, d], of_nat port :: u16) = ParseAddrPort ?e"
      by (rule ParseAddrPort_endpoint4 [OF assms(2), symmetric])
    moreover have "ParseAddrPort ?e = Some (AddrV4 [a', b', c', d'], of_nat port')"
      unfolding eq by (rule ParseAddrPort_endpoint4 [OF assms(3)])
    ultimately show "[a, b, c, d] = [a', b', c', d'] \<and> port = port'" by (simp add: itoa_inj)
  qed simp
  have "flow_identify r (itoa src) ?e = flow_identify r' (itoa src') ?e' \<longleftrightarrow>
      itoa src @ CHR ''-'' # ?e = itoa src' @ CHR ''-'' # ?e'"
    by (simp only: flow_identify_def assms(1) append_assoc same_append_eq append_Cons append_Nil)
  also have "\<dots> \<longleftrightarrow> itoa src = itoa src' \<and> ?e = ?e'"
    by (rule append_sep_inject) (simp_all add: itoa_char)
  finally show ?thesis by (simp only: ends itoa_inj)
qed

lemma flow_identify_injective_witness:
  "flow_identify sample_route (itoa 1000) (endpoint4 8 8 8 8 53) \<noteq> flow_identify sample_route (itoa 1001) (endpoint4 8 8 8 8 53)"
  using flow_identify_injective [of sample_route sample_route 53 53 1000 8 8 8 8 1001 8 8 8 8] by simp

text \<open>
  Nothing separates the egress address from the source port, so two flows over different egress
  addresses can share an identification, and with it a socket.
\<close>

theorem flow_identify_collision:
  "flow_identify (direct_route ''a'' DEFAULT_IPNET [10, 0, 0, 1] 0 0) (itoa 1234) remote =
   flow_identify (direct_route ''b'' DEFAULT_IPNET [10, 0, 0, 11] 0 0) (itoa 234) remote"
proof -
  have "string4 [10, 0, 0, 1] = ''10.0.0.1''" "string4 [10, 0, 0, 11] = ''10.0.0.11''"
    "itoa 1234 = ''1234''" "itoa 234 = ''234''" by code_simp+
  then show ?thesis by (simp add: flow_identify_def direct_route_def IP_String_def)
qed

section \<open>Replies\<close>

text \<open>
  A reply on IPv4 goes back with the ports exchanged, the route's TTL, its payload untouched
  and no checksum, whatever the caller of \<open>NewUdpStack\<close> asked for; exactly one counter moves; and the
  length field is right exactly up to the 65527 bytes a UDP packet can carry.
\<close>

theorem udp_reply_packet:
  assumes "\<not> is_ipv6 route"
    and "UdpStack_send write route localPort remotePort data (NewUdpStack flag, stats) = (err, pkt, stack', stats')"
  shows "SrcPort pkt = localPort \<and> DstPort pkt = remotePort \<and> Payload pkt = data \<and>
         UdpChecksum pkt = 0 \<and> packet_ttl pkt = DefaultTTL route \<and> err = write pkt \<and>
         (unat (UdpLength pkt) = 8 + length data \<longleftrightarrow> length data \<le> 65527) \<and>
         (if err = None then PacketsSent stats' = PacketsSent stats + 1 \<and> PacketSendErrors stats' = PacketSendErrors stats
          else PacketsSent stats' = PacketsSent stats \<and> PacketSendErrors stats' = PacketSendErrors stats + 1)"
proof -
  define len where "len = (of_nat (8 + length data) :: u16)"
  have "unat len = (8 + length data) mod 65536"
    by (simp only: len_def unat_of_nat) simp
  then have len: "unat len = 8 + length data \<longleftrightarrow> length data \<le> 65527"
    using mod_less [of "8 + length data" 65536] unsigned_less [of len, where 'a = nat] by auto
  have "SrcPort pkt = localPort \<and> DstPort pkt = remotePort \<and> Payload pkt = data \<and>
      UdpChecksum pkt = 0 \<and> packet_ttl pkt = DefaultTTL route \<and> err = write pkt \<and> UdpLength pkt = len \<and>
      (if err = None then PacketsSent stats' = PacketsSent stats + 1 \<and> PacketSendErrors stats' = PacketSendErrors stats
       else PacketsSent stats' = PacketsSent stats \<and> PacketSendErrors stats' = PacketSendErrors stats + 1)"
    using assms by (auto simp: UdpStack_send_def NewUdpStack_def Let_def len_def split: option.splits)
  with len show ?thesis by simp
qed

definition sample_gv_route :: gv_route where
  "sample_gv_route =
     \<lparr>RequiresTXTransportChecksum = True, is_ipv6 = False, DefaultTTL = 64,
      PseudoHeaderChecksum = (\<lambda>l. l), CalculateUdpChecksum = (\<lambda>s d l x. x)\<rparr>"

lemma udp_reply_packet_witness:
  "\<exists>err pkt stack' stats'.
     UdpStack_send (\<lambda>_. None) sample_gv_route 53 4000 [1]
       (NewUdpStack False, \<lparr>PacketsSent = 0, PacketSendErrors = 0\<rparr>) = (err, pkt, stack', stats') \<and>
     UdpChecksum pkt = 0 \<and> unat (UdpLength pkt) = 9 \<and> PacketsSent stats' = 1"
proof -
  obtain err pkt stack' stats' where
    r: "UdpStack_send (\<lambda>_. None) sample_gv_route 53 4000 [1]
          (NewUdpStack False, \<lparr>PacketsSent = 0, PacketSendErrors = 0\<rparr>) = (err, pkt, stack', stats')"
    by (metis prod_cases4)
  have "\<not> is_ipv6 sample_gv_route" by (simp add: sample_gv_route_def)
  from udp_reply_packet [OF this r] r show ?thesis by auto
qed

end
