(* ===== verification/Tcp_Handler.thy ===== *)
theory Tcp_Handler
  imports Steps Go_Addr Route
begin

text \<open>
  TCP connections of the user-space network stack, \<open>handler/remoteSocketHandler/tcp/buildSocket.go\<close>:
  accepting a connection, choosing where to dial, and the life of the two sockets.
\<close>

section \<open>Accepting\<close>

datatype keepalive_option = KeepAlive bool | KeepaliveIdle nat | KeepaliveInterval nat

text \<open>
  \<open>HandleStream\<close>: what \<open>Complete\<close> is told (true resets the client), the options set on the endpoint,
  and whether \<open>TcpHandle\<close> is started. The first option that fails ends the setting of options and
  nothing else.
\<close>

definition keepalive_options :: "string option \<Rightarrow> string option \<Rightarrow> keepalive_option list" where
  "keepalive_options idle_err interval_err =
     KeepAlive True #
     (if idle_err \<noteq> None then []
      else KeepaliveIdle 60 # (if interval_err \<noteq> None then [] else [KeepaliveInterval 30]))"

definition HandleStream ::
  "string option \<Rightarrow> string option \<Rightarrow> string option \<Rightarrow> bool \<times> keepalive_option list \<times> bool" where
  "HandleStream create_err idle_err interval_err =
     (if create_err \<noteq> None then (True, [], False)
      else (False, keepalive_options idle_err interval_err, True))"

section \<open>Where to dial\<close>

text \<open>\<open>TCPAddr.AddrPort().String()\<close>.\<close>

definition AddrPort_String :: "Addr \<Rightarrow> nat \<Rightarrow> string" where
  "AddrPort_String a port =
     (case a of
        AddrZero \<Rightarrow> ''invalid AddrPort''
      | AddrV4 b \<Rightarrow> string4 b @ CHR '':'' # itoa port
      | AddrV6 b z \<Rightarrow> ''['' @ Addr_String a @ '']:'' @ itoa port)"

text \<open>
  The first part of \<open>TcpHandle\<close>: the resolved address, the route its dialer is bound to, and the
  address string it dials. An address that does not resolve is nil and panics.
\<close>

definition tcp_target ::
  "(CustomRoute list \<Rightarrow> CustomRoute list) \<Rightarrow> globals \<Rightarrow> resolver \<Rightarrow> bytes \<Rightarrow> nat \<Rightarrow>
   (UDPAddr \<times> CustomRoute \<times> string) outcome" where
  "tcp_target srt g rs localIP localPort =
     (case ResolveAddr rs (AddrPort_String (AddrFromSlice localIP) localPort) of
        None \<Rightarrow> Inl (Panic ''nil pointer dereference'')
      | Some remoteAddr \<Rightarrow>
          Inr (remoteAddr, FindContainRoute srt g (udp_IP remoteAddr) (Routes g), UDPAddr_String remoteAddr))"

lemma UDPAddr_String_v4:
  "UDPAddr_String \<lparr>udp_IP = IPv4 a b c d, udp_Port = port, udp_Zone = []\<rparr> = endpoint4 a b c d port"
  using string4_char [of "CHR '':''" a b c d] string4_char [of "CHR 37" a b c d]
  by (simp add: UDPAddr_String_def JoinHostPort_def IP_String_def IPv4_def)

text \<open>
  C15: a TCP connection to an IPv4 address is dialled to exactly that address and port, over a route
  whose subnet contains it.
\<close>

theorem tcp_dials_destination:
  assumes "port < 65536" and "sort_contract SortRoutes_Less srt"
  shows "\<exists>remoteAddr route.
           tcp_target srt g rs [a, b, c, d] port = Inr (remoteAddr, route, endpoint4 a b c d port) \<and>
           udp_IP remoteAddr = IPv4 a b c d \<and> udp_Port remoteAddr = port \<and>
           Contains (Subnet route) (IPv4 a b c d)"
proof -
  let ?route = "FindContainRoute srt g (IPv4 a b c d) (Routes g)"
  have "Contains (Subnet ?route) (IPv4 a b c d)"
  proof (cases "\<exists>r \<in> set (Routes g). Contains (Subnet r) (IPv4 a b c d)")
    case True
    then show ?thesis using FindContainRoute_in(1) [OF assms(2)] by auto
  next
    case False
    then show ?thesis using getDefaultRoute_covers [of "IPv4 a b c d"] by (simp add: FindContainRoute_none)
  qed
  then show ?thesis
    using ResolveAddr_endpoint4 [OF assms(1), of rs a b c d] UDPAddr_String_v4 [of a b c d port]
    by (simp add: tcp_target_def AddrFromSlice_def AddrPort_String_def)
qed

lemma tcp_dials_destination_witness:
  "\<exists>remoteAddr route.
     tcp_target (insertionSort SortRoutes_Less) init_globals \<lparr>lookup_host = (\<lambda>_. None), lookup_port = (\<lambda>_. None)\<rparr>
       [93, 184, 216, 34] 443 = Inr (remoteAddr, route, endpoint4 93 184 216 34 443)"
  using tcp_dials_destination [of 443, OF _ insertionSort_routes] by fastforce

section \<open>The life of a connection\<close>

datatype main_pc = DialPending | CopyDown | Ended

text \<open>
  The socket of the tunnel, the remote socket (None until dialled), the goroutine that copies
  upwards, and the bytes copied in both directions.
\<close>

record tcp_session =
  tun_open :: bool
  remote_open :: "bool option"
  up_running :: bool
  main :: main_pc
  up_bytes :: bytes
  down_bytes :: bytes

definition accepted :: tcp_session where
  "accepted = \<lparr>tun_open = True, remote_open = None, up_running = False, main = DialPending,
               up_bytes = [], down_bytes = []\<rparr>"

datatype tcp_event = DialResult bool | UpChunk bytes | UpEnd | DownChunk bytes | DownEnd

text \<open>
  A failed dial returns at once. The upward copy closes nothing when it ends; the downward copy
  closes both sockets.
\<close>

fun tcp_exec :: "tcp_event \<Rightarrow> tcp_session \<Rightarrow> tcp_session option" where
  "tcp_exec (DialResult ok) s =
     (if main s \<noteq> DialPending then None
      else if ok then Some (s\<lparr>main := CopyDown, remote_open := Some True, up_running := True\<rparr>)
      else Some (s\<lparr>main := Ended\<rparr>))"
| "tcp_exec (UpChunk b) s =
     (if up_running s \<and> tun_open s \<and> remote_open s = Some True
      then Some (s\<lparr>up_bytes := up_bytes s @ b\<rparr>) else None)"
| "tcp_exec UpEnd s = (if up_running s then Some (s\<lparr>up_running := False\<rparr>) else None)"
| "tcp_exec (DownChunk b) s =
     (if main s = CopyDown \<and> tun_open s \<and> remote_open s = Some True
      then Some (s\<lparr>down_bytes := down_bytes s @ b\<rparr>) else None)"
| "tcp_exec DownEnd s =
     (if main s = CopyDown
      then Some (s\<lparr>main := Ended, remote_open := Some False, tun_open := False\<rparr>) else None)"

abbreviation tcp_reaches :: "tcp_session \<Rightarrow> tcp_session \<Rightarrow> bool" where
  "tcp_reaches \<equiv> reachable (executes tcp_exec)"

definition session_ok :: "tcp_session \<Rightarrow> bool" where
  "session_ok s \<longleftrightarrow>
     (case main s of
        DialPending \<Rightarrow> tun_open s \<and> remote_open s = None \<and> \<not> up_running s
      | CopyDown \<Rightarrow> tun_open s \<and> remote_open s = Some True
      | Ended \<Rightarrow> \<not> tun_open s \<and> remote_open s = Some False \<or>
                 tun_open s \<and> remote_open s = None \<and> \<not> up_running s)"

lemma session_exec: "session_ok s \<Longrightarrow> tcp_exec e s = Some s' \<Longrightarrow> session_ok s'"
  by (cases e) (auto simp: session_ok_def split: if_splits main_pc.splits)

interpretation session: safety "executes tcp_exec" session_ok
  by unfold_locales (auto simp: executes_def intro: session_exec)

lemma session_reaches: "tcp_reaches accepted s \<Longrightarrow> session_ok s"
  by (erule session.reachable_keeps) (simp add: accepted_def session_ok_def)

text \<open>
  C16: a handled connection ends in one of two ways. After a successful dial both sockets are open
  until the downward copy ends, the end of the client's stream included, and both are closed then.
  After a failed dial the tunnel's socket is never closed: no further step is possible and the
  client keeps an open connection to nothing.
\<close>

theorem tcp_session_end:
  assumes "tcp_reaches accepted s"
  shows "(main s = CopyDown \<longrightarrow> tun_open s \<and> remote_open s = Some True) \<and>
         (main s = Ended \<and> remote_open s \<noteq> None \<longrightarrow> \<not> tun_open s \<and> remote_open s = Some False) \<and>
         (main s = Ended \<and> remote_open s = None \<longrightarrow> tun_open s \<and> (\<forall>e. tcp_exec e s = None))"
proof -
  have "tcp_exec e s = None" if "main s = Ended" "remote_open s = None" "\<not> up_running s" for e
    using that by (cases e) simp_all
  with session_reaches [OF assms] show ?thesis
    by (auto simp: session_ok_def split: main_pc.splits)
qed

lemma tcp_session_end_witness:
  "tun_open (accepted\<lparr>main := Ended\<rparr>) \<and> (\<forall>e. tcp_exec e (accepted\<lparr>main := Ended\<rparr>) = None)"
proof -
  have "tcp_exec (DialResult False) accepted = Some (accepted\<lparr>main := Ended\<rparr>)"
    by (simp add: accepted_def)
  then have "tcp_reaches accepted (accepted\<lparr>main := Ended\<rparr>)"
    by (rule executes_reachable [OF reachable_refl])
  from tcp_session_end [OF this] show ?thesis by (simp add: accepted_def)
qed

end
