(* ===== verification/Endpoint.thy ===== *)
theory Endpoint
  imports Prelude
begin

text \<open>
  The link endpoint between the TUN device and the user-space stack, \<open>endpoint/endpoint.go\<close>, with the
  device's \<open>Read\<close> and \<open>Write\<close> of \<open>device/tun.go\<close>. The native TUN device and gvisor's buffers are
  parameters.
\<close>

section \<open>The device\<close>

text \<open>\<open>Device.Read\<close>: the native device reports how many packets it read and the size of the first.\<close>

definition Device_Read :: "(nat \<times> nat \<times> string option) \<Rightarrow> nat \<times> string option" where
  "Device_Read native = (case native of (packets, sz, err) \<Rightarrow> if packets < 1 then (0, err) else (sz, err))"

definition Device_Write :: "(bytes list \<Rightarrow> nat \<Rightarrow> int \<times> string option) \<Rightarrow> bytes \<Rightarrow> int \<times> string option" where
  "Device_Write native b = native [b] 0"

section \<open>From the device to the stack\<close>

record endpoint =
  ep_mtu :: nat
  ep_buff :: bytes

definition NewEndpoint :: "nat \<Rightarrow> endpoint" where
  "NewEndpoint mtu = \<lparr>ep_mtu = mtu, ep_buff = replicate mtu 0\<rparr>"

datatype protocol = IPv4Protocol | IPv6Protocol

text \<open>\<open>header.IPVersion\<close> is a parameter: 4, 6 or something else.\<close>

definition inbound :: "(bytes \<Rightarrow> int) \<Rightarrow> bytes \<Rightarrow> (protocol \<times> bytes) list" where
  "inbound ip_version buf =
     (if ip_version buf = 4 then [(IPv4Protocol, buf)]
      else if ip_version buf = 6 then [(IPv6Protocol, buf)] else [])"

text \<open>
  The read loop of \<open>Attach\<close> over what the native device answers: the bytes it puts into the buffer
  of \<open>sz\<close> bytes and the result of the call. It ends at the first error.
\<close>

fun attach_loop ::
  "(bytes \<Rightarrow> int) \<Rightarrow> nat \<Rightarrow> (bytes \<times> nat \<times> nat \<times> string option) list \<Rightarrow> (protocol \<times> bytes) list outcome" where
  "attach_loop ip_version sz [] = Inr []"
| "attach_loop ip_version sz ((filled, native) # rest) =
     (let buf = take sz filled @ replicate (sz - length filled) 0; (nr, err) = Device_Read native
      in if err \<noteq> None then Inr []
         else if sz < nr then Inl (Panic ''slice bounds out of range'')
         else bind_outcome (attach_loop ip_version sz rest)
                (\<lambda>pkts. Inr (inbound ip_version (take nr buf) @ pkts)))"

definition Attach ::
  "(bytes \<Rightarrow> int) \<Rightarrow> nat \<Rightarrow> (bytes \<times> nat \<times> nat \<times> string option) list \<Rightarrow> (protocol \<times> bytes) list outcome" where
  "Attach ip_version mtu reads = attach_loop ip_version (mtu + 4) reads"

text \<open>The packets of a device that fills the buffer with one packet per read.\<close>

definition packet_read :: "bytes \<Rightarrow> bytes \<times> nat \<times> nat \<times> string option" where
  "packet_read p = (p, 1, length p, None)"

text \<open>
  Every packet of at most MTU + 4 bytes that the device delivers before its first error enters the
  stack unchanged, in order, under the protocol of its version; packets of another version are
  skipped, and after the error nothing enters.
\<close>

theorem attach_delivers:
  assumes "\<forall>p \<in> set ps. length p \<le> mtu + 4"
  shows "Attach ip_version mtu (map packet_read ps @ (junk, n, k, Some e) # later) =
           Inr (concat (map (inbound ip_version) ps))"
  using assms
  by (induction ps) (auto simp: Attach_def packet_read_def Device_Read_def Let_def)

lemma attach_delivers_witness:
  "Attach (\<lambda>p. int (unat (hd p)) div 16) 1500 (map packet_read [[0x45, 1], [0x60], [0x10]] @ [([], 0, 0, Some ''closed'')]) =
     Inr [(IPv4Protocol, [0x45, 1]), (IPv6Protocol, [0x60])]"
  by (subst attach_delivers) (simp_all add: inbound_def)

section \<open>From the stack to the device\<close>

text \<open>
  The copy loop of \<open>WriteNotify\<close>. \<open>read_at payload n off\<close> is \<open>ReadAt\<close> on the payload with a buffer of
  \<open>n\<close> bytes: the bytes read and whether the error is \<open>io.EOF\<close>. None: the loop does not end.
\<close>

partial_function (option) write_loop ::
  "(bytes \<Rightarrow> nat \<Rightarrow> nat \<Rightarrow> bytes \<times> bool) \<Rightarrow> bytes \<Rightarrow> bytes \<Rightarrow> bytes option" where
  "write_loop read_at payload buf =
     (if snd (read_at payload 2048 0) then Some (buf @ fst (read_at payload 2048 0))
      else write_loop read_at payload (buf @ fst (read_at payload 2048 0)))"

definition WriteNotify ::
  "(bytes \<Rightarrow> nat \<Rightarrow> nat \<Rightarrow> bytes \<times> bool) \<Rightarrow> endpoint \<Rightarrow> bytes \<Rightarrow> bytes \<Rightarrow> bytes \<Rightarrow> bytes option" where
  "WriteNotify read_at e network transport payload =
     write_loop read_at payload ((take 0 (ep_buff e) @ network) @ transport)"

text \<open>
  The contract of \<open>io.ReaderAt\<close>: as many bytes as there are, EOF when the buffer is not filled, and
  no EOF while there are bytes left.
\<close>

definition reader_at :: "(bytes \<Rightarrow> nat \<Rightarrow> nat \<Rightarrow> bytes \<times> bool) \<Rightarrow> bool" where
  "reader_at read_at \<longleftrightarrow>
     (\<forall>p n off. fst (read_at p n off) = take n (drop off p) \<and>
        (length p - off < n \<longrightarrow> snd (read_at p n off)) \<and> (n < length p - off \<longrightarrow> \<not> snd (read_at p n off)))"

lemma write_loop_diverges:
  assumes "\<not> snd (read_at payload 2048 0)"
  shows "write_loop read_at payload buf = None"
proof -
  have "snd (r p 2048 0)" if "write_loop r p b = Some y" for r p b y
    by (rule write_loop.raw_induct [OF _ that]) (auto split: if_splits)
  with assms show ?thesis by (cases "write_loop read_at payload buf") auto
qed

text \<open>
  C17: a packet whose payload is shorter than 2048 bytes is written back whole: headers, then payload.
  With more than 2048 bytes the loop reads the same first bytes for ever, holding the endpoint's
  lock and growing its buffer: it never returns.
\<close>

theorem write_notify_boundary:
  assumes "reader_at read_at"
  shows "(length payload < 2048 \<longrightarrow>
            WriteNotify read_at e network transport payload = Some (network @ transport @ payload)) \<and>
         (2048 < length payload \<longrightarrow> WriteNotify read_at e network transport payload = None)"
proof -
  have read: "fst (read_at payload 2048 0) = take 2048 payload"
    and eof: "length payload < 2048 \<Longrightarrow> snd (read_at payload 2048 0)"
    and more: "2048 < length payload \<Longrightarrow> \<not> snd (read_at payload 2048 0)"
    using assms by (auto simp: reader_at_def)
  have "write_loop read_at payload buf = Some (buf @ payload)" if "length payload < 2048" for buf
    using that eof [OF that] by (subst write_loop.simps) (simp add: read)
  then show ?thesis
    using more by (simp add: WriteNotify_def write_loop_diverges)
qed

lemma write_notify_boundary_witness:
  "WriteNotify (\<lambda>p n off. (take n (drop off p), length p - off \<le> n)) (NewEndpoint 1500) [1] [2] [3, 4] = Some [1, 2, 3, 4] \<and>
   WriteNotify (\<lambda>p n off. (take n (drop off p), length p - off \<le> n)) (NewEndpoint 1500) [1] [2] (replicate 2049 0) = None"
  using write_notify_boundary [of "\<lambda>p n off. (take n (drop off p), length p - off \<le> n)" "[3, 4]" "NewEndpoint 1500" "[1]" "[2]"]
    write_notify_boundary [of "\<lambda>p n off. (take n (drop off p), length p - off \<le> n)" "replicate 2049 0" "NewEndpoint 1500" "[1]" "[2]"]
  by (simp add: reader_at_def)

end
