(* ===== verification/Gv_Start.thy ===== *)
theory Gv_Start
  imports Prelude
begin

text \<open>
  The set-up of the user-space network stack, \<open>gv/gv.go\<close>: the calls on the stack in order, with the
  early return of each failing one and the deferred \<open>Close\<close>.
\<close>

section \<open>The calls\<close>

datatype net_proto = IPv4 | IPv6

text \<open>One constructor per call on the stack, with the values the code passes.\<close>

datatype stack_call =
    SetDefaultTTL net_proto nat
  | SetForwarding net_proto bool
  | SetICMPBurst nat
  | SetICMPLimit nat
  | SetTCPReceiveBuffer nat nat nat
  | SetTCPSendBuffer nat nat nat
  | SetCongestionControl string
  | SetTCPDelay bool
  | QueryHandleLocal
  | SetModerateReceiveBuffer bool
  | SetSACK bool
  | SetDefaultRoute nat
  | SetTcpHandler nat nat
  | SetUdpHandler bool
  | CreateNIC nat nat
  | SetSpoofing nat bool
  | SetPromiscuous nat bool
  | CloseStack

text \<open>
  A call that can fail has the text its error is wrapped in; the others have none. The one for the
  delay option formats \<open>err\<close>, which is nil there, in place of the stack's error.
\<close>

definition wrap_error :: "stack_call \<Rightarrow> (string \<Rightarrow> string) option" where
  "wrap_error c =
     (case c of
        SetDefaultTTL IPv4 _ \<Rightarrow> Some (\<lambda>e. ''set ipv4 default TTL: '' @ e)
      | SetDefaultTTL IPv6 _ \<Rightarrow> Some (\<lambda>e. ''set ipv6 default TTL: '' @ e)
      | SetForwarding IPv4 _ \<Rightarrow> Some (\<lambda>e. ''set ipv4 forwarding error: '' @ e)
      | SetForwarding IPv6 _ \<Rightarrow> Some (\<lambda>e. ''set ipv6 forwarding error: '' @ e)
      | SetTCPReceiveBuffer _ _ _ \<Rightarrow> Some (\<lambda>e. ''set TCP receive buffer size range: '' @ e)
      | SetTCPSendBuffer _ _ _ \<Rightarrow> Some (\<lambda>e. ''set TCP send buffer size range: '' @ e)
      | SetCongestionControl _ \<Rightarrow> Some (\<lambda>e. ''set TCP congestion control algorithm: '' @ e)
      | SetTCPDelay _ \<Rightarrow> Some (\<lambda>e. ''set TCP delay: %!s(<nil>)'')
      | SetModerateReceiveBuffer _ \<Rightarrow> Some (\<lambda>e. ''set TCP moderate receive buffer: '' @ e)
      | SetSACK _ \<Rightarrow> Some (\<lambda>e. ''set TCP SACK: '' @ e)
      | CreateNIC _ _ \<Rightarrow> Some (\<lambda>e. ''fail to create NIC in stack: '' @ e)
      | SetPromiscuous _ _ \<Rightarrow> Some (\<lambda>e. ''set promiscuous mode: '' @ e)
      | _ \<Rightarrow> None)"

text \<open>The calls before the error of \<open>NewSubnet\<close> overwrites \<open>err\<close>, and those after it.\<close>

definition option_calls :: "stack_call list" where
  "option_calls =
     [SetDefaultTTL IPv4 64, SetDefaultTTL IPv6 64, SetForwarding IPv4 True, SetForwarding IPv6 True,
      SetICMPBurst 50, SetICMPLimit 1000,
      SetTCPReceiveBuffer (4 * 1024) (212 * 1024) (4 * 1024 * 1024),
      SetTCPSendBuffer (4 * 1024) (212 * 1024) (4 * 1024 * 1024),
      SetCongestionControl ''reno'', SetTCPDelay False, QueryHandleLocal,
      SetModerateReceiveBuffer True, SetSACK True]"

definition nic_calls :: "nat \<Rightarrow> stack_call list" where
  "nic_calls mtu =
     [SetDefaultRoute 1, SetTcpHandler (16 * 1024) (32 * 1024), SetUdpHandler True,
      CreateNIC 1 mtu, SetSpoofing 1 True, SetPromiscuous 1 True]"

text \<open>
  \<open>fails\<close> is the stack: the error of a call, if any. The result is the calls made and the error.
\<close>

fun run_calls :: "(stack_call \<Rightarrow> string option) \<Rightarrow> stack_call list \<Rightarrow> stack_call list \<times> string option" where
  "run_calls fails [] = ([], None)"
| "run_calls fails (c # cs) =
     (case (wrap_error c, fails c) of
        (Some wrap, Some e) \<Rightarrow> ([c], Some (wrap e))
      | _ \<Rightarrow> let (made, err) = run_calls fails cs in (c # made, err))"

definition Start ::
  "(stack_call \<Rightarrow> string option) \<Rightarrow> string option \<Rightarrow> nat \<Rightarrow> stack_call list \<times> string option" where
  "Start fails subnet_err mtu =
     (let (made, err) =
        (case run_calls fails option_calls of
           (made, Some e) \<Rightarrow> (made, Some e)
         | (made, None) \<Rightarrow>
             let (made', err') = run_calls fails (nic_calls mtu)
             in (made @ made', if err' = None then subnet_err else err'))
      in (if err \<noteq> None then made @ [CloseStack] else made, err))"

section \<open>What the set-up guarantees\<close>

definition can_fail :: "stack_call \<Rightarrow> bool" where
  "can_fail c \<longleftrightarrow> wrap_error c \<noteq> None"

lemma run_calls_ok:
  "\<forall>c \<in> set cs. can_fail c \<longrightarrow> fails c = None \<Longrightarrow> run_calls fails cs = (cs, None)"
  by (induction cs) (auto simp: can_fail_def split: option.split)

lemma run_calls_fail:
  assumes "\<forall>c \<in> set pre. can_fail c \<longrightarrow> fails c = None" and "wrap_error c = Some wrap" and "fails c = Some e"
  shows "run_calls fails (pre @ c # post) = (pre @ [c], Some (wrap e))"
  using assms by (induction pre) (auto simp: can_fail_def split: option.split)

lemma run_calls_cases:
  "run_calls fails cs = (cs, None) \<and> (\<forall>c \<in> set cs. can_fail c \<longrightarrow> fails c = None) \<or>
   (\<exists>pre c post wrap e. cs = pre @ c # post \<and> (\<forall>d \<in> set pre. can_fail d \<longrightarrow> fails d = None) \<and>
      wrap_error c = Some wrap \<and> fails c = Some e \<and> run_calls fails cs = (pre @ [c], Some (wrap e)))"
proof (induction cs)
  case (Cons c cs)
  show ?case
  proof (cases "\<exists>wrap e. wrap_error c = Some wrap \<and> fails c = Some e")
    case True
    then show ?thesis by (intro disjI2 exI [of _ "[]"]) auto
  next
    case False
    then have ok: "can_fail c \<longrightarrow> fails c = None" by (auto simp: can_fail_def)
    with False have step: "run_calls fails (c # cs) = (c # fst (run_calls fails cs), snd (run_calls fails cs))"
      by (auto split: option.split prod.split)
    from Cons.IH show ?thesis
    proof
      assume "\<exists>pre c post wrap e. cs = pre @ c # post \<and> (\<forall>d \<in> set pre. can_fail d \<longrightarrow> fails d = None) \<and>
        wrap_error c = Some wrap \<and> fails c = Some e \<and> run_calls fails cs = (pre @ [c], Some (wrap e))"
      then obtain pre d post wrap e where "cs = pre @ d # post" "\<forall>d \<in> set pre. can_fail d \<longrightarrow> fails d = None"
        "wrap_error d = Some wrap" "fails d = Some e" "run_calls fails cs = (pre @ [d], Some (wrap e))"
        by blast
      with ok step show ?thesis by (intro disjI2 exI [of _ "c # pre"]) auto
    qed (use ok step in auto)
  qed
qed simp

lemma run_calls_append:
  "run_calls fails (xs @ ys) =
     (case run_calls fails xs of
        (made, Some e) \<Rightarrow> (made, Some e)
      | (made, None) \<Rightarrow> let (made', err') = run_calls fails ys in (made @ made', err'))"
  by (induction xs) (auto split: option.split prod.split)

definition start_calls :: "nat \<Rightarrow> stack_call list" where
  "start_calls mtu = option_calls @ nic_calls mtu"

lemma Start_run_calls:
  "Start fails None mtu =
     (case run_calls fails (start_calls mtu) of
        (made, None) \<Rightarrow> (made, None) | (made, Some e) \<Rightarrow> (made @ [CloseStack], Some e))"
  by (auto simp: Start_def start_calls_def run_calls_append split: option.split prod.split)

lemma handlers_before_nic:
  assumes "start_calls mtu = pre @ CreateNIC nic m # post"
  shows "SetTcpHandler (16 * 1024) (32 * 1024) \<in> set pre \<and> SetUdpHandler True \<in> set pre"
proof -
  define A where "A = option_calls @ [SetDefaultRoute 1, SetTcpHandler (16 * 1024) (32 * 1024), SetUdpHandler True]"
  have all: "start_calls mtu = A @ CreateNIC 1 mtu # [SetSpoofing 1 True, SetPromiscuous 1 True]"
    by (simp add: start_calls_def A_def nic_calls_def)
  have "CreateNIC nic m \<in> set (start_calls mtu)" using assms by simp
  then have "nic = 1" "m = mtu" by (auto simp: all A_def option_calls_def)
  moreover have "CreateNIC 1 mtu \<notin> set A" by (simp add: A_def option_calls_def)
  ultimately have "pre = A"
    using assms all append_Cons_eq_iff [of "CreateNIC 1 mtu" A "[SetSpoofing 1 True, SetPromiscuous 1 True]" pre post]
    by simp
  then show ?thesis by (simp add: A_def)
qed



end
