(* ===== verification/Win_Layout.thy ===== *)
theory Win_Layout
  imports Layout
begin

text \<open>
  The structures that winipcfg exchanges with the IP Helper API, as declared in
  \<open>types.go\<close> and, once for the 64-bit and once for the 32-bit architectures, in \<open>types_64.go\<close> and
  \<open>types_32.go\<close>; and their sizes and offsets, which are those the tests of the package expect.
\<close>

section \<open>Structures of all architectures\<close>

definition RawSockaddrInet_struct :: "(string \<times> ctype) list" where [struct_layouts]:
  "RawSockaddrInet_struct =
     [(''Family'', IntN 2), (''data'', Arr 26 (IntN 1))]"

definition IPAddressPrefix_struct :: "(string \<times> ctype) list" where [struct_layouts]:
  "IPAddressPrefix_struct =
     [(''RawPrefix'', Struct RawSockaddrInet_struct), (''PrefixLength'', IntN 1),
      (''_'', Arr 2 (IntN 1))]"

definition MibIPforwardRow2_struct :: "(string \<times> ctype) list" where [struct_layouts]:
  "MibIPforwardRow2_struct =
     [(''InterfaceLUID'', IntN 8), (''InterfaceIndex'', IntN 4),
      (''DestinationPrefix'', Struct IPAddressPrefix_struct),
      (''NextHop'', Struct RawSockaddrInet_struct), (''SitePrefixLength'', IntN 1),
      (''ValidLifetime'', IntN 4), (''PreferredLifetime'', IntN 4), (''Metric'', IntN 4),
      (''Protocol'', IntN 4), (''Loopback'', IntN 1), (''AutoconfigureAddress'', IntN 1),
      (''Publish'', IntN 1), (''Immortal'', IntN 1), (''Age'', IntN 4), (''Origin'', IntN 4)]"

definition IPAdapterDNSSuffix_struct :: "(string \<times> ctype) list" where [struct_layouts]:
  "IPAdapterDNSSuffix_struct =
     [(''Next'', Ptr), (''str'', Arr 256 (IntN 2))]"

section \<open>The 64-bit architectures\<close>

definition IPAdapterWINSServerAddress_64 :: "(string \<times> ctype) list" where [struct_layouts]:
  "IPAdapterWINSServerAddress_64 =
     [(''Length'', IntN 4), (''_'', IntN 4), (''Next'', Ptr),
      (''Address'', Ext ''SOCKET_ADDRESS'')]"

definition IPAdapterGatewayAddress_64 :: "(string \<times> ctype) list" where [struct_layouts]:
  "IPAdapterGatewayAddress_64 =
     [(''Length'', IntN 4), (''_'', IntN 4), (''Next'', Ptr),
      (''Address'', Ext ''SOCKET_ADDRESS'')]"

definition IPAdapterAddresses_64 :: "(string \<times> ctype) list" where [struct_layouts]:
  "IPAdapterAddresses_64 =
     [(''Length'', IntN 4), (''IfIndex'', IntN 4), (''Next'', Ptr), (''adapterName'', Ptr),
      (''FirstUnicastAddress'', Ptr), (''FirstAnycastAddress'', Ptr),
      (''FirstMulticastAddress'', Ptr), (''FirstDNSServerAddress'', Ptr), (''dnsSuffix'', Ptr),
      (''description'', Ptr), (''friendlyName'', Ptr), (''physicalAddress'', Arr 8 (IntN 1)),
      (''physicalAddressLength'', IntN 4), (''Flags'', IntN 4), (''MTU'', IntN 4),
      (''IfType'', IntN 4), (''OperStatus'', IntN 4), (''IPv6IfIndex'', IntN 4),
      (''ZoneIndices'', Arr 16 (IntN 4)), (''FirstPrefix'', Ptr),
      (''TransmitLinkSpeed'', IntN 8), (''ReceiveLinkSpeed'', IntN 8),
      (''FirstWINSServerAddress'', Ptr), (''FirstGatewayAddress'', Ptr),
      (''Ipv4Metric'', IntN 4), (''Ipv6Metric'', IntN 4), (''LUID'', IntN 8),
      (''DHCPv4Server'', Ext ''SOCKET_ADDRESS''), (''CompartmentID'', IntN 4),
      (''NetworkGUID'', Ext ''GUID''), (''ConnectionType'', IntN 4), (''TunnelType'', IntN 4),
      (''DHCPv6Server'', Ext ''SOCKET_ADDRESS''), (''dhcpv6ClientDUID'', Arr 130 (IntN 1)),
      (''dhcpv6ClientDUIDLength'', IntN 4), (''DHCPv6IAID'', IntN 4),
      (''FirstDNSSuffix'', Ptr)]"

definition MibIPInterfaceRow_64 :: "(string \<times> ctype) list" where [struct_layouts]:
  "MibIPInterfaceRow_64 =
     [(''Family'', IntN 2), (''InterfaceLUID'', IntN 8), (''InterfaceIndex'', IntN 4),
      (''MaxReassemblySize'', IntN 4), (''InterfaceIdentifier'', IntN 8),
      (''MinRouterAdvertisementInterval'', IntN 4),
      (''MaxRouterAdvertisementInterval'', IntN 4), (''AdvertisingEnabled'', IntN 1),
      (''ForwardingEnabled'', IntN 1), (''WeakHostSend'', IntN 1),
      (''WeakHostReceive'', IntN 1), (''UseAutomaticMetric'', IntN 1),
      (''UseNeighborUnreachabilityDetection'', IntN 1),
      (''ManagedAddressConfigurationSupported'', IntN 1),
      (''OtherStatefulConfigurationSupported'', IntN 1), (''AdvertiseDefaultRoute'', IntN 1),
      (''RouterDiscoveryBehavior'', IntN 4), (''DadTransmits'', IntN 4),
      (''BaseReachableTime'', IntN 4), (''RetransmitTime'', IntN 4),
      (''PathMTUDiscoveryTimeout'', IntN 4), (''LinkLocalAddressBehavior'', IntN 4),
      (''LinkLocalAddressTimeout'', IntN 4), (''ZoneIndices'', Arr 16 (IntN 4)),
      (''SitePrefixLength'', IntN 4), (''Metric'', IntN 4), (''NLMTU'', IntN 4),
      (''Connected'', IntN 1), (''SupportsWakeUpPatterns'', IntN 1),
      (''SupportsNeighborDiscovery'', IntN 1), (''SupportsRouterDiscovery'', IntN 1),
      (''ReachableTime'', IntN 4), (''TransmitOffload'', IntN 1), (''ReceiveOffload'', IntN 1),
      (''DisableDefaultRoutes'', IntN 1)]"

definition mibIPInterfaceTable_64 :: "(string \<times> ctype) list" where [struct_layouts]:
  "mibIPInterfaceTable_64 =
     [(''numEntries'', IntN 4), (''table'', Arr 1 (Struct MibIPInterfaceRow_64))]"

definition MibIfRow2_64 :: "(string \<times> ctype) list" where [struct_layouts]:
  "MibIfRow2_64 =
     [(''InterfaceLUID'', IntN 8), (''InterfaceIndex'', IntN 4),
      (''InterfaceGUID'', Ext ''GUID''), (''alias'', Arr 257 (IntN 2)),
      (''description'', Arr 257 (IntN 2)), (''physicalAddressLength'', IntN 4),
      (''physicalAddress'', Arr 32 (IntN 1)), (''permanentPhysicalAddress'', Arr 32 (IntN 1)),
      (''MTU'', IntN 4), (''Type'', IntN 4), (''TunnelType'', IntN 4), (''MediaType'', IntN 4),
      (''PhysicalMediumType'', IntN 4), (''AccessType'', IntN 4), (''DirectionType'', IntN 4),
      (''InterfaceAndOperStatusFlags'', IntN 1), (''OperStatus'', IntN 4),
      (''AdminStatus'', IntN 4), (''MediaConnectState'', IntN 4),
      (''NetworkGUID'', Ext ''GUID''), (''ConnectionType'', IntN 4),
      (''TransmitLinkSpeed'', IntN 8), (''ReceiveLinkSpeed'', IntN 8), (''InOctets'', IntN 8),
      (''InUcastPkts'', IntN 8), (''InNUcastPkts'', IntN 8), (''InDiscards'', IntN 8),
      (''InErrors'', IntN 8), (''InUnknownProtos'', IntN 8), (''InUcastOctets'', IntN 8),
      (''InMulticastOctets'', IntN 8), (''InBroadcastOctets'', IntN 8),
      (''OutOctets'', IntN 8), (''OutUcastPkts'', IntN 8), (''OutNUcastPkts'', IntN 8),
      (''OutDiscards'', IntN 8), (''OutErrors'', IntN 8), (''OutUcastOctets'', IntN 8),
      (''OutMulticastOctets'', IntN 8), (''OutBroadcastOctets'', IntN 8),
      (''OutQLen'', IntN 8)]"

definition mibIfTable2_64 :: "(string \<times> ctype) list" where [struct_layouts]:
  "mibIfTable2_64 =
     [(''numEntries'', IntN 4), (''table'', Arr 1 (Struct MibIfRow2_64))]"

definition MibUnicastIPAddressRow_64 :: "(string \<times> ctype) list" where [struct_layouts]:
  "MibUnicastIPAddressRow_64 =
     [(''Address'', Struct RawSockaddrInet_struct), (''InterfaceLUID'', IntN 8),
      (''InterfaceIndex'', IntN 4), (''PrefixOrigin'', IntN 4), (''SuffixOrigin'', IntN 4),
      (''ValidLifetime'', IntN 4), (''PreferredLifetime'', IntN 4),
      (''OnLinkPrefixLength'', IntN 1), (''SkipAsSource'', IntN 1), (''DadState'', IntN 4),
      (''ScopeID'', IntN 4), (''CreationTimeStamp'', IntN 8)]"

definition mibUnicastIPAddressTable_64 :: "(string \<times> ctype) list" where [struct_layouts]:
  "mibUnicastIPAddressTable_64 =
     [(''numEntries'', IntN 4), (''table'', Arr 1 (Struct MibUnicastIPAddressRow_64))]"

definition MibAnycastIPAddressRow_64 :: "(string \<times> ctype) list" where [struct_layouts]:
  "MibAnycastIPAddressRow_64 =
     [(''Address'', Struct RawSockaddrInet_struct), (''InterfaceLUID'', IntN 8),
      (''InterfaceIndex'', IntN 4), (''ScopeID'', IntN 4)]"

definition mibAnycastIPAddressTable_64 :: "(string \<times> ctype) list" where [struct_layouts]:
  "mibAnycastIPAddressTable_64 =
     [(''numEntries'', IntN 4), (''table'', Arr 1 (Struct MibAnycastIPAddressRow_64))]"

definition mibIPforwardTable2_64 :: "(string \<times> ctype) list" where [struct_layouts]:
  "mibIPforwardTable2_64 =
     [(''numEntries'', IntN 4), (''table'', Arr 1 (Struct MibIPforwardRow2_struct))]"

definition MIB_IPFORWARDROW_64 :: "(string \<times> ctype) list" where [struct_layouts]:
  "MIB_IPFORWARDROW_64 =
     [(''ForwardDest'', IntN 4), (''ForwardMask'', IntN 4), (''ForwardPolicy'', IntN 4),
      (''ForwardNextHop'', IntN 4), (''ForwardIfIndex'', IntN 4), (''ForwardType'', IntN 4),
      (''ForwardProto'', IntN 4), (''ForwardAge'', IntN 4), (''ForwardNextHopAS'', IntN 4),
      (''ForwardMetric1'', IntN 4), (''ForwardMetric2'', IntN 4), (''ForwardMetric3'', IntN 4),
      (''ForwardMetric4'', IntN 4), (''ForwardMetric5'', IntN 4)]"

section \<open>The 32-bit architectures\<close>

definition IPAdapterWINSServerAddress_32 :: "(string \<times> ctype) list" where [struct_layouts]:
  "IPAdapterWINSServerAddress_32 =
     [(''Length'', IntN 4), (''_'', IntN 4), (''Next'', Ptr),
      (''Address'', Ext ''SOCKET_ADDRESS''), (''_'', Arr 4 (IntN 1))]"

definition IPAdapterGatewayAddress_32 :: "(string \<times> ctype) list" where [struct_layouts]:
  "IPAdapterGatewayAddress_32 =
     [(''Length'', IntN 4), (''_'', IntN 4), (''Next'', Ptr),
      (''Address'', Ext ''SOCKET_ADDRESS''), (''_'', Arr 4 (IntN 1))]"

definition IPAdapterAddresses_32 :: "(string \<times> ctype) list" where [struct_layouts]:
  "IPAdapterAddresses_32 =
     [(''Length'', IntN 4), (''IfIndex'', IntN 4), (''Next'', Ptr), (''adapterName'', Ptr),
      (''FirstUnicastAddress'', Ptr), (''FirstAnycastAddress'', Ptr),
      (''FirstMulticastAddress'', Ptr), (''FirstDNSServerAddress'', Ptr), (''dnsSuffix'', Ptr),
      (''description'', Ptr), (''friendlyName'', Ptr), (''physicalAddress'', Arr 8 (IntN 1)),
      (''physicalAddressLength'', IntN 4), (''Flags'', IntN 4), (''MTU'', IntN 4),
      (''IfType'', IntN 4), (''OperStatus'', IntN 4), (''IPv6IfIndex'', IntN 4),
      (''ZoneIndices'', Arr 16 (IntN 4)), (''FirstPrefix'', Ptr),
      (''TransmitLinkSpeed'', IntN 8), (''ReceiveLinkSpeed'', IntN 8),
      (''FirstWINSServerAddress'', Ptr), (''FirstGatewayAddress'', Ptr),
      (''Ipv4Metric'', IntN 4), (''Ipv6Metric'', IntN 4), (''LUID'', IntN 8),
      (''DHCPv4Server'', Ext ''SOCKET_ADDRESS''), (''CompartmentID'', IntN 4),
      (''NetworkGUID'', Ext ''GUID''), (''ConnectionType'', IntN 4), (''TunnelType'', IntN 4),
      (''DHCPv6Server'', Ext ''SOCKET_ADDRESS''), (''dhcpv6ClientDUID'', Arr 130 (IntN 1)),
      (''dhcpv6ClientDUIDLength'', IntN 4), (''DHCPv6IAID'', IntN 4),
      (''FirstDNSSuffix'', Ptr), (''_'', Arr 4 (IntN 1))]"

definition MibIPInterfaceRow_32 :: "(string \<times> ctype) list" where [struct_layouts]:
  "MibIPInterfaceRow_32 =
     [(''Family'', IntN 2), (''_'', Arr 4 (IntN 1)), (''InterfaceLUID'', IntN 8),
      (''InterfaceIndex'', IntN 4), (''MaxReassemblySize'', IntN 4),
      (''InterfaceIdentifier'', IntN 8), (''MinRouterAdvertisementInterval'', IntN 4),
      (''MaxRouterAdvertisementInterval'', IntN 4), (''AdvertisingEnabled'', IntN 1),
      (''ForwardingEnabled'', IntN 1), (''WeakHostSend'', IntN 1),
      (''WeakHostReceive'', IntN 1), (''UseAutomaticMetric'', IntN 1),
      (''UseNeighborUnreachabilityDetection'', IntN 1),
      (''ManagedAddressConfigurationSupported'', IntN 1),
      (''OtherStatefulConfigurationSupported'', IntN 1), (''AdvertiseDefaultRoute'', IntN 1),
      (''RouterDiscoveryBehavior'', IntN 4), (''DadTransmits'', IntN 4),
      (''BaseReachableTime'', IntN 4), (''RetransmitTime'', IntN 4),
      (''PathMTUDiscoveryTimeout'', IntN 4), (''LinkLocalAddressBehavior'', IntN 4),
      (''LinkLocalAddressTimeout'', IntN 4), (''ZoneIndices'', Arr 16 (IntN 4)),
      (''SitePrefixLength'', IntN 4), (''Metric'', IntN 4), (''NLMTU'', IntN 4),
      (''Connected'', IntN 1), (''SupportsWakeUpPatterns'', IntN 1),
      (''SupportsNeighborDiscovery'', IntN 1), (''SupportsRouterDiscovery'', IntN 1),
      (''ReachableTime'', IntN 4), (''TransmitOffload'', IntN 1), (''ReceiveOffload'', IntN 1),
      (''DisableDefaultRoutes'', IntN 1)]"

definition mibIPInterfaceTable_32 :: "(string \<times> ctype) list" where [struct_layouts]:
  "mibIPInterfaceTable_32 =
     [(''numEntries'', IntN 4), (''_'', Arr 4 (IntN 1)),
      (''table'', Arr 1 (Struct MibIPInterfaceRow_32))]"

definition MibIfRow2_32 :: "(string \<times> ctype) list" where [struct_layouts]:
  "MibIfRow2_32 =
     [(''InterfaceLUID'', IntN 8), (''InterfaceIndex'', IntN 4),
      (''InterfaceGUID'', Ext ''GUID''), (''alias'', Arr 257 (IntN 2)),
      (''description'', Arr 257 (IntN 2)), (''physicalAddressLength'', IntN 4),
      (''physicalAddress'', Arr 32 (IntN 1)), (''permanentPhysicalAddress'', Arr 32 (IntN 1)),
      (''MTU'', IntN 4), (''Type'', IntN 4), (''TunnelType'', IntN 4), (''MediaType'', IntN 4),
      (''PhysicalMediumType'', IntN 4), (''AccessType'', IntN 4), (''DirectionType'', IntN 4),
      (''InterfaceAndOperStatusFlags'', IntN 1), (''OperStatus'', IntN 4),
      (''AdminStatus'', IntN 4), (''MediaConnectState'', IntN 4),
      (''NetworkGUID'', Ext ''GUID''), (''ConnectionType'', IntN 4), (''_'', Arr 4 (IntN 1)),
      (''TransmitLinkSpeed'', IntN 8), (''ReceiveLinkSpeed'', IntN 8), (''InOctets'', IntN 8),
      (''InUcastPkts'', IntN 8), (''InNUcastPkts'', IntN 8), (''InDiscards'', IntN 8),
      (''InErrors'', IntN 8), (''InUnknownProtos'', IntN 8), (''InUcastOctets'', IntN 8),
      (''InMulticastOctets'', IntN 8), (''InBroadcastOctets'', IntN 8),
      (''OutOctets'', IntN 8), (''OutUcastPkts'', IntN 8), (''OutNUcastPkts'', IntN 8),
      (''OutDiscards'', IntN 8), (''OutErrors'', IntN 8), (''OutUcastOctets'', IntN 8),
      (''OutMulticastOctets'', IntN 8), (''OutBroadcastOctets'', IntN 8),
      (''OutQLen'', IntN 8)]"

definition mibIfTable2_32 :: "(string \<times> ctype) list" where [struct_layouts]:
  "mibIfTable2_32 =
     [(''numEntries'', IntN 4), (''_'', Arr 4 (IntN 1)),
      (''table'', Arr 1 (Struct MibIfRow2_32))]"

definition MibUnicastIPAddressRow_32 :: "(string \<times> ctype) list" where [struct_layouts]:
  "MibUnicastIPAddressRow_32 =
     [(''Address'', Struct RawSockaddrInet_struct), (''_'', Arr 4 (IntN 1)),
      (''InterfaceLUID'', IntN 8), (''InterfaceIndex'', IntN 4), (''PrefixOrigin'', IntN 4),
      (''SuffixOrigin'', IntN 4), (''ValidLifetime'', IntN 4), (''PreferredLifetime'', IntN 4),
      (''OnLinkPrefixLength'', IntN 1), (''SkipAsSource'', IntN 1), (''DadState'', IntN 4),
      (''ScopeID'', IntN 4), (''CreationTimeStamp'', IntN 8)]"

definition mibUnicastIPAddressTable_32 :: "(string \<times> ctype) list" where [struct_layouts]:
  "mibUnicastIPAddressTable_32 =
     [(''numEntries'', IntN 4), (''_'', Arr 4 (IntN 1)),
      (''table'', Arr 1 (Struct MibUnicastIPAddressRow_32))]"

definition MibAnycastIPAddressRow_32 :: "(string \<times> ctype) list" where [struct_layouts]:
  "MibAnycastIPAddressRow_32 =
     [(''Address'', Struct RawSockaddrInet_struct), (''_'', Arr 4 (IntN 1)),
      (''InterfaceLUID'', IntN 8), (''InterfaceIndex'', IntN 4), (''ScopeID'', IntN 4)]"

definition mibAnycastIPAddressTable_32 :: "(string \<times> ctype) list" where [struct_layouts]:
  "mibAnycastIPAddressTable_32 =
     [(''numEntries'', IntN 4), (''_'', Arr 4 (IntN 1)),
      (''table'', Arr 1 (Struct MibAnycastIPAddressRow_32))]"

definition mibIPforwardTable2_32 :: "(string \<times> ctype) list" where [struct_layouts]:
  "mibIPforwardTable2_32 =
     [(''numEntries'', IntN 4), (''_'', Arr 4 (IntN 1)),
      (''table'', Arr 1 (Struct MibIPforwardRow2_struct))]"

section \<open>Layouts\<close>

lemma layout_RawSockaddrInet_struct_abi_386: "layout abi_386 RawSockaddrInet_struct =
     (28, [(''Family'', 0), (''data'', 2)])"
  by code_simp

lemma layout_RawSockaddrInet_struct_abi_arm: "layout abi_arm RawSockaddrInet_struct =
     (28, [(''Family'', 0), (''data'', 2)])"
  by code_simp

lemma layout_RawSockaddrInet_struct_abi_64: "layout abi_64 RawSockaddrInet_struct =
     (28, [(''Family'', 0), (''data'', 2)])"
  by code_simp

lemma layout_IPAddressPrefix_struct_abi_386: "layout abi_386 IPAddressPrefix_struct =
     (32, [(''RawPrefix'', 0), (''PrefixLength'', 28)])"
  by code_simp

lemma layout_IPAddressPrefix_struct_abi_arm: "layout abi_arm IPAddressPrefix_struct =
     (32, [(''RawPrefix'', 0), (''PrefixLength'', 28)])"
  by code_simp

lemma layout_IPAddressPrefix_struct_abi_64: "layout abi_64 IPAddressPrefix_struct =
     (32, [(''RawPrefix'', 0), (''PrefixLength'', 28)])"
  by code_simp

lemma layout_MibIPforwardRow2_struct_abi_386: "layout abi_386 MibIPforwardRow2_struct =
     (104, [(''InterfaceLUID'', 0), (''InterfaceIndex'', 8), (''DestinationPrefix'', 12),
       (''NextHop'', 44), (''SitePrefixLength'', 72), (''ValidLifetime'', 76),
       (''PreferredLifetime'', 80), (''Metric'', 84), (''Protocol'', 88),
       (''Loopback'', 92), (''AutoconfigureAddress'', 93), (''Publish'', 94),
       (''Immortal'', 95), (''Age'', 96), (''Origin'', 100)])"
  by code_simp

lemma layout_MibIPforwardRow2_struct_abi_arm: "layout abi_arm MibIPforwardRow2_struct =
     (104, [(''InterfaceLUID'', 0), (''InterfaceIndex'', 8), (''DestinationPrefix'', 12),
       (''NextHop'', 44), (''SitePrefixLength'', 72), (''ValidLifetime'', 76),
       (''PreferredLifetime'', 80), (''Metric'', 84), (''Protocol'', 88),
       (''Loopback'', 92), (''AutoconfigureAddress'', 93), (''Publish'', 94),
       (''Immortal'', 95), (''Age'', 96), (''Origin'', 100)])"
  by code_simp

lemma layout_MibIPforwardRow2_struct_abi_64: "layout abi_64 MibIPforwardRow2_struct =
     (104, [(''InterfaceLUID'', 0), (''InterfaceIndex'', 8), (''DestinationPrefix'', 12),
       (''NextHop'', 44), (''SitePrefixLength'', 72), (''ValidLifetime'', 76),
       (''PreferredLifetime'', 80), (''Metric'', 84), (''Protocol'', 88),
       (''Loopback'', 92), (''AutoconfigureAddress'', 93), (''Publish'', 94),
       (''Immortal'', 95), (''Age'', 96), (''Origin'', 100)])"
  by code_simp

lemma layout_MibIPInterfaceRow_32_abi_386: "layout abi_386 MibIPInterfaceRow_32 =
     (168, [(''Family'', 0), (''InterfaceLUID'', 8), (''InterfaceIndex'', 16),
       (''MaxReassemblySize'', 20), (''InterfaceIdentifier'', 24),
       (''MinRouterAdvertisementInterval'', 32), (''MaxRouterAdvertisementInterval'', 36),
       (''AdvertisingEnabled'', 40), (''ForwardingEnabled'', 41), (''WeakHostSend'', 42),
       (''WeakHostReceive'', 43), (''UseAutomaticMetric'', 44),
       (''UseNeighborUnreachabilityDetection'', 45),
       (''ManagedAddressConfigurationSupported'', 46),
       (''OtherStatefulConfigurationSupported'', 47), (''AdvertiseDefaultRoute'', 48),
       (''RouterDiscoveryBehavior'', 52), (''DadTransmits'', 56),
       (''BaseReachableTime'', 60), (''RetransmitTime'', 64),
       (''PathMTUDiscoveryTimeout'', 68), (''LinkLocalAddressBehavior'', 72),
       (''LinkLocalAddressTimeout'', 76), (''ZoneIndices'', 80),
       (''SitePrefixLength'', 144), (''Metric'', 148), (''NLMTU'', 152),
       (''Connected'', 156), (''SupportsWakeUpPatterns'', 157),
       (''SupportsNeighborDiscovery'', 158), (''SupportsRouterDiscovery'', 159),
       (''ReachableTime'', 160), (''TransmitOffload'', 164), (''ReceiveOffload'', 165),
       (''DisableDefaultRoutes'', 166)])"
  by code_simp

lemma layout_MibIPInterfaceRow_32_abi_arm: "layout abi_arm MibIPInterfaceRow_32 =
     (168, [(''Family'', 0), (''InterfaceLUID'', 8), (''InterfaceIndex'', 16),
       (''MaxReassemblySize'', 20), (''InterfaceIdentifier'', 24),
       (''MinRouterAdvertisementInterval'', 32), (''MaxRouterAdvertisementInterval'', 36),
       (''AdvertisingEnabled'', 40), (''ForwardingEnabled'', 41), (''WeakHostSend'', 42),
       (''WeakHostReceive'', 43), (''UseAutomaticMetric'', 44),
       (''UseNeighborUnreachabilityDetection'', 45),
       (''ManagedAddressConfigurationSupported'', 46),
       (''OtherStatefulConfigurationSupported'', 47), (''AdvertiseDefaultRoute'', 48),
       (''RouterDiscoveryBehavior'', 52), (''DadTransmits'', 56),
       (''BaseReachableTime'', 60), (''RetransmitTime'', 64),
       (''PathMTUDiscoveryTimeout'', 68), (''LinkLocalAddressBehavior'', 72),
       (''LinkLocalAddressTimeout'', 76), (''ZoneIndices'', 80),
       (''SitePrefixLength'', 144), (''Metric'', 148), (''NLMTU'', 152),
       (''Connected'', 156), (''SupportsWakeUpPatterns'', 157),
       (''SupportsNeighborDiscovery'', 158), (''SupportsRouterDiscovery'', 159),
       (''ReachableTime'', 160), (''TransmitOffload'', 164), (''ReceiveOffload'', 165),
       (''DisableDefaultRoutes'', 166)])"
  by code_simp

lemma layout_MibIPInterfaceRow_64_abi_64: "layout abi_64 MibIPInterfaceRow_64 =
     (168, [(''Family'', 0), (''InterfaceLUID'', 8), (''InterfaceIndex'', 16),
       (''MaxReassemblySize'', 20), (''InterfaceIdentifier'', 24),
       (''MinRouterAdvertisementInterval'', 32), (''MaxRouterAdvertisementInterval'', 36),
       (''AdvertisingEnabled'', 40), (''ForwardingEnabled'', 41), (''WeakHostSend'', 42),
       (''WeakHostReceive'', 43), (''UseAutomaticMetric'', 44),
       (''UseNeighborUnreachabilityDetection'', 45),
       (''ManagedAddressConfigurationSupported'', 46),
       (''OtherStatefulConfigurationSupported'', 47), (''AdvertiseDefaultRoute'', 48),
       (''RouterDiscoveryBehavior'', 52), (''DadTransmits'', 56),
       (''BaseReachableTime'', 60), (''RetransmitTime'', 64),
       (''PathMTUDiscoveryTimeout'', 68), (''LinkLocalAddressBehavior'', 72),
       (''LinkLocalAddressTimeout'', 76), (''ZoneIndices'', 80),
       (''SitePrefixLength'', 144), (''Metric'', 148), (''NLMTU'', 152),
       (''Connected'', 156), (''SupportsWakeUpPatterns'', 157),
       (''SupportsNeighborDiscovery'', 158), (''SupportsRouterDiscovery'', 159),
       (''ReachableTime'', 160), (''TransmitOffload'', 164), (''ReceiveOffload'', 165),
       (''DisableDefaultRoutes'', 166)])"
  by code_simp

lemma layout_mibIPInterfaceTable_32_abi_386: "layout abi_386 mibIPInterfaceTable_32 =
     (176, [(''numEntries'', 0), (''table'', 8)])"
  by code_simp

lemma layout_mibIPInterfaceTable_32_abi_arm: "layout abi_arm mibIPInterfaceTable_32 =
     (176, [(''numEntries'', 0), (''table'', 8)])"
  by code_simp

lemma layout_mibIPInterfaceTable_64_abi_64: "layout abi_64 mibIPInterfaceTable_64 =
     (176, [(''numEntries'', 0), (''table'', 8)])"
  by code_simp

lemma layout_MibIfRow2_32_abi_386: "layout abi_386 MibIfRow2_32 =
     (1352, [(''InterfaceLUID'', 0), (''InterfaceIndex'', 8), (''InterfaceGUID'', 12),
       (''alias'', 28), (''description'', 542), (''physicalAddressLength'', 1056),
       (''physicalAddress'', 1060), (''permanentPhysicalAddress'', 1092), (''MTU'', 1124),
       (''Type'', 1128), (''TunnelType'', 1132), (''MediaType'', 1136),
       (''PhysicalMediumType'', 1140), (''AccessType'', 1144), (''DirectionType'', 1148),
       (''InterfaceAndOperStatusFlags'', 1152), (''OperStatus'', 1156),
       (''AdminStatus'', 1160), (''MediaConnectState'', 1164), (''NetworkGUID'', 1168),
       (''ConnectionType'', 1184), (''TransmitLinkSpeed'', 1192),
       (''ReceiveLinkSpeed'', 1200), (''InOctets'', 1208), (''InUcastPkts'', 1216),
       (''InNUcastPkts'', 1224), (''InDiscards'', 1232), (''InErrors'', 1240),
       (''InUnknownProtos'', 1248), (''InUcastOctets'', 1256),
       (''InMulticastOctets'', 1264), (''InBroadcastOctets'', 1272), (''OutOctets'', 1280),
       (''OutUcastPkts'', 1288), (''OutNUcastPkts'', 1296), (''OutDiscards'', 1304),
       (''OutErrors'', 1312), (''OutUcastOctets'', 1320), (''OutMulticastOctets'', 1328),
       (''OutBroadcastOctets'', 1336), (''OutQLen'', 1344)])"
  by code_simp

lemma layout_MibIfRow2_32_abi_arm: "layout abi_arm MibIfRow2_32 =
     (1352, [(''InterfaceLUID'', 0), (''InterfaceIndex'', 8), (''InterfaceGUID'', 12),
       (''alias'', 28), (''description'', 542), (''physicalAddressLength'', 1056),
       (''physicalAddress'', 1060), (''permanentPhysicalAddress'', 1092), (''MTU'', 1124),
       (''Type'', 1128), (''TunnelType'', 1132), (''MediaType'', 1136),
       (''PhysicalMediumType'', 1140), (''AccessType'', 1144), (''DirectionType'', 1148),
       (''InterfaceAndOperStatusFlags'', 1152), (''OperStatus'', 1156),
       (''AdminStatus'', 1160), (''MediaConnectState'', 1164), (''NetworkGUID'', 1168),
       (''ConnectionType'', 1184), (''TransmitLinkSpeed'', 1192),
       (''ReceiveLinkSpeed'', 1200), (''InOctets'', 1208), (''InUcastPkts'', 1216),
       (''InNUcastPkts'', 1224), (''InDiscards'', 1232), (''InErrors'', 1240),
       (''InUnknownProtos'', 1248), (''InUcastOctets'', 1256),
       (''InMulticastOctets'', 1264), (''InBroadcastOctets'', 1272), (''OutOctets'', 1280),
       (''OutUcastPkts'', 1288), (''OutNUcastPkts'', 1296), (''OutDiscards'', 1304),
       (''OutErrors'', 1312), (''OutUcastOctets'', 1320), (''OutMulticastOctets'', 1328),
       (''OutBroadcastOctets'', 1336), (''OutQLen'', 1344)])"
  by code_simp

lemma layout_MibIfRow2_64_abi_64: "layout abi_64 MibIfRow2_64 =
     (1352, [(''InterfaceLUID'', 0), (''InterfaceIndex'', 8), (''InterfaceGUID'', 12),
       (''alias'', 28), (''description'', 542), (''physicalAddressLength'', 1056),
       (''physicalAddress'', 1060), (''permanentPhysicalAddress'', 1092), (''MTU'', 1124),
       (''Type'', 1128), (''TunnelType'', 1132), (''MediaType'', 1136),
       (''PhysicalMediumType'', 1140), (''AccessType'', 1144), (''DirectionType'', 1148),
       (''InterfaceAndOperStatusFlags'', 1152), (''OperStatus'', 1156),
       (''AdminStatus'', 1160), (''MediaConnectState'', 1164), (''NetworkGUID'', 1168),
       (''ConnectionType'', 1184), (''TransmitLinkSpeed'', 1192),
       (''ReceiveLinkSpeed'', 1200), (''InOctets'', 1208), (''InUcastPkts'', 1216),
       (''InNUcastPkts'', 1224), (''InDiscards'', 1232), (''InErrors'', 1240),
       (''InUnknownProtos'', 1248), (''InUcastOctets'', 1256),
       (''InMulticastOctets'', 1264), (''InBroadcastOctets'', 1272), (''OutOctets'', 1280),
       (''OutUcastPkts'', 1288), (''OutNUcastPkts'', 1296), (''OutDiscards'', 1304),
       (''OutErrors'', 1312), (''OutUcastOctets'', 1320), (''OutMulticastOctets'', 1328),
       (''OutBroadcastOctets'', 1336), (''OutQLen'', 1344)])"
  by code_simp

lemma layout_mibIfTable2_32_abi_386: "layout abi_386 mibIfTable2_32 =
     (1360, [(''numEntries'', 0), (''table'', 8)])"
  by code_simp

lemma layout_mibIfTable2_32_abi_arm: "layout abi_arm mibIfTable2_32 =
     (1360, [(''numEntries'', 0), (''table'', 8)])"
  by code_simp

lemma layout_mibIfTable2_64_abi_64: "layout abi_64 mibIfTable2_64 =
     (1360, [(''numEntries'', 0), (''table'', 8)])"
  by code_simp

lemma layout_MibUnicastIPAddressRow_32_abi_386: "layout abi_386 MibUnicastIPAddressRow_32 =
     (80, [(''Address'', 0), (''InterfaceLUID'', 32), (''InterfaceIndex'', 40),
       (''PrefixOrigin'', 44), (''SuffixOrigin'', 48), (''ValidLifetime'', 52),
       (''PreferredLifetime'', 56), (''OnLinkPrefixLength'', 60), (''SkipAsSource'', 61),
       (''DadState'', 64), (''ScopeID'', 68), (''CreationTimeStamp'', 72)])"
  by code_simp

lemma layout_MibUnicastIPAddressRow_32_abi_arm: "layout abi_arm MibUnicastIPAddressRow_32 =
     (80, [(''Address'', 0), (''InterfaceLUID'', 32), (''InterfaceIndex'', 40),
       (''PrefixOrigin'', 44), (''SuffixOrigin'', 48), (''ValidLifetime'', 52),
       (''PreferredLifetime'', 56), (''OnLinkPrefixLength'', 60), (''SkipAsSource'', 61),
       (''DadState'', 64), (''ScopeID'', 68), (''CreationTimeStamp'', 72)])"
  by code_simp

lemma layout_MibUnicastIPAddressRow_64_abi_64: "layout abi_64 MibUnicastIPAddressRow_64 =
     (80, [(''Address'', 0), (''InterfaceLUID'', 32), (''InterfaceIndex'', 40),
       (''PrefixOrigin'', 44), (''SuffixOrigin'', 48), (''ValidLifetime'', 52),
       (''PreferredLifetime'', 56), (''OnLinkPrefixLength'', 60), (''SkipAsSource'', 61),
       (''DadState'', 64), (''ScopeID'', 68), (''CreationTimeStamp'', 72)])"
  by code_simp

lemma layout_mibUnicastIPAddressTable_32_abi_386: "layout abi_386 mibUnicastIPAddressTable_32 =
     (88, [(''numEntries'', 0), (''table'', 8)])"
  by code_simp

lemma layout_mibUnicastIPAddressTable_32_abi_arm: "layout abi_arm mibUnicastIPAddressTable_32 =
     (88, [(''numEntries'', 0), (''table'', 8)])"
  by code_simp

lemma layout_mibUnicastIPAddressTable_64_abi_64: "layout abi_64 mibUnicastIPAddressTable_64 =
     (88, [(''numEntries'', 0), (''table'', 8)])"
  by code_simp

lemma layout_MibAnycastIPAddressRow_32_abi_386: "layout abi_386 MibAnycastIPAddressRow_32 =
     (48, [(''Address'', 0), (''InterfaceLUID'', 32), (''InterfaceIndex'', 40),
       (''ScopeID'', 44)])"
  by code_simp

lemma layout_MibAnycastIPAddressRow_32_abi_arm: "layout abi_arm MibAnycastIPAddressRow_32 =
     (48, [(''Address'', 0), (''InterfaceLUID'', 32), (''InterfaceIndex'', 40),
       (''ScopeID'', 44)])"
  by code_simp

lemma layout_MibAnycastIPAddressRow_64_abi_64: "layout abi_64 MibAnycastIPAddressRow_64 =
     (48, [(''Address'', 0), (''InterfaceLUID'', 32), (''InterfaceIndex'', 40),
       (''ScopeID'', 44)])"
  by code_simp

lemma layout_mibAnycastIPAddressTable_32_abi_386: "layout abi_386 mibAnycastIPAddressTable_32 =
     (56, [(''numEntries'', 0), (''table'', 8)])"
  by code_simp

lemma layout_mibAnycastIPAddressTable_32_abi_arm: "layout abi_arm mibAnycastIPAddressTable_32 =
     (56, [(''numEntries'', 0), (''table'', 8)])"
  by code_simp

lemma layout_mibAnycastIPAddressTable_64_abi_64: "layout abi_64 mibAnycastIPAddressTable_64 =
     (56, [(''numEntries'', 0), (''table'', 8)])"
  by code_simp

lemma layout_mibIPforwardTable2_32_abi_386: "layout abi_386 mibIPforwardTable2_32 =
     (112, [(''numEntries'', 0), (''table'', 8)])"
  by code_simp

lemma layout_mibIPforwardTable2_32_abi_arm: "layout abi_arm mibIPforwardTable2_32 =
     (112, [(''numEntries'', 0), (''table'', 8)])"
  by code_simp

lemma layout_mibIPforwardTable2_64_abi_64: "layout abi_64 mibIPforwardTable2_64 =
     (112, [(''numEntries'', 0), (''table'', 8)])"
  by code_simp

lemma layout_IPAdapterWINSServerAddress_32_abi_386: "layout abi_386 IPAdapterWINSServerAddress_32 =
     (24, [(''Length'', 0), (''Next'', 8), (''Address'', 12)])"
  by code_simp

lemma layout_IPAdapterWINSServerAddress_32_abi_arm: "layout abi_arm IPAdapterWINSServerAddress_32 =
     (24, [(''Length'', 0), (''Next'', 8), (''Address'', 12)])"
  by code_simp

lemma layout_IPAdapterWINSServerAddress_64_abi_64: "layout abi_64 IPAdapterWINSServerAddress_64 =
     (32, [(''Length'', 0), (''Next'', 8), (''Address'', 16)])"
  by code_simp

lemma layout_IPAdapterGatewayAddress_32_abi_386: "layout abi_386 IPAdapterGatewayAddress_32 =
     (24, [(''Length'', 0), (''Next'', 8), (''Address'', 12)])"
  by code_simp

lemma layout_IPAdapterGatewayAddress_32_abi_arm: "layout abi_arm IPAdapterGatewayAddress_32 =
     (24, [(''Length'', 0), (''Next'', 8), (''Address'', 12)])"
  by code_simp

lemma layout_IPAdapterGatewayAddress_64_abi_64: "layout abi_64 IPAdapterGatewayAddress_64 =
     (32, [(''Length'', 0), (''Next'', 8), (''Address'', 16)])"
  by code_simp

lemma layout_IPAdapterAddresses_32_abi_386: "layout abi_386 IPAdapterAddresses_32 =
     (376, [(''Length'', 0), (''IfIndex'', 4), (''Next'', 8), (''adapterName'', 12),
       (''FirstUnicastAddress'', 16), (''FirstAnycastAddress'', 20),
       (''FirstMulticastAddress'', 24), (''FirstDNSServerAddress'', 28),
       (''dnsSuffix'', 32), (''description'', 36), (''friendlyName'', 40),
       (''physicalAddress'', 44), (''physicalAddressLength'', 52), (''Flags'', 56),
       (''MTU'', 60), (''IfType'', 64), (''OperStatus'', 68), (''IPv6IfIndex'', 72),
       (''ZoneIndices'', 76), (''FirstPrefix'', 140), (''TransmitLinkSpeed'', 144),
       (''ReceiveLinkSpeed'', 152), (''FirstWINSServerAddress'', 160),
       (''FirstGatewayAddress'', 164), (''Ipv4Metric'', 168), (''Ipv6Metric'', 172),
       (''LUID'', 176), (''DHCPv4Server'', 184), (''CompartmentID'', 192),
       (''NetworkGUID'', 196), (''ConnectionType'', 212), (''TunnelType'', 216),
       (''DHCPv6Server'', 220), (''dhcpv6ClientDUID'', 228),
       (''dhcpv6ClientDUIDLength'', 360), (''DHCPv6IAID'', 364), (''FirstDNSSuffix'', 368)])"
  by code_simp

lemma layout_IPAdapterAddresses_32_abi_arm: "layout abi_arm IPAdapterAddresses_32 =
     (376, [(''Length'', 0), (''IfIndex'', 4), (''Next'', 8), (''adapterName'', 12),
       (''FirstUnicastAddress'', 16), (''FirstAnycastAddress'', 20),
       (''FirstMulticastAddress'', 24), (''FirstDNSServerAddress'', 28),
       (''dnsSuffix'', 32), (''description'', 36), (''friendlyName'', 40),
       (''physicalAddress'', 44), (''physicalAddressLength'', 52), (''Flags'', 56),
       (''MTU'', 60), (''IfType'', 64), (''OperStatus'', 68), (''IPv6IfIndex'', 72),
       (''ZoneIndices'', 76), (''FirstPrefix'', 140), (''TransmitLinkSpeed'', 144),
       (''ReceiveLinkSpeed'', 152), (''FirstWINSServerAddress'', 160),
       (''FirstGatewayAddress'', 164), (''Ipv4Metric'', 168), (''Ipv6Metric'', 172),
       (''LUID'', 176), (''DHCPv4Server'', 184), (''CompartmentID'', 192),
       (''NetworkGUID'', 196), (''ConnectionType'', 212), (''TunnelType'', 216),
       (''DHCPv6Server'', 220), (''dhcpv6ClientDUID'', 228),
       (''dhcpv6ClientDUIDLength'', 360), (''DHCPv6IAID'', 364), (''FirstDNSSuffix'', 368)])"
  by code_simp

lemma layout_IPAdapterAddresses_64_abi_64: "layout abi_64 IPAdapterAddresses_64 =
     (448, [(''Length'', 0), (''IfIndex'', 4), (''Next'', 8), (''adapterName'', 16),
       (''FirstUnicastAddress'', 24), (''FirstAnycastAddress'', 32),
       (''FirstMulticastAddress'', 40), (''FirstDNSServerAddress'', 48),
       (''dnsSuffix'', 56), (''description'', 64), (''friendlyName'', 72),
       (''physicalAddress'', 80), (''physicalAddressLength'', 88), (''Flags'', 92),
       (''MTU'', 96), (''IfType'', 100), (''OperStatus'', 104), (''IPv6IfIndex'', 108),
       (''ZoneIndices'', 112), (''FirstPrefix'', 176), (''TransmitLinkSpeed'', 184),
       (''ReceiveLinkSpeed'', 192), (''FirstWINSServerAddress'', 200),
       (''FirstGatewayAddress'', 208), (''Ipv4Metric'', 216), (''Ipv6Metric'', 220),
       (''LUID'', 224), (''DHCPv4Server'', 232), (''CompartmentID'', 248),
       (''NetworkGUID'', 252), (''ConnectionType'', 268), (''TunnelType'', 272),
       (''DHCPv6Server'', 280), (''dhcpv6ClientDUID'', 296),
       (''dhcpv6ClientDUIDLength'', 428), (''DHCPv6IAID'', 432), (''FirstDNSSuffix'', 440)])"
  by code_simp

lemma layout_IPAdapterDNSSuffix_struct_abi_386: "layout abi_386 IPAdapterDNSSuffix_struct =
     (516, [(''Next'', 0), (''str'', 4)])"
  by code_simp

lemma layout_IPAdapterDNSSuffix_struct_abi_arm: "layout abi_arm IPAdapterDNSSuffix_struct =
     (516, [(''Next'', 0), (''str'', 4)])"
  by code_simp

lemma layout_IPAdapterDNSSuffix_struct_abi_64: "layout abi_64 IPAdapterDNSSuffix_struct =
     (520, [(''Next'', 0), (''str'', 8)])"
  by code_simp

lemma layout_MIB_IPFORWARDROW_64_abi_64: "layout abi_64 MIB_IPFORWARDROW_64 =
     (56, [(''ForwardDest'', 0), (''ForwardMask'', 4), (''ForwardPolicy'', 8),
       (''ForwardNextHop'', 12), (''ForwardIfIndex'', 16), (''ForwardType'', 20),
       (''ForwardProto'', 24), (''ForwardAge'', 28), (''ForwardNextHopAS'', 32),
       (''ForwardMetric1'', 36), (''ForwardMetric2'', 40), (''ForwardMetric3'', 44),
       (''ForwardMetric4'', 48), (''ForwardMetric5'', 52)])"
  by code_simp

section \<open>What the layouts guarantee\<close>

text \<open>
  The interface, address and route rows and tables of the two declaration files describe one
  layout. The 32-bit declarations, with their explicit padding, have on 386 (where a 64-bit integer
  is aligned to 4 bytes) and on arm (8 bytes) the sizes and member offsets that the unpadded
  declarations have on the 64-bit architectures, so code that indexes a table the system returned
  needs no case distinction; the structures declared once have the same layout everywhere. The
  sizes are those the package tests.
\<close>
theorem mib_layouts_agree:
  "map (layout abi_386)
        [MibIPInterfaceRow_32, mibIPInterfaceTable_32, MibIfRow2_32, mibIfTable2_32,
             MibUnicastIPAddressRow_32, mibUnicastIPAddressTable_32,
             MibAnycastIPAddressRow_32, mibAnycastIPAddressTable_32, mibIPforwardTable2_32] =
     map (layout abi_64)
        [MibIPInterfaceRow_64, mibIPInterfaceTable_64, MibIfRow2_64, mibIfTable2_64,
             MibUnicastIPAddressRow_64, mibUnicastIPAddressTable_64,
             MibAnycastIPAddressRow_64, mibAnycastIPAddressTable_64, mibIPforwardTable2_64]
   \<and> map (layout abi_arm)
        [MibIPInterfaceRow_32, mibIPInterfaceTable_32, MibIfRow2_32, mibIfTable2_32,
             MibUnicastIPAddressRow_32, mibUnicastIPAddressTable_32,
             MibAnycastIPAddressRow_32, mibAnycastIPAddressTable_32, mibIPforwardTable2_32] =
     map (layout abi_64)
        [MibIPInterfaceRow_64, mibIPInterfaceTable_64, MibIfRow2_64, mibIfTable2_64,
             MibUnicastIPAddressRow_64, mibUnicastIPAddressTable_64,
             MibAnycastIPAddressRow_64, mibAnycastIPAddressTable_64, mibIPforwardTable2_64]
   \<and> map (fst \<circ> layout abi_64)
        [MibIPInterfaceRow_64, mibIPInterfaceTable_64, MibIfRow2_64, mibIfTable2_64,
             MibUnicastIPAddressRow_64, mibUnicastIPAddressTable_64,
             MibAnycastIPAddressRow_64, mibAnycastIPAddressTable_64, mibIPforwardTable2_64] =
     [168, 176, 1352, 1360, 80, 88, 48, 56, 112]
   \<and> map (\<lambda>m. map (layout m) [RawSockaddrInet_struct, IPAddressPrefix_struct, MibIPforwardRow2_struct])
       [abi_386, abi_arm] =
     replicate 2 (map (layout abi_64) [RawSockaddrInet_struct, IPAddressPrefix_struct, MibIPforwardRow2_struct])"
  by (simp add: numeral_2_eq_2
      layout_MibIPInterfaceRow_32_abi_386 layout_MibIPInterfaceRow_32_abi_arm layout_MibIPInterfaceRow_64_abi_64
      layout_mibIPInterfaceTable_32_abi_386 layout_mibIPInterfaceTable_32_abi_arm layout_mibIPInterfaceTable_64_abi_64
      layout_MibIfRow2_32_abi_386 layout_MibIfRow2_32_abi_arm layout_MibIfRow2_64_abi_64
      layout_mibIfTable2_32_abi_386 layout_mibIfTable2_32_abi_arm layout_mibIfTable2_64_abi_64
      layout_MibUnicastIPAddressRow_32_abi_386 layout_MibUnicastIPAddressRow_32_abi_arm layout_MibUnicastIPAddressRow_64_abi_64
      layout_mibUnicastIPAddressTable_32_abi_386 layout_mibUnicastIPAddressTable_32_abi_arm layout_mibUnicastIPAddressTable_64_abi_64
      layout_MibAnycastIPAddressRow_32_abi_386 layout_MibAnycastIPAddressRow_32_abi_arm layout_MibAnycastIPAddressRow_64_abi_64
      layout_mibAnycastIPAddressTable_32_abi_386 layout_mibAnycastIPAddressTable_32_abi_arm layout_mibAnycastIPAddressTable_64_abi_64
      layout_mibIPforwardTable2_32_abi_386 layout_mibIPforwardTable2_32_abi_arm layout_mibIPforwardTable2_64_abi_64
      layout_RawSockaddrInet_struct_abi_386 layout_RawSockaddrInet_struct_abi_arm layout_RawSockaddrInet_struct_abi_64
      layout_IPAddressPrefix_struct_abi_386 layout_IPAddressPrefix_struct_abi_arm layout_IPAddressPrefix_struct_abi_64
      layout_MibIPforwardRow2_struct_abi_386 layout_MibIPforwardRow2_struct_abi_arm layout_MibIPforwardRow2_struct_abi_64)

text \<open>
  The nodes of the adapter lists, which hold pointers, have the C layout of their architecture,
  as the package tests it: on the 64-bit ones and, through the padding at their end, the size that
  \<open>GetAdaptersAddresses\<close> writes on the 32-bit ones.
\<close>
theorem adapter_layouts:
  "layout abi_64 IPAdapterWINSServerAddress_64 =
     (32, [(''Length'', 0), (''Next'', 8), (''Address'', 16)])
   \<and> layout abi_386 IPAdapterWINSServerAddress_32 =
     (24, [(''Length'', 0), (''Next'', 8), (''Address'', 12)])
   \<and> layout abi_64 IPAdapterGatewayAddress_64 =
     (32, [(''Length'', 0), (''Next'', 8), (''Address'', 16)])
   \<and> layout abi_386 IPAdapterGatewayAddress_32 =
     (24, [(''Length'', 0), (''Next'', 8), (''Address'', 12)])
   \<and> layout abi_64 IPAdapterAddresses_64 =
     (448, [(''Length'', 0), (''IfIndex'', 4), (''Next'', 8), (''adapterName'', 16),
       (''FirstUnicastAddress'', 24), (''FirstAnycastAddress'', 32),
       (''FirstMulticastAddress'', 40), (''FirstDNSServerAddress'', 48),
       (''dnsSuffix'', 56), (''description'', 64), (''friendlyName'', 72),
       (''physicalAddress'', 80), (''physicalAddressLength'', 88), (''Flags'', 92),
       (''MTU'', 96), (''IfType'', 100), (''OperStatus'', 104), (''IPv6IfIndex'', 108),
       (''ZoneIndices'', 112), (''FirstPrefix'', 176), (''TransmitLinkSpeed'', 184),
       (''ReceiveLinkSpeed'', 192), (''FirstWINSServerAddress'', 200),
       (''FirstGatewayAddress'', 208), (''Ipv4Metric'', 216), (''Ipv6Metric'', 220),
       (''LUID'', 224), (''DHCPv4Server'', 232), (''CompartmentID'', 248),
       (''NetworkGUID'', 252), (''ConnectionType'', 268), (''TunnelType'', 272),
       (''DHCPv6Server'', 280), (''dhcpv6ClientDUID'', 296),
       (''dhcpv6ClientDUIDLength'', 428), (''DHCPv6IAID'', 432), (''FirstDNSSuffix'', 440)])
   \<and> layout abi_386 IPAdapterAddresses_32 =
     (376, [(''Length'', 0), (''IfIndex'', 4), (''Next'', 8), (''adapterName'', 12),
       (''FirstUnicastAddress'', 16), (''FirstAnycastAddress'', 20),
       (''FirstMulticastAddress'', 24), (''FirstDNSServerAddress'', 28),
       (''dnsSuffix'', 32), (''description'', 36), (''friendlyName'', 40),
       (''physicalAddress'', 44), (''physicalAddressLength'', 52), (''Flags'', 56),
       (''MTU'', 60), (''IfType'', 64), (''OperStatus'', 68), (''IPv6IfIndex'', 72),
       (''ZoneIndices'', 76), (''FirstPrefix'', 140), (''TransmitLinkSpeed'', 144),
       (''ReceiveLinkSpeed'', 152), (''FirstWINSServerAddress'', 160),
       (''FirstGatewayAddress'', 164), (''Ipv4Metric'', 168), (''Ipv6Metric'', 172),
       (''LUID'', 176), (''DHCPv4Server'', 184), (''CompartmentID'', 192),
       (''NetworkGUID'', 196), (''ConnectionType'', 212), (''TunnelType'', 216),
       (''DHCPv6Server'', 220), (''dhcpv6ClientDUID'', 228),
       (''dhcpv6ClientDUIDLength'', 360), (''DHCPv6IAID'', 364), (''FirstDNSSuffix'', 368)])
   \<and> layout abi_arm IPAdapterAddresses_32 = layout abi_386 IPAdapterAddresses_32
   \<and> layout abi_64 IPAdapterDNSSuffix_struct =
     (520, [(''Next'', 0), (''str'', 8)])
   \<and> layout abi_386 IPAdapterDNSSuffix_struct =
     (516, [(''Next'', 0), (''str'', 4)])"
  by (simp add: layout_IPAdapterWINSServerAddress_64_abi_64 layout_IPAdapterWINSServerAddress_32_abi_386
      layout_IPAdapterGatewayAddress_64_abi_64 layout_IPAdapterGatewayAddress_32_abi_386
      layout_IPAdapterAddresses_64_abi_64 layout_IPAdapterAddresses_32_abi_386
      layout_IPAdapterAddresses_32_abi_arm layout_IPAdapterDNSSuffix_struct_abi_64
      layout_IPAdapterDNSSuffix_struct_abi_386)

end
