(* ===== verification/Pe_Memory.thy ===== *)
theory Pe_Memory
  imports Prelude
begin

text \<open>
  The memory of a 64-bit process as memmod sees it: bytes at addresses, read and written through
  pointers of 1, 2, 4 and 8 bytes, little endian. \<open>rd n m a\<close> reads \<open>n\<close> bytes as a number and
  \<open>wr n a v m\<close> writes them; a write is modulo \<open>256 ^ n\<close>, as an addition through a typed pointer is.
\<close>

type_synonym addr = u64
type_synonym mem = "u64 \<Rightarrow> byte"

fun rd :: "nat \<Rightarrow> mem \<Rightarrow> addr \<Rightarrow> nat" where
  "rd 0 m a = 0"
| "rd (Suc n) m a = unat (m a) + 256 * rd n m (a + 1)"

fun wr :: "nat \<Rightarrow> addr \<Rightarrow> nat \<Rightarrow> mem \<Rightarrow> mem" where
  "wr 0 a v m = m"
| "wr (Suc n) a v m = wr n (a + 1) (v div 256) (m(a := of_nat v))"

lemma rd_add: "rd (i + j) m a = rd i m a + 256 ^ i * rd j m (a + of_nat i)"
  by (induction i arbitrary: a) (simp_all add: algebra_simps)

lemma rd_2: "rd 2 m a = unat (m a) + 256 * unat (m (a + 1))"
  by (simp add: numeral_2_eq_2)

lemma rd_bytes:
  "rd 2 m a = unat (m a) + 256 * unat (m (a + 1))"
  "rd 4 m a = rd 2 m a + 65536 * rd 2 m (a + 2)"
  "rd 8 m a = rd 4 m a + 4294967296 * rd 4 m (a + 4)"
  using rd_2 [of m a] rd_add [of 2 2 m a] rd_add [of 4 4 m a] by simp_all

definition rd16 :: "mem \<Rightarrow> addr \<Rightarrow> u16" where
  "rd16 m a = of_nat (rd 2 m a)"

definition rd32 :: "mem \<Rightarrow> addr \<Rightarrow> u32" where
  "rd32 m a = of_nat (rd 4 m a)"

definition rd64 :: "mem \<Rightarrow> addr \<Rightarrow> u64" where
  "rd64 m a = of_nat (rd 8 m a)"

definition wr16 :: "addr \<Rightarrow> u16 \<Rightarrow> mem \<Rightarrow> mem" where
  "wr16 a v m = wr 2 a (unat v) m"

definition wr32 :: "addr \<Rightarrow> u32 \<Rightarrow> mem \<Rightarrow> mem" where
  "wr32 a v m = wr 4 a (unat v) m"

definition wr64 :: "addr \<Rightarrow> u64 \<Rightarrow> mem \<Rightarrow> mem" where
  "wr64 a v m = wr 8 a (unat v) m"

text \<open>
  The bytes of an access of \<open>n\<close> bytes at \<open>a\<close>.
\<close>

definition at :: "addr \<Rightarrow> nat \<Rightarrow> addr set" where
  "at a n = {x. unat (x - a) < n}"

lemma at_0 [simp]: "at a 0 = {}"
  by (simp add: at_def)

lemma at_start [simp, intro]: "0 < n \<Longrightarrow> a \<in> at a n"
  by (simp add: at_def)

lemma unat_minus_Suc: "x \<noteq> a \<Longrightarrow> unat (x - (a + 1) :: u64) = unat (x - a) - 1"
proof -
  assume "x \<noteq> a"
  then have "x - a \<noteq> 0" by simp
  then have "1 \<le> x - a" by (metis word_le_0_iff word_less_1 not_le)
  then have "unat (x - a - 1) = unat (x - a) - unat (1 :: u64)" by (rule unat_sub)
  then show ?thesis by (simp add: diff_diff_eq)
qed

lemma at_Suc: "Suc n < 2 ^ 64 \<Longrightarrow> at a (Suc n) = insert a (at (a + 1) n)"
proof (rule set_eqI)
  fix x
  show "x \<in> at a (Suc n) \<longleftrightarrow> x \<in> insert a (at (a + 1) n)"
  proof (cases "x = a")
    case False
    then have "0 < unat (x - a)" by (simp add: unat_gt_0)
    with False show ?thesis by (auto simp: at_def unat_minus_Suc)
  qed (simp add: at_def)
qed

lemma start_not_at_next: "Suc n < 2 ^ 64 \<Longrightarrow> a \<notin> at (a + 1) n"
proof -
  have "unat (- 1 :: u64) = 2 ^ 64 - 1" by (simp add: unat_eq_nat_uint uint_word_ariths)
  moreover assume "Suc n < 2 ^ 64"
  ultimately show ?thesis by (simp add: at_def)
qed

lemma at_add: "k + n < 2 ^ 64 \<Longrightarrow> at a (k + n) = at a k \<union> at (a + of_nat k) n"
proof (induction k arbitrary: a)
  case (Suc k)
  then have "at (a + 1) (k + n) = at (a + 1) k \<union> at (a + of_nat (Suc k)) n"
    by (simp add: add.assoc)
  with Suc.prems show ?case by (simp add: at_Suc)
qed simp

lemma at_within: "i + k \<le> n \<Longrightarrow> n < 2 ^ 64 \<Longrightarrow> at (a + of_nat i) k \<subseteq> at a n"
proof -
  assume le: "i + k \<le> n" and n: "n < 2 ^ 64"
  then have "n = i + (k + (n - (i + k)))" by simp
  then show ?thesis
    using at_add [of i "k + (n - (i + k))" a] at_add [of k "n - (i + k)" "a + of_nat i"] n by auto
qed

lemma at_disjoint:
  assumes "n \<le> unat (b - a)" "k \<le> unat (a - b)"
  shows "at a n \<inter> at b k = {}"
proof -
  have False if "unat (x - a) < n" "unat (x - b) < k" for x
  proof (cases "x - b \<le> x - a")
    case True
    then have "unat ((x - a) - (x - b)) = unat (x - a) - unat (x - b)" by (rule unat_sub)
    then show False using assms(1) that(1) by simp
  next
    case False
    then have "unat ((x - b) - (x - a)) = unat (x - b) - unat (x - a)" by (intro unat_sub) simp
    then show False using assms(2) that(2) by simp
  qed
  then show ?thesis by (auto simp: at_def)
qed

lemma wr_outside: "x \<notin> at a n \<Longrightarrow> n < 2 ^ 64 \<Longrightarrow> wr n a v m x = m x"
proof (induction n arbitrary: a v m)
  case (Suc n)
  then have "x \<noteq> a" "x \<notin> at (a + 1) n" by (auto simp: at_Suc)
  with Suc show ?case by simp
qed simp

lemma rd_cong: "(\<And>x. x \<in> at a n \<Longrightarrow> m x = m' x) \<Longrightarrow> n < 2 ^ 64 \<Longrightarrow> rd n m a = rd n m' a"
proof (induction n arbitrary: a)
  case (Suc n)
  have "rd n m (a + 1) = rd n m' (a + 1)" using Suc by (auto simp: at_Suc)
  then show ?case using Suc.prems(1) [of a] by simp
qed simp

lemma rd16_cong: "(\<And>x. x \<in> at p 2 \<Longrightarrow> m x = m' x) \<Longrightarrow> rd16 m p = rd16 m' p"
  using rd_cong [of p 2 m m'] by (simp add: rd16_def)

lemma rd32_cong: "(\<And>x. x \<in> at p 4 \<Longrightarrow> m x = m' x) \<Longrightarrow> rd32 m p = rd32 m' p"
  using rd_cong [of p 4 m m'] by (simp add: rd32_def)

lemma rd32_sub:
  "i + 4 \<le> n \<Longrightarrow> n < 2 ^ 64 \<Longrightarrow> (\<And>x. x \<in> at a n \<Longrightarrow> m x = m' x) \<Longrightarrow>
   rd32 m (a + of_nat i) = rd32 m' (a + of_nat i)"
  by (rule rd32_cong) (use at_within [of i 4 n a] in blast)

lemma rd_wr_same: "n < 2 ^ 64 \<Longrightarrow> rd n (wr n a v m) a = v mod 256 ^ n"
proof (induction n arbitrary: a v m)
  case (Suc n)
  have "wr n (a + 1) (v div 256) (m(a := of_nat v)) a = of_nat v"
    using wr_outside [OF start_not_at_next] Suc.prems by simp
  moreover have "v mod 256 ^ Suc n = v mod 256 + 256 * (v div 256 mod 256 ^ n)"
    by (simp add: mod_mult2_eq)
  ultimately show ?case using Suc by (simp add: unat_of_nat)
qed simp

lemma rd_wr_disjoint:
  assumes "at a n \<inter> at b k = {}" "n < 2 ^ 64" "k < 2 ^ 64"
  shows "rd n (wr k b v m) a = rd n m a"
  using assms by (intro rd_cong wr_outside) auto

lemma rd_less: "rd n m a < 256 ^ n"
proof (induction n arbitrary: a)
  case (Suc n)
  have "unat (m a) < 256" using unsigned_less [of "m a"] by simp
  moreover have "rd n m (a + 1) < 256 ^ n" by (rule Suc)
  ultimately show ?case by simp
qed simp

lemma unat_rd16: "unat (rd16 m a) = rd 2 m a"
  using rd_less [of 2 m a] by (simp add: rd16_def unat_of_nat)

lemma unat_rd32: "unat (rd32 m a) = rd 4 m a"
  using rd_less [of 4 m a] by (simp add: rd32_def unat_of_nat)

lemma unat_rd64: "unat (rd64 m a) = rd 8 m a"
  using rd_less [of 8 m a] by (simp add: rd64_def unat_of_nat)

lemma rd16_wr16: "rd16 (wr16 a v m) a = v"
proof -
  have "unat v < 2 ^ 16" using unsigned_less [of v] by simp
  then show ?thesis by (simp add: rd16_def wr16_def rd_wr_same)
qed

lemma rd32_wr32: "rd32 (wr32 a v m) a = v"
proof -
  have "unat v < 2 ^ 32" using unsigned_less [of v] by simp
  then show ?thesis by (simp add: rd32_def wr32_def rd_wr_same)
qed

lemma rd64_wr64: "rd64 (wr64 a v m) a = v"
proof -
  have "unat v < 2 ^ 64" using unsigned_less [of v] by simp
  then show ?thesis by (simp add: rd64_def wr64_def rd_wr_same)
qed

lemma unat_ucast_u32 [simp]: "unat (ucast (x :: u32) :: u64) = unat x"
proof -
  have "unat x < 2 ^ 32" using unsigned_less [of x] by simp
  then show ?thesis by (simp add: unsigned_ucast_eq take_bit_eq_mod)
qed

lemma ucast_u32_eq_0 [simp]: "(ucast (x :: u32) :: u64) = 0 \<longleftrightarrow> x = 0"
  using unat_ucast_u32 [of x] by (metis unat_eq_zero unsigned_0)

section \<open>Blocks of memory\<close>

text \<open>
  \<open>memcpy\<close> copies the bytes that the source holds before the copy, overlapping or not, as Go's
  \<open>copy\<close> does.
\<close>

definition memcpy :: "addr \<Rightarrow> addr \<Rightarrow> u64 \<Rightarrow> mem \<Rightarrow> mem" where
  "memcpy dst src n m = (\<lambda>x. if x - dst < n then m (src + (x - dst)) else m x)"

definition memzero :: "addr \<Rightarrow> u64 \<Rightarrow> mem \<Rightarrow> mem" where
  "memzero dst n m = (\<lambda>x. if x - dst < n then 0 else m x)"

lemma memcpy_inside: "i < n \<Longrightarrow> memcpy dst src n m (dst + i) = m (src + i)"
  by (simp add: memcpy_def)

lemma memcpy_outside: "\<not> x - dst < n \<Longrightarrow> memcpy dst src n m x = m x"
  by (simp add: memcpy_def)

text \<open>
  The string at a pointer, up to its NUL; a memory without one has no such string.
\<close>

partial_function (option) BytePtrToString :: "mem \<Rightarrow> addr \<Rightarrow> bytes option" where
  "BytePtrToString m p =
     (if m p = 0 then Some []
      else Option.bind (BytePtrToString m (p + 1)) (\<lambda>s. Some (m p # s)))"

lemma BytePtrToString_at:
  assumes "\<And>i. i < length s \<Longrightarrow> m (p + of_nat i) = s ! i" "0 \<notin> set s"
    and "m (p + of_nat (length s)) = 0"
  shows "BytePtrToString m p = Some s"
  using assms
proof (induction s arbitrary: p)
  case Nil
  then show ?case by (simp add: BytePtrToString.simps)
next
  case (Cons c s)
  have "m (p + 1 + of_nat i) = s ! i" if "i < length s" for i
    using Cons.prems(1) [of "Suc i"] that by (simp add: add.assoc)
  moreover have "m (p + 1 + of_nat (length s)) = 0"
    using Cons.prems(3) by (simp add: add.assoc)
  ultimately have "BytePtrToString m (p + 1) = Some s" using Cons by simp
  moreover have "m p = c" "c \<noteq> 0" using Cons.prems(1) [of 0] Cons.prems(2) by auto
  ultimately show ?case by (subst BytePtrToString.simps) simp
qed

end
