(* ===== verification/Win_Views.thy ===== *)
theory Win_Views
  imports Win_Layout Pe_Memory Win_Types
begin

text \<open>
  How \<open>winipcfg/types.go\<close> reads the memory the operating system hands out: the rows of a table, and the
  strings and addresses of an adapter, through pointers into structures with the layout of \<open>Win_Layout\<close>,
  on the 64-bit architectures. \<open>decode\<close> is the library's conversion of UTF-16.
\<close>

definition field_at :: "(string \<times> ctype) list \<Rightarrow> string \<Rightarrow> addr \<Rightarrow> addr" where
  "field_at fs x p = p + word_of_int (the (map_of (snd (layout abi_64 fs)) x))"

definition sizeof :: "(string \<times> ctype) list \<Rightarrow> int" where
  "sizeof fs = fst (layout abi_64 fs)"

section \<open>Tables\<close>

text \<open>
  \<open>unsafe.Slice\<close> gives the addresses of \<open>n\<close> elements and panics when they would run over the end of
  the address space; a nil table panics at its first field.
\<close>

definition unsafe_Slice :: "int \<Rightarrow> addr \<Rightarrow> nat \<Rightarrow> addr list outcome" where
  "unsafe_Slice sz p n =
     (if 2 ^ 64 - uint p < sz * int n then Inl (Panic ''unsafe.Slice: len out of range'')
      else Inr (map (\<lambda>i. p + word_of_int (sz * int i)) [0..<n]))"

definition table_rows :: "(string \<times> ctype) list \<Rightarrow> (string \<times> ctype) list \<Rightarrow> mem \<Rightarrow> addr \<Rightarrow> addr list outcome" where
  "table_rows tab_struct row_struct m tab =
     (if tab = 0 then Inl (Panic ''nil pointer dereference'')
      else unsafe_Slice (sizeof row_struct) (field_at tab_struct ''table'' tab)
             (unat (rd32 m (field_at tab_struct ''numEntries'' tab))))"

definition mibIPInterfaceTable_get :: "mem \<Rightarrow> addr \<Rightarrow> addr list outcome" where
  "mibIPInterfaceTable_get = table_rows mibIPInterfaceTable_64 MibIPInterfaceRow_64"

definition mibIfTable2_get :: "mem \<Rightarrow> addr \<Rightarrow> addr list outcome" where
  "mibIfTable2_get = table_rows mibIfTable2_64 MibIfRow2_64"

definition mibUnicastIPAddressTable_get :: "mem \<Rightarrow> addr \<Rightarrow> addr list outcome" where
  "mibUnicastIPAddressTable_get = table_rows mibUnicastIPAddressTable_64 MibUnicastIPAddressRow_64"

definition mibAnycastIPAddressTable_get :: "mem \<Rightarrow> addr \<Rightarrow> addr list outcome" where
  "mibAnycastIPAddressTable_get = table_rows mibAnycastIPAddressTable_64 MibAnycastIPAddressRow_64"

definition mibIPforwardTable2_get :: "mem \<Rightarrow> addr \<Rightarrow> addr list outcome" where
  "mibIPforwardTable2_get = table_rows mibIPforwardTable2_64 MibIPforwardRow2_struct"

text \<open>The methods with the size of a row in the C declarations.\<close>

definition row_tables :: "((mem \<Rightarrow> addr \<Rightarrow> addr list outcome) \<times> int) list" where
  "row_tables =
     [(mibIPInterfaceTable_get, 168), (mibIfTable2_get, 1352), (mibUnicastIPAddressTable_get, 80),
      (mibAnycastIPAddressTable_get, 48), (mibIPforwardTable2_get, 104)]"

definition table_shape :: "(mem \<Rightarrow> addr \<Rightarrow> addr list outcome) \<Rightarrow> int \<Rightarrow> bool" where
  "table_shape get sz \<longleftrightarrow>
     0 < sz \<and> (\<forall>m tab. tab \<noteq> 0 \<longrightarrow> get m tab = unsafe_Slice sz (tab + 8) (unat (rd32 m tab)))"

lemma table_shapeI:
  assumes "layout abi_64 row_struct = (sz, row_fields)" and "0 < sz"
    and "layout abi_64 tab_struct = (n, [(''numEntries'', 0), (''table'', 8)])"
  shows "table_shape (table_rows tab_struct row_struct) sz"
  using assms by (simp add: table_shape_def table_rows_def sizeof_def field_at_def)

lemma table_shapes: "list_all (\<lambda>(get, sz). table_shape get sz) row_tables"
  by (simp add: row_tables_def mibIPInterfaceTable_get_def mibIfTable2_get_def mibUnicastIPAddressTable_get_def
      mibAnycastIPAddressTable_get_def mibIPforwardTable2_get_def
      table_shapeI [OF layout_MibIPInterfaceRow_64_abi_64 _ layout_mibIPInterfaceTable_64_abi_64]
      table_shapeI [OF layout_MibIfRow2_64_abi_64 _ layout_mibIfTable2_64_abi_64]
      table_shapeI [OF layout_MibUnicastIPAddressRow_64_abi_64 _ layout_mibUnicastIPAddressTable_64_abi_64]
      table_shapeI [OF layout_MibAnycastIPAddressRow_64_abi_64 _ layout_mibAnycastIPAddressTable_64_abi_64]
      table_shapeI [OF layout_MibIPforwardRow2_struct_abi_64 _ layout_mibIPforwardTable2_64_abi_64])

lemma uint_offset:
  assumes "uint (p :: addr) + k < 2 ^ 64" and "0 \<le> k"
  shows "uint (p + word_of_int k) = uint p + k"
proof -
  have "0 \<le> uint p" by simp
  then have "k < 2 ^ 64" using assms(1) by linarith
  with assms show ?thesis
    by (simp add: uint_word_ariths take_bit_eq_mod uint_word_of_int)
qed

text \<open>
  The rows of a table lie in the block the operating system allocated for it, one after the other
  behind its count, for every method and every count.
\<close>

theorem table_rows_exact:
  assumes "(get, sz) \<in> set row_tables" and "tab \<noteq> 0"
    and "uint tab + 8 + sz * int (unat (rd32 m tab)) \<le> 2 ^ 64" and "uint tab + 8 < 2 ^ 64"
  shows "\<exists>rows. get m tab = Inr rows \<and> length rows = unat (rd32 m tab) \<and>
           (\<forall>i < length rows. uint (rows ! i) = uint tab + 8 + sz * int i)"
proof -
  define n where "n = unat (rd32 m tab)"
  have shape: "table_shape get sz" using table_shapes assms(1) by (auto simp: list_all_iff)
  then have sz: "0 < sz" by (simp add: table_shape_def)
  have start: "uint (tab + 8) = uint tab + 8"
    using uint_offset [of tab 8] assms(4) by simp
  have get: "get m tab = unsafe_Slice sz (tab + 8) n"
    using shape assms(2) by (simp add: table_shape_def n_def)
  have row: "uint (tab + 8 + word_of_int (sz * int i)) = uint tab + 8 + sz * int i" if "i < n" for i
  proof -
    have "sz * int i < sz * int n" using that sz by simp
    then have "uint (tab + 8) + sz * int i < 2 ^ 64" using assms(3) start by (simp add: n_def)
    from uint_offset [OF this] sz start show ?thesis by simp
  qed
  have "unsafe_Slice sz (tab + 8) n = Inr (map (\<lambda>i. tab + 8 + word_of_int (sz * int i)) [0..<n])"
    using assms(3) start by (simp add: unsafe_Slice_def n_def)
  then show ?thesis
    using get row by (simp add: n_def)
qed

section \<open>Adapters\<close>

text \<open>
  A string of UTF-16 at a pointer, up to its zero; a memory without one has no such string, which is
  None. The names of the library: a nil pointer is the empty string.
\<close>

partial_function (option) utf16_at :: "mem \<Rightarrow> addr \<Rightarrow> u16 list option" where
  "utf16_at m p =
     (if rd16 m p = 0 then Some []
      else Option.bind (utf16_at m (p + 2)) (\<lambda>s. Some (rd16 m p # s)))"

definition UTF16PtrToString :: "(u16 list \<Rightarrow> string) \<Rightarrow> mem \<Rightarrow> addr \<Rightarrow> string option" where
  "UTF16PtrToString decode m p = (if p = 0 then Some [] else map_option decode (utf16_at m p))"

definition UTF16ToString :: "(u16 list \<Rightarrow> string) \<Rightarrow> u16 list \<Rightarrow> string" where
  "UTF16ToString decode s = decode (takeWhile (\<lambda>c. c \<noteq> 0) s)"

definition bytes_at :: "mem \<Rightarrow> addr \<Rightarrow> nat \<Rightarrow> bytes" where
  "bytes_at m p n = map (\<lambda>i. m (p + of_nat i)) [0..<n]"

definition slice_to :: "bytes \<Rightarrow> nat \<Rightarrow> bytes outcome" where
  "slice_to arr n = (if n \<le> length arr then Inr (take n arr) else Inl (Panic ''slice bounds out of range''))"

abbreviation adapter_field :: "string \<Rightarrow> addr \<Rightarrow> addr" where
  "adapter_field \<equiv> field_at IPAdapterAddresses_64"

definition IPAdapterDNSSuffix_String :: "(u16 list \<Rightarrow> string) \<Rightarrow> mem \<Rightarrow> addr \<Rightarrow> string" where
  "IPAdapterDNSSuffix_String decode m obj =
     UTF16ToString decode
       (map (\<lambda>i. rd16 m (field_at IPAdapterDNSSuffix_struct ''str'' obj + 2 * of_nat i)) [0..<256])"

definition AdapterName :: "mem \<Rightarrow> addr \<Rightarrow> bytes option" where
  "AdapterName m addr =
     (let p = rd64 m (adapter_field ''adapterName'' addr)
      in if p = 0 then Some [] else BytePtrToString m p)"

definition DNSSuffix :: "(u16 list \<Rightarrow> string) \<Rightarrow> mem \<Rightarrow> addr \<Rightarrow> string option" where
  "DNSSuffix decode m addr =
     (if rd64 m (adapter_field ''dnsSuffix'' addr) = 0 then Some []
      else UTF16PtrToString decode m (rd64 m (adapter_field ''dnsSuffix'' addr)))"

definition adapter_Description :: "(u16 list \<Rightarrow> string) \<Rightarrow> mem \<Rightarrow> addr \<Rightarrow> string option" where
  "adapter_Description decode m addr =
     (if rd64 m (adapter_field ''description'' addr) = 0 then Some []
      else UTF16PtrToString decode m (rd64 m (adapter_field ''description'' addr)))"

definition FriendlyName :: "(u16 list \<Rightarrow> string) \<Rightarrow> mem \<Rightarrow> addr \<Rightarrow> string option" where
  "FriendlyName decode m addr =
     (if rd64 m (adapter_field ''friendlyName'' addr) = 0 then Some []
      else UTF16PtrToString decode m (rd64 m (adapter_field ''friendlyName'' addr)))"

definition adapter_PhysicalAddress :: "mem \<Rightarrow> addr \<Rightarrow> bytes outcome" where
  "adapter_PhysicalAddress m addr =
     slice_to (bytes_at m (adapter_field ''physicalAddress'' addr) 8)
       (unat (rd32 m (adapter_field ''physicalAddressLength'' addr)))"

definition DHCPv6ClientDUID :: "mem \<Rightarrow> addr \<Rightarrow> bytes outcome" where
  "DHCPv6ClientDUID m addr =
     slice_to (bytes_at m (adapter_field ''dhcpv6ClientDUID'' addr) 130)
       (unat (rd32 m (adapter_field ''dhcpv6ClientDUIDLength'' addr)))"

definition MibIfRow2_Alias :: "(u16 list \<Rightarrow> string) \<Rightarrow> MibIfRow2 \<Rightarrow> string" where
  "MibIfRow2_Alias decode row = UTF16ToString decode (row2_alias row)"

definition MibIfRow2_Description :: "(u16 list \<Rightarrow> string) \<Rightarrow> MibIfRow2 \<Rightarrow> string" where
  "MibIfRow2_Description decode row = UTF16ToString decode (row2_description row)"

text \<open>The string before the first zero is read whole, and the getters of arrays never read past them.\<close>

lemma utf16_at_string:
  assumes "\<And>i. i < length s \<Longrightarrow> rd16 m (p + 2 * of_nat i) = s ! i" "0 \<notin> set s"
    and "rd16 m (p + 2 * of_nat (length s)) = 0"
  shows "utf16_at m p = Some s"
  using assms
proof (induction s arbitrary: p)
  case Nil
  then show ?case by (simp add: utf16_at.simps)
next
  case (Cons c s)
  have "rd16 m (p + 2 + 2 * of_nat i) = s ! i" if "i < length s" for i
    using Cons.prems(1) [of "Suc i"] that by (simp add: algebra_simps)
  moreover have "rd16 m (p + 2 + 2 * of_nat (length s)) = 0"
    using Cons.prems(3) by (simp add: algebra_simps)
  ultimately have "utf16_at m (p + 2) = Some s" using Cons by simp
  moreover have "rd16 m p = c" "c \<noteq> 0" using Cons.prems(1) [of 0] Cons.prems(2) by auto
  ultimately show ?case by (subst utf16_at.simps) simp
qed

lemma physical_address_bound:
  "adapter_PhysicalAddress m addr = Inr bs \<Longrightarrow>
     length bs \<le> 8 \<and> (\<forall>i < length bs. bs ! i = m (addr + 80 + of_nat i))"
  "DHCPv6ClientDUID m addr = Inr bs \<Longrightarrow> length bs \<le> 130"
  by (auto simp: adapter_PhysicalAddress_def DHCPv6ClientDUID_def slice_to_def bytes_at_def field_at_def
      layout_IPAdapterAddresses_64_abi_64 split: if_splits)

end
