(* ===== verification/Win_Calls.thy ===== *)
theory Win_Calls
  imports Io
begin

text \<open>
  The system call stubs of \<open>winipcfg/zwinipcfg_windows.go\<close> and \<open>winsys/zsyscall_windows.go\<close>: which procedure
  of which DLL a function calls, with which words, and what becomes of its status. A pointer is the
  word of its address; \<open>'w\<close> is the width of \<open>uintptr\<close>, 32 or 64. The DLL is a parameter: \<open>dll_Find\<close> is the
  error of looking a procedure up, \<open>dll_call\<close> its first result and the last error of the thread.
\<close>

record ('os, 'u) dll =
  dll_Find :: "string \<Rightarrow> string option"
  dll_call :: "string \<Rightarrow> 'u list \<Rightarrow> 'os \<Rightarrow> ('u \<times> 'u) \<times> 'os"

text \<open>An error of a stub: a code of the system, the invented value \<open>syscall.EINVAL\<close>, or one of \<open>Find\<close>.\<close>

datatype 'u call_error = Errno 'u | EINVAL | Missing string

definition errnoErr :: "'w :: len word \<Rightarrow> 'w word call_error" where
  "errnoErr e = (if e = 0 then EINVAL else Errno e)"

section \<open>The library's part\<close>

text \<open>
  \<open>LazyProc.Addr\<close> panics when the procedure cannot be found. \<open>Syscall\<close> passes the first \<open>n\<close> of its words
  and panics when it has fewer.
\<close>

definition Addr :: "('os, 'u) dll \<Rightarrow> string \<Rightarrow> ('os, string) io" where
  "Addr dll proc = (case dll_Find dll proc of None \<Rightarrow> return_io proc | Some e \<Rightarrow> raise_io (Panic e))"

definition Syscall ::
  "('os, 'u) dll \<Rightarrow> string \<Rightarrow> nat \<Rightarrow> 'u list \<Rightarrow> ('os, 'u \<times> 'u) io" where
  "Syscall dll proc n args s =
     (if length args < n then (Inl (Panic ''slice bounds out of range''), s)
      else case dll_call dll proc (take n args) s of (r, s') \<Rightarrow> (Inr r, s'))"

section \<open>The four shapes of a stub\<close>

definition status_stub ::
  "('os, 'w :: len word) dll \<Rightarrow> string \<Rightarrow> nat \<Rightarrow> 'w word list \<Rightarrow> ('os, 'w word call_error option) io" where
  "status_stub dll proc n args =
     bind_io (Addr dll proc) (\<lambda>addr. bind_io (Syscall dll addr n args) (\<lambda>(r0, _).
       return_io (if r0 \<noteq> 0 then Some (Errno r0) else None)))"

definition optional_stub ::
  "('os, 'w :: len word) dll \<Rightarrow> string \<Rightarrow> nat \<Rightarrow> 'w word list \<Rightarrow> ('os, 'w word call_error option) io" where
  "optional_stub dll proc n args =
     (case dll_Find dll proc of
        Some e \<Rightarrow> return_io (Some (Missing e))
      | None \<Rightarrow> status_stub dll proc n args)"

definition last_error_stub ::
  "('os, 'w :: len word) dll \<Rightarrow> string \<Rightarrow> nat \<Rightarrow> 'w word list \<Rightarrow> ('os, 'w word call_error option) io" where
  "last_error_stub dll proc n args =
     bind_io (Addr dll proc) (\<lambda>addr. bind_io (Syscall dll addr n args) (\<lambda>(r1, e1).
       return_io (if r1 \<noteq> 0 then Some (errnoErr e1) else None)))"

definition void_stub :: "('os, 'w :: len word) dll \<Rightarrow> string \<Rightarrow> nat \<Rightarrow> 'w word list \<Rightarrow> ('os, unit) io" where
  "void_stub dll proc n args =
     bind_io (Addr dll proc) (\<lambda>addr. bind_io (Syscall dll addr n args) (\<lambda>_. return_io ()))"

lemma stub_runs:
  assumes "dll_call dll proc (take n words) s = ((r, e), s')" and "n \<le> length words"
  shows "status_stub dll proc n words s =
           (case dll_Find dll proc of
              Some why \<Rightarrow> (Inl (Panic why), s)
            | None \<Rightarrow> (Inr (if r = 0 then None else Some (Errno r)), s'))"
    and "optional_stub dll proc n words s =
           (case dll_Find dll proc of
              Some why \<Rightarrow> (Inr (Some (Missing why)), s)
            | None \<Rightarrow> (Inr (if r = 0 then None else Some (Errno r)), s'))"
    and "last_error_stub dll proc n words s =
           (case dll_Find dll proc of
              Some why \<Rightarrow> (Inl (Panic why), s)
            | None \<Rightarrow> (Inr (if r = 0 then None else Some (if e = 0 then EINVAL else Errno e)), s'))"
    and "void_stub dll proc n words s =
           (case dll_Find dll proc of Some why \<Rightarrow> (Inl (Panic why), s) | None \<Rightarrow> (Inr (), s'))"
  using assms
  by (simp_all add: status_stub_def optional_stub_def last_error_stub_def void_stub_def Addr_def Syscall_def
      bind_io_def return_io_def raise_io_def errnoErr_def split: option.split)

section \<open>The functions of iphlpapi.dll\<close>

definition cancelMibChangeNotify2_stub :: "('os, 'w :: len word) dll \<Rightarrow> 'w word \<Rightarrow> ('os, 'w word call_error option) io" where
  "cancelMibChangeNotify2_stub dll notificationHandle =
     status_stub dll ''CancelMibChangeNotify2'' 1 [notificationHandle, 0, 0]"

definition convertInterfaceGUIDToLUID_stub :: "('os, 'w :: len word) dll \<Rightarrow> 'w word \<Rightarrow> 'w word \<Rightarrow> ('os, 'w word call_error option) io" where
  "convertInterfaceGUIDToLUID_stub dll interfaceGUID interfaceLUID =
     status_stub dll ''ConvertInterfaceGuidToLuid'' 2 [interfaceGUID, interfaceLUID, 0]"

definition convertInterfaceIndexToLUID_stub :: "('os, 'w :: len word) dll \<Rightarrow> u32 \<Rightarrow> 'w word \<Rightarrow> ('os, 'w word call_error option) io" where
  "convertInterfaceIndexToLUID_stub dll interfaceIndex interfaceLUID =
     status_stub dll ''ConvertInterfaceIndexToLuid'' 2 [ucast interfaceIndex, interfaceLUID, 0]"

definition convertInterfaceLUIDToGUID_stub :: "('os, 'w :: len word) dll \<Rightarrow> 'w word \<Rightarrow> 'w word \<Rightarrow> ('os, 'w word call_error option) io" where
  "convertInterfaceLUIDToGUID_stub dll interfaceLUID interfaceGUID =
     status_stub dll ''ConvertInterfaceLuidToGuid'' 2 [interfaceLUID, interfaceGUID, 0]"

definition createAnycastIPAddressEntry_stub :: "('os, 'w :: len word) dll \<Rightarrow> 'w word \<Rightarrow> ('os, 'w word call_error option) io" where
  "createAnycastIPAddressEntry_stub dll row =
     status_stub dll ''CreateAnycastIpAddressEntry'' 1 [row, 0, 0]"

definition createIPForwardEntry2_stub :: "('os, 'w :: len word) dll \<Rightarrow> 'w word \<Rightarrow> ('os, 'w word call_error option) io" where
  "createIPForwardEntry2_stub dll route =
     status_stub dll ''CreateIpForwardEntry2'' 1 [route, 0, 0]"

definition createUnicastIPAddressEntry_stub :: "('os, 'w :: len word) dll \<Rightarrow> 'w word \<Rightarrow> ('os, 'w word call_error option) io" where
  "createUnicastIPAddressEntry_stub dll row =
     status_stub dll ''CreateUnicastIpAddressEntry'' 1 [row, 0, 0]"

definition deleteAnycastIPAddressEntry_stub :: "('os, 'w :: len word) dll \<Rightarrow> 'w word \<Rightarrow> ('os, 'w word call_error option) io" where
  "deleteAnycastIPAddressEntry_stub dll row =
     status_stub dll ''DeleteAnycastIpAddressEntry'' 1 [row, 0, 0]"

definition deleteIPForwardEntry2_stub :: "('os, 'w :: len word) dll \<Rightarrow> 'w word \<Rightarrow> ('os, 'w word call_error option) io" where
  "deleteIPForwardEntry2_stub dll route =
     status_stub dll ''DeleteIpForwardEntry2'' 1 [route, 0, 0]"

definition deleteUnicastIPAddressEntry_stub :: "('os, 'w :: len word) dll \<Rightarrow> 'w word \<Rightarrow> ('os, 'w word call_error option) io" where
  "deleteUnicastIPAddressEntry_stub dll row =
     status_stub dll ''DeleteUnicastIpAddressEntry'' 1 [row, 0, 0]"

definition freeMibTable_stub :: "('os, 'w :: len word) dll \<Rightarrow> 'w word \<Rightarrow> ('os, unit) io" where
  "freeMibTable_stub dll memory =
     void_stub dll ''FreeMibTable'' 1 [memory, 0, 0]"

definition getAnycastIPAddressEntry_stub :: "('os, 'w :: len word) dll \<Rightarrow> 'w word \<Rightarrow> ('os, 'w word call_error option) io" where
  "getAnycastIPAddressEntry_stub dll row =
     status_stub dll ''GetAnycastIpAddressEntry'' 1 [row, 0, 0]"

definition getAnycastIPAddressTable_stub :: "('os, 'w :: len word) dll \<Rightarrow> u16 \<Rightarrow> 'w word \<Rightarrow> ('os, 'w word call_error option) io" where
  "getAnycastIPAddressTable_stub dll family table =
     status_stub dll ''GetAnycastIpAddressTable'' 2 [ucast family, table, 0]"

definition getIfEntry2_stub :: "('os, 'w :: len word) dll \<Rightarrow> 'w word \<Rightarrow> ('os, 'w word call_error option) io" where
  "getIfEntry2_stub dll row =
     status_stub dll ''GetIfEntry2'' 1 [row, 0, 0]"

definition getIfTable2Ex_stub :: "('os, 'w :: len word) dll \<Rightarrow> u32 \<Rightarrow> 'w word \<Rightarrow> ('os, 'w word call_error option) io" where
  "getIfTable2Ex_stub dll level table =
     status_stub dll ''GetIfTable2Ex'' 2 [ucast level, table, 0]"

definition getIPForwardEntry2_stub :: "('os, 'w :: len word) dll \<Rightarrow> 'w word \<Rightarrow> ('os, 'w word call_error option) io" where
  "getIPForwardEntry2_stub dll route =
     status_stub dll ''GetIpForwardEntry2'' 1 [route, 0, 0]"

definition getIPForwardTable2_stub :: "('os, 'w :: len word) dll \<Rightarrow> u16 \<Rightarrow> 'w word \<Rightarrow> ('os, 'w word call_error option) io" where
  "getIPForwardTable2_stub dll family table =
     status_stub dll ''GetIpForwardTable2'' 2 [ucast family, table, 0]"

definition getIPInterfaceEntry_stub :: "('os, 'w :: len word) dll \<Rightarrow> 'w word \<Rightarrow> ('os, 'w word call_error option) io" where
  "getIPInterfaceEntry_stub dll row =
     status_stub dll ''GetIpInterfaceEntry'' 1 [row, 0, 0]"

definition getIPInterfaceTable_stub :: "('os, 'w :: len word) dll \<Rightarrow> u16 \<Rightarrow> 'w word \<Rightarrow> ('os, 'w word call_error option) io" where
  "getIPInterfaceTable_stub dll family table =
     status_stub dll ''GetIpInterfaceTable'' 2 [ucast family, table, 0]"

definition getUnicastIPAddressEntry_stub :: "('os, 'w :: len word) dll \<Rightarrow> 'w word \<Rightarrow> ('os, 'w word call_error option) io" where
  "getUnicastIPAddressEntry_stub dll row =
     status_stub dll ''GetUnicastIpAddressEntry'' 1 [row, 0, 0]"

definition getUnicastIPAddressTable_stub :: "('os, 'w :: len word) dll \<Rightarrow> u16 \<Rightarrow> 'w word \<Rightarrow> ('os, 'w word call_error option) io" where
  "getUnicastIPAddressTable_stub dll family table =
     status_stub dll ''GetUnicastIpAddressTable'' 2 [ucast family, table, 0]"

definition initializeIPForwardEntry_stub :: "('os, 'w :: len word) dll \<Rightarrow> 'w word \<Rightarrow> ('os, unit) io" where
  "initializeIPForwardEntry_stub dll route =
     void_stub dll ''InitializeIpForwardEntry'' 1 [route, 0, 0]"

definition initializeIPInterfaceEntry_stub :: "('os, 'w :: len word) dll \<Rightarrow> 'w word \<Rightarrow> ('os, unit) io" where
  "initializeIPInterfaceEntry_stub dll row =
     void_stub dll ''InitializeIpInterfaceEntry'' 1 [row, 0, 0]"

definition initializeUnicastIPAddressEntry_stub :: "('os, 'w :: len word) dll \<Rightarrow> 'w word \<Rightarrow> ('os, unit) io" where
  "initializeUnicastIPAddressEntry_stub dll row =
     void_stub dll ''InitializeUnicastIpAddressEntry'' 1 [row, 0, 0]"

definition notifyIPInterfaceChange_stub :: "('os, 'w :: len word) dll \<Rightarrow> u16 \<Rightarrow> 'w word \<Rightarrow> 'w word \<Rightarrow> bool \<Rightarrow> 'w word \<Rightarrow> ('os, 'w word call_error option) io" where
  "notifyIPInterfaceChange_stub dll family callback callerContext initialNotification notificationHandle =
     status_stub dll ''NotifyIpInterfaceChange'' 5 [ucast family, callback, callerContext, of_bool initialNotification, notificationHandle, 0]"

definition notifyRouteChange2_stub :: "('os, 'w :: len word) dll \<Rightarrow> u16 \<Rightarrow> 'w word \<Rightarrow> 'w word \<Rightarrow> bool \<Rightarrow> 'w word \<Rightarrow> ('os, 'w word call_error option) io" where
  "notifyRouteChange2_stub dll family callback callerContext initialNotification notificationHandle =
     status_stub dll ''NotifyRouteChange2'' 5 [ucast family, callback, callerContext, of_bool initialNotification, notificationHandle, 0]"

definition notifyUnicastIPAddressChange_stub :: "('os, 'w :: len word) dll \<Rightarrow> u16 \<Rightarrow> 'w word \<Rightarrow> 'w word \<Rightarrow> bool \<Rightarrow> 'w word \<Rightarrow> ('os, 'w word call_error option) io" where
  "notifyUnicastIPAddressChange_stub dll family callback callerContext initialNotification notificationHandle =
     status_stub dll ''NotifyUnicastIpAddressChange'' 5 [ucast family, callback, callerContext, of_bool initialNotification, notificationHandle, 0]"

definition setInterfaceDnsSettingsByDwords_stub :: "('os, 'w :: len word) dll \<Rightarrow> 'w word \<Rightarrow> 'w word \<Rightarrow> 'w word \<Rightarrow> 'w word \<Rightarrow> 'w word \<Rightarrow> ('os, 'w word call_error option) io" where
  "setInterfaceDnsSettingsByDwords_stub dll guid1 guid2 guid3 guid4 settings =
     optional_stub dll ''SetInterfaceDnsSettings'' 5 [guid1, guid2, guid3, guid4, settings, 0]"

definition setInterfaceDnsSettingsByQwords_stub :: "('os, 'w :: len word) dll \<Rightarrow> 'w word \<Rightarrow> 'w word \<Rightarrow> 'w word \<Rightarrow> ('os, 'w word call_error option) io" where
  "setInterfaceDnsSettingsByQwords_stub dll guid1 guid2 settings =
     optional_stub dll ''SetInterfaceDnsSettings'' 3 [guid1, guid2, settings]"

definition setInterfaceDnsSettingsByPtr_stub :: "('os, 'w :: len word) dll \<Rightarrow> 'w word \<Rightarrow> 'w word \<Rightarrow> ('os, 'w word call_error option) io" where
  "setInterfaceDnsSettingsByPtr_stub dll guid settings =
     optional_stub dll ''SetInterfaceDnsSettings'' 2 [guid, settings, 0]"

definition setIPForwardEntry2_stub :: "('os, 'w :: len word) dll \<Rightarrow> 'w word \<Rightarrow> ('os, 'w word call_error option) io" where
  "setIPForwardEntry2_stub dll route =
     status_stub dll ''SetIpForwardEntry2'' 1 [route, 0, 0]"

definition setIPInterfaceEntry_stub :: "('os, 'w :: len word) dll \<Rightarrow> 'w word \<Rightarrow> ('os, 'w word call_error option) io" where
  "setIPInterfaceEntry_stub dll row =
     status_stub dll ''SetIpInterfaceEntry'' 1 [row, 0, 0]"

definition setUnicastIPAddressEntry_stub :: "('os, 'w :: len word) dll \<Rightarrow> 'w word \<Rightarrow> ('os, 'w word call_error option) io" where
  "setUnicastIPAddressEntry_stub dll row =
     status_stub dll ''SetUnicastIpAddressEntry'' 1 [row, 0, 0]"

definition GetBestRoute_stub :: "('os, 'w :: len word) dll \<Rightarrow> u32 \<Rightarrow> u32 \<Rightarrow> 'w word \<Rightarrow> ('os, 'w word call_error option) io" where
  "GetBestRoute_stub dll destAddr sourceAddr bestRoute =
     status_stub dll ''GetBestRoute'' 3 [ucast destAddr, ucast sourceAddr, bestRoute]"

definition GtIfEntry2_stub :: "('os, 'w :: len word) dll \<Rightarrow> 'w word \<Rightarrow> ('os, 'w word call_error option) io" where
  "GtIfEntry2_stub dll row =
     status_stub dll ''GetIfEntry2'' 1 [row, 0, 0]"

section \<open>The functions of fwpuclnt.dll\<close>

definition FwpmEngineClose0_stub :: "('os, 'w :: len word) dll \<Rightarrow> 'w word \<Rightarrow> ('os, 'w word call_error option) io" where
  "FwpmEngineClose0_stub dll engineHandle =
     last_error_stub dll ''FwpmEngineClose0'' 1 [engineHandle, 0, 0]"

definition FwpmEngineOpen0_stub :: "('os, 'w :: len word) dll \<Rightarrow> 'w word \<Rightarrow> u32 \<Rightarrow> 'w word \<Rightarrow> 'w word \<Rightarrow> 'w word \<Rightarrow> ('os, 'w word call_error option) io" where
  "FwpmEngineOpen0_stub dll serverName authnService authIdentity session engineHandle =
     last_error_stub dll ''FwpmEngineOpen0'' 5 [serverName, ucast authnService, authIdentity, session, engineHandle, 0]"

definition FwpmFilterAdd0_stub :: "('os, 'w :: len word) dll \<Rightarrow> 'w word \<Rightarrow> 'w word \<Rightarrow> 'w word \<Rightarrow> 'w word \<Rightarrow> ('os, 'w word call_error option) io" where
  "FwpmFilterAdd0_stub dll engineHandle flt sd filterId =
     last_error_stub dll ''FwpmFilterAdd0'' 4 [engineHandle, flt, sd, filterId, 0, 0]"

definition FwpmFreeMemory0_stub :: "('os, 'w :: len word) dll \<Rightarrow> 'w word \<Rightarrow> ('os, unit) io" where
  "FwpmFreeMemory0_stub dll p =
     void_stub dll ''FwpmFreeMemory0'' 1 [p, 0, 0]"

definition FwpmGetAppIdFromFileName0_stub :: "('os, 'w :: len word) dll \<Rightarrow> 'w word \<Rightarrow> 'w word \<Rightarrow> ('os, 'w word call_error option) io" where
  "FwpmGetAppIdFromFileName0_stub dll fileName appID =
     last_error_stub dll ''FwpmGetAppIdFromFileName0'' 2 [fileName, appID, 0]"

definition FwpmSubLayerAdd0_stub :: "('os, 'w :: len word) dll \<Rightarrow> 'w word \<Rightarrow> 'w word \<Rightarrow> 'w word \<Rightarrow> ('os, 'w word call_error option) io" where
  "FwpmSubLayerAdd0_stub dll engineHandle subLayer sd =
     last_error_stub dll ''FwpmSubLayerAdd0'' 3 [engineHandle, subLayer, sd]"

lemmas stub_defs = cancelMibChangeNotify2_stub_def
  convertInterfaceGUIDToLUID_stub_def
  convertInterfaceIndexToLUID_stub_def
  convertInterfaceLUIDToGUID_stub_def
  createAnycastIPAddressEntry_stub_def
  createIPForwardEntry2_stub_def
  createUnicastIPAddressEntry_stub_def
  deleteAnycastIPAddressEntry_stub_def
  deleteIPForwardEntry2_stub_def
  deleteUnicastIPAddressEntry_stub_def
  freeMibTable_stub_def
  getAnycastIPAddressEntry_stub_def
  getAnycastIPAddressTable_stub_def
  getIfEntry2_stub_def
  getIfTable2Ex_stub_def
  getIPForwardEntry2_stub_def
  getIPForwardTable2_stub_def
  getIPInterfaceEntry_stub_def
  getIPInterfaceTable_stub_def
  getUnicastIPAddressEntry_stub_def
  getUnicastIPAddressTable_stub_def
  initializeIPForwardEntry_stub_def
  initializeIPInterfaceEntry_stub_def
  initializeUnicastIPAddressEntry_stub_def
  notifyIPInterfaceChange_stub_def
  notifyRouteChange2_stub_def
  notifyUnicastIPAddressChange_stub_def
  setInterfaceDnsSettingsByDwords_stub_def
  setInterfaceDnsSettingsByQwords_stub_def
  setInterfaceDnsSettingsByPtr_stub_def
  setIPForwardEntry2_stub_def
  setIPInterfaceEntry_stub_def
  setUnicastIPAddressEntry_stub_def
  GetBestRoute_stub_def
  GtIfEntry2_stub_def
  FwpmEngineClose0_stub_def
  FwpmEngineOpen0_stub_def
  FwpmFilterAdd0_stub_def
  FwpmFreeMemory0_stub_def
  FwpmGetAppIdFromFileName0_stub_def
  FwpmSubLayerAdd0_stub_def

section \<open>The methods of the rows (types.go)\<close>

text \<open>\<open>row\<close> and \<open>tab\<close> are the addresses of the structure.\<close>

definition MibIPInterfaceRow_Init_at :: "('os, 'w :: len word) dll \<Rightarrow> 'w word \<Rightarrow> ('os, unit) io" where
  "MibIPInterfaceRow_Init_at dll row = initializeIPInterfaceEntry_stub dll row"

definition MibIPInterfaceRow_Set_at :: "('os, 'w :: len word) dll \<Rightarrow> 'w word \<Rightarrow> ('os, 'w word call_error option) io" where
  "MibIPInterfaceRow_Set_at dll row = setIPInterfaceEntry_stub dll row"

definition mibIPInterfaceTable_free_at :: "('os, 'w :: len word) dll \<Rightarrow> 'w word \<Rightarrow> ('os, unit) io" where
  "mibIPInterfaceTable_free_at dll tab = freeMibTable_stub dll tab"

definition MibIfRow2_get_at :: "('os, 'w :: len word) dll \<Rightarrow> 'w word \<Rightarrow> ('os, 'w word call_error option) io" where
  "MibIfRow2_get_at dll row = getIfEntry2_stub dll row"

definition mibIfTable2_free_at :: "('os, 'w :: len word) dll \<Rightarrow> 'w word \<Rightarrow> ('os, unit) io" where
  "mibIfTable2_free_at dll tab = freeMibTable_stub dll tab"

definition MibUnicastIPAddressRow_Init_at :: "('os, 'w :: len word) dll \<Rightarrow> 'w word \<Rightarrow> ('os, unit) io" where
  "MibUnicastIPAddressRow_Init_at dll row = initializeUnicastIPAddressEntry_stub dll row"

definition MibUnicastIPAddressRow_get_at :: "('os, 'w :: len word) dll \<Rightarrow> 'w word \<Rightarrow> ('os, 'w word call_error option) io" where
  "MibUnicastIPAddressRow_get_at dll row = getUnicastIPAddressEntry_stub dll row"

definition MibUnicastIPAddressRow_Set_at :: "('os, 'w :: len word) dll \<Rightarrow> 'w word \<Rightarrow> ('os, 'w word call_error option) io" where
  "MibUnicastIPAddressRow_Set_at dll row = setUnicastIPAddressEntry_stub dll row"

definition MibUnicastIPAddressRow_Create_at :: "('os, 'w :: len word) dll \<Rightarrow> 'w word \<Rightarrow> ('os, 'w word call_error option) io" where
  "MibUnicastIPAddressRow_Create_at dll row = createUnicastIPAddressEntry_stub dll row"

definition MibUnicastIPAddressRow_Delete_at :: "('os, 'w :: len word) dll \<Rightarrow> 'w word \<Rightarrow> ('os, 'w word call_error option) io" where
  "MibUnicastIPAddressRow_Delete_at dll row = deleteUnicastIPAddressEntry_stub dll row"

definition mibUnicastIPAddressTable_free_at :: "('os, 'w :: len word) dll \<Rightarrow> 'w word \<Rightarrow> ('os, unit) io" where
  "mibUnicastIPAddressTable_free_at dll tab = freeMibTable_stub dll tab"

definition MibAnycastIPAddressRow_get_at :: "('os, 'w :: len word) dll \<Rightarrow> 'w word \<Rightarrow> ('os, 'w word call_error option) io" where
  "MibAnycastIPAddressRow_get_at dll row = getAnycastIPAddressEntry_stub dll row"

definition MibAnycastIPAddressRow_Create_at :: "('os, 'w :: len word) dll \<Rightarrow> 'w word \<Rightarrow> ('os, 'w word call_error option) io" where
  "MibAnycastIPAddressRow_Create_at dll row = createAnycastIPAddressEntry_stub dll row"

definition MibAnycastIPAddressRow_Delete_at :: "('os, 'w :: len word) dll \<Rightarrow> 'w word \<Rightarrow> ('os, 'w word call_error option) io" where
  "MibAnycastIPAddressRow_Delete_at dll row = deleteAnycastIPAddressEntry_stub dll row"

definition mibAnycastIPAddressTable_free_at :: "('os, 'w :: len word) dll \<Rightarrow> 'w word \<Rightarrow> ('os, unit) io" where
  "mibAnycastIPAddressTable_free_at dll tab = freeMibTable_stub dll tab"

definition MibIPforwardRow2_Init_at :: "('os, 'w :: len word) dll \<Rightarrow> 'w word \<Rightarrow> ('os, unit) io" where
  "MibIPforwardRow2_Init_at dll row = initializeIPForwardEntry_stub dll row"

definition MibIPforwardRow2_get_at :: "('os, 'w :: len word) dll \<Rightarrow> 'w word \<Rightarrow> ('os, 'w word call_error option) io" where
  "MibIPforwardRow2_get_at dll row = getIPForwardEntry2_stub dll row"

definition MibIPforwardRow2_Set_at :: "('os, 'w :: len word) dll \<Rightarrow> 'w word \<Rightarrow> ('os, 'w word call_error option) io" where
  "MibIPforwardRow2_Set_at dll row = setIPForwardEntry2_stub dll row"

definition MibIPforwardRow2_Create_at :: "('os, 'w :: len word) dll \<Rightarrow> 'w word \<Rightarrow> ('os, 'w word call_error option) io" where
  "MibIPforwardRow2_Create_at dll row = createIPForwardEntry2_stub dll row"

definition MibIPforwardRow2_Delete_at :: "('os, 'w :: len word) dll \<Rightarrow> 'w word \<Rightarrow> ('os, 'w word call_error option) io" where
  "MibIPforwardRow2_Delete_at dll row = deleteIPForwardEntry2_stub dll row"

definition mibIPforwardTable2_free_at :: "('os, 'w :: len word) dll \<Rightarrow> 'w word \<Rightarrow> ('os, unit) io" where
  "mibIPforwardTable2_free_at dll tab = freeMibTable_stub dll tab"

section \<open>What a stub calls and returns\<close>

text \<open>
  The stubs of each shape applied to arbitrary arguments, with the procedure and the words that
  the documented C function expects.
\<close>

definition status_stubs ::
  "('os, 'w :: len word) dll \<Rightarrow> 'w word \<Rightarrow> 'w word \<Rightarrow> 'w word \<Rightarrow> u32 \<Rightarrow> u32 \<Rightarrow> u16 \<Rightarrow> bool \<Rightarrow>
   (('os, 'w word call_error option) io \<times> string \<times> 'w word list) list" where
  "status_stubs dll p q r n m fam b =
     [(cancelMibChangeNotify2_stub dll p, ''CancelMibChangeNotify2'', [p]),
      (convertInterfaceGUIDToLUID_stub dll p q, ''ConvertInterfaceGuidToLuid'', [p, q]),
      (convertInterfaceIndexToLUID_stub dll n p, ''ConvertInterfaceIndexToLuid'', [ucast n, p]),
      (convertInterfaceLUIDToGUID_stub dll p q, ''ConvertInterfaceLuidToGuid'', [p, q]),
      (createAnycastIPAddressEntry_stub dll p, ''CreateAnycastIpAddressEntry'', [p]),
      (createIPForwardEntry2_stub dll p, ''CreateIpForwardEntry2'', [p]),
      (createUnicastIPAddressEntry_stub dll p, ''CreateUnicastIpAddressEntry'', [p]),
      (deleteAnycastIPAddressEntry_stub dll p, ''DeleteAnycastIpAddressEntry'', [p]),
      (deleteIPForwardEntry2_stub dll p, ''DeleteIpForwardEntry2'', [p]),
      (deleteUnicastIPAddressEntry_stub dll p, ''DeleteUnicastIpAddressEntry'', [p]),
      (getAnycastIPAddressEntry_stub dll p, ''GetAnycastIpAddressEntry'', [p]),
      (getAnycastIPAddressTable_stub dll fam p, ''GetAnycastIpAddressTable'', [ucast fam, p]),
      (getIfEntry2_stub dll p, ''GetIfEntry2'', [p]),
      (getIfTable2Ex_stub dll n p, ''GetIfTable2Ex'', [ucast n, p]),
      (getIPForwardEntry2_stub dll p, ''GetIpForwardEntry2'', [p]),
      (getIPForwardTable2_stub dll fam p, ''GetIpForwardTable2'', [ucast fam, p]),
      (getIPInterfaceEntry_stub dll p, ''GetIpInterfaceEntry'', [p]),
      (getIPInterfaceTable_stub dll fam p, ''GetIpInterfaceTable'', [ucast fam, p]),
      (getUnicastIPAddressEntry_stub dll p, ''GetUnicastIpAddressEntry'', [p]),
      (getUnicastIPAddressTable_stub dll fam p, ''GetUnicastIpAddressTable'', [ucast fam, p]),
      (notifyIPInterfaceChange_stub dll fam p q b r, ''NotifyIpInterfaceChange'', [ucast fam, p, q, of_bool b, r]),
      (notifyRouteChange2_stub dll fam p q b r, ''NotifyRouteChange2'', [ucast fam, p, q, of_bool b, r]),
      (notifyUnicastIPAddressChange_stub dll fam p q b r, ''NotifyUnicastIpAddressChange'', [ucast fam, p, q, of_bool b, r]),
      (setIPForwardEntry2_stub dll p, ''SetIpForwardEntry2'', [p]),
      (setIPInterfaceEntry_stub dll p, ''SetIpInterfaceEntry'', [p]),
      (setUnicastIPAddressEntry_stub dll p, ''SetUnicastIpAddressEntry'', [p]),
      (GetBestRoute_stub dll n m p, ''GetBestRoute'', [ucast n, ucast m, p]),
      (GtIfEntry2_stub dll p, ''GetIfEntry2'', [p])]"

definition optional_stubs ::
  "('os, 'w :: len word) dll \<Rightarrow> 'w word \<Rightarrow> 'w word \<Rightarrow> 'w word \<Rightarrow> 'w word \<Rightarrow> 'w word \<Rightarrow>
   (('os, 'w word call_error option) io \<times> string \<times> 'w word list) list" where
  "optional_stubs dll p q r t u =
     [(setInterfaceDnsSettingsByDwords_stub dll p q r t u, ''SetInterfaceDnsSettings'', [p, q, r, t, u]),
      (setInterfaceDnsSettingsByQwords_stub dll p q r, ''SetInterfaceDnsSettings'', [p, q, r]),
      (setInterfaceDnsSettingsByPtr_stub dll p q, ''SetInterfaceDnsSettings'', [p, q])]"

definition last_error_stubs ::
  "('os, 'w :: len word) dll \<Rightarrow> 'w word \<Rightarrow> 'w word \<Rightarrow> 'w word \<Rightarrow> 'w word \<Rightarrow> u32 \<Rightarrow>
   (('os, 'w word call_error option) io \<times> string \<times> 'w word list) list" where
  "last_error_stubs dll p q r t n =
     [(FwpmEngineClose0_stub dll p, ''FwpmEngineClose0'', [p]),
      (FwpmEngineOpen0_stub dll p n q r t, ''FwpmEngineOpen0'', [p, ucast n, q, r, t]),
      (FwpmFilterAdd0_stub dll p q r t, ''FwpmFilterAdd0'', [p, q, r, t]),
      (FwpmGetAppIdFromFileName0_stub dll p q, ''FwpmGetAppIdFromFileName0'', [p, q]),
      (FwpmSubLayerAdd0_stub dll p q r, ''FwpmSubLayerAdd0'', [p, q, r])]"

definition void_stubs ::
  "('os, 'w :: len word) dll \<Rightarrow> 'w word \<Rightarrow>
   (('os, unit) io \<times> string \<times> 'w word list) list" where
  "void_stubs dll p =
     [(freeMibTable_stub dll p, ''FreeMibTable'', [p]),
      (initializeIPForwardEntry_stub dll p, ''InitializeIpForwardEntry'', [p]),
      (initializeIPInterfaceEntry_stub dll p, ''InitializeIpInterfaceEntry'', [p]),
      (initializeUnicastIPAddressEntry_stub dll p, ''InitializeUnicastIpAddressEntry'', [p]),
      (FwpmFreeMemory0_stub dll p, ''FwpmFreeMemory0'', [p])]"

text \<open>A stub of a list runs its shape on words of which the first are those expected.\<close>

definition shaped :: "(string \<Rightarrow> nat \<Rightarrow> 'u list \<Rightarrow> 'f) \<Rightarrow> 'f \<times> string \<times> 'u list \<Rightarrow> bool" where
  "shaped stub = (\<lambda>(f, proc, args). \<exists>n words. f = stub proc n words \<and> n \<le> length words \<and> take n words = args)"

lemma shapedI: "n \<le> length words \<Longrightarrow> take n words = args \<Longrightarrow> shaped stub (stub proc n words, proc, args)"
  by (auto simp: shaped_def)

lemma shapedD:
  "list_all (shaped stub) xs \<Longrightarrow> (f, proc, args) \<in> set xs \<Longrightarrow>
     \<exists>n words. f = stub proc n words \<and> n \<le> length words \<and> take n words = args"
  by (auto simp: list_all_iff shaped_def)

lemma stubs_shaped:
  "list_all (shaped (status_stub dll)) (status_stubs dll p q x n m fam b)"
  "list_all (shaped (optional_stub dll)) (optional_stubs dll p q x t u)"
  "list_all (shaped (last_error_stub dll)) (last_error_stubs dll p q x t n)"
  "list_all (shaped (void_stub dll)) (void_stubs dll p)"
  unfolding status_stubs_def optional_stubs_def last_error_stubs_def void_stubs_def stub_defs list.pred_inject
  by (intro conjI shapedI TrueI; simp)+

lemmas stub_shapes = stubs_shaped [THEN shapedD]

text \<open>
  C35: every stub calls its own procedure once, with exactly its parameters in order. Those of
  \<open>iphlpapi.dll\<close> return the status of the call. Those of \<open>fwpuclnt.dll\<close> look at the status only to
  see a failure and return the last error of the thread in its place, so the code is lost and a
  failure that sets no last error is reported as \<open>EINVAL\<close>. A missing procedure panics, except for
  \<open>SetInterfaceDnsSettings\<close>, whose stubs return the error that starts the fallback.
\<close>

theorem stub_errors:
  assumes "dll_call dll proc args s = ((r, e), s')"
  shows "((f, proc, args) \<in> set (status_stubs dll p q x n m fam b) \<longrightarrow>
           f s = (case dll_Find dll proc of
                    Some why \<Rightarrow> (Inl (Panic why), s)
                  | None \<Rightarrow> (Inr (if r = 0 then None else Some (Errno r)), s'))) \<and>
    ((f, proc, args) \<in> set (optional_stubs dll p q x t u) \<longrightarrow>
           f s = (case dll_Find dll proc of
                    Some why \<Rightarrow> (Inr (Some (Missing why)), s)
                  | None \<Rightarrow> (Inr (if r = 0 then None else Some (Errno r)), s'))) \<and>
    ((f, proc, args) \<in> set (last_error_stubs dll p q x t n) \<longrightarrow>
           f s = (case dll_Find dll proc of
                    Some why \<Rightarrow> (Inl (Panic why), s)
                  | None \<Rightarrow> (Inr (if r = 0 then None else Some (if e = 0 then EINVAL else Errno e)), s'))) \<and>
    ((h, proc, args) \<in> set (void_stubs dll p) \<longrightarrow>
           h s = (case dll_Find dll proc of Some why \<Rightarrow> (Inl (Panic why), s) | None \<Rightarrow> (Inr (), s')))"
  by (intro conjI impI; drule stub_shapes; elim exE conjE; use assms in \<open>simp add: stub_runs\<close>)

definition failing_dll :: "(nat, u64) dll" where
  "failing_dll = \<lparr>dll_Find = (\<lambda>_. None), dll_call = (\<lambda>_ _ k. ((5, 0), Suc k))\<rparr>"

lemma failing_call: "dll_call failing_dll proc args s = ((5, 0), Suc s)"
  by (simp add: failing_dll_def)

lemma stub_errors_witness:
  "createIPForwardEntry2_stub failing_dll 16 0 = (Inr (Some (Errno 5)), 1) \<and>
   FwpmFilterAdd0_stub failing_dll 1 16 0 24 0 = (Inr (Some EINVAL), 1)"
proof
  have found: "dll_Find failing_dll proc = None" for proc
    by (simp add: failing_dll_def)
  show "createIPForwardEntry2_stub failing_dll 16 0 = (Inr (Some (Errno 5)), 1)"
    using stub_errors [OF failing_call, where f = "createIPForwardEntry2_stub failing_dll 16" and p = 16 and s = 0
        and proc = "''CreateIpForwardEntry2''" and args = "[16]"]
    by (simp add: status_stubs_def found)
  show "FwpmFilterAdd0_stub failing_dll 1 16 0 24 0 = (Inr (Some EINVAL), 1)"
    using stub_errors [OF failing_call, where f = "FwpmFilterAdd0_stub failing_dll 1 16 0 24" and p = 1 and q = 16
        and x = 0 and t = 24 and s = 0 and proc = "''FwpmFilterAdd0''" and args = "[1, 16, 0, 24]"]
    by (simp add: last_error_stubs_def found)
qed

end
