(* ===== verification/Win_Ip.thy ===== *)
theory Win_Ip
  imports Win_Types Io
begin

text \<open>
  Addresses and routes of an interface: the methods of \<open>LUID\<close> in \<open>winipcfg/luid.go\<close>, the table
  readers of \<open>winipcfg/winipcfg.go\<close> and the row methods of \<open>winipcfg/types.go\<close>.

  The functions of \<open>iphlpapi.dll\<close> are the parameter \<open>api\<close>, over a state \<open>'os\<close> of the operating system
  that only they read and write. A call returns its result, an error or a panic, with the new state.
\<close>

section \<open>The system's functions\<close>

record MibUnicastIPAddressRow =
  uni_Address :: RawSockaddrInet
  uni_InterfaceLUID :: LUID
  uni_InterfaceIndex :: u32
  uni_PrefixOrigin :: u32
  uni_SuffixOrigin :: u32
  uni_ValidLifetime :: u32
  uni_PreferredLifetime :: u32
  uni_OnLinkPrefixLength :: byte
  uni_SkipAsSource :: bool
  uni_DadState :: u32
  uni_ScopeID :: u32
  uni_CreationTimeStamp :: u64

definition zero_unicast_row :: MibUnicastIPAddressRow where
  "zero_unicast_row =
     \<lparr>uni_Address = zero_sockaddr, uni_InterfaceLUID = 0, uni_InterfaceIndex = 0,
      uni_PrefixOrigin = 0, uni_SuffixOrigin = 0, uni_ValidLifetime = 0,
      uni_PreferredLifetime = 0, uni_OnLinkPrefixLength = 0, uni_SkipAsSource = False,
      uni_DadState = 0, uni_ScopeID = 0, uni_CreationTimeStamp = 0\<rparr>"

record MibAnycastIPAddressRow =
  any_Address :: RawSockaddrInet
  any_InterfaceLUID :: LUID
  any_InterfaceIndex :: u32
  any_ScopeID :: u32

text \<open>A table call returns the address of the table it has allocated, and its rows.\<close>

record 'os ip_helper =
  initializeIPInterfaceEntry :: "MibIPInterfaceRow \<Rightarrow> MibIPInterfaceRow"
  getIPInterfaceEntry :: "MibIPInterfaceRow \<Rightarrow> ('os, MibIPInterfaceRow) io"
  setIPInterfaceEntry :: "MibIPInterfaceRow \<Rightarrow> ('os, unit) io"
  getIPInterfaceTable :: "u16 \<Rightarrow> ('os, u64 \<times> MibIPInterfaceRow list) io"
  getIfEntry2 :: "MibIfRow2 \<Rightarrow> ('os, MibIfRow2) io"
  getIfTable2Ex :: "u32 \<Rightarrow> ('os, u64 \<times> MibIfRow2 list) io"
  convertInterfaceLUIDToGUID :: "LUID \<Rightarrow> ('os, bytes) io"
  convertInterfaceGUIDToLUID :: "bytes \<Rightarrow> ('os, LUID) io"
  convertInterfaceIndexToLUID :: "u32 \<Rightarrow> ('os, LUID) io"
  initializeUnicastIPAddressEntry :: "MibUnicastIPAddressRow \<Rightarrow> MibUnicastIPAddressRow"
  getUnicastIPAddressEntry :: "MibUnicastIPAddressRow \<Rightarrow> ('os, MibUnicastIPAddressRow) io"
  setUnicastIPAddressEntry :: "MibUnicastIPAddressRow \<Rightarrow> ('os, unit) io"
  createUnicastIPAddressEntry :: "MibUnicastIPAddressRow \<Rightarrow> ('os, unit) io"
  deleteUnicastIPAddressEntry :: "MibUnicastIPAddressRow \<Rightarrow> ('os, unit) io"
  getUnicastIPAddressTable :: "u16 \<Rightarrow> ('os, u64 \<times> MibUnicastIPAddressRow list) io"
  getAnycastIPAddressEntry :: "MibAnycastIPAddressRow \<Rightarrow> ('os, MibAnycastIPAddressRow) io"
  createAnycastIPAddressEntry :: "MibAnycastIPAddressRow \<Rightarrow> ('os, unit) io"
  deleteAnycastIPAddressEntry :: "MibAnycastIPAddressRow \<Rightarrow> ('os, unit) io"
  getAnycastIPAddressTable :: "u16 \<Rightarrow> ('os, u64 \<times> MibAnycastIPAddressRow list) io"
  initializeIPForwardEntry :: "MibIPforwardRow2 \<Rightarrow> MibIPforwardRow2"
  getIPForwardEntry2 :: "MibIPforwardRow2 \<Rightarrow> ('os, MibIPforwardRow2) io"
  setIPForwardEntry2 :: "MibIPforwardRow2 \<Rightarrow> ('os, unit) io"
  createIPForwardEntry2 :: "MibIPforwardRow2 \<Rightarrow> ('os, unit) io"
  deleteIPForwardEntry2 :: "MibIPforwardRow2 \<Rightarrow> ('os, unit) io"
  getIPForwardTable2 :: "u16 \<Rightarrow> ('os, u64 \<times> MibIPforwardRow2 list) io"
  freeMibTable :: "u64 \<Rightarrow> ('os, unit) io"

definition AF_UNSPEC :: u16 where "AF_UNSPEC = 0"

section \<open>Reading the tables (winipcfg.go)\<close>

text \<open>The copy is made before the table is freed.\<close>

definition copy_table ::
  "'os ip_helper \<Rightarrow> ('os, u64 \<times> 'r list) io \<Rightarrow> ('os, 'r list) io" where
  "copy_table api read =
     bind_io read (\<lambda>(tab, rows). bind_io (freeMibTable api tab) (\<lambda>_. return_io rows))"

definition GetIPInterfaceTable :: "'os ip_helper \<Rightarrow> u16 \<Rightarrow> ('os, MibIPInterfaceRow list) io" where
  "GetIPInterfaceTable api family = copy_table api (getIPInterfaceTable api family)"

definition GetIfTable2Ex :: "'os ip_helper \<Rightarrow> u32 \<Rightarrow> ('os, MibIfRow2 list) io" where
  "GetIfTable2Ex api level = copy_table api (getIfTable2Ex api level)"

definition GetUnicastIPAddressTable ::
  "'os ip_helper \<Rightarrow> u16 \<Rightarrow> ('os, MibUnicastIPAddressRow list) io" where
  "GetUnicastIPAddressTable api family = copy_table api (getUnicastIPAddressTable api family)"

definition GetAnycastIPAddressTable ::
  "'os ip_helper \<Rightarrow> u16 \<Rightarrow> ('os, MibAnycastIPAddressRow list) io" where
  "GetAnycastIPAddressTable api family = copy_table api (getAnycastIPAddressTable api family)"

definition GetIPForwardTable2 :: "'os ip_helper \<Rightarrow> u16 \<Rightarrow> ('os, MibIPforwardRow2 list) io" where
  "GetIPForwardTable2 api family = copy_table api (getIPForwardTable2 api family)"

section \<open>Interfaces (luid.go)\<close>

definition LUID_Interface :: "'os ip_helper \<Rightarrow> LUID \<Rightarrow> ('os, MibIfRow2) io" where
  "LUID_Interface api luid = getIfEntry2 api (zero_if_row\<lparr>row2_InterfaceLUID := luid\<rparr>)"

definition LUID_GUID :: "'os ip_helper \<Rightarrow> LUID \<Rightarrow> ('os, bytes) io" where
  "LUID_GUID api luid = convertInterfaceLUIDToGUID api luid"

definition LUIDFromGUID :: "'os ip_helper \<Rightarrow> bytes \<Rightarrow> ('os, LUID) io" where
  "LUIDFromGUID api guid = convertInterfaceGUIDToLUID api guid"

definition LUIDFromIndex :: "'os ip_helper \<Rightarrow> u32 \<Rightarrow> ('os, LUID) io" where
  "LUIDFromIndex api index = convertInterfaceIndexToLUID api index"

section \<open>Unicast addresses (luid.go)\<close>

definition DadStatePreferred :: u32 where "DadStatePreferred = 4"

text \<open>\<open>uint8(p.Bits())\<close>: an invalid prefix has -1 bits.\<close>

definition uint8_Bits :: "Prefix \<Rightarrow> byte" where
  "uint8_Bits p = (case snd p of None \<Rightarrow> 255 | Some n \<Rightarrow> of_nat n)"

definition LUID_IPAddress ::
  "'os ip_helper \<Rightarrow> LUID \<Rightarrow> Addr \<Rightarrow> ('os, MibUnicastIPAddressRow) io" where
  "LUID_IPAddress api luid addr =
     (let row = zero_unicast_row\<lparr>uni_InterfaceLUID := luid\<rparr>
      in bind_io (lift_io (SetAddr (uni_Address row) addr)) (\<lambda>a.
           getUnicastIPAddressEntry api (row\<lparr>uni_Address := a\<rparr>)))"

definition AddIPAddress :: "'os ip_helper \<Rightarrow> LUID \<Rightarrow> Prefix \<Rightarrow> ('os, unit) io" where
  "AddIPAddress api luid address =
     (let row = (initializeUnicastIPAddressEntry api zero_unicast_row)
                  \<lparr>uni_InterfaceLUID := luid, uni_DadState := DadStatePreferred,
                   uni_ValidLifetime := 0xffffffff, uni_PreferredLifetime := 0xffffffff\<rparr>
      in bind_io (lift_io (SetAddr (uni_Address row) (fst address))) (\<lambda>a.
           createUnicastIPAddressEntry api
             (row\<lparr>uni_Address := a, uni_OnLinkPrefixLength := uint8_Bits address\<rparr>)))"

definition AddIPAddresses :: "'os ip_helper \<Rightarrow> LUID \<Rightarrow> Prefix list \<Rightarrow> ('os, unit) io" where
  "AddIPAddresses api luid addresses = each_io (AddIPAddress api luid) addresses"

text \<open>The results of the deletions are not looked at; only a panic would end the loop.\<close>

fun flush_address_rows ::
  "'os ip_helper \<Rightarrow> LUID \<Rightarrow> MibUnicastIPAddressRow list \<Rightarrow> ('os, unit) io" where
  "flush_address_rows api luid [] s = (Inr (), s)"
| "flush_address_rows api luid (r # rs) s =
     (if uni_InterfaceLUID r = luid then
        (case deleteUnicastIPAddressEntry api r s of
           (Inl (Panic p), s') \<Rightarrow> (Inl (Panic p), s')
         | (_, s') \<Rightarrow> flush_address_rows api luid rs s')
      else flush_address_rows api luid rs s)"

definition FlushIPAddresses :: "'os ip_helper \<Rightarrow> LUID \<Rightarrow> u16 \<Rightarrow> ('os, unit) io" where
  "FlushIPAddresses api luid family =
     bind_io (getUnicastIPAddressTable api family) (\<lambda>(tab, t).
       bind_io (flush_address_rows api luid t) (\<lambda>_. freeMibTable api tab))"

definition SetIPAddresses :: "'os ip_helper \<Rightarrow> LUID \<Rightarrow> Prefix list \<Rightarrow> ('os, unit) io" where
  "SetIPAddresses api luid addresses =
     bind_io (FlushIPAddresses api luid AF_UNSPEC) (\<lambda>_. AddIPAddresses api luid addresses)"

text \<open>The condition under which the loops for one family skip an address.\<close>

definition skips_family :: "u16 \<Rightarrow> Addr \<Rightarrow> bool" where
  "skips_family family a \<longleftrightarrow>
     \<not> Is4 a \<and> family = AF_INET \<or> \<not> (\<not> Is4 a \<and> family = AF_INET) \<and> \<not> Is6 a \<and> family = AF_INET6"

definition SetIPAddressesForFamily ::
  "'os ip_helper \<Rightarrow> LUID \<Rightarrow> u16 \<Rightarrow> Prefix list \<Rightarrow> ('os, unit) io" where
  "SetIPAddressesForFamily api luid family addresses =
     bind_io (FlushIPAddresses api luid family) (\<lambda>_.
       each_io (\<lambda>a. if skips_family family (fst a) then return_io () else AddIPAddress api luid a)
         addresses)"

definition DeleteIPAddress :: "'os ip_helper \<Rightarrow> LUID \<Rightarrow> Prefix \<Rightarrow> ('os, unit) io" where
  "DeleteIPAddress api luid address =
     (let row = (initializeUnicastIPAddressEntry api zero_unicast_row)\<lparr>uni_InterfaceLUID := luid\<rparr>
      in bind_io (lift_io (SetAddr (uni_Address row) (fst address))) (\<lambda>a.
           deleteUnicastIPAddressEntry api
             (row\<lparr>uni_Address := a, uni_OnLinkPrefixLength := uint8_Bits address\<rparr>)))"

section \<open>Routes (luid.go)\<close>

record RouteData =
  rd_Destination :: Prefix
  rd_NextHop :: Addr
  rd_Metric :: u32

text \<open>The three lines every method on a route begins with: destination, then next hop.\<close>

definition fill_route ::
  "MibIPforwardRow2 \<Rightarrow> Prefix \<Rightarrow> Addr \<Rightarrow> MibIPforwardRow2 outcome" where
  "fill_route row destination nextHop =
     bind_outcome (SetPrefix (fwd_DestinationPrefix row) destination) (\<lambda>prefix.
       bind_outcome (SetAddr (fwd_NextHop row) nextHop) (\<lambda>hop.
         Inr (row\<lparr>fwd_DestinationPrefix := prefix, fwd_NextHop := hop\<rparr>)))"

definition LUID_Route ::
  "'os ip_helper \<Rightarrow> LUID \<Rightarrow> Prefix \<Rightarrow> Addr \<Rightarrow> ('os, MibIPforwardRow2) io" where
  "LUID_Route api luid destination nextHop =
     bind_io (lift_io (fill_route
         ((initializeIPForwardEntry api zero_forward_row)
            \<lparr>fwd_InterfaceLUID := luid, fwd_ValidLifetime := 0xffffffff,
             fwd_PreferredLifetime := 0xffffffff\<rparr>) destination nextHop))
       (getIPForwardEntry2 api)"

definition AddRoute ::
  "'os ip_helper \<Rightarrow> LUID \<Rightarrow> Prefix \<Rightarrow> Addr \<Rightarrow> u32 \<Rightarrow> ('os, unit) io" where
  "AddRoute api luid destination nextHop metric =
     bind_io (lift_io (fill_route
         ((initializeIPForwardEntry api zero_forward_row)\<lparr>fwd_InterfaceLUID := luid\<rparr>)
         destination nextHop))
       (\<lambda>row. createIPForwardEntry2 api (row\<lparr>fwd_Metric := metric\<rparr>))"

definition add_route_data :: "'os ip_helper \<Rightarrow> LUID \<Rightarrow> RouteData \<Rightarrow> ('os, unit) io" where
  "add_route_data api luid rd = AddRoute api luid (rd_Destination rd) (rd_NextHop rd) (rd_Metric rd)"

definition AddRoutes :: "'os ip_helper \<Rightarrow> LUID \<Rightarrow> RouteData list \<Rightarrow> ('os, unit) io" where
  "AddRoutes api luid routesData = each_io (add_route_data api luid) routesData"

text \<open>The loop of \<open>FlushRoutes\<close>; \<open>err\<close> is the last error so far.\<close>

fun flush_route_rows ::
  "'os ip_helper \<Rightarrow> LUID \<Rightarrow> MibIPforwardRow2 list \<Rightarrow> failure option \<Rightarrow> ('os, failure option) io" where
  "flush_route_rows api luid [] err s = (Inr err, s)"
| "flush_route_rows api luid (r # rs) err s =
     (if fwd_InterfaceLUID r = luid then
        (case deleteIPForwardEntry2 api r s of
           (Inl (Panic p), s') \<Rightarrow> (Inl (Panic p), s')
         | (Inl (Err e), s') \<Rightarrow> flush_route_rows api luid rs (Some (Err e)) s'
         | (Inr _, s') \<Rightarrow> flush_route_rows api luid rs err s')
      else flush_route_rows api luid rs err s)"

definition FlushRoutes :: "'os ip_helper \<Rightarrow> LUID \<Rightarrow> u16 \<Rightarrow> ('os, unit) io" where
  "FlushRoutes api luid family =
     bind_io (getIPForwardTable2 api family) (\<lambda>(tab, t).
       bind_io (flush_route_rows api luid t None) (\<lambda>err.
         bind_io (freeMibTable api tab) (\<lambda>_.
           case err of None \<Rightarrow> return_io () | Some e \<Rightarrow> raise_io e)))"

definition SetRoutes :: "'os ip_helper \<Rightarrow> LUID \<Rightarrow> RouteData list \<Rightarrow> ('os, unit) io" where
  "SetRoutes api luid routesData =
     bind_io (FlushRoutes api luid AF_UNSPEC) (\<lambda>_. AddRoutes api luid routesData)"

definition SetRoutesForFamily ::
  "'os ip_helper \<Rightarrow> LUID \<Rightarrow> u16 \<Rightarrow> RouteData list \<Rightarrow> ('os, unit) io" where
  "SetRoutesForFamily api luid family routesData =
     bind_io (FlushRoutes api luid family) (\<lambda>_.
       each_io (\<lambda>rd. if skips_family family (fst (rd_Destination rd)) then return_io ()
                     else add_route_data api luid rd) routesData)"

definition DeleteRoute :: "'os ip_helper \<Rightarrow> LUID \<Rightarrow> Prefix \<Rightarrow> Addr \<Rightarrow> ('os, unit) io" where
  "DeleteRoute api luid destination nextHop =
     bind_io (lift_io (fill_route
         ((initializeIPForwardEntry api zero_forward_row)\<lparr>fwd_InterfaceLUID := luid\<rparr>)
         destination nextHop))
       (\<lambda>row. bind_io (getIPForwardEntry2 api row) (deleteIPForwardEntry2 api))"

section \<open>What the system documents\<close>

text \<open>
  The route and address tables as sets, and the set of tables allocated and not freed. A route is
  its interface, destination, next hop and metric; the first three are its key.
\<close>

type_synonym route_view = "LUID \<times> Prefix \<times> Addr \<times> u32"

record 'os ip_view =
  routes_of :: "'os \<Rightarrow> route_view set"
  addresses_of :: "'os \<Rightarrow> (LUID \<times> Addr \<times> byte) set"
  tables_of :: "'os \<Rightarrow> u64 set"

definition same_view :: "'os ip_view \<Rightarrow> 'os \<Rightarrow> 'os \<Rightarrow> bool" where
  "same_view v s s' \<longleftrightarrow>
     routes_of v s' = routes_of v s \<and> addresses_of v s' = addresses_of v s \<and>
     tables_of v s' = tables_of v s"

definition row_route :: "MibIPforwardRow2 \<Rightarrow> route_view" where
  "row_route r =
     (fwd_InterfaceLUID r, IPAddressPrefix_Prefix (fwd_DestinationPrefix r),
      sockaddr_Addr (fwd_NextHop r), fwd_Metric r)"

fun route_key :: "route_view \<Rightarrow> LUID \<times> Prefix \<times> Addr" where
  "route_key (luid, dest, hop, metric) = (luid, dest, hop)"

fun route_address :: "route_view \<Rightarrow> Addr" where
  "route_address (luid, dest, hop, metric) = fst dest"

definition in_family :: "u16 \<Rightarrow> Addr \<Rightarrow> bool" where
  "in_family family a \<longleftrightarrow>
     family = AF_UNSPEC \<or> family = AF_INET \<and> Is4 a \<or> family = AF_INET6 \<and> Is6 a"

definition documented_free :: "'os ip_helper \<Rightarrow> 'os ip_view \<Rightarrow> bool" where
  "documented_free api v \<longleftrightarrow>
     (\<forall>p s r s'. freeMibTable api p s = (r, s') \<longrightarrow>
        r = Inr () \<and> routes_of v s' = routes_of v s \<and> addresses_of v s' = addresses_of v s \<and>
        tables_of v s' = tables_of v s - {p})"

definition documented_routes :: "'os ip_helper \<Rightarrow> 'os ip_view \<Rightarrow> bool" where
  "documented_routes api v \<longleftrightarrow>
     (\<forall>family s r s'. getIPForwardTable2 api family s = (r, s') \<longrightarrow>
        (case r of
           Inl e \<Rightarrow> same_view v s s'
         | Inr (p, rows) \<Rightarrow>
             row_route ` set rows = {x \<in> routes_of v s. in_family family (route_address x)} \<and>
             routes_of v s' = routes_of v s \<and> addresses_of v s' = addresses_of v s \<and>
             p \<notin> tables_of v s \<and> tables_of v s' = insert p (tables_of v s))) \<and>
     (\<forall>row s r s'. deleteIPForwardEntry2 api row s = (r, s') \<longrightarrow>
        (case r of
           Inl e \<Rightarrow> same_view v s s'
         | Inr _ \<Rightarrow>
             routes_of v s' = {x \<in> routes_of v s. route_key x \<noteq> route_key (row_route row)} \<and>
             addresses_of v s' = addresses_of v s \<and> tables_of v s' = tables_of v s)) \<and>
     (\<forall>row s r s'. createIPForwardEntry2 api row s = (r, s') \<longrightarrow>
        (case r of
           Inl e \<Rightarrow> same_view v s s'
         | Inr _ \<Rightarrow>
             routes_of v s' = insert (row_route row) (routes_of v s) \<and>
             addresses_of v s' = addresses_of v s \<and> tables_of v s' = tables_of v s))"

lemma same_view_refl [simp]: "same_view v s s"
  by (simp add: same_view_def)

lemma table_documented:
  assumes "documented_routes api v" and "getIPForwardTable2 api family s = (Inr (p, rows), s')"
  shows "row_route ` set rows = {x \<in> routes_of v s. in_family family (route_address x)} \<and>
    routes_of v s' = routes_of v s \<and> addresses_of v s' = addresses_of v s \<and>
    p \<notin> tables_of v s \<and> tables_of v s' = insert p (tables_of v s)"
  using assms unfolding documented_routes_def by fastforce

lemma table_failed:
  "documented_routes api v \<Longrightarrow> getIPForwardTable2 api family s = (Inl e, s') \<Longrightarrow> same_view v s s'"
  unfolding documented_routes_def by fastforce

lemma delete_documented:
  assumes "documented_routes api v" and "deleteIPForwardEntry2 api row s = (Inr u, s')"
  shows "routes_of v s' = {x \<in> routes_of v s. route_key x \<noteq> route_key (row_route row)} \<and>
    addresses_of v s' = addresses_of v s \<and> tables_of v s' = tables_of v s"
  using assms unfolding documented_routes_def by fastforce

lemma delete_failed:
  "documented_routes api v \<Longrightarrow> deleteIPForwardEntry2 api row s = (Inl e, s') \<Longrightarrow> same_view v s s'"
  unfolding documented_routes_def by fastforce

lemma create_documented:
  assumes "documented_routes api v" and "createIPForwardEntry2 api row s = (Inr u, s')"
  shows "routes_of v s' = insert (row_route row) (routes_of v s) \<and>
    addresses_of v s' = addresses_of v s \<and> tables_of v s' = tables_of v s"
  using assms unfolding documented_routes_def by fastforce

lemma create_failed:
  "documented_routes api v \<Longrightarrow> createIPForwardEntry2 api row s = (Inl e, s') \<Longrightarrow> same_view v s s'"
  unfolding documented_routes_def by fastforce

lemma free_documented:
  "documented_free api v \<Longrightarrow> freeMibTable api p s = (r, s') \<Longrightarrow>
     r = Inr () \<and> routes_of v s' = routes_of v s \<and> addresses_of v s' = addresses_of v s \<and>
     tables_of v s' = tables_of v s - {p}"
  unfolding documented_free_def by blast

section \<open>Writing addresses and reading them back\<close>

lemma SetAddr_reads:
  assumes "addr_wf a" and "numeric_zone a" and "a \<noteq> AddrZero"
  shows "\<exists>raw'. SetAddr raw a = Inr raw' \<and> sockaddr_Addr raw' = a"
  using SetAddrPort_reads [OF assms] by (auto simp: SetAddr_def)

definition valid_prefix :: "Prefix \<Rightarrow> bool" where
  "valid_prefix p \<longleftrightarrow>
     (case snd p of
        None \<Rightarrow> False
      | Some n \<Rightarrow> addr_wf (fst p) \<and> fst p \<noteq> AddrZero \<and> n \<le> BitLen (fst p) \<and> withoutZone (fst p) = fst p)"

definition valid_route :: "RouteData \<Rightarrow> bool" where
  "valid_route rd \<longleftrightarrow>
     valid_prefix (rd_Destination rd) \<and>
     addr_wf (rd_NextHop rd) \<and> numeric_zone (rd_NextHop rd) \<and> rd_NextHop rd \<noteq> AddrZero"

definition data_route :: "LUID \<Rightarrow> RouteData \<Rightarrow> route_view" where
  "data_route luid rd = (luid, rd_Destination rd, rd_NextHop rd, rd_Metric rd)"

lemma valid_prefix_PrefixFrom:
  "valid_prefix p \<Longrightarrow> \<exists>n. p = PrefixFrom (fst p) n \<and> addr_wf (fst p) \<and> fst p \<noteq> AddrZero \<and> n \<le> BitLen (fst p)"
  by (cases p) (auto simp: valid_prefix_def PrefixFrom_def split: option.splits)

lemma fill_route_reads:
  assumes "valid_route rd"
  shows "\<exists>row'. fill_route row (rd_Destination rd) (rd_NextHop rd) = Inr row' \<and>
    fwd_InterfaceLUID row' = fwd_InterfaceLUID row \<and>
    IPAddressPrefix_Prefix (fwd_DestinationPrefix row') = rd_Destination rd \<and>
    sockaddr_Addr (fwd_NextHop row') = rd_NextHop rd"
proof -
  obtain n where p: "rd_Destination rd = PrefixFrom (fst (rd_Destination rd)) n"
      "addr_wf (fst (rd_Destination rd))" "fst (rd_Destination rd) \<noteq> AddrZero"
      "n \<le> BitLen (fst (rd_Destination rd))"
    using assms valid_prefix_PrefixFrom unfolding valid_route_def by blast
  obtain prefix' where prefix':
      "SetPrefix (fwd_DestinationPrefix row) (rd_Destination rd) = Inr prefix'"
      "IPAddressPrefix_Prefix prefix' = rd_Destination rd"
    using SetPrefix_reads [OF p(2-4)] p(1) by metis
  obtain hop' where "SetAddr (fwd_NextHop row) (rd_NextHop rd) = Inr hop'"
      "sockaddr_Addr hop' = rd_NextHop rd"
    using assms SetAddr_reads [of "rd_NextHop rd"] unfolding valid_route_def by blast
  then show ?thesis
    using prefix' by (simp add: fill_route_def)
qed

section \<open>Flushing and adding routes\<close>

lemma fst_data_route [simp]: "fst (data_route luid rd) = luid"
  by (simp add: data_route_def)

definition other_routes :: "LUID \<Rightarrow> route_view set \<Rightarrow> route_view set" where
  "other_routes luid R = {x \<in> R. fst x \<noteq> luid}"

text \<open>What every method on the routes of \<open>luid\<close> leaves as it was.\<close>

definition route_frame :: "'os ip_view \<Rightarrow> LUID \<Rightarrow> 'os \<Rightarrow> 'os \<Rightarrow> bool" where
  "route_frame v luid s s' \<longleftrightarrow>
     other_routes luid (routes_of v s') = other_routes luid (routes_of v s) \<and>
     addresses_of v s' = addresses_of v s"

lemma route_frame_refl [simp]: "route_frame v luid s s"
  by (simp add: route_frame_def)

lemma route_frame_trans:
  "route_frame v luid s s' \<Longrightarrow> route_frame v luid s' s'' \<Longrightarrow> route_frame v luid s s''"
  by (simp add: route_frame_def)

lemma same_view_frame: "same_view v s s' \<Longrightarrow> route_frame v luid s s'"
  by (simp add: same_view_def route_frame_def)

lemma route_key_luid: "route_key x = route_key y \<Longrightarrow> fst x = fst y"
  by (cases x, cases y) auto

lemma route_key_address: "route_key x = route_key y \<Longrightarrow> route_address x = route_address y"
  by (cases x, cases y) auto

lemma fst_row_route [simp]: "fst (row_route r) = fwd_InterfaceLUID r"
  by (simp add: row_route_def)

lemma delete_own:
  assumes "documented_routes api v" and "deleteIPForwardEntry2 api row s = (r, s')"
    and "fwd_InterfaceLUID row = luid"
  shows "route_frame v luid s s' \<and> tables_of v s' = tables_of v s"
proof (cases r)
  case (Inl e)
  then have "same_view v s s'"
    using delete_failed [OF assms(1)] assms(2) by blast
  then show ?thesis
    by (simp add: same_view_def route_frame_def)
next
  case (Inr u)
  then have "routes_of v s' = {x \<in> routes_of v s. route_key x \<noteq> route_key (row_route row)} \<and>
      addresses_of v s' = addresses_of v s \<and> tables_of v s' = tables_of v s"
    using delete_documented [OF assms(1), of row s u s'] assms(2) by simp
  then show ?thesis
    using assms(3) route_key_luid [of _ "row_route row"] by (auto simp: route_frame_def other_routes_def)
qed

lemma flush_rows_frame:
  assumes "documented_routes api v" and "flush_route_rows api luid rows err s = (r, s')"
  shows "route_frame v luid s s' \<and> tables_of v s' = tables_of v s"
  using assms(2)
proof (induction rows arbitrary: err s)
  case (Cons row rows)
  obtain d s1 where d: "deleteIPForwardEntry2 api row s = (d, s1)"
    by fastforce
  show ?case
  proof (cases "fwd_InterfaceLUID row = luid")
    case True
    then have "route_frame v luid s s1 \<and> tables_of v s1 = tables_of v s"
      using delete_own [OF assms(1) d] by blast
    moreover have "s' = s1 \<or> (\<exists>err'. flush_route_rows api luid rows err' s1 = (r, s'))"
      using Cons.prems True d by (auto split: sum.splits failure.splits)
    ultimately show ?thesis
      using Cons.IH by (metis route_frame_trans)
  next
    case False
    then show ?thesis
      using Cons by simp
  qed
qed simp

lemma flush_rows_exact:
  assumes "documented_routes api v" and "flush_route_rows api luid rows err s = (Inr None, s')"
  shows "err = None \<and> routes_of v s' =
    {x \<in> routes_of v s. \<forall>row \<in> set rows.
       fwd_InterfaceLUID row = luid \<longrightarrow> route_key x \<noteq> route_key (row_route row)}"
  using assms(2)
proof (induction rows arbitrary: err s)
  case (Cons row rows)
  show ?case
  proof (cases "fwd_InterfaceLUID row = luid")
    case True
    obtain d s1 where d: "deleteIPForwardEntry2 api row s = (d, s1)"
      by fastforce
    show ?thesis
    proof (cases d)
      case (Inl e)
      then show ?thesis
        using Cons.prems True d Cons.IH [of "Some e" s1] by (auto split: failure.splits)
    next
      case (Inr u)
      then show ?thesis
        using Cons.prems True d Cons.IH [of err s1] delete_documented [OF assms(1), of row s u s1]
        by auto
    qed
  next
    case False
    then show ?thesis
      using Cons by simp
  qed
qed simp

lemma flush_rows_error:
  "flush_route_rows api luid rows err s = (Inl e, s') \<Longrightarrow> \<exists>p. e = Panic p"
  by (induction rows arbitrary: err s)
    (auto split: if_splits prod.splits sum.splits failure.splits)

definition panicked :: "'a outcome \<Rightarrow> bool" where
  "panicked r = (case r of Inl (Panic _) \<Rightarrow> True | _ \<Rightarrow> False)"

lemma FlushRoutes_cases:
  assumes routes: "documented_routes api v" and free: "documented_free api v"
    and run: "FlushRoutes api luid family s = (r, s')"
  obtains (no_table) e where "r = Inl e" "same_view v s s'"
    | (crash) p where "r = Inl (Panic p)" "route_frame v luid s s'"
    | (freed) tab rows s1 err s2 where
      "getIPForwardTable2 api family s = (Inr (tab, rows), s1)"
      "flush_route_rows api luid rows None s1 = (Inr err, s2)"
      "r = (case err of None \<Rightarrow> Inr () | Some e \<Rightarrow> Inl e)"
      "routes_of v s' = routes_of v s2" "addresses_of v s' = addresses_of v s2"
      "tables_of v s' = tables_of v s"
proof -
  obtain t s1 where t: "getIPForwardTable2 api family s = (t, s1)"
    by fastforce
  show thesis
  proof (cases t)
    case (Inl e)
    then have "r = Inl e" "s' = s1"
      using run t by (simp_all add: FlushRoutes_def bind_io_def)
    then show thesis
      using no_table table_failed [OF routes] t Inl by metis
  next
    case (Inr tr)
    obtain tab rows where tr: "tr = (tab, rows)"
      by (cases tr)
    note table = table_documented [OF routes t [unfolded Inr tr]]
    obtain f s2 where f: "flush_route_rows api luid rows None s1 = (f, s2)"
      by fastforce
    note frame = flush_rows_frame [OF routes f]
    have s_frame: "route_frame v luid s s2"
      using table frame by (simp add: route_frame_def)
    show thesis
    proof (cases f)
      case (Inl e)
      have "\<exists>p. e = Panic p"
        using flush_rows_error f Inl by metis
      then show thesis
        using crash run t f Inl Inr tr s_frame by (auto simp: FlushRoutes_def bind_io_def)
    next
      case err: (Inr err)
      obtain u s3 where u: "freeMibTable api tab s2 = (u, s3)"
        by fastforce
      have "tables_of v s3 = tables_of v s"
        using free_documented [OF free u] frame table by auto
      then show thesis
        using freed [of tab rows s1 err s2] run t f Inr err tr u free_documented [OF free u]
        by (cases err) (simp_all add: FlushRoutes_def bind_io_def return_io_def raise_io_def)
    qed
  qed
qed

lemma FlushRoutes_frame:
  assumes "documented_routes api v" and "documented_free api v"
    and "FlushRoutes api luid family s = (r, s')"
  shows "route_frame v luid s s' \<and> (panicked r \<or> tables_of v s' = tables_of v s)"
  using assms
proof (cases rule: FlushRoutes_cases)
  case no_table
  then show ?thesis
    by (auto simp: same_view_def route_frame_def)
next
  case (crash p)
  then show ?thesis
    by (simp add: panicked_def)
next
  case (freed tab rows s1 err s2)
  then show ?thesis
    using flush_rows_frame [OF assms(1) freed(2)] table_documented [OF assms(1) freed(1)]
    by (auto simp: route_frame_def)
qed

lemma FlushRoutes_exact:
  assumes "documented_routes api v" and "documented_free api v"
    and "FlushRoutes api luid family s = (Inr (), s')"
  shows "routes_of v s' =
    {x \<in> routes_of v s. \<not> (fst x = luid \<and> in_family family (route_address x))}"
  using assms
proof (cases rule: FlushRoutes_cases)
  case (freed tab rows s1 err s2)
  then have "err = None"
    by (cases err) auto
  note table = table_documented [OF assms(1) freed(1)]
  let ?kept = "\<lambda>x. \<forall>row \<in> set rows. fwd_InterfaceLUID row = luid \<longrightarrow> route_key x \<noteq> route_key (row_route row)"
  let ?other = "\<lambda>x. \<not> (fst x = luid \<and> in_family family (route_address x))"
  have "?kept x \<longleftrightarrow> ?other x" if x: "x \<in> routes_of v s" for x
  proof
    assume kept: "?kept x"
    show "?other x"
    proof
      assume own: "fst x = luid \<and> in_family family (route_address x)"
      then have "x \<in> row_route ` set rows"
        using table x by simp
      then show False
        using kept own by fastforce
    qed
  next
    assume other: "?other x"
    have "in_family family (route_address (row_route row))" if "row \<in> set rows" for row
      using table that by blast
    then show "?kept x"
      using other route_key_luid route_key_address by (metis fst_row_route)
  qed
  moreover have "routes_of v s' = {x \<in> routes_of v s. ?kept x}"
    using flush_rows_exact [OF assms(1)] freed(2,4) \<open>err = None\<close> table by simp
  ultimately show ?thesis
    by blast
qed simp_all

lemma add_route_data_spec:
  assumes "documented_routes api v" and "valid_route rd"
    and "add_route_data api luid rd s = (r, s')"
  shows "(\<exists>e. r = Inl e \<and> same_view v s s') \<or>
    (r = Inr () \<and> routes_of v s' = insert (data_route luid rd) (routes_of v s) \<and>
     addresses_of v s' = addresses_of v s \<and> tables_of v s' = tables_of v s)"
proof -
  obtain row where row: "fill_route
        ((initializeIPForwardEntry api zero_forward_row)\<lparr>fwd_InterfaceLUID := luid\<rparr>)
        (rd_Destination rd) (rd_NextHop rd) = Inr row"
      "fwd_InterfaceLUID row = luid"
      "IPAddressPrefix_Prefix (fwd_DestinationPrefix row) = rd_Destination rd"
      "sockaddr_Addr (fwd_NextHop row) = rd_NextHop rd"
    using fill_route_reads [OF assms(2)] by force
  let ?row = "row\<lparr>fwd_Metric := rd_Metric rd\<rparr>"
  have create: "createIPForwardEntry2 api ?row s = (r, s')"
    using assms(3) row(1) by (simp add: add_route_data_def AddRoute_def)
  have key: "row_route ?row = data_route luid rd"
    using row by (simp add: row_route_def data_route_def)
  show ?thesis
  proof (cases r)
    case (Inl e)
    then show ?thesis
      using create_failed [OF assms(1)] create by simp
  next
    case (Inr u)
    then show ?thesis
      using create_documented [OF assms(1), of ?row s u s'] create key by simp
  qed
qed

lemma add_all_spec:
  assumes "documented_routes api v" and "\<forall>rd \<in> set rds. valid_route rd"
    and "each_io (\<lambda>rd. if P rd then return_io () else add_route_data api luid rd) rds s = (r, s')"
  shows "route_frame v luid s s' \<and> tables_of v s' = tables_of v s \<and>
    (r = Inr () \<longrightarrow>
       routes_of v s' = routes_of v s \<union> data_route luid ` {rd \<in> set rds. \<not> P rd})"
  using assms(2,3)
proof (induction rds arbitrary: s)
  case Nil
  then show ?case
    by (simp add: return_io_def)
next
  case (Cons rd rds)
  show ?case
  proof (cases "P rd")
    case True
    then have "each_io (\<lambda>rd. if P rd then return_io () else add_route_data api luid rd) rds s = (r, s')"
      using Cons.prems(2) by simp
    then show ?thesis
      using Cons.IH [of s] Cons.prems(1) True by (auto intro!: arg_cong2 [of _ _ _ _ "(\<union>)"])
  next
    case False
    obtain a s1 where a: "add_route_data api luid rd s = (a, s1)"
      by fastforce
    have own: "fst (data_route luid rd) = luid"
      by (simp add: data_route_def)
    from add_route_data_spec [OF assms(1) _ a] Cons.prems(1)
    consider (bad) e where "a = Inl e" "same_view v s s1"
      | (good) "a = Inr ()" "routes_of v s1 = insert (data_route luid rd) (routes_of v s)"
          "addresses_of v s1 = addresses_of v s" "tables_of v s1 = tables_of v s"
      by auto
    then show ?thesis
    proof cases
      case bad
      then show ?thesis
        using Cons.prems(2) False a by (auto simp: bind_io_def same_view_def route_frame_def)
    next
      case good
      have "route_frame v luid s s1"
        using good own by (auto simp: route_frame_def other_routes_def)
      moreover have "each_io (\<lambda>rd. if P rd then return_io () else add_route_data api luid rd) rds s1 = (r, s')"
        using Cons.prems(2) False a good by (simp add: bind_io_def)
      ultimately show ?thesis
        using Cons.IH [of s1] Cons.prems(1) good False
        by (auto simp: route_frame_def)
    qed
  qed
qed

lemma skips_unspec [simp]: "\<not> skips_family AF_UNSPEC a"
  by (simp add: skips_family_def AF_UNSPEC_def AF_INET_def AF_INET6_def)

lemma in_unspec [simp]: "in_family AF_UNSPEC a"
  by (simp add: in_family_def)

lemma skips_valid:
  "a \<noteq> AddrZero \<Longrightarrow> family \<in> {AF_UNSPEC, AF_INET, AF_INET6} \<Longrightarrow> skips_family family a \<longleftrightarrow> \<not> in_family family a"
  by (cases a) (auto simp: skips_family_def in_family_def AF_UNSPEC_def AF_INET_def AF_INET6_def)

lemma SetRoutes_is_SetRoutesForFamily:
  "SetRoutes api luid rds = SetRoutesForFamily api luid AF_UNSPEC rds"
  by (simp add: SetRoutes_def SetRoutesForFamily_def AddRoutes_def)

lemma SetRoutesForFamily_spec:
  assumes routes: "documented_routes api v" and free: "documented_free api v"
    and valid: "\<forall>rd \<in> set rds. valid_route rd"
    and run: "SetRoutesForFamily api luid family rds s = (r, s')"
  shows "route_frame v luid s s' \<and> (panicked r \<or> tables_of v s' = tables_of v s) \<and>
    (r = Inr () \<longrightarrow> routes_of v s' =
       {x \<in> routes_of v s. \<not> (fst x = luid \<and> in_family family (route_address x))} \<union>
       data_route luid ` {rd \<in> set rds. \<not> skips_family family (fst (rd_Destination rd))})"
proof -
  obtain f s1 where f: "FlushRoutes api luid family s = (f, s1)"
    by fastforce
  note frame = FlushRoutes_frame [OF routes free f]
  show ?thesis
  proof (cases f)
    case (Inl e)
    then have "r = Inl e" "s' = s1"
      using run f by (simp_all add: SetRoutesForFamily_def bind_io_def)
    then show ?thesis
      using frame Inl by (auto simp: panicked_def)
  next
    case (Inr u)
    have "each_io (\<lambda>rd. if skips_family family (fst (rd_Destination rd)) then return_io ()
                     else add_route_data api luid rd) rds s1 = (r, s')"
      using run f Inr by (simp add: SetRoutesForFamily_def bind_io_def)
    from add_all_spec [OF routes valid this]
    show ?thesis
      using frame FlushRoutes_exact [OF routes free] f Inr
      by (auto simp: panicked_def intro: route_frame_trans)
  qed
qed

text \<open>
  C22: Against the documented behaviour of the route table, \<open>SetRoutes\<close> never touches the routes of
  another interface nor any address, frees every table it gets unless a call panics, and when it
  reports success the interface has exactly the given routes.
\<close>

theorem set_routes_exact:
  assumes "documented_routes api v" and "documented_free api v" and "\<forall>rd \<in> set rds. valid_route rd"
    and "SetRoutes api luid rds s = (r, s')"
  shows "other_routes luid (routes_of v s') = other_routes luid (routes_of v s) \<and>
    addresses_of v s' = addresses_of v s \<and>
    (panicked r \<or> tables_of v s' = tables_of v s) \<and>
    (r \<noteq> Inr () \<or> {x \<in> routes_of v s'. fst x = luid} = data_route luid ` set rds)"
  using SetRoutesForFamily_spec [OF assms(1-3), of luid AF_UNSPEC s r s'] assms(4)
  by (auto simp: SetRoutes_is_SetRoutesForFamily route_frame_def)

text \<open>
  For one family, \<open>SetRoutesForFamily\<close> keeps the interface's routes of the other family and
  replaces those of its own by the given routes of that family.
\<close>

theorem set_routes_for_family:
  assumes "documented_routes api v" and "documented_free api v" and "\<forall>rd \<in> set rds. valid_route rd"
    and "family \<in> {AF_INET, AF_INET6}"
    and "SetRoutesForFamily api luid family rds s = (Inr (), s')"
  shows "{x \<in> routes_of v s'. fst x = luid} =
    {x \<in> routes_of v s. fst x = luid \<and> \<not> in_family family (route_address x)} \<union>
    data_route luid ` {rd \<in> set rds. in_family family (fst (rd_Destination rd))}"
proof -
  have "skips_family family (fst (rd_Destination rd)) \<longleftrightarrow> \<not> in_family family (fst (rd_Destination rd))"
    if "rd \<in> set rds" for rd
    using that assms(3,4)
    by (intro skips_valid) (auto simp: valid_route_def valid_prefix_def split: option.splits)
  then have same: "{rd \<in> set rds. \<not> skips_family family (fst (rd_Destination rd))} =
      {rd \<in> set rds. in_family family (fst (rd_Destination rd))}"
    by blast
  show ?thesis
    using SetRoutesForFamily_spec [OF assms(1-3,5)] by (auto simp: same data_route_def)
qed

section \<open>Addresses\<close>

definition row_address :: "MibUnicastIPAddressRow \<Rightarrow> LUID \<times> Addr \<times> byte" where
  "row_address r = (uni_InterfaceLUID r, sockaddr_Addr (uni_Address r), uni_OnLinkPrefixLength r)"

text \<open>
  A failed deletion leaves the table as it is, a successful one removes the address it names,
  whatever the prefix length; creating adds the row.
\<close>

definition documented_addresses :: "'os ip_helper \<Rightarrow> 'os ip_view \<Rightarrow> bool" where
  "documented_addresses api v \<longleftrightarrow>
     (\<forall>family s r s'. getUnicastIPAddressTable api family s = (r, s') \<longrightarrow>
        addresses_of v s' = addresses_of v s \<and>
        (case r of
           Inl e \<Rightarrow> True
         | Inr (p, rows) \<Rightarrow> row_address ` set rows =
             {x \<in> addresses_of v s. in_family family (fst (snd x))})) \<and>
     (\<forall>row s r s'. deleteUnicastIPAddressEntry api row s = (r, s') \<longrightarrow>
        addresses_of v s' =
          (case r of
             Inl e \<Rightarrow> addresses_of v s
           | Inr _ \<Rightarrow> {x \<in> addresses_of v s. (fst x, fst (snd x)) \<noteq>
               (uni_InterfaceLUID row, sockaddr_Addr (uni_Address row))})) \<and>
     (\<forall>row s r s'. createUnicastIPAddressEntry api row s = (r, s') \<longrightarrow>
        addresses_of v s' =
          (case r of
             Inl e \<Rightarrow> addresses_of v s
           | Inr _ \<Rightarrow> insert (row_address row) (addresses_of v s)))"

lemma address_table:
  assumes "documented_addresses api v" and "getUnicastIPAddressTable api family s = (r, s')"
  shows "addresses_of v s' = addresses_of v s"
  using assms unfolding documented_addresses_def by simp

lemma address_delete:
  assumes "documented_addresses api v" and "deleteUnicastIPAddressEntry api row s = (r, s')"
  shows "addresses_of v s' =
    (case r of
       Inl e \<Rightarrow> addresses_of v s
     | Inr _ \<Rightarrow> {x \<in> addresses_of v s. (fst x, fst (snd x)) \<noteq>
         (uni_InterfaceLUID row, sockaddr_Addr (uni_Address row))})"
  using assms unfolding documented_addresses_def by simp

lemma address_create:
  assumes "documented_addresses api v" and "createUnicastIPAddressEntry api row s = (r, s')"
  shows "addresses_of v s' =
    (case r of
       Inl e \<Rightarrow> addresses_of v s
     | Inr _ \<Rightarrow> insert (row_address row) (addresses_of v s))"
  using assms unfolding documented_addresses_def by simp

definition other_addresses :: "LUID \<Rightarrow> (LUID \<times> Addr \<times> byte) set \<Rightarrow> (LUID \<times> Addr \<times> byte) set" where
  "other_addresses luid A = {x \<in> A. fst x \<noteq> luid}"

definition prefix_address :: "LUID \<Rightarrow> Prefix \<Rightarrow> LUID \<times> Addr \<times> byte" where
  "prefix_address luid p = (luid, fst p, uint8_Bits p)"

lemma flush_addresses_frame:
  assumes "documented_addresses api v" and "flush_address_rows api luid rows s = (r, s')"
  shows "other_addresses luid (addresses_of v s') = other_addresses luid (addresses_of v s) \<and>
    addresses_of v s' \<subseteq> addresses_of v s"
  using assms(2)
proof (induction rows arbitrary: s)
  case (Cons row rows)
  obtain d s1 where d: "deleteUnicastIPAddressEntry api row s = (d, s1)"
    by fastforce
  show ?case
  proof (cases "uni_InterfaceLUID row = luid")
    case True
    have "other_addresses luid (addresses_of v s1) = other_addresses luid (addresses_of v s) \<and>
        addresses_of v s1 \<subseteq> addresses_of v s"
      using address_delete [OF assms(1) d] True
      by (auto simp: other_addresses_def split: sum.splits)
    moreover have "s' = s1 \<or> flush_address_rows api luid rows s1 = (r, s')"
      using Cons.prems True d by (auto split: sum.splits failure.splits)
    ultimately show ?thesis
      using Cons.IH [of s1] by blast
  next
    case False
    then show ?thesis
      using Cons by simp
  qed
qed simp

lemma AddIPAddress_spec:
  assumes "documented_addresses api v" and "valid_prefix p" and "numeric_zone (fst p)"
    and "AddIPAddress api luid p s = (r, s')"
  shows "addresses_of v s' =
    (case r of Inl e \<Rightarrow> addresses_of v s | Inr _ \<Rightarrow> insert (prefix_address luid p) (addresses_of v s))"
proof -
  let ?row = "(initializeUnicastIPAddressEntry api zero_unicast_row)
                  \<lparr>uni_InterfaceLUID := luid, uni_DadState := DadStatePreferred,
                   uni_ValidLifetime := 0xffffffff, uni_PreferredLifetime := 0xffffffff\<rparr>"
  have "addr_wf (fst p)" "fst p \<noteq> AddrZero"
    using assms(2) by (auto simp: valid_prefix_def split: option.splits)
  then obtain raw where raw: "SetAddr (uni_Address ?row) (fst p) = Inr raw" "sockaddr_Addr raw = fst p"
    using SetAddr_reads [OF _ assms(3)] by blast
  have "createUnicastIPAddressEntry api
      (?row\<lparr>uni_Address := raw, uni_OnLinkPrefixLength := uint8_Bits p\<rparr>) s = (r, s')"
    using assms(4) raw(1) by (simp add: AddIPAddress_def Let_def)
  from address_create [OF assms(1) this] show ?thesis
    using raw(2) by (simp add: row_address_def prefix_address_def split: sum.split)
qed

lemma AddIPAddresses_spec:
  assumes "documented_addresses api v"
    and "\<forall>p \<in> set ps. valid_prefix p \<and> numeric_zone (fst p)"
    and "AddIPAddresses api luid ps s = (r, s')"
  shows "addresses_of v s \<subseteq> addresses_of v s' \<and>
    addresses_of v s' \<subseteq> addresses_of v s \<union> prefix_address luid ` set ps \<and>
    (r = Inr () \<longrightarrow> prefix_address luid ` set ps \<subseteq> addresses_of v s')"
  using assms(2,3)
proof (induction ps arbitrary: s)
  case Nil
  then show ?case
    by (simp add: AddIPAddresses_def return_io_def)
next
  case (Cons p ps)
  obtain a s1 where a: "AddIPAddress api luid p s = (a, s1)"
    by fastforce
  have step: "addresses_of v s1 =
      (case a of Inl e \<Rightarrow> addresses_of v s | Inr _ \<Rightarrow> insert (prefix_address luid p) (addresses_of v s))"
    using AddIPAddress_spec [OF assms(1) _ _ a] Cons.prems(1) by simp
  show ?case
  proof (cases a)
    case (Inl e)
    then have "r = Inl e" "s' = s1"
      using Cons.prems(2) a by (simp_all add: AddIPAddresses_def bind_io_def)
    then show ?thesis
      using step Inl by auto
  next
    case (Inr u)
    then have "AddIPAddresses api luid ps s1 = (r, s')"
      using Cons.prems(2) a by (simp add: AddIPAddresses_def bind_io_def)
    then show ?thesis
      using Cons.IH [of s1] Cons.prems(1) step Inr by auto
  qed
qed

text \<open>
  \<open>SetIPAddresses\<close> never touches an address of another interface, and adds nothing but the given
  addresses; when it reports success the interface has all of them.
\<close>

theorem set_addresses_present:
  assumes "documented_addresses api v" and "documented_free api v"
    and "\<forall>p \<in> set ps. valid_prefix p \<and> numeric_zone (fst p)"
    and "SetIPAddresses api luid ps s = (r, s')"
  shows "other_addresses luid (addresses_of v s') = other_addresses luid (addresses_of v s) \<and>
    addresses_of v s' \<subseteq> addresses_of v s \<union> prefix_address luid ` set ps \<and>
    (r \<noteq> Inr () \<or> prefix_address luid ` set ps \<subseteq> addresses_of v s')"
proof -
  obtain f s1 where f: "FlushIPAddresses api luid AF_UNSPEC s = (f, s1)"
    by fastforce
  obtain t s2 where t: "getUnicastIPAddressTable api AF_UNSPEC s = (t, s2)"
    by fastforce
  have flushed: "other_addresses luid (addresses_of v s1) = other_addresses luid (addresses_of v s) \<and>
      addresses_of v s1 \<subseteq> addresses_of v s"
  proof (cases t)
    case (Inl e)
    then show ?thesis
      using f t address_table [OF assms(1) t] by (auto simp: FlushIPAddresses_def bind_io_def)
  next
    case (Inr tr)
    obtain tab rows where tr: "tr = (tab, rows)"
      by (cases tr)
    obtain d s3 where d: "flush_address_rows api luid rows s2 = (d, s3)"
      by fastforce
    have "addresses_of v s1 = addresses_of v s3"
      using f t d Inr tr free_documented [OF assms(2), of tab s3 f s1]
      by (cases d) (simp_all add: FlushIPAddresses_def bind_io_def)
    then show ?thesis
      using flush_addresses_frame [OF assms(1) d] address_table [OF assms(1) t] by simp
  qed
  show ?thesis
  proof (cases f)
    case (Inl e)
    then have "r = Inl e" "s' = s1"
      using assms(4) f by (simp_all add: SetIPAddresses_def bind_io_def)
    then show ?thesis
      using flushed by auto
  next
    case (Inr u)
    then have "AddIPAddresses api luid ps s1 = (r, s')"
      using assms(4) f by (simp add: SetIPAddresses_def bind_io_def)
    from AddIPAddresses_spec [OF assms(1,3) this] flushed show ?thesis
      by (auto simp: other_addresses_def prefix_address_def)
  qed
qed

section \<open>A small system, for the witnesses\<close>

text \<open>
  Routes and addresses as lists of rows; one table can be allocated at a time, and the address
  rows can be locked against deletion.
\<close>

record demo_os =
  demo_routes :: "MibIPforwardRow2 list"
  demo_addresses :: "MibUnicastIPAddressRow list"
  demo_table :: bool
  demo_locked :: bool

definition demo_table_of :: "(demo_os \<Rightarrow> 'r list) \<Rightarrow> (demo_os, u64 \<times> 'r list) io" where
  "demo_table_of rows s =
     (if demo_table s then (Inl (Err ''busy''), s)
      else (Inr (1, rows s), s\<lparr>demo_table := True\<rparr>))"

definition unsupported :: "'a \<Rightarrow> ('os, 'b) io" where
  "unsupported x = raise_io (Err ''unsupported'')"

definition demo_api :: "demo_os ip_helper" where
  "demo_api =
     \<lparr>initializeIPInterfaceEntry = id, getIPInterfaceEntry = unsupported,
      setIPInterfaceEntry = unsupported, getIPInterfaceTable = unsupported,
      getIfEntry2 = unsupported, getIfTable2Ex = unsupported,
      convertInterfaceLUIDToGUID = unsupported, convertInterfaceGUIDToLUID = unsupported,
      convertInterfaceIndexToLUID = unsupported,
      initializeUnicastIPAddressEntry = id, getUnicastIPAddressEntry = unsupported,
      setUnicastIPAddressEntry = unsupported,
      createUnicastIPAddressEntry = (\<lambda>row s. (Inr (), s\<lparr>demo_addresses := row # demo_addresses s\<rparr>)),
      deleteUnicastIPAddressEntry = (\<lambda>row s.
        if demo_locked s then (Inl (Err ''locked''), s)
        else (Inr (), s\<lparr>demo_addresses := filter (\<lambda>x. (uni_InterfaceLUID x, sockaddr_Addr (uni_Address x)) \<noteq>
               (uni_InterfaceLUID row, sockaddr_Addr (uni_Address row))) (demo_addresses s)\<rparr>)),
      getUnicastIPAddressTable = (\<lambda>family. demo_table_of (\<lambda>s.
        filter (\<lambda>x. in_family family (sockaddr_Addr (uni_Address x))) (demo_addresses s))),
      getAnycastIPAddressEntry = unsupported, createAnycastIPAddressEntry = unsupported,
      deleteAnycastIPAddressEntry = unsupported, getAnycastIPAddressTable = unsupported,
      initializeIPForwardEntry = id, getIPForwardEntry2 = return_io, setIPForwardEntry2 = unsupported,
      createIPForwardEntry2 = (\<lambda>row s. (Inr (), s\<lparr>demo_routes := row # demo_routes s\<rparr>)),
      deleteIPForwardEntry2 = (\<lambda>row s. (Inr (), s\<lparr>demo_routes :=
        filter (\<lambda>x. route_key (row_route x) \<noteq> route_key (row_route row)) (demo_routes s)\<rparr>)),
      getIPForwardTable2 = (\<lambda>family. demo_table_of (\<lambda>s.
        filter (\<lambda>x. in_family family (route_address (row_route x))) (demo_routes s))),
      freeMibTable = (\<lambda>p s. (Inr (), if p = 1 then s\<lparr>demo_table := False\<rparr> else s))\<rparr>"

definition demo_view :: "demo_os ip_view" where
  "demo_view =
     \<lparr>routes_of = (\<lambda>s. row_route ` set (demo_routes s)),
      addresses_of = (\<lambda>s. row_address ` set (demo_addresses s)),
      tables_of = (\<lambda>s. if demo_table s then {1} else {})\<rparr>"

lemma demo_calls [simp]:
  "initializeUnicastIPAddressEntry demo_api r = r"
  "createUnicastIPAddressEntry demo_api row s = (Inr (), s\<lparr>demo_addresses := row # demo_addresses s\<rparr>)"
  "deleteUnicastIPAddressEntry demo_api row s =
     (if demo_locked s then (Inl (Err ''locked''), s)
      else (Inr (), s\<lparr>demo_addresses := filter (\<lambda>x. (uni_InterfaceLUID x, sockaddr_Addr (uni_Address x)) \<noteq>
             (uni_InterfaceLUID row, sockaddr_Addr (uni_Address row))) (demo_addresses s)\<rparr>))"
  "getUnicastIPAddressTable demo_api family s =
     demo_table_of (\<lambda>s. filter (\<lambda>x. in_family family (sockaddr_Addr (uni_Address x))) (demo_addresses s)) s"
  "initializeIPForwardEntry demo_api f = f"
  "createIPForwardEntry2 demo_api fwd s = (Inr (), s\<lparr>demo_routes := fwd # demo_routes s\<rparr>)"
  "deleteIPForwardEntry2 demo_api fwd s =
     (Inr (), s\<lparr>demo_routes :=
        filter (\<lambda>x. route_key (row_route x) \<noteq> route_key (row_route fwd)) (demo_routes s)\<rparr>)"
  "getIPForwardTable2 demo_api family s =
     demo_table_of (\<lambda>s. filter (\<lambda>x. in_family family (route_address (row_route x))) (demo_routes s)) s"
  "freeMibTable demo_api p s = (Inr (), if p = 1 then s\<lparr>demo_table := False\<rparr> else s)"
  by (simp_all only: demo_api_def ip_helper.simps id_apply)

lemma demo_parts [simp]:
  "routes_of demo_view s = row_route ` set (demo_routes s)"
  "addresses_of demo_view s = row_address ` set (demo_addresses s)"
  "tables_of demo_view s = (if demo_table s then {1} else {})"
  by (simp_all add: demo_view_def)

lemma demo_documented_routes: "documented_routes demo_api demo_view"
  by (auto simp: documented_routes_def demo_table_of_def split: if_splits)

lemma demo_documented_free: "documented_free demo_api demo_view"
  by (auto simp: documented_free_def)

lemma row_address_parts:
  "fst (row_address r) = uni_InterfaceLUID r" "fst (snd (row_address r)) = sockaddr_Addr (uni_Address r)"
  "x = row_address r \<longleftrightarrow> fst x = uni_InterfaceLUID r \<and> fst (snd x) = sockaddr_Addr (uni_Address r) \<and>
     snd (snd x) = uni_OnLinkPrefixLength r"
  by (auto simp: row_address_def prod_eq_iff)

lemma demo_documented_addresses: "documented_addresses demo_api demo_view"
  unfolding documented_addresses_def
  by (intro conjI allI impI; auto simp: demo_table_of_def row_address_parts image_iff split: if_splits; blast)

definition demo_start :: demo_os where
  "demo_start =
     \<lparr>demo_routes = [],
      demo_addresses =
        [zero_unicast_row\<lparr>uni_Address := \<lparr>Family = AF_INET, sa_data = [0, 0, 10, 0, 0, 9]\<rparr>,
                          uni_InterfaceLUID := 7, uni_OnLinkPrefixLength := 24\<rparr>],
      demo_table = False, demo_locked = True\<rparr>"

definition demo_data :: RouteData where
  "demo_data =
     \<lparr>rd_Destination = (AddrV4 [10, 0, 0, 0], Some 8), rd_NextHop = AddrV4 [10, 0, 0, 1], rd_Metric = 5\<rparr>"

lemma demo_valid: "valid_route demo_data"
  by (simp add: valid_route_def valid_prefix_def demo_data_def)

lemmas demo_simps = demo_start_def demo_table_of_def bind_io_def return_io_def
  SetRoutes_def SetRoutesForFamily_def FlushRoutes_def AddRoutes_def add_route_data_def AddRoute_def
  fill_route_def SetPrefix_def SetAddr_def SetAddrPort_def demo_data_def lift_io_def
  skips_family_def

lemma set_routes_exact_witness:
  "{x \<in> routes_of demo_view (snd (SetRoutes demo_api 7 [demo_data] demo_start)). fst x = 7} =
     {data_route 7 demo_data}"
proof -
  have "fst (SetRoutes demo_api 7 [demo_data] demo_start) = Inr ()"
    by (simp add: demo_simps)
  then show ?thesis
    using set_routes_exact [OF demo_documented_routes demo_documented_free, of "[demo_data]" 7 demo_start
        "Inr ()" "snd (SetRoutes demo_api 7 [demo_data] demo_start)"] demo_valid
    by (simp add: prod_eq_iff)
qed

lemma set_routes_for_family_witness:
  "{x \<in> routes_of demo_view (snd (SetRoutesForFamily demo_api 7 AF_INET [demo_data] demo_start)). fst x = 7} =
     {data_route 7 demo_data}"
proof -
  have "fst (SetRoutesForFamily demo_api 7 AF_INET [demo_data] demo_start) = Inr ()"
    by (simp add: demo_simps)
  moreover have "routes_of demo_view demo_start = {}"
    by (simp add: demo_start_def)
  moreover have "in_family AF_INET (fst (rd_Destination demo_data))"
    by (simp add: in_family_def demo_data_def)
  moreover from this have "{rd. rd = demo_data \<and> in_family AF_INET (fst (rd_Destination rd))} = {demo_data}"
    by auto
  ultimately show ?thesis
    using set_routes_for_family [OF demo_documented_routes demo_documented_free, of "[demo_data]" AF_INET 7
        demo_start "snd (SetRoutesForFamily demo_api 7 AF_INET [demo_data] demo_start)"] demo_valid
    by (simp add: prod_eq_iff)
qed

definition demo_prefix :: Prefix where
  "demo_prefix = (AddrV4 [10, 0, 0, 2], Some 24)"

lemmas demo_address_simps = demo_start_def demo_table_of_def bind_io_def return_io_def
  lift_io_def SetIPAddresses_def FlushIPAddresses_def AddIPAddresses_def AddIPAddress_def
  SetAddr_def SetAddrPort_def demo_prefix_def Let_def

lemma set_addresses_present_witness:
  "prefix_address 7 demo_prefix \<in>
     addresses_of demo_view (snd (SetIPAddresses demo_api 7 [demo_prefix] demo_start))"
proof -
  have "fst (SetIPAddresses demo_api 7 [demo_prefix] demo_start) = Inr ()"
    by (simp add: demo_address_simps)
  then show ?thesis
    using set_addresses_present [OF demo_documented_addresses demo_documented_free, of "[demo_prefix]" 7
        demo_start "Inr ()" "snd (SetIPAddresses demo_api 7 [demo_prefix] demo_start)"]
    by (simp add: prod_eq_iff valid_prefix_def demo_prefix_def)
qed

text \<open>
  \<open>FlushIPAddresses\<close> ignores the result of each deletion, where \<open>FlushRoutes\<close> returns the last error:
  when the system refuses, \<open>SetIPAddresses\<close> reports success and the old address is still there.
\<close>

theorem flush_addresses_silent:
  "fst (SetIPAddresses demo_api 7 [demo_prefix] demo_start) = Inr () \<and>
   (7, AddrV4 [10, 0, 0, 9], 24) \<in>
     addresses_of demo_view (snd (SetIPAddresses demo_api 7 [demo_prefix] demo_start))"
  by (simp add: demo_address_simps row_address_def sockaddr_Addr_def)

end
