(* ===== verification/Win_Dns.thy ===== *)
theory Win_Dns
  imports Win_Ip
begin

text \<open>
  The adapter list and the DNS settings of an interface: \<open>GetAdaptersAddresses\<close> and
  \<open>SetInterfaceDnsSettings\<close> of \<open>winipcfg/winipcfg.go\<close>, the DNS methods of \<open>winipcfg/luid.go\<close>, and the
  fallback of \<open>winipcfg/netsh.go\<close> for old systems, which drives \<open>netsh.exe\<close> and the registry.

  The calls that leave the package are the parameter \<open>api\<close>. The texts of formatted errors are not
  modelled beyond a name.
\<close>

section \<open>The system's functions\<close>

text \<open>
  A buffer filled by the system: nodes at addresses, linked by addresses, 0 being nil. \<open>dns_IP\<close> is
  what \<open>SocketAddress.IP()\<close> returns for the node, None being nil.
\<close>

record dns_node =
  dns_IP :: "IP option"
  dns_Next :: u64

record adapter_node =
  ad_LUID :: LUID
  ad_FirstDNSServerAddress :: u64
  ad_Next :: u64

record adapter_list =
  ad_first :: u64
  ad_nodes :: "u64 \<Rightarrow> adapter_node"
  ad_dns :: "u64 \<Rightarrow> dns_node"

text \<open>The members the package sets; the other pointers of the structure are nil.\<close>

record DnsInterfaceSettings =
  ds_Version :: u32
  ds_Flags :: u64
  ds_NameServer :: "string option"
  ds_SearchList :: "string option"
  ds_RegistrationEnabled :: u32

record 'os dns_helper =
  helper :: "'os ip_helper"
  windowsGetAdaptersAddresses ::
    "u16 \<Rightarrow> u32 \<Rightarrow> u32 \<Rightarrow> 'os \<Rightarrow> (failure option \<times> u32 \<times> adapter_list) \<times> 'os"
  setInterfaceDnsSettingsByPtr :: "bytes \<Rightarrow> DnsInterfaceSettings \<Rightarrow> ('os, unit) io"
  setInterfaceDnsSettingsByQwords :: "u64 \<Rightarrow> u64 \<Rightarrow> DnsInterfaceSettings \<Rightarrow> ('os, unit) io"
  setInterfaceDnsSettingsByDwords ::
    "u32 \<Rightarrow> u32 \<Rightarrow> u32 \<Rightarrow> u32 \<Rightarrow> DnsInterfaceSettings \<Rightarrow> ('os, unit) io"
  GetSystemDirectory :: "('os, string) io"
  StdinPipe :: "('os, unit) io"
  CombinedOutput :: "string \<Rightarrow> string \<Rightarrow> 'os \<Rightarrow> (string \<times> failure option) \<times> 'os"
  OpenKey :: "string \<Rightarrow> u32 \<Rightarrow> ('os, u64) io"
  GetStringsValue :: "u64 \<Rightarrow> string \<Rightarrow> ('os, string list) io"
  SetStringValue :: "u64 \<Rightarrow> string \<Rightarrow> string \<Rightarrow> ('os, unit) io"
  CloseKey :: "u64 \<Rightarrow> 'os \<Rightarrow> 'os"
  GUID_String :: "bytes \<Rightarrow> string"

section \<open>The adapters (winipcfg.go)\<close>

definition buffer_overflow :: failure where
  "buffer_overflow = Err ''ERROR_BUFFER_OVERFLOW''"

text \<open>
  The loop that grows the buffer; \<open>len\<close> is the length of the buffer of this turn. It goes on only
  when the system asks for more, so it ends whatever the system answers.
\<close>

function grow_buffer ::
  "'os dns_helper \<Rightarrow> u16 \<Rightarrow> u32 \<Rightarrow> u32 \<Rightarrow> 'os \<Rightarrow> adapter_list outcome \<times> 'os" where
  "grow_buffer api family flags len s =
     (case windowsGetAdaptersAddresses api family flags len s of
        ((None, len', b), s') \<Rightarrow> (Inr b, s')
      | ((Some err, len', b), s') \<Rightarrow>
          if err \<noteq> buffer_overflow \<or> len' \<le> len then (Inl err, s')
          else grow_buffer api family flags len' s')"
  by pat_completeness auto
termination
proof (relation "measure (\<lambda>(api, family, flags, len, s). 2 ^ 32 - unat (len :: u32))", goal_cases)
  case (2 api family flags len s x s' err y err' len' b)
  then have "unat len < unat len'"
    by (simp add: not_le word_less_nat_alt)
  moreover have "unat len' < 2 ^ 32"
    using unsigned_less [of len', where 'a = nat] by simp
  ultimately show ?case
    by simp
qed simp

declare grow_buffer.simps [simp del]

text \<open>Following \<open>Next\<close> from a node, as the \<open>for\<close> loops do; None is a loop that does not end.\<close>

partial_function (option) follow :: "(u64 \<Rightarrow> u64) \<Rightarrow> u64 \<Rightarrow> u64 list option" where
  "follow next p =
     (if p = 0 then Some []
      else Option.bind (follow next (next p)) (\<lambda>ps. Some (p # ps)))"

definition GetAdaptersAddresses ::
  "'os dns_helper \<Rightarrow> u16 \<Rightarrow> u32 \<Rightarrow> 'os \<Rightarrow> ((u64 list \<times> adapter_list) outcome \<times> 'os) option" where
  "GetAdaptersAddresses api family flags s =
     (case grow_buffer api family flags 15000 s of
        (Inl err, s') \<Rightarrow> Some (Inl err, s')
      | (Inr b, s') \<Rightarrow>
          Option.bind (follow (\<lambda>p. ad_Next (ad_nodes b p)) (ad_first b)) (\<lambda>result.
            Some (Inr (result, b), s')))"

text \<open>The inner loop of \<open>LUID.DNS\<close> over the addresses of one adapter; \<open>r\<close> is the slice so far.\<close>

fun append_dns :: "IP option list \<Rightarrow> Addr list \<Rightarrow> Addr list outcome" where
  "append_dns [] r = Inr r"
| "append_dns (None # ips) r = Inl (Err ''ERROR_INVALID_PARAMETER'')"
| "append_dns (Some ip # ips) r =
     append_dns ips (case AddrFromSlice ip of AddrZero \<Rightarrow> r | a \<Rightarrow> r @ [a])"

fun adapters_dns ::
  "LUID \<Rightarrow> adapter_list \<Rightarrow> u64 list \<Rightarrow> Addr list \<Rightarrow> Addr list outcome option" where
  "adapters_dns luid b [] r = Some (Inr r)"
| "adapters_dns luid b (p # ps) r =
     (if ad_LUID (ad_nodes b p) = luid then
        Option.bind (follow (\<lambda>q. dns_Next (ad_dns b q)) (ad_FirstDNSServerAddress (ad_nodes b p))) (\<lambda>qs.
          case append_dns (map (\<lambda>q. dns_IP (ad_dns b q)) qs) r of
            Inl e \<Rightarrow> Some (Inl e)
          | Inr r' \<Rightarrow> adapters_dns luid b ps r')
      else adapters_dns luid b ps r)"

definition LUID_DNS ::
  "'os dns_helper \<Rightarrow> LUID \<Rightarrow> 'os \<Rightarrow> (Addr list outcome \<times> 'os) option" where
  "LUID_DNS api luid s =
     Option.bind (GetAdaptersAddresses api AF_UNSPEC 0 s) (\<lambda>(r, s').
       case r of
         Inl e \<Rightarrow> Some (Inl e, s')
       | Inr (addresses, b) \<Rightarrow> map_option (\<lambda>r. (r, s')) (adapters_dns luid b addresses []))"

section \<open>The settings call (winipcfg.go)\<close>

datatype goarch = amd64 | arm64 | arm | i386 | other_arch

text \<open>\<open>(*[4]uintptr)(unsafe.Pointer(&guid))\<close>: the architectures are little-endian.\<close>

definition le_word :: "bytes \<Rightarrow> 'w :: len word" where
  "le_word bs = foldr (\<lambda>b acc. push_bit 8 acc OR ucast b) bs 0"

definition SetInterfaceDnsSettings ::
  "'os dns_helper \<Rightarrow> goarch \<Rightarrow> bytes \<Rightarrow> DnsInterfaceSettings \<Rightarrow> ('os, unit) io" where
  "SetInterfaceDnsSettings api arch guid settings =
     (case arch of
        amd64 \<Rightarrow> setInterfaceDnsSettingsByPtr api guid settings
      | arm64 \<Rightarrow>
          setInterfaceDnsSettingsByQwords api (le_word (take 8 guid)) (le_word (drop 8 guid)) settings
      | arm \<Rightarrow>
          setInterfaceDnsSettingsByDwords api (le_word (take 4 guid)) (le_word (take 4 (drop 4 guid)))
            (le_word (take 4 (drop 8 guid))) (le_word (drop 12 guid)) settings
      | i386 \<Rightarrow>
          setInterfaceDnsSettingsByDwords api (le_word (take 4 guid)) (le_word (take 4 (drop 4 guid)))
            (le_word (take 4 (drop 8 guid))) (le_word (drop 12 guid)) settings
      | other_arch \<Rightarrow> raise_io (Panic ''unknown calling convention''))"

section \<open>netsh (netsh.go)\<close>

text \<open>\<open>bytes.ReplaceAll\<close> for a separator that is not empty.\<close>

function replace_all :: "string \<Rightarrow> string \<Rightarrow> string \<Rightarrow> string" where
  "replace_all old new [] = []"
| "replace_all old new (c # cs) =
     (if old \<noteq> [] \<and> take (length old) (c # cs) = old
      then new @ replace_all old new (drop (length old) (c # cs))
      else c # replace_all old new cs)"
  by pat_completeness auto
termination
  by (relation "measure (\<lambda>(old, new, s). length s)") (auto simp: Suc_le_eq)

text \<open>
  \<open>bytes.TrimSpace\<close>: the encodings in UTF-8 of the characters that are white space, which it cuts
  from both ends.
\<close>

definition white_space :: "string list" where
  "white_space =
     map (\<lambda>n. [char_of (n :: nat)]) [9, 10, 11, 12, 13, 32] @
     map (map char_of)
       ([[0xC2, 0x85], [0xC2, 0xA0], [0xE1, 0x9A, 0x80], [0xE2, 0x80, 0xA8], [0xE2, 0x80, 0xA9],
         [0xE2, 0x80, 0xAF], [0xE2, 0x81, 0x9F], [0xE3, 0x80, 0x80 :: nat]] @
        map (\<lambda>n. [0xE2, 0x80, n]) [0x80..<0x8B])"

function trim_left :: "string list \<Rightarrow> string \<Rightarrow> string" where
  "trim_left ws s =
     (case find (\<lambda>w. w \<noteq> [] \<and> take (length w) s = w) ws of
        None \<Rightarrow> s | Some w \<Rightarrow> trim_left ws (drop (length w) s))"
  by pat_completeness auto
termination
proof (relation "measure (\<lambda>(ws, s). length s)", goal_cases)
  case (2 ws s w)
  then have "w \<noteq> []" "take (length w) s = w"
    by (auto simp: find_Some_iff)
  then show ?case
    by (cases s) auto
qed simp

declare trim_left.simps [simp del]

definition TrimSpace :: "string \<Rightarrow> string" where
  "TrimSpace s = rev (trim_left (map rev white_space) (rev (trim_left white_space s)))"

definition CRLF :: string where "CRLF = [CHR 0x0D, CHR 0x0A]"

definition cleaned_output :: "string \<Rightarrow> string" where
  "cleaned_output output =
     TrimSpace
       (replace_all ''There are no Domain Name Servers (DNS) configured on this computer.'' []
         (replace_all ''netsh>'' [] (replace_all CRLF [CHR 0x0A] output)))"

definition netsh_input :: "string list \<Rightarrow> string" where
  "netsh_input cmds = join_with CRLF (cmds @ [''exit'' @ CRLF])"

text \<open>\<open>filepath.Join\<close> on the system directory, which the system returns in clean form.\<close>

definition runNetsh :: "'os dns_helper \<Rightarrow> string list \<Rightarrow> ('os, unit) io" where
  "runNetsh api cmds =
     bind_io (GetSystemDirectory api) (\<lambda>system32.
       bind_io (StdinPipe api) (\<lambda>_ s.
         case CombinedOutput api (system32 @ CHR 92 # ''netsh.exe'') (netsh_input cmds) s of
           ((output, err), s') \<Rightarrow>
             if cleaned_output output \<noteq> [] \<and> err = None then (Inl (Err ''netsh''), s')
             else if err \<noteq> None then (Inl (Err ''netsh''), s')
             else (Inr (), s')))"

definition netsh_flush4 :: "nat \<Rightarrow> string" where
  "netsh_flush4 name =
     ''interface ipv4 set dnsservers name='' @ itoa name @ '' source=static address=none validate=no''"

definition netsh_flush6 :: "nat \<Rightarrow> string" where
  "netsh_flush6 name =
     ''interface ipv6 set dnsservers name='' @ itoa name @ '' source=static address=none validate=no''"

definition netsh_add4 :: "nat \<Rightarrow> string \<Rightarrow> string" where
  "netsh_add4 name address =
     ''interface ipv4 add dnsservers name='' @ itoa name @ '' address='' @ address @ '' validate=no''"

definition netsh_add6 :: "nat \<Rightarrow> string \<Rightarrow> string" where
  "netsh_add6 name address =
     ''interface ipv6 add dnsservers name='' @ itoa name @ '' address='' @ address @ '' validate=no''"

definition netsh_disable_registration :: "nat \<Rightarrow> string" where
  "netsh_disable_registration name =
     ''interface ipv6 set dnsservers name='' @ itoa name @ '' register=none''"

text \<open>
  \<open>fmt.Sprintf\<close> with an empty template and one argument, for a family that is neither.
\<close>

definition flush_command :: "u16 \<Rightarrow> nat \<Rightarrow> string" where
  "flush_command family name =
     (if family = AF_INET then netsh_flush4 name
      else if family = AF_INET6 then netsh_flush6 name
      else ''%!(EXTRA uint32='' @ itoa name @ '')'')"

fun add_commands :: "u16 \<Rightarrow> nat \<Rightarrow> Addr list \<Rightarrow> string list" where
  "add_commands family name [] = []"
| "add_commands family name (d # ds) =
     (if Is4 d \<and> family = AF_INET then netsh_add4 name (Addr_String d) # add_commands family name ds
      else if Is6 d \<and> family = AF_INET6 then netsh_add6 name (Addr_String d) # add_commands family name ds
      else add_commands family name ds)"

definition IPInterface_io :: "'os dns_helper \<Rightarrow> LUID \<Rightarrow> u16 \<Rightarrow> ('os, MibIPInterfaceRow) io" where
  "IPInterface_io api luid family s =
     (case getIPInterfaceEntry (helper api) ((initializeIPInterfaceEntry (helper api) zero_ip_row)
             \<lparr>if_InterfaceLUID := luid, if_Family := family\<rparr>) s of
        (entry, s') \<Rightarrow>
          (LUID_IPInterface (initializeIPInterfaceEntry (helper api)) (\<lambda>_. entry) luid family, s'))"

definition fallbackSetDNSForFamily ::
  "'os dns_helper \<Rightarrow> LUID \<Rightarrow> u16 \<Rightarrow> Addr list \<Rightarrow> ('os, unit) io" where
  "fallbackSetDNSForFamily api luid family dnses =
     bind_io (IPInterface_io api luid family) (\<lambda>ipif.
       let name = unat (if_InterfaceIndex ipif)
       in runNetsh api (flush_command family name # add_commands family name dnses))"

definition QUERY_VALUE :: u32 where "QUERY_VALUE = 1"

definition SET_VALUE :: u32 where "SET_VALUE = 2"

text \<open>The backslash-separated path of a registry key.\<close>

definition key_path :: "string list \<Rightarrow> string" where
  "key_path = join_with [CHR 92]"

definition fallbackSetDNSDomain :: "'os dns_helper \<Rightarrow> LUID \<Rightarrow> string \<Rightarrow> ('os, unit) io" where
  "fallbackSetDNSDomain api luid domain =
     bind_io (LUID_GUID (helper api) luid) (\<lambda>guid.
       bind_io (OpenKey api (key_path [''SYSTEM'', ''CurrentControlSet'', ''Services'', ''Tcpip'',
                  ''Parameters'', ''Adapters'', GUID_String api guid]) QUERY_VALUE) (\<lambda>k s.
         let (paths, s1) = GetStringsValue api k ''IpConfig'' s; s2 = CloseKey api k s1
         in bind_io (lift_io paths) (\<lambda>ps.
              case ps of
                [] \<Rightarrow> raise_io (Err ''No TCP/IP interfaces found on adapter'')
              | path # _ \<Rightarrow>
                  bind_io (OpenKey api (key_path [''SYSTEM'', ''CurrentControlSet'', ''Services'', path])
                             SET_VALUE) (\<lambda>k s.
                    let (r, s1) = SetStringValue api k ''Domain'' domain s
                    in (r, CloseKey api k s1))) s2))"

definition fallbackDisableDNSRegistration :: "'os dns_helper \<Rightarrow> LUID \<Rightarrow> ('os, unit) io" where
  "fallbackDisableDNSRegistration api luid =
     bind_io (IPInterface_io api luid AF_INET) (\<lambda>ipif.
       runNetsh api [netsh_disable_registration (unat (if_InterfaceIndex ipif))])"

section \<open>Setting the servers (luid.go)\<close>

definition proc_not_found :: failure where
  "proc_not_found = Err ''ERROR_PROC_NOT_FOUND''"

definition filtered_servers :: "u16 \<Rightarrow> Addr list \<Rightarrow> string list" where
  "filtered_servers family servers =
     map Addr_String (filter (\<lambda>a. Is4 a \<and> family = AF_INET \<or> Is6 a \<and> family = AF_INET6) servers)"

definition dns_settings :: "u16 \<Rightarrow> string \<Rightarrow> string \<Rightarrow> DnsInterfaceSettings" where
  "dns_settings family servers16 domains16 =
     \<lparr>ds_Version = 1, ds_Flags = 0x2 OR 0x4 OR (if family = AF_INET6 then 0x1 else 0),
      ds_NameServer = Some servers16, ds_SearchList = Some domains16, ds_RegistrationEnabled = 0\<rparr>"

definition SetDNS ::
  "'os dns_helper \<Rightarrow> goarch \<Rightarrow> LUID \<Rightarrow> u16 \<Rightarrow> Addr list \<Rightarrow> string list \<Rightarrow> ('os, unit) io" where
  "SetDNS api arch luid family servers domains =
     (if family \<noteq> AF_INET \<and> family \<noteq> AF_INET6 then raise_io (Err ''ERROR_PROTOCOL_UNREACHABLE'')
      else
        bind_io (lift_io (UTF16PtrFromString (join_with '','' (filtered_servers family servers)))) (\<lambda>servers16.
        bind_io (lift_io (UTF16PtrFromString (join_with '','' domains))) (\<lambda>domains16.
        bind_io (LUID_GUID (helper api) luid) (\<lambda>guid s.
          case SetInterfaceDnsSettings api arch guid (dns_settings family servers16 domains16) s of
            (r, s') \<Rightarrow>
              if r \<noteq> Inl proc_not_found then (r, s')
              else
                bind_io (fallbackSetDNSForFamily api luid family servers) (\<lambda>_.
                  case domains of
                    [] \<Rightarrow> fallbackSetDNSDomain api luid []
                  | d # _ \<Rightarrow> fallbackSetDNSDomain api luid d) s'))))"

definition FlushDNS :: "'os dns_helper \<Rightarrow> goarch \<Rightarrow> LUID \<Rightarrow> u16 \<Rightarrow> ('os, unit) io" where
  "FlushDNS api arch luid family = SetDNS api arch luid family [] []"

definition DisableDNSRegistration :: "'os dns_helper \<Rightarrow> goarch \<Rightarrow> LUID \<Rightarrow> ('os, unit) io" where
  "DisableDNSRegistration api arch luid =
     bind_io (LUID_GUID (helper api) luid) (\<lambda>guid s.
       case SetInterfaceDnsSettings api arch guid
              \<lparr>ds_Version = 1, ds_Flags = 0x8, ds_NameServer = None, ds_SearchList = None,
               ds_RegistrationEnabled = 0\<rparr> s of
         (r, s') \<Rightarrow>
           if r \<noteq> Inl proc_not_found then (r, s') else fallbackDisableDNSRegistration api luid s')"

section \<open>Reading the servers\<close>

lemma append_dns_spec:
  "append_dns ips r =
     (if None \<in> set ips then Inl (Err ''ERROR_INVALID_PARAMETER'')
      else Inr (r @ filter (\<lambda>a. a \<noteq> AddrZero) (map (\<lambda>i. AddrFromSlice (the i)) ips)))"
  by (induction ips r rule: append_dns.induct) (auto split: Addr.split)

text \<open>The DNS addresses of an adapter, when its list of nodes is finite.\<close>

definition node_ips :: "adapter_list \<Rightarrow> u64 \<Rightarrow> IP option list option" where
  "node_ips b p =
     map_option (map (\<lambda>q. dns_IP (ad_dns b q)))
       (follow (\<lambda>q. dns_Next (ad_dns b q)) (ad_FirstDNSServerAddress (ad_nodes b p)))"

lemma adapters_dns_spec:
  assumes "\<forall>p \<in> set ps. ad_LUID (ad_nodes b p) = luid \<longrightarrow> node_ips b p = Some (ips p) \<and> None \<notin> set (ips p)"
  shows "adapters_dns luid b ps r =
    Some (Inr (r @ concat (map (\<lambda>p. filter (\<lambda>a. a \<noteq> AddrZero) (map (\<lambda>i. AddrFromSlice (the i)) (ips p)))
      (filter (\<lambda>p. ad_LUID (ad_nodes b p) = luid) ps))))"
  using assms
proof (induction ps arbitrary: r)
  case (Cons p ps)
  show ?case
  proof (cases "ad_LUID (ad_nodes b p) = luid")
    case True
    then have "node_ips b p = Some (ips p)" and none: "None \<notin> set (ips p)"
      using Cons.prems by auto
    then obtain qs where "follow (\<lambda>q. dns_Next (ad_dns b q)) (ad_FirstDNSServerAddress (ad_nodes b p)) = Some qs"
        "ips p = map (\<lambda>q. dns_IP (ad_dns b q)) qs"
      by (auto simp: node_ips_def)
    then show ?thesis
      using Cons True none by (simp add: append_dns_spec)
  next
    case False
    then show ?thesis
      using Cons by simp
  qed
qed simp

section \<open>Both ways of setting the servers\<close>

lemma split_on_join:
  assumes "ws \<noteq> []" and "\<forall>w \<in> set ws. sep \<notin> set w"
  shows "split_on sep (join_with [sep] ws) = ws"
  using assms
proof (induction "[sep]" ws rule: join_with.induct)
  case (3 w v ws)
  then show ?case
    using split_on_append [of sep w "join_with [sep] (v # ws)"] by simp
qed (auto simp: split_on_no_sep)

definition LF :: char where "LF = CHR 0x0A"

definition CR :: char where "CR = CHR 0x0D"

lemma split_CRLF:
  assumes "\<forall>w \<in> set ws. LF \<notin> set w"
  shows "split_on LF (join_with CRLF (ws @ [w @ CRLF])) =
    map (\<lambda>w. w @ [CR]) ws @ split_on LF (w @ CRLF)"
  using assms
proof (induction ws)
  case (Cons v ws)
  have join: "join_with CRLF ((v # ws) @ [w @ CRLF]) = (v @ [CR]) @ LF # join_with CRLF (ws @ [w @ CRLF])"
    by (cases ws) (simp_all add: CRLF_def LF_def CR_def)
  have "LF \<notin> set (v @ [CR])"
    using Cons.prems by (simp add: LF_def CR_def)
  from split_on_append [OF this] show ?case
    using Cons join by simp
qed simp

lemma netsh_lines:
  assumes "\<forall>c \<in> set cmds. LF \<notin> set c"
  shows "split_on LF (netsh_input cmds) = map (\<lambda>c. c @ [CR]) (cmds @ [''exit'']) @ [[]]"
proof -
  have "split_on LF (''exit'' @ CRLF) = [''exit'' @ [CR], []]"
    by (simp add: LF_def CRLF_def CR_def)
  then show ?thesis
    using split_CRLF [OF assms, of "''exit''"] by (simp add: netsh_input_def)
qed

definition netsh_add :: "u16 \<Rightarrow> nat \<Rightarrow> string \<Rightarrow> string" where
  "netsh_add family = (if family = AF_INET then netsh_add4 else netsh_add6)"

lemma add_commands_filtered:
  "family = AF_INET \<or> family = AF_INET6 \<Longrightarrow>
     add_commands family name servers = map (netsh_add family name) (filtered_servers family servers)"
  by (induction servers) (auto simp: filtered_servers_def netsh_add_def)

lemma LF_not_digit: "LF \<notin> set (itoa n)"
  using itoa_digits by (force simp: LF_def is_digit_def)

lemma netsh_commands_one_line:
  "LF \<notin> set (netsh_flush4 n)" "LF \<notin> set (netsh_flush6 n)"
  "LF \<notin> set a \<Longrightarrow> LF \<notin> set (netsh_add family n a)"
  using LF_not_digit [of n]
  by (simp_all add: netsh_flush4_def netsh_flush6_def netsh_add_def netsh_add4_def netsh_add6_def LF_def)



section \<open>Registry keys\<close>

text \<open>
  \<open>keys s\<close> are the registry keys open in the state \<open>s\<close>. Opening adds one, closing removes it, and
  no other call opens or closes one.
\<close>

definition documented_registry :: "'os dns_helper \<Rightarrow> ('os \<Rightarrow> u64 multiset) \<Rightarrow> bool" where
  "documented_registry api keys \<longleftrightarrow>
     (\<forall>path access s. case OpenKey api path access s of
        (Inl e, s') \<Rightarrow> keys s' = keys s | (Inr k, s') \<Rightarrow> keys s' = add_mset k (keys s)) \<and>
     (\<forall>k s. keys (CloseKey api k s) = keys s - {#k#}) \<and>
     (\<forall>k name. preserves keys (GetStringsValue api k name)) \<and>
     (\<forall>k name v. preserves keys (SetStringValue api k name v)) \<and>
     (\<forall>luid. preserves keys (convertInterfaceLUIDToGUID (helper api) luid)) \<and>
     (\<forall>row. preserves keys (getIPInterfaceEntry (helper api) row)) \<and>
     preserves keys (GetSystemDirectory api) \<and> preserves keys (StdinPipe api) \<and>
     (\<forall>path input s. keys (snd (CombinedOutput api path input s)) = keys s) \<and>
     (\<forall>guid settings. preserves keys (setInterfaceDnsSettingsByPtr api guid settings)) \<and>
     (\<forall>a b settings. preserves keys (setInterfaceDnsSettingsByQwords api a b settings)) \<and>
     (\<forall>a b c d settings. preserves keys (setInterfaceDnsSettingsByDwords api a b c d settings))"

lemma preserves_settings [preserving]:
  "documented_registry api keys \<Longrightarrow> preserves keys (SetInterfaceDnsSettings api arch guid settings)"
  by (cases arch)
    (simp_all add: documented_registry_def SetInterfaceDnsSettings_def preserves_def raise_io_def)

lemma preserves_GUID [preserving]:
  "documented_registry api keys \<Longrightarrow> preserves keys (LUID_GUID (helper api) luid)"
  by (simp add: documented_registry_def LUID_GUID_def)

lemma preserves_netsh [preserving]:
  assumes "documented_registry api keys"
  shows "preserves keys (runNetsh api cmds)"
proof -
  have "preserves keys (\<lambda>s. case CombinedOutput api path input s of
      ((output, err), s') \<Rightarrow>
        if cleaned_output output \<noteq> [] \<and> err = None then (Inl (Err ''netsh''), s')
        else if err \<noteq> None then (Inl (Err ''netsh''), s') else (Inr (), s'))" for path input
  proof (rule preservesI)
    fix s r s'
    assume "(case CombinedOutput api path input s of
      ((output, err), s') \<Rightarrow>
        if cleaned_output output \<noteq> [] \<and> err = None then (Inl (Err ''netsh''), s')
        else if err \<noteq> None then (Inl (Err ''netsh''), s') else (Inr (), s')) = (r, s')"
    then have "s' = snd (CombinedOutput api path input s)"
      by (auto split: prod.splits if_splits)
    then show "keys s' = keys s"
      using assms by (simp add: documented_registry_def)
  qed
  then show ?thesis
    using assms unfolding runNetsh_def
    by (intro preserves_bind) (simp_all add: documented_registry_def)
qed

lemma preserves_IPInterface [preserving]:
  "documented_registry api keys \<Longrightarrow> preserves keys (IPInterface_io api luid family)"
  by (simp add: documented_registry_def preserves_def IPInterface_io_def split: prod.split)
    (metis snd_conv)

lemma preserves_fallback_family [preserving]:
  "documented_registry api keys \<Longrightarrow> preserves keys (fallbackSetDNSForFamily api luid family dnses)"
  unfolding fallbackSetDNSForFamily_def Let_def by (intro preserving)

text \<open>A key that is opened, used and closed.\<close>

lemma preserves_key:
  assumes reg: "documented_registry api keys"
    and "\<And>k s r s'. g k s = (r, s') \<Longrightarrow> keys s' = keys s - {#k#}"
  shows "preserves keys (bind_io (OpenKey api path access) g)"
proof (rule preservesI)
  fix s r s'
  assume run: "bind_io (OpenKey api path access) g s = (r, s')"
  obtain o1 s1 where op: "OpenKey api path access s = (o1, s1)"
    by fastforce
  have "case o1 of Inl e \<Rightarrow> keys s1 = keys s | Inr k \<Rightarrow> keys s1 = add_mset k (keys s)"
    using reg op unfolding documented_registry_def by (metis (mono_tags, lifting) case_prod_conv old.sum.simps(5,6) sum.exhaust)
  then show "keys s' = keys s"
    using run op assms(2) by (cases o1) (auto simp: bind_io_def)
qed

lemma preserves_set_value:
  assumes reg: "documented_registry api keys"
  shows "preserves keys (bind_io (OpenKey api path SET_VALUE) (\<lambda>k s.
      let (r, s1) = SetStringValue api k name domain s in (r, CloseKey api k s1)))"
proof (rule preserves_key [OF reg])
  fix k s r s'
  assume "(let (r, s1) = SetStringValue api k name domain s in (r, CloseKey api k s1)) = (r, s')"
  then show "keys s' = keys s - {#k#}"
    using reg by (auto simp: documented_registry_def preserves_def split: prod.splits) (metis snd_conv)
qed

lemma preserves_fallback_domain [preserving]:
  assumes reg: "documented_registry api keys"
  shows "preserves keys (fallbackSetDNSDomain api luid domain)"
proof -
  have rest: "preserves keys (bind_io (lift_io paths) (\<lambda>ps.
      case ps of
        [] \<Rightarrow> raise_io (Err ''No TCP/IP interfaces found on adapter'')
      | path # _ \<Rightarrow>
          bind_io (OpenKey api (key_path [''SYSTEM'', ''CurrentControlSet'', ''Services'', path])
                     SET_VALUE) (\<lambda>k s.
            let (r, s1) = SetStringValue api k ''Domain'' domain s
            in (r, CloseKey api k s1))))" for paths
  proof (intro preserves_bind preserves_simple)
    fix ps
    show "preserves keys (case ps of
        [] \<Rightarrow> raise_io (Err ''No TCP/IP interfaces found on adapter'')
      | path # _ \<Rightarrow>
          bind_io (OpenKey api (key_path [''SYSTEM'', ''CurrentControlSet'', ''Services'', path])
                     SET_VALUE) (\<lambda>k s.
            let (r, s1) = SetStringValue api k ''Domain'' domain s
            in (r, CloseKey api k s1)))"
      by (cases ps) (simp_all only: list.case preserves_simple preserves_set_value [OF reg])
  qed
  show ?thesis
    unfolding fallbackSetDNSDomain_def
  proof (rule preserves_bind [OF preserves_GUID [OF reg]], rule preserves_key [OF reg])
    fix guid k s r s'
    assume run: "(let (paths, s1) = GetStringsValue api k ''IpConfig'' s; s2 = CloseKey api k s1
         in bind_io (lift_io paths) (\<lambda>ps.
              case ps of
                [] \<Rightarrow> raise_io (Err ''No TCP/IP interfaces found on adapter'')
              | path # _ \<Rightarrow>
                  bind_io (OpenKey api (key_path [''SYSTEM'', ''CurrentControlSet'', ''Services'', path])
                             SET_VALUE) (\<lambda>k s.
                    let (r, s1) = SetStringValue api k ''Domain'' domain s
                    in (r, CloseKey api k s1))) s2) = (r, s')"
    obtain paths s1 where get: "GetStringsValue api k ''IpConfig'' s = (paths, s1)"
      by fastforce
    have "preserves keys (GetStringsValue api k ''IpConfig'')"
      using reg by (simp add: documented_registry_def)
    from preservesD [OF this get] have "keys s1 = keys s" .
    moreover have "keys s' = keys (CloseKey api k s1)"
      using run get preservesD [OF rest] by (simp add: Let_def)
    ultimately show "keys s' = keys s - {#k#}"
      using reg by (simp add: documented_registry_def)
  qed
qed

text \<open>
  C25: Whatever the system answers, \<open>SetDNS\<close> leaves no registry key open: every key it opens is closed
  on every path, the failing ones included.
\<close>

theorem set_dns_closes_keys:
  assumes "documented_registry api keys"
  shows "keys (snd (SetDNS api arch luid family servers domains s)) = keys s"
proof -
  have main: "preserves keys (\<lambda>s.
      case SetInterfaceDnsSettings api arch guid settings s of
        (r, s') \<Rightarrow>
          if r \<noteq> Inl proc_not_found then (r, s')
          else
            bind_io (fallbackSetDNSForFamily api luid family servers) (\<lambda>_.
              case domains of
                [] \<Rightarrow> fallbackSetDNSDomain api luid []
              | d # _ \<Rightarrow> fallbackSetDNSDomain api luid d) s')" for guid settings
  proof (rule preservesI)
    fix s r s'
    assume run: "(case SetInterfaceDnsSettings api arch guid settings s of
        (r, s') \<Rightarrow>
          if r \<noteq> Inl proc_not_found then (r, s')
          else
            bind_io (fallbackSetDNSForFamily api luid family servers) (\<lambda>_.
              case domains of
                [] \<Rightarrow> fallbackSetDNSDomain api luid []
              | d # _ \<Rightarrow> fallbackSetDNSDomain api luid d) s') = (r, s')"
    have fallback: "preserves keys (bind_io (fallbackSetDNSForFamily api luid family servers) (\<lambda>_.
              case domains of
                [] \<Rightarrow> fallbackSetDNSDomain api luid []
              | d # _ \<Rightarrow> fallbackSetDNSDomain api luid d))"
      using assms by (intro preserves_bind preserves_fallback_family)
        (auto intro: preserves_fallback_domain split: list.split)
    show "keys s' = keys s"
      using run preservesD [OF preserves_settings [OF assms]] preservesD [OF fallback]
      by (auto split: prod.splits if_splits)
  qed
  have "preserves keys (SetDNS api arch luid family servers domains)"
    unfolding SetDNS_def
    by (intro preserves_if preserves_bind preserves_simple preserves_GUID assms main)
  then show ?thesis
    by (simp add: preserves_def)
qed

text \<open>An old system, for the witness: no settings call, and keys opened under one number.\<close>

definition no_adapters :: adapter_list where
  "no_adapters =
     \<lparr>ad_first = 0,
      ad_nodes = (\<lambda>_. \<lparr>ad_LUID = 0, ad_FirstDNSServerAddress = 0, ad_Next = 0\<rparr>),
      ad_dns = (\<lambda>_. \<lparr>dns_IP = None, dns_Next = 0\<rparr>)\<rparr>"

definition old_system :: "u64 multiset dns_helper" where
  "old_system =
     \<lparr>helper =
        \<lparr>initializeIPInterfaceEntry = id, getIPInterfaceEntry = return_io,
         setIPInterfaceEntry = unsupported, getIPInterfaceTable = unsupported,
         getIfEntry2 = unsupported, getIfTable2Ex = unsupported,
         convertInterfaceLUIDToGUID = (\<lambda>_. return_io (replicate 16 0)),
         convertInterfaceGUIDToLUID = unsupported, convertInterfaceIndexToLUID = unsupported,
         initializeUnicastIPAddressEntry = id, getUnicastIPAddressEntry = unsupported,
         setUnicastIPAddressEntry = unsupported, createUnicastIPAddressEntry = unsupported,
         deleteUnicastIPAddressEntry = unsupported, getUnicastIPAddressTable = unsupported,
         getAnycastIPAddressEntry = unsupported, createAnycastIPAddressEntry = unsupported,
         deleteAnycastIPAddressEntry = unsupported, getAnycastIPAddressTable = unsupported,
         initializeIPForwardEntry = id, getIPForwardEntry2 = unsupported,
         setIPForwardEntry2 = unsupported, createIPForwardEntry2 = unsupported,
         deleteIPForwardEntry2 = unsupported, getIPForwardTable2 = unsupported,
         freeMibTable = (\<lambda>_. return_io ())\<rparr>,
      windowsGetAdaptersAddresses = (\<lambda>_ _ size s.
        ((Some (Err ''ERROR_NO_DATA''), size, no_adapters), s)),
      setInterfaceDnsSettingsByPtr = (\<lambda>_ _. raise_io proc_not_found),
      setInterfaceDnsSettingsByQwords = (\<lambda>_ _ _. raise_io proc_not_found),
      setInterfaceDnsSettingsByDwords = (\<lambda>_ _ _ _ _. raise_io proc_not_found),
      GetSystemDirectory = return_io ''system32'', StdinPipe = return_io (),
      CombinedOutput = (\<lambda>_ _ s. (([], None), s)),
      OpenKey = (\<lambda>_ _ s. (Inr 5, add_mset 5 s)),
      GetStringsValue = (\<lambda>_ _. return_io [''Parameters'']),
      SetStringValue = (\<lambda>_ _ _. raise_io (Err ''access denied'')),
      CloseKey = (\<lambda>k s. s - {#k#}), GUID_String = (\<lambda>_. ''{0}'')\<rparr>"

lemma old_system_documented: "documented_registry old_system id"
  by (simp add: documented_registry_def old_system_def preserves_def return_io_def raise_io_def)

lemma set_dns_closes_keys_witness:
  "snd (SetDNS old_system amd64 7 AF_INET [AddrV4 [1, 1, 1, 1]] [''lan''] {#}) = {#}"
  using set_dns_closes_keys [OF old_system_documented] by simp

end
