(* ===== verification/Win_Filter.thy ===== *)
theory Win_Filter
  imports Win_Types Io
begin

text \<open>
  Enforced DNS on Windows: the constants, structures and helpers of \<open>winsys\<close> and, of
  \<open>device/device_windows.go\<close>, the three filters of \<open>configFwp\<close>, the monitor that turns them on and off,
  and \<open>Close\<close>. The Windows Filtering Platform is a parameter; how it arbitrates between filters is
  written down as its documentation states it.
\<close>

section \<open>Constants and structures (winsys)\<close>

record GUID =
  Data1 :: u32
  Data2 :: u16
  Data3 :: u16
  Data4 :: bytes

definition FWPM_CONDITION_IP_PROTOCOL :: GUID where
  "FWPM_CONDITION_IP_PROTOCOL =
     \<lparr>Data1 = 0x3971ef2b, Data2 = 0x623e, Data3 = 0x4f9a,
      Data4 = [0x8c, 0xb1, 0x6e, 0x79, 0xb8, 0x06, 0xb9, 0xa7]\<rparr>"

definition FWPM_CONDITION_IP_REMOTE_PORT :: GUID where
  "FWPM_CONDITION_IP_REMOTE_PORT =
     \<lparr>Data1 = 0xc35a604d, Data2 = 0xd22b, Data3 = 0x4e1a,
      Data4 = [0x91, 0xb4, 0x68, 0xf6, 0x74, 0xee, 0x67, 0x4b]\<rparr>"

definition FWPM_LAYER_ALE_AUTH_CONNECT_V4 :: GUID where
  "FWPM_LAYER_ALE_AUTH_CONNECT_V4 =
     \<lparr>Data1 = 0xc38d57d1, Data2 = 0x05a7, Data3 = 0x4c33,
      Data4 = [0x90, 0x4f, 0x7f, 0xbc, 0xee, 0xe6, 0x0e, 0x82]\<rparr>"

definition FWPM_CONDITION_LOCAL_INTERFACE_INDEX :: GUID where
  "FWPM_CONDITION_LOCAL_INTERFACE_INDEX =
     \<lparr>Data1 = 0x667fd755, Data2 = 0xd695, Data3 = 0x434a,
      Data4 = [0x8a, 0xf5, 0xd3, 0x83, 0x5a, 0x12, 0x59, 0xbc]\<rparr>"

definition FWPM_LAYER_ALE_AUTH_CONNECT_V6 :: GUID where
  "FWPM_LAYER_ALE_AUTH_CONNECT_V6 =
     \<lparr>Data1 = 0x4a72393b, Data2 = 0x319f, Data3 = 0x44bc,
      Data4 = [0x84, 0xc3, 0xba, 0x54, 0xdc, 0xb3, 0xb6, 0xb4]\<rparr>"

definition FWPM_CONDITION_ALE_APP_ID :: GUID where
  "FWPM_CONDITION_ALE_APP_ID =
     \<lparr>Data1 = 0xd78e1e87, Data2 = 0x8644, Data3 = 0x4ea5,
      Data4 = [0x94, 0x37, 0xd8, 0x09, 0xec, 0xef, 0xc9, 0x71]\<rparr>"

lemmas guid_defs = FWPM_CONDITION_IP_REMOTE_PORT_def FWPM_LAYER_ALE_AUTH_CONNECT_V4_def
  FWPM_CONDITION_LOCAL_INTERFACE_INDEX_def FWPM_LAYER_ALE_AUTH_CONNECT_V6_def
  FWPM_CONDITION_ALE_APP_ID_def FWPM_CONDITION_IP_PROTOCOL_def

definition RPC_C_AUTHN_DEFAULT :: u32 where "RPC_C_AUTHN_DEFAULT = 0xFFFFFFFF"

definition FWPM_SESSION_FLAG_DYNAMIC :: u32 where "FWPM_SESSION_FLAG_DYNAMIC = 1"

definition FWP_MATCH_EQUAL :: u32 where "FWP_MATCH_EQUAL = 0"

definition FWP_EMPTY :: u32 where "FWP_EMPTY = 0"

definition FWP_UINT8 :: u32 where "FWP_UINT8 = FWP_EMPTY + 1"

definition FWP_UINT16 :: u32 where "FWP_UINT16 = FWP_UINT8 + 1"

definition FWP_UINT32 :: u32 where "FWP_UINT32 = FWP_UINT16 + 1"

text \<open>The eight types between \<open>FWP_UINT32\<close> and \<open>FWP_BYTE_BLOB_TYPE\<close> also count up by one.\<close>

definition FWP_BYTE_BLOB_TYPE :: u32 where "FWP_BYTE_BLOB_TYPE = FWP_UINT32 + 1 + 1 + 1 + 1 + 1 + 1 + 1 + 1 + 1"

definition FWP_ACTION_FLAG_TERMINATING :: u32 where "FWP_ACTION_FLAG_TERMINATING = 0x1000"

definition FWP_ACTION_BLOCK :: u32 where "FWP_ACTION_BLOCK = 0x1 OR FWP_ACTION_FLAG_TERMINATING"

definition FWP_ACTION_PERMIT :: u32 where "FWP_ACTION_PERMIT = 0x2 OR FWP_ACTION_FLAG_TERMINATING"

definition FWPM_FILTER_FLAG_CLEAR_ACTION_RIGHT :: u32 where "FWPM_FILTER_FLAG_CLEAR_ACTION_RIGHT = 0x8"

lemmas fwp_consts = FWP_MATCH_EQUAL_def FWP_EMPTY_def FWP_UINT8_def FWP_UINT16_def FWP_UINT32_def
  FWP_BYTE_BLOB_TYPE_def FWP_ACTION_FLAG_TERMINATING_def FWP_ACTION_BLOCK_def FWP_ACTION_PERMIT_def
  FWPM_FILTER_FLAG_CLEAR_ACTION_RIGHT_def

text \<open>
  The structures as values, with the members the program sets; the others are zero. A filter's array
  of conditions is a list.
\<close>

type_synonym display_data = "string \<times> string"

record FWPM_SUBLAYER0 =
  sub_SubLayerKey :: GUID
  sub_DisplayData :: display_data
  sub_Weight :: u16

record FWP_VALUE0 =
  val_Type :: u32
  val_Value :: u64

record FWPM_FILTER_CONDITION0 =
  FieldKey :: GUID
  MatchType :: u32
  ConditionValue :: FWP_VALUE0

record FWPM_FILTER0 =
  flt_DisplayData :: display_data
  flt_Flags :: u32
  flt_LayerKey :: GUID
  flt_SubLayerKey :: GUID
  flt_Weight :: FWP_VALUE0
  flt_FilterCondition :: "FWPM_FILTER_CONDITION0 list"
  flt_Action :: u32

section \<open>The calls of the system\<close>

record 'os fwp =
  FwpmEngineOpen0 :: "u32 \<Rightarrow> u32 \<Rightarrow> ('os, u64) io"
  FwpmEngineClose0 :: "u64 \<Rightarrow> ('os, unit) io"
  FwpmSubLayerAdd0 :: "u64 \<Rightarrow> FWPM_SUBLAYER0 \<Rightarrow> ('os, unit) io"
  FwpmFilterAdd0 :: "u64 \<Rightarrow> FWPM_FILTER0 \<Rightarrow> ('os, u64) io"
  FwpmGetAppIdFromFileName0 :: "string \<Rightarrow> ('os, u64) io"
  FwpmFreeMemory0 :: "u64 \<Rightarrow> 'os \<Rightarrow> 'os"
  GenerateGUID :: "('os, GUID) io"
  os_Executable :: "('os, string) io"
  InterfaceByName :: "string \<Rightarrow> ('os, int) io"

section \<open>Helpers (winsys/helper.go)\<close>

definition CreateDisplayData :: "string \<Rightarrow> string \<Rightarrow> display_data outcome" where
  "CreateDisplayData name description =
     bind_outcome (must (UTF16PtrFromString name)) (\<lambda>n.
       bind_outcome (must (UTF16PtrFromString description)) (\<lambda>d. Inr (n, d)))"

definition GetCurrentProcessAppID :: "'os fwp \<Rightarrow> ('os, u64) io" where
  "GetCurrentProcessAppID api =
     bind_io (os_Executable api) (\<lambda>currentFile.
       bind_io (lift_io (UTF16PtrFromString currentFile)) (\<lambda>curFilePtr.
         FwpmGetAppIdFromFileName0 api curFilePtr))"

section \<open>The filters (device_windows.go)\<close>

record windows_device =
  wdev_Name :: string
  wdev_LUID :: LUID
  fwpmSession :: u64

definition permit_condition :: "u64 \<Rightarrow> FWPM_FILTER_CONDITION0" where
  "permit_condition processAppID =
     \<lparr>FieldKey = FWPM_CONDITION_ALE_APP_ID, MatchType = FWP_MATCH_EQUAL,
      ConditionValue = \<lparr>val_Type = FWP_BYTE_BLOB_TYPE, val_Value = processAppID\<rparr>\<rparr>"

definition tun_condition :: "int \<Rightarrow> FWPM_FILTER_CONDITION0" where
  "tun_condition index =
     \<lparr>FieldKey = FWPM_CONDITION_LOCAL_INTERFACE_INDEX, MatchType = FWP_MATCH_EQUAL,
      ConditionValue = \<lparr>val_Type = FWP_UINT32, val_Value = ucast (word_of_int index :: u32)\<rparr>\<rparr>"

definition block_condition :: FWPM_FILTER_CONDITION0 where
  "block_condition =
     \<lparr>FieldKey = FWPM_CONDITION_IP_REMOTE_PORT, MatchType = FWP_MATCH_EQUAL,
      ConditionValue = \<lparr>val_Type = FWP_UINT16, val_Value = ucast (53 :: u16)\<rparr>\<rparr>"

definition permit_filter4 :: "display_data \<Rightarrow> GUID \<Rightarrow> u64 \<Rightarrow> FWPM_FILTER0" where
  "permit_filter4 display subLayerKey processAppID =
     \<lparr>flt_DisplayData = display, flt_Flags = FWPM_FILTER_FLAG_CLEAR_ACTION_RIGHT,
      flt_LayerKey = FWPM_LAYER_ALE_AUTH_CONNECT_V4, flt_SubLayerKey = subLayerKey,
      flt_Weight = \<lparr>val_Type = FWP_UINT8, val_Value = 13\<rparr>,
      flt_FilterCondition = [permit_condition processAppID], flt_Action = FWP_ACTION_PERMIT\<rparr>"

definition tun_filter4 :: "display_data \<Rightarrow> GUID \<Rightarrow> int \<Rightarrow> FWPM_FILTER0" where
  "tun_filter4 display subLayerKey index =
     \<lparr>flt_DisplayData = display, flt_Flags = 0,
      flt_LayerKey = FWPM_LAYER_ALE_AUTH_CONNECT_V4, flt_SubLayerKey = subLayerKey,
      flt_Weight = \<lparr>val_Type = FWP_UINT8, val_Value = 11\<rparr>,
      flt_FilterCondition = [tun_condition index], flt_Action = FWP_ACTION_PERMIT\<rparr>"

definition block_filter4 :: "display_data \<Rightarrow> GUID \<Rightarrow> FWPM_FILTER0" where
  "block_filter4 display subLayerKey =
     \<lparr>flt_DisplayData = display, flt_Flags = 0,
      flt_LayerKey = FWPM_LAYER_ALE_AUTH_CONNECT_V4, flt_SubLayerKey = subLayerKey,
      flt_Weight = \<lparr>val_Type = FWP_UINT8, val_Value = 10\<rparr>,
      flt_FilterCondition = [block_condition], flt_Action = FWP_ACTION_BLOCK\<rparr>"

text \<open>A filter's display data and its addition, every error a panic.\<close>

definition add_filter ::
  "'os fwp \<Rightarrow> u64 \<Rightarrow> string \<Rightarrow> string \<Rightarrow> (display_data \<Rightarrow> FWPM_FILTER0) \<Rightarrow> ('os, u64) io" where
  "add_filter api engine name description filter4 =
     bind_io (lift_io (CreateDisplayData name description)) (\<lambda>display.
       must_io (FwpmFilterAdd0 api engine (filter4 display)))"

definition config_filters :: "'os fwp \<Rightarrow> string \<Rightarrow> u64 \<Rightarrow> GUID \<Rightarrow> u64 \<Rightarrow> ('os, unit) io" where
  "config_filters api name engine subLayerKey processAppID =
     bind_io (add_filter api engine name ''protect ipv4''
         (\<lambda>display. permit_filter4 display subLayerKey processAppID)) (\<lambda>_.
     bind_io (must_io (InterfaceByName api name)) (\<lambda>index.
     bind_io (add_filter api engine name ''allow ipv4''
         (\<lambda>display. tun_filter4 display subLayerKey index)) (\<lambda>_.
     bind_io (add_filter api engine name ''block ipv4 dns''
         (\<lambda>display. block_filter4 display subLayerKey)) (\<lambda>_. return_io ()))))"

text \<open>
  From the sublayer on the device is only read; the blob of the process is freed when the function
  ends, also with a panic.
\<close>

definition config_sublayer :: "'os fwp \<Rightarrow> string \<Rightarrow> u64 \<Rightarrow> ('os, unit) io" where
  "config_sublayer api name engine =
     bind_io (must_io (GenerateGUID api)) (\<lambda>subLayerKey.
     bind_io (lift_io (CreateDisplayData name ''auto-route rules'')) (\<lambda>display.
     bind_io (must_io (FwpmSubLayerAdd0 api engine
         \<lparr>sub_SubLayerKey = subLayerKey, sub_DisplayData = display, sub_Weight = 0xFFFF\<rparr>)) (\<lambda>_.
       bracket_io (must_io (GetCurrentProcessAppID api)) (FwpmFreeMemory0 api)
         (config_filters api name engine subLayerKey))))"

definition configFwp :: "'os fwp \<Rightarrow> (windows_device \<times> 'os, unit) io" where
  "configFwp api =
     bind_io (on_kernel (must_io (FwpmEngineOpen0 api RPC_C_AUTHN_DEFAULT FWPM_SESSION_FLAG_DYNAMIC)))
       (\<lambda>engine (d, s). on_kernel (config_sublayer api (wdev_Name d) engine) (d\<lparr>fwpmSession := engine\<rparr>, s))"

text \<open>
  One turn of \<open>monitorEnforceDns\<close> for a received value; \<open>flag\<close> is \<open>EnableEnforceDns\<close>. The result of
  closing the engine is dropped.
\<close>

definition fwp_turn :: "'os fwp \<Rightarrow> bool \<Rightarrow> ((bool \<times> windows_device) \<times> 'os, unit) io" where
  "fwp_turn api enable = (\<lambda>((flag, d), s).
     if enable = flag then (Inr (), ((flag, d), s))
     else if enable then
       (case configFwp api (d, s) of (r, (d', s')) \<Rightarrow> (r, ((enable, d'), s')))
     else if fwpmSession d \<noteq> 0 then
       (case FwpmEngineClose0 api (fwpmSession d) s of
          (Inl (Panic p), s') \<Rightarrow> (Inl (Panic p), ((enable, d), s'))
        | (_, s') \<Rightarrow> (Inr (), ((enable, d\<lparr>fwpmSession := 0\<rparr>), s')))
     else (Inr (), ((enable, d), s)))"

definition monitorEnforceDns_windows ::
  "'os fwp \<Rightarrow> bool list \<Rightarrow> ((bool \<times> windows_device) \<times> 'os, unit) io" where
  "monitorEnforceDns_windows api requests = each_io (fwp_turn api) requests"

text \<open>\<open>Close\<close> does not reset the session.\<close>

definition Close_windows :: "'os fwp \<Rightarrow> ('os, unit) io \<Rightarrow> windows_device \<Rightarrow> ('os, unit) io" where
  "Close_windows api tun_Close d s =
     (case tun_Close s of
        (Inl (Panic p), s1) \<Rightarrow> (Inl (Panic p), s1)
      | (r, s1) \<Rightarrow>
          if fwpmSession d \<noteq> 0 then
            (case FwpmEngineClose0 api (fwpmSession d) s1 of
               (Inl (Panic p), s2) \<Rightarrow> (Inl (Panic p), s2)
             | (_, s2) \<Rightarrow> (r, s2))
          else (r, s1))"

section \<open>What the filtering platform documents\<close>

text \<open>
  A filter as the engine keeps it: the application is the content of the blob, copied when the
  filter is added.
\<close>

datatype operand = Number u32 u64 | AppId string

record stored_filter =
  st_layer :: GUID
  st_sublayer :: GUID
  st_weight :: u64
  st_flags :: u32
  st_conditions :: "(GUID \<times> u32 \<times> operand) list"
  st_action :: u32

definition stored_condition :: "(u64 \<Rightarrow> string) \<Rightarrow> FWPM_FILTER_CONDITION0 \<Rightarrow> GUID \<times> u32 \<times> operand" where
  "stored_condition blobs c =
     (let v = ConditionValue c
      in (FieldKey c, MatchType c,
          if val_Type v = FWP_BYTE_BLOB_TYPE then AppId (blobs (val_Value v)) else Number (val_Type v) (val_Value v)))"

definition stored :: "(u64 \<Rightarrow> string) \<Rightarrow> FWPM_FILTER0 \<Rightarrow> stored_filter" where
  "stored blobs f =
     \<lparr>st_layer = flt_LayerKey f, st_sublayer = flt_SubLayerKey f, st_weight = val_Value (flt_Weight f),
      st_flags = flt_Flags f, st_conditions = map (stored_condition blobs) (flt_FilterCondition f),
      st_action = flt_Action f\<rparr>"

text \<open>A connection that is about to be authorised.\<close>

record fwp_connection =
  conn_app :: string
  conn_interface :: u32
  conn_port :: u16
  conn_v6 :: bool

fun condition_holds :: "fwp_connection \<Rightarrow> GUID \<times> u32 \<times> operand \<Rightarrow> bool" where
  "condition_holds c (key, m, AppId a) \<longleftrightarrow>
     m = FWP_MATCH_EQUAL \<and> key = FWPM_CONDITION_ALE_APP_ID \<and> conn_app c = a"
| "condition_holds c (key, m, Number t n) \<longleftrightarrow>
     m = FWP_MATCH_EQUAL \<and>
     (key = FWPM_CONDITION_IP_REMOTE_PORT \<and> t = FWP_UINT16 \<and> ucast (conn_port c) = n \<or>
      key = FWPM_CONDITION_LOCAL_INTERFACE_INDEX \<and> t = FWP_UINT32 \<and> ucast (conn_interface c) = n)"

definition applies :: "fwp_connection \<Rightarrow> stored_filter \<Rightarrow> bool" where
  "applies c f \<longleftrightarrow>
     st_layer f = (if conn_v6 c then FWPM_LAYER_ALE_AUTH_CONNECT_V6 else FWPM_LAYER_ALE_AUTH_CONNECT_V4) \<and>
     list_all (condition_holds c) (st_conditions f)"

text \<open>
  Within a sublayer the filters are evaluated from the highest weight down, up to the first that
  applies and terminates, which decides.
\<close>

definition decides :: "stored_filter set \<Rightarrow> fwp_connection \<Rightarrow> stored_filter \<Rightarrow> bool" where
  "decides F c f \<longleftrightarrow> f \<in> F \<and> applies c f \<and> (\<forall>g \<in> F. applies c g \<longrightarrow> st_weight g \<le> st_weight f)"

definition blocked :: "stored_filter set \<Rightarrow> fwp_connection \<Rightarrow> bool" where
  "blocked F c \<longleftrightarrow> (\<exists>f. decides F c f \<and> st_action f = FWP_ACTION_BLOCK)"

text \<open>A hard permit: the filters of the sublayers below cannot override it.\<close>

definition hard_permitted :: "stored_filter set \<Rightarrow> fwp_connection \<Rightarrow> bool" where
  "hard_permitted F c \<longleftrightarrow>
     (\<exists>f. decides F c f \<and> st_action f = FWP_ACTION_PERMIT \<and>
          st_flags f AND FWPM_FILTER_FLAG_CLEAR_ACTION_RIGHT \<noteq> 0)"

record 'os fwp_view =
  filters_of :: "'os \<Rightarrow> (u64 \<times> stored_filter) set"
  dynamic_of :: "'os \<Rightarrow> u64 set"
  blobs_of :: "'os \<Rightarrow> u64 \<Rightarrow> string"
  executable :: string
  app_id :: "string \<Rightarrow> string"
  index_of :: "string \<Rightarrow> int"

definition engine_view :: "'os fwp_view \<Rightarrow> 'os \<Rightarrow> (u64 \<times> stored_filter) set \<times> u64 set" where
  "engine_view v s = (filters_of v s, dynamic_of v s)"

definition sessions_open :: "'os fwp \<Rightarrow> 'os fwp_view \<Rightarrow> bool" where
  "sessions_open api v \<longleftrightarrow>
     (\<forall>auth flags s. case FwpmEngineOpen0 api auth flags s of
        (Inl _, s') \<Rightarrow> engine_view v s' = engine_view v s
      | (Inr h, s') \<Rightarrow> h \<noteq> 0 \<and> h \<notin> fst ` filters_of v s \<and> filters_of v s' = filters_of v s \<and>
          dynamic_of v s' =
            (if flags AND FWPM_SESSION_FLAG_DYNAMIC \<noteq> 0 then insert h (dynamic_of v s) else dynamic_of v s - {h}))"

definition sessions_close :: "'os fwp \<Rightarrow> 'os fwp_view \<Rightarrow> bool" where
  "sessions_close api v \<longleftrightarrow>
     (\<forall>h s. case FwpmEngineClose0 api h s of
        (Inl _, s') \<Rightarrow> h \<notin> dynamic_of v s \<and> engine_view v s' = engine_view v s
      | (Inr _, s') \<Rightarrow>
          filters_of v s' = (if h \<in> dynamic_of v s then {x \<in> filters_of v s. fst x \<noteq> h} else filters_of v s) \<and>
          dynamic_of v s' = dynamic_of v s - {h})"

definition sublayers_add :: "'os fwp \<Rightarrow> 'os fwp_view \<Rightarrow> bool" where
  "sublayers_add api v \<longleftrightarrow>
     (\<forall>h sl s. case FwpmSubLayerAdd0 api h sl s of (_, s') \<Rightarrow> engine_view v s' = engine_view v s)"

definition filters_add :: "'os fwp \<Rightarrow> 'os fwp_view \<Rightarrow> bool" where
  "filters_add api v \<longleftrightarrow>
     (\<forall>h f s. case FwpmFilterAdd0 api h f s of
        (Inl _, s') \<Rightarrow> engine_view v s' = engine_view v s
      | (Inr _, s') \<Rightarrow> filters_of v s' = insert (h, stored (blobs_of v s) f) (filters_of v s) \<and>
          dynamic_of v s' = dynamic_of v s \<and> blobs_of v s' = blobs_of v s)"

definition app_ids :: "'os fwp \<Rightarrow> 'os fwp_view \<Rightarrow> bool" where
  "app_ids api v \<longleftrightarrow>
     (\<forall>file s. case FwpmGetAppIdFromFileName0 api file s of
        (Inl _, s') \<Rightarrow> engine_view v s' = engine_view v s
      | (Inr p, s') \<Rightarrow> blobs_of v s' p = app_id v file \<and> engine_view v s' = engine_view v s)"

definition blobs_free :: "'os fwp \<Rightarrow> 'os fwp_view \<Rightarrow> bool" where
  "blobs_free api v \<longleftrightarrow>
     (\<forall>p s. engine_view v (FwpmFreeMemory0 api p s) = engine_view v s)"

definition fresh_keys :: "'os fwp \<Rightarrow> 'os fwp_view \<Rightarrow> bool" where
  "fresh_keys api v \<longleftrightarrow>
     (\<forall>s. case GenerateGUID api s of
        (Inl _, s') \<Rightarrow> engine_view v s' = engine_view v s
      | (Inr key, s') \<Rightarrow> (\<forall>x \<in> filters_of v s. st_sublayer (snd x) \<noteq> key) \<and> engine_view v s' = engine_view v s)"

definition executables :: "'os fwp \<Rightarrow> 'os fwp_view \<Rightarrow> bool" where
  "executables api v \<longleftrightarrow>
     (\<forall>s. case os_Executable api s of
        (Inl _, s') \<Rightarrow> engine_view v s' = engine_view v s
      | (Inr file, s') \<Rightarrow> file = executable v \<and> engine_view v s' = engine_view v s)"

definition interfaces :: "'os fwp \<Rightarrow> 'os fwp_view \<Rightarrow> bool" where
  "interfaces api v \<longleftrightarrow>
     (\<forall>name s. case InterfaceByName api name s of
        (Inl _, s') \<Rightarrow> engine_view v s' = engine_view v s
      | (Inr i, s') \<Rightarrow> i = index_of v name \<and> engine_view v s' = engine_view v s \<and> blobs_of v s' = blobs_of v s)"

definition documented_fwp :: "'os fwp \<Rightarrow> 'os fwp_view \<Rightarrow> bool" where
  "documented_fwp api v \<longleftrightarrow>
     sessions_open api v \<and>
     sessions_close api v \<and>
     sublayers_add api v \<and>
     filters_add api v \<and>
     app_ids api v \<and>
     blobs_free api v \<and>
     fresh_keys api v \<and>
     executables api v \<and>
     interfaces api v"

lemma engine_view_eq [simp]:
  "engine_view v s' = engine_view v s \<longleftrightarrow> filters_of v s' = filters_of v s \<and> dynamic_of v s' = dynamic_of v s"
  by (simp add: engine_view_def)

lemma open_documented:
  assumes "documented_fwp api v" and "FwpmEngineOpen0 api auth FWPM_SESSION_FLAG_DYNAMIC s = (Inr h, s')"
  shows "h \<noteq> 0 \<and> h \<notin> fst ` filters_of v s \<and> filters_of v s' = filters_of v s \<and>
    dynamic_of v s' = insert h (dynamic_of v s)"
proof -
  have d: "sessions_open api v"
    using assms(1) by (simp add: documented_fwp_def)
  show ?thesis
    using d [unfolded sessions_open_def, THEN spec [of _ auth], THEN spec [of _ FWPM_SESSION_FLAG_DYNAMIC], THEN spec [of _ s]] assms(2-) by (simp add: FWPM_SESSION_FLAG_DYNAMIC_def)
qed

lemma close_documented:
  assumes "documented_fwp api v" and "h \<in> dynamic_of v s" and "FwpmEngineClose0 api h s = (r, s')"
  shows "r = Inr () \<and> filters_of v s' = {x \<in> filters_of v s. fst x \<noteq> h}"
proof -
  have d: "sessions_close api v"
    using assms(1) by (simp add: documented_fwp_def)
  show ?thesis
    using d [unfolded sessions_close_def, THEN spec [of _ h], THEN spec [of _ s]] assms(2-) by (cases r) simp_all
qed

lemma sublayer_documented:
  assumes "documented_fwp api v" and "FwpmSubLayerAdd0 api h sl s = (r, s')"
  shows "filters_of v s' = filters_of v s \<and> dynamic_of v s' = dynamic_of v s"
proof -
  have d: "sublayers_add api v"
    using assms(1) by (simp add: documented_fwp_def)
  show ?thesis
    using d [unfolded sublayers_add_def, THEN spec [of _ h], THEN spec [of _ sl], THEN spec [of _ s]] assms(2-) by simp
qed

lemma add_documented:
  assumes "documented_fwp api v" and "FwpmFilterAdd0 api h f s = (Inr i, s')"
  shows "filters_of v s' = insert (h, stored (blobs_of v s) f) (filters_of v s) \<and>
    dynamic_of v s' = dynamic_of v s \<and> blobs_of v s' = blobs_of v s"
proof -
  have d: "filters_add api v"
    using assms(1) by (simp add: documented_fwp_def)
  show ?thesis
    using d [unfolded filters_add_def, THEN spec [of _ h], THEN spec [of _ f], THEN spec [of _ s]] assms(2-) by simp
qed

lemma blob_documented:
  assumes "documented_fwp api v" and "FwpmGetAppIdFromFileName0 api file s = (Inr p, s')"
  shows "blobs_of v s' p = app_id v file \<and> filters_of v s' = filters_of v s \<and> dynamic_of v s' = dynamic_of v s"
proof -
  have d: "app_ids api v"
    using assms(1) by (simp add: documented_fwp_def)
  show ?thesis
    using d [unfolded app_ids_def, THEN spec [of _ "file"], THEN spec [of _ s]] assms(2-) by simp
qed

lemma free_blob_documented:
  assumes "documented_fwp api v"
  shows "filters_of v (FwpmFreeMemory0 api p s) = filters_of v s \<and>
    dynamic_of v (FwpmFreeMemory0 api p s) = dynamic_of v s"
  using assms by (simp add: documented_fwp_def blobs_free_def)

lemma guid_documented:
  assumes "documented_fwp api v" and "GenerateGUID api s = (Inr key, s')"
  shows "(\<forall>x \<in> filters_of v s. st_sublayer (snd x) \<noteq> key) \<and> filters_of v s' = filters_of v s \<and> dynamic_of v s' = dynamic_of v s"
proof -
  have d: "fresh_keys api v"
    using assms(1) by (simp add: documented_fwp_def)
  show ?thesis
    using d [unfolded fresh_keys_def, THEN spec [of _ s]] assms(2-) by simp
qed

lemma executable_documented:
  assumes "documented_fwp api v" and "os_Executable api s = (Inr file, s')"
  shows "file = executable v \<and> filters_of v s' = filters_of v s \<and> dynamic_of v s' = dynamic_of v s"
proof -
  have d: "executables api v"
    using assms(1) by (simp add: documented_fwp_def)
  show ?thesis
    using d [unfolded executables_def, THEN spec [of _ s]] assms(2-) by simp
qed

lemma index_documented:
  assumes "documented_fwp api v" and "InterfaceByName api name s = (Inr i, s')"
  shows "i = index_of v name \<and> filters_of v s' = filters_of v s \<and> dynamic_of v s' = dynamic_of v s \<and>
    blobs_of v s' = blobs_of v s"
proof -
  have d: "interfaces api v"
    using assms(1) by (simp add: documented_fwp_def)
  show ?thesis
    using d [unfolded interfaces_def, THEN spec [of _ name], THEN spec [of _ s]] assms(2-) by simp
qed

section \<open>The three filters and what they decide\<close>

definition our_filters :: "'os fwp_view \<Rightarrow> string \<Rightarrow> GUID \<Rightarrow> stored_filter list" where
  "our_filters v name key =
     [\<lparr>st_layer = FWPM_LAYER_ALE_AUTH_CONNECT_V4, st_sublayer = key, st_weight = 10, st_flags = 0,
       st_conditions = [(FWPM_CONDITION_IP_REMOTE_PORT, FWP_MATCH_EQUAL, Number FWP_UINT16 (ucast (53 :: u16)))],
       st_action = FWP_ACTION_BLOCK\<rparr>,
      \<lparr>st_layer = FWPM_LAYER_ALE_AUTH_CONNECT_V4, st_sublayer = key, st_weight = 11, st_flags = 0,
       st_conditions = [(FWPM_CONDITION_LOCAL_INTERFACE_INDEX, FWP_MATCH_EQUAL,
                         Number FWP_UINT32 (ucast (word_of_int (index_of v name) :: u32)))],
       st_action = FWP_ACTION_PERMIT\<rparr>,
      \<lparr>st_layer = FWPM_LAYER_ALE_AUTH_CONNECT_V4, st_sublayer = key, st_weight = 13,
       st_flags = FWPM_FILTER_FLAG_CLEAR_ACTION_RIGHT,
       st_conditions = [(FWPM_CONDITION_ALE_APP_ID, FWP_MATCH_EQUAL, AppId (app_id v (executable v)))],
       st_action = FWP_ACTION_PERMIT\<rparr>]"

lemma config_filters_spec:
  assumes "documented_fwp api v" and "config_filters api name h key p s = (Inr (), s')"
    and "blobs_of v s p = app_id v (executable v)"
  shows "filters_of v s' = Pair h ` set (our_filters v name key) \<union> filters_of v s \<and>
    dynamic_of v s' = dynamic_of v s"
proof -
  obtain d1 i1 s1 index s2 d2 i2 s3 d3 i3 where
      1: "FwpmFilterAdd0 api h (permit_filter4 d1 key p) s = (Inr i1, s1)"
      and 2: "InterfaceByName api name s1 = (Inr index, s2)"
      and 3: "FwpmFilterAdd0 api h (tun_filter4 d2 key index) s2 = (Inr i2, s3)"
      and 4: "FwpmFilterAdd0 api h (block_filter4 d3 key) s3 = (Inr i3, s')"
    using assms(2)
    by (auto simp: config_filters_def add_filter_def io_success return_io_def)
  note docs = add_documented [OF assms(1) 1] index_documented [OF assms(1) 2]
    add_documented [OF assms(1) 3] add_documented [OF assms(1) 4]
  have "stored (blobs_of v s) (permit_filter4 d1 key p) = our_filters v name key ! 2"
    using assms(3)
    by (simp add: stored_def stored_condition_def permit_filter4_def permit_condition_def our_filters_def)
  moreover have "stored (blobs_of v s2) (tun_filter4 d2 key index) = our_filters v name key ! 1"
    using docs(2)
    by (simp add: stored_def stored_condition_def tun_filter4_def tun_condition_def our_filters_def fwp_consts)
  moreover have "stored (blobs_of v s3) (block_filter4 d3 key) = our_filters v name key ! 0"
    by (simp add: stored_def stored_condition_def block_filter4_def block_condition_def our_filters_def fwp_consts)
  ultimately show ?thesis
    using docs by (auto simp: our_filters_def)
qed

lemma config_sublayer_spec:
  assumes "documented_fwp api v" and "config_sublayer api name h s = (Inr (), s')"
  shows "\<exists>key. (\<forall>x \<in> filters_of v s. st_sublayer (snd x) \<noteq> key) \<and>
    filters_of v s' = Pair h ` set (our_filters v name key) \<union> filters_of v s \<and>
    dynamic_of v s' = dynamic_of v s"
proof -
  obtain key s1 dd s2 p s3 s4 where
      1: "GenerateGUID api s = (Inr key, s1)"
      and 2: "FwpmSubLayerAdd0 api h \<lparr>sub_SubLayerKey = key, sub_DisplayData = dd, sub_Weight = 0xFFFF\<rparr> s1 = (Inr (), s2)"
      and 3: "GetCurrentProcessAppID api s2 = (Inr p, s3)"
      and 4: "config_filters api name h key p s3 = (Inr (), s4)"
      and 5: "s' = FwpmFreeMemory0 api p s4"
    using assms(2)
    by (auto simp: config_sublayer_def io_success)
  obtain exe s5 where 6: "os_Executable api s2 = (Inr exe, s5)"
      and 7: "FwpmGetAppIdFromFileName0 api exe s5 = (Inr p, s3)"
    using 3 by (auto simp: GetCurrentProcessAppID_def io_success UTF16PtrFromString_def split: if_splits)
  note docs = guid_documented [OF assms(1) 1] sublayer_documented [OF assms(1) 2]
    executable_documented [OF assms(1) 6] blob_documented [OF assms(1) 7]
  show ?thesis
    using docs config_filters_spec [OF assms(1) 4] free_blob_documented [OF assms(1), of p s4]
    by (intro exI [of _ key]) (simp add: 5)
qed

lemma bit_bounds: "bit (x :: u16) n \<Longrightarrow> n < 16" "bit (i :: u32) n \<Longrightarrow> n < 32"
  using bit_imp_le_length [of x n] bit_imp_le_length [of i n] by simp_all

lemma ucast_64_eq [simp]:
  "(ucast (x :: u16) :: u64) = ucast y \<longleftrightarrow> x = y" "(ucast (i :: u32) :: u64) = ucast j \<longleftrightarrow> i = j"
  by (auto simp: bit_eq_iff bit_simps dest: bit_bounds)

lemma ucast_53 [simp]: "(ucast (x :: u16) :: u64) = 53 \<longleftrightarrow> x = 53"
  using ucast_64_eq(1) [of x 53] by simp

text \<open>Which of the filters apply to a connection, from the lowest weight up.\<close>

lemma our_filters_apply:
  "map (applies c) (our_filters v name key) =
     [\<not> conn_v6 c \<and> conn_port c = 53,
      \<not> conn_v6 c \<and> conn_interface c = word_of_int (index_of v name),
      \<not> conn_v6 c \<and> conn_app c = app_id v (executable v)]"
  by (simp add: our_filters_def applies_def guid_defs fwp_consts)

lemma our_filters_decide:
  "blocked (set (our_filters v name key)) c \<longleftrightarrow>
     \<not> conn_v6 c \<and> conn_port c = 53 \<and> conn_app c \<noteq> app_id v (executable v) \<and>
     conn_interface c \<noteq> word_of_int (index_of v name)"
  "hard_permitted (set (our_filters v name key)) c \<longleftrightarrow> \<not> conn_v6 c \<and> conn_app c = app_id v (executable v)"
  "(\<exists>f. decides (set (our_filters v name key)) c f) \<longleftrightarrow>
     \<not> conn_v6 c \<and>
     (conn_port c = 53 \<or> conn_app c = app_id v (executable v) \<or> conn_interface c = word_of_int (index_of v name))"
proof -
  obtain f g h where F: "our_filters v name key = [f, g, h]"
    and f: "st_weight f = 10" "st_action f = FWP_ACTION_BLOCK"
    and g: "st_weight g = 11" "st_action g = FWP_ACTION_PERMIT" "st_flags g = 0"
    and h: "st_weight h = 13" "st_action h = FWP_ACTION_PERMIT" "st_flags h = FWPM_FILTER_FLAG_CLEAR_ACTION_RIGHT"
    by (simp add: our_filters_def)
  have a: "applies c f \<longleftrightarrow> \<not> conn_v6 c \<and> conn_port c = 53"
      "applies c g \<longleftrightarrow> \<not> conn_v6 c \<and> conn_interface c = word_of_int (index_of v name)"
      "applies c h \<longleftrightarrow> \<not> conn_v6 c \<and> conn_app c = app_id v (executable v)"
    using our_filters_apply [of c v name key] by (simp_all add: F)
  have d: "decides {f, g, h} c x \<longleftrightarrow>
      x = f \<and> applies c f \<and> \<not> applies c g \<and> \<not> applies c h \<or>
      x = g \<and> applies c g \<and> \<not> applies c h \<or> x = h \<and> applies c h" for x
    using f(1) g(1) h(1) by (auto simp: decides_def)
  show "blocked (set (our_filters v name key)) c \<longleftrightarrow>
     \<not> conn_v6 c \<and> conn_port c = 53 \<and> conn_app c \<noteq> app_id v (executable v) \<and>
     conn_interface c \<noteq> word_of_int (index_of v name)"
    using f g h by (auto simp: blocked_def F d a fwp_consts)
  show "hard_permitted (set (our_filters v name key)) c \<longleftrightarrow> \<not> conn_v6 c \<and> conn_app c = app_id v (executable v)"
    using f g h by (auto simp: hard_permitted_def F d a fwp_consts)
  show "(\<exists>f. decides (set (our_filters v name key)) c f) \<longleftrightarrow>
     \<not> conn_v6 c \<and>
     (conn_port c = 53 \<or> conn_app c = app_id v (executable v) \<or> conn_interface c = word_of_int (index_of v name))"
    by (auto simp: F d a)
qed

lemma configFwp_spec:
  assumes "documented_fwp api v" and "configFwp api (d, s) = (Inr (), (d', s'))"
  shows "\<exists>h key. d' = d\<lparr>fwpmSession := h\<rparr> \<and> h \<noteq> 0 \<and> h \<notin> fst ` filters_of v s \<and> h \<in> dynamic_of v s' \<and>
    (\<forall>x \<in> filters_of v s. st_sublayer (snd x) \<noteq> key) \<and>
    filters_of v s' = Pair h ` set (our_filters v (wdev_Name d) key) \<union> filters_of v s"
proof -
  obtain h d1 s1 where 1: "FwpmEngineOpen0 api RPC_C_AUTHN_DEFAULT FWPM_SESSION_FLAG_DYNAMIC s = (Inr h, s1)"
      and 2: "config_sublayer api (wdev_Name d) h s1 = (Inr (), s')" and d: "d' = d\<lparr>fwpmSession := h\<rparr>"
    using assms(2) by (auto simp: configFwp_def io_success on_kernel_Inr)
  note opened = open_documented [OF assms(1) 1]
  obtain key where "\<forall>x \<in> filters_of v s1. st_sublayer (snd x) \<noteq> key"
      "filters_of v s' = Pair h ` set (our_filters v (wdev_Name d) key) \<union> filters_of v s1"
      "dynamic_of v s' = dynamic_of v s1"
    using config_sublayer_spec [OF assms(1) 2] by (elim exE conjE)
  then show ?thesis
    using opened d by (intro exI [of _ h] exI [of _ key]) simp
qed

text \<open>
  C8: After \<open>configFwp\<close> one sublayer holds exactly its filters, and they decide what enforced DNS means:
  a connection to port 53 over IPv4 is blocked unless it is the program's own or leaves by the
  tunnel; the program's own connections are permitted against any lower sublayer. Connections over
  IPv6, and all others, are not decided here, so DNS over IPv6 is not restricted.
\<close>

theorem enforced_filters:
  assumes "documented_fwp api v" and "configFwp api (d, s) = (Inr (), (d', s'))"
  shows "\<exists>key. \<forall>c. let F = {f. (\<exists>h. (h, f) \<in> filters_of v s') \<and> st_sublayer f = key};
      own = (conn_app c = app_id v (executable v));
      tun = (conn_interface c = word_of_int (index_of v (wdev_Name d)))
    in (blocked F c \<longleftrightarrow> \<not> conn_v6 c \<and> conn_port c = 53 \<and> \<not> own \<and> \<not> tun) \<and>
       (hard_permitted F c \<longleftrightarrow> \<not> conn_v6 c \<and> own) \<and>
       ((\<exists>f. decides F c f) \<longleftrightarrow> \<not> conn_v6 c \<and> (conn_port c = 53 \<or> own \<or> tun))"
proof -
  obtain h key where fresh: "\<forall>x \<in> filters_of v s. st_sublayer (snd x) \<noteq> key"
      and F: "filters_of v s' = Pair h ` set (our_filters v (wdev_Name d) key) \<union> filters_of v s"
    using configFwp_spec [OF assms] by blast
  have "\<forall>f \<in> set (our_filters v (wdev_Name d) key). st_sublayer f = key"
    by (simp add: our_filters_def)
  then have "{f. (\<exists>h. (h, f) \<in> filters_of v s') \<and> st_sublayer f = key} =
      set (our_filters v (wdev_Name d) key)"
    using fresh F by force
  then show ?thesis
    by (intro exI [of _ key]) (simp add: Let_def our_filters_decide)
qed

section \<open>The life of the session\<close>

text \<open>\<open>base\<close> is the set of filters of other sessions.\<close>

definition fwp_inv ::
  "'os fwp_view \<Rightarrow> (u64 \<times> stored_filter) set \<Rightarrow> (bool \<times> windows_device) \<times> 'os \<Rightarrow> bool" where
  "fwp_inv v base = (\<lambda>((flag, d), s).
     if flag then
       fwpmSession d \<noteq> 0 \<and> fwpmSession d \<in> dynamic_of v s \<and> fwpmSession d \<notin> fst ` base \<and>
       (\<exists>key. filters_of v s = Pair (fwpmSession d) ` set (our_filters v (wdev_Name d) key) \<union> base)
     else fwpmSession d = 0 \<and> filters_of v s = base)"

lemma close_session:
  assumes "documented_fwp api v" and "fwp_inv v base ((True, d), s)"
    and "FwpmEngineClose0 api (fwpmSession d) s = (r, s')"
  shows "r = Inr () \<and> filters_of v s' = base"
  using assms(2) close_documented [OF assms(1) _ assms(3)] by (force simp: fwp_inv_def)

lemma fwp_turn_inv:
  assumes "documented_fwp api v" and "fwp_inv v base ((flag, d), s)"
    and "fwp_turn api enable ((flag, d), s) = (Inr (), ((flag', d'), s'))"
  shows "flag' = enable \<and> fwp_inv v base ((flag', d'), s')"
proof (cases "enable = flag")
  case True
  then show ?thesis
    using assms(2,3) by (simp add: fwp_turn_def)
next
  case change: False
  show ?thesis
  proof (cases enable)
    case True
    then have c: "configFwp api (d, s) = (Inr (), (d', s'))" and "flag' = enable"
      using assms(3) change by (auto simp: fwp_turn_def split: prod.splits)
    obtain h key where "d' = d\<lparr>fwpmSession := h\<rparr>" "h \<noteq> 0" "h \<notin> fst ` filters_of v s" "h \<in> dynamic_of v s'"
        "filters_of v s' = Pair h ` set (our_filters v (wdev_Name d) key) \<union> filters_of v s"
      using configFwp_spec [OF assms(1) c] by (elim exE conjE)
    then show ?thesis
      using \<open>flag' = enable\<close> True change assms(2) by (simp add: fwp_inv_def) (rule exI, rule refl)
  next
    case False
    obtain r s1 where c: "FwpmEngineClose0 api (fwpmSession d) s = (r, s1)"
      by fastforce
    have inv: "fwp_inv v base ((True, d), s)"
      using assms(2) change False by simp
    then have "fwpmSession d \<noteq> 0"
      by (simp add: fwp_inv_def)
    then show ?thesis
      using close_session [OF assms(1) inv c] c change False assms(3)
      by (auto simp: fwp_turn_def fwp_inv_def)
  qed
qed

lemma monitor_inv:
  assumes "documented_fwp api v"
  shows "fwp_inv v base ((flag, d), s) \<Longrightarrow>
    monitorEnforceDns_windows api requests ((flag, d), s) = (Inr (), ((flag', d'), s')) \<Longrightarrow>
    flag' = last (flag # requests) \<and> fwp_inv v base ((flag', d'), s')"
proof (induction requests arbitrary: flag d s)
  case Nil
  then show ?case
    by (simp add: monitorEnforceDns_windows_def return_io_def)
next
  case (Cons q requests)
  obtain flag1 d1 s1 where turn: "fwp_turn api q ((flag, d), s) = (Inr (), ((flag1, d1), s1))"
      and rest: "monitorEnforceDns_windows api requests ((flag1, d1), s1) = (Inr (), ((flag', d'), s'))"
    using Cons.prems(2) by (auto simp: monitorEnforceDns_windows_def bind_io_Inr)
  show ?case
    using Cons.IH [OF _ rest] fwp_turn_inv [OF assms Cons.prems(1) turn] by auto
qed

text \<open>
  C9: The filters follow the setting: after any requests the setting is the last one; while it is on,
  exactly one open session of the program holds its three filters beside those of others; once it
  is off, or the device is closed, the engine holds the filters of others and nothing else.
\<close>

theorem filters_follow_setting:
  assumes "documented_fwp api v" and "fwpmSession d = 0"
    and "monitorEnforceDns_windows api requests ((False, d), s) = (Inr (), ((flag, d'), s'))"
  shows "flag = last (False # requests) \<and> fwp_inv v (filters_of v s) ((flag, d'), s') \<and>
    filters_of v (snd (Close_windows api (return_io ()) d' s')) = filters_of v s"
proof -
  have "fwp_inv v (filters_of v s) ((False, d), s)"
    using assms(2) by (simp add: fwp_inv_def)
  from monitor_inv [OF assms(1) this assms(3)]
  have inv: "flag = last (False # requests)" "fwp_inv v (filters_of v s) ((flag, d'), s')"
    by blast+
  obtain r s2 where c: "FwpmEngineClose0 api (fwpmSession d') s' = (r, s2)"
    by fastforce
  have "filters_of v (snd (Close_windows api (return_io ()) d' s')) = filters_of v s"
  proof (cases flag)
    case True
    then have "fwpmSession d' \<noteq> 0"
      using inv(2) by (simp add: fwp_inv_def)
    then show ?thesis
      using close_session [OF assms(1) _ c, of "filters_of v s"] inv(2) True c
      by (simp add: Close_windows_def return_io_def)
  next
    case False
    then show ?thesis
      using inv(2) by (simp add: Close_windows_def return_io_def fwp_inv_def)
  qed
  then show ?thesis
    using inv by blast
qed

text \<open>An engine with one session, for the witnesses.\<close>

record demo_engine =
  eng_open :: bool
  eng_filters :: "(u64 \<times> stored_filter) list"

definition demo_fwp :: "demo_engine fwp" where
  "demo_fwp =
     \<lparr>FwpmEngineOpen0 = (\<lambda>_ flags s.
        if eng_open s \<or> eng_filters s \<noteq> [] \<or> flags AND FWPM_SESSION_FLAG_DYNAMIC = 0 then (Inl (Err ''busy''), s)
        else (Inr 1, s\<lparr>eng_open := True\<rparr>)),
      FwpmEngineClose0 = (\<lambda>h s.
        if h = 1 \<and> eng_open s then (Inr (), s\<lparr>eng_open := False, eng_filters := filter (\<lambda>x. fst x \<noteq> 1) (eng_filters s)\<rparr>)
        else (Inl (Err ''closed''), s)),
      FwpmSubLayerAdd0 = (\<lambda>_ _. return_io ()),
      FwpmFilterAdd0 = (\<lambda>h f s. (Inr 5, s\<lparr>eng_filters := (h, stored (\<lambda>_. ''app'') f) # eng_filters s\<rparr>)),
      FwpmGetAppIdFromFileName0 = (\<lambda>_. return_io 9), FwpmFreeMemory0 = (\<lambda>_ s. s),
      GenerateGUID = (\<lambda>s. if eng_filters s = [] then (Inr FWPM_CONDITION_IP_PROTOCOL, s) else (Inl (Err ''used''), s)),
      os_Executable = return_io ''anApp.exe'', InterfaceByName = (\<lambda>_. return_io 7)\<rparr>"

definition demo_fwp_view :: "demo_engine fwp_view" where
  "demo_fwp_view =
     \<lparr>filters_of = (\<lambda>s. set (eng_filters s)), dynamic_of = (\<lambda>s. if eng_open s then {1} else {}),
      blobs_of = (\<lambda>_ _. ''app''), executable = ''anApp.exe'', app_id = (\<lambda>_. ''app''), index_of = (\<lambda>_. 7)\<rparr>"

definition demo_closed :: demo_engine where
  "demo_closed = \<lparr>eng_open = False, eng_filters = []\<rparr>"

definition demo_tunnel :: windows_device where
  "demo_tunnel = \<lparr>wdev_Name = ''anApp'', wdev_LUID = 7, fwpmSession = 0\<rparr>"

lemma demo_fwp_documented: "documented_fwp demo_fwp demo_fwp_view"
  by (auto simp: documented_fwp_def sessions_open_def sessions_close_def sublayers_add_def
      filters_add_def app_ids_def blobs_free_def fresh_keys_def executables_def interfaces_def
      demo_fwp_def demo_fwp_view_def return_io_def)

lemma demo_configured: "fst (configFwp demo_fwp (demo_tunnel, demo_closed)) = Inr ()"
  by (simp add: configFwp_def on_kernel_def bind_io_def must_io_def config_sublayer_def bracket_io_def
      config_filters_def add_filter_def lift_io_def CreateDisplayData_def UTF16PtrFromString_def
      GetCurrentProcessAppID_def demo_fwp_def demo_closed_def demo_tunnel_def return_io_def
      FWPM_SESSION_FLAG_DYNAMIC_def)

lemma enforced_filters_witness:
  "\<exists>key. blocked
     {f. (\<exists>h. (h, f) \<in> filters_of demo_fwp_view (snd (snd (configFwp demo_fwp (demo_tunnel, demo_closed))))) \<and>
         st_sublayer f = key}
     \<lparr>conn_app = ''browser'', conn_interface = 2, conn_port = 53, conn_v6 = False\<rparr>"
proof -
  obtain d' s' where c: "configFwp demo_fwp (demo_tunnel, demo_closed) = (Inr (), (d', s'))"
    using demo_configured by (metis prod.collapse)
  have "\<exists>key. blocked {f. (\<exists>h. (h, f) \<in> filters_of demo_fwp_view s') \<and> st_sublayer f = key}
      \<lparr>conn_app = ''browser'', conn_interface = 2, conn_port = 53, conn_v6 = False\<rparr>"
    using enforced_filters [OF demo_fwp_documented c]
    by (rule ex_forward) (drule spec, auto simp: Let_def demo_fwp_view_def)
  then show ?thesis
    using c by simp
qed

lemma filters_follow_setting_witness:
  "case configFwp demo_fwp (demo_tunnel, demo_closed) of (r, (d, s)) \<Rightarrow>
     filters_of demo_fwp_view s \<noteq> {} \<and>
     filters_of demo_fwp_view (snd (Close_windows demo_fwp (return_io ()) d s)) = {}"
proof -
  obtain d' s' where c: "configFwp demo_fwp (demo_tunnel, demo_closed) = (Inr (), (d', s'))"
    using demo_configured by (metis prod.collapse)
  have m: "monitorEnforceDns_windows demo_fwp [True] ((False, demo_tunnel), demo_closed) = (Inr (), ((True, d'), s'))"
    using c by (simp add: monitorEnforceDns_windows_def fwp_turn_def bind_io_def return_io_def)
  show ?thesis
    using filters_follow_setting [OF demo_fwp_documented _ m] c
    by (auto simp: fwp_inv_def demo_tunnel_def demo_fwp_view_def our_filters_def demo_closed_def)
qed

end
