(* ===== verification/Pe_Module.thy ===== *)
theory Pe_Module
  imports Pe_Memory
begin

text \<open>
  The module record of \<open>bin/memmod/memmod_windows.go\<close> with the process it lives in, and the handling
  of sections: copying them into the image and setting their protection. The architecture is
  64-bit: \<open>uintptr\<close> is \<open>u64\<close> and the header offsets are those of \<open>Pe_Layout\<close>.
\<close>

section \<open>State and sequencing\<close>

text \<open>
  The calls to Windows, with their arguments. \<open>win\<close> answers a call from the calls before it and the
  memory: None is an error, and the call may change the memory.
\<close>

datatype os_call =
  VirtualAlloc addr u64 u32
| VirtualFree addr u64 u32
| VirtualProtect addr u64 u32
| LoadLibraryEx bytes
| FreeLibrary u64
| GetProcAddress u64 bytes
| GetProcAddressByOrdinal u64 u64
| RtlAddFunctionTable addr u32 addr
| SyscallN addr addr u32
| HookRtlPcToFileHeader

type_synonym win = "(os_call \<times> u64 option) list \<Rightarrow> os_call \<Rightarrow> mem \<Rightarrow> u64 option \<times> mem"

record pe_state =
  ram :: mem
  trace :: "(os_call \<times> u64 option) list"
  md_headers :: addr
  md_codeBase :: addr
  md_modules :: "u64 list option"
  md_initialized :: bool
  md_isDLL :: bool
  md_isRelocated :: bool
  md_nameExports :: "(bytes \<rightharpoonup> u16) option"
  md_entry :: addr
  md_blockedMemory :: "addr list"
  loadedAddressRanges :: "(addr \<times> addr) list"
  hookResult :: "u64 option option"

text \<open>
  A computation returns a value, an error or a panic with the state, or does not return.
\<close>

type_synonym 'a pe = "pe_state \<Rightarrow> ('a outcome \<times> pe_state) option"

definition ok :: "'a \<Rightarrow> 'a pe" where
  "ok x s = Some (Inr x, s)"

definition fail :: "failure \<Rightarrow> 'a pe" where
  "fail e s = Some (Inl e, s)"

definition bind_pe :: "'a pe \<Rightarrow> ('a \<Rightarrow> 'b pe) \<Rightarrow> 'b pe" where
  "bind_pe f g s = Option.bind (f s) (\<lambda>(r, s'). case r of Inl e \<Rightarrow> Some (Inl e, s') | Inr x \<Rightarrow> g x s')"

definition update :: "(pe_state \<Rightarrow> pe_state) \<Rightarrow> unit pe" where
  "update f s = Some (Inr (), f s)"

definition call_os :: "win \<Rightarrow> os_call \<Rightarrow> u64 option pe" where
  "call_os w c s =
     (let (r, m) = w (trace s) c (ram s) in Some (Inr r, s\<lparr>trace := trace s @ [(c, r)], ram := m\<rparr>))"

lemma bind_pe_mono [partial_function_mono]:
  assumes "\<And>s. mono_option (\<lambda>f. B f s)" "\<And>y s. mono_option (\<lambda>f. C f y s)"
  shows "mono_option (\<lambda>f. bind_pe (B f) (\<lambda>y. C f y) s)"
  unfolding bind_pe_def
proof (rule bind_mono [OF assms(1)])
  fix y :: "'c outcome \<times> pe_state"
  obtain r s' where y: "y = (r, s')" by (cases y)
  show "mono_option (\<lambda>f. case y of (r, s') \<Rightarrow> case r of Inl e \<Rightarrow> Some (Inl e, s') | Inr x \<Rightarrow> C f x s')"
    using assms(2) by (cases r) (simp_all add: y option.const_mono)
qed

lemma bind_pe_simps [simp]:
  "bind_pe (ok x) g s = g x s"
  "bind_pe (fail e) g s = Some (Inl e, s)"
  "bind_pe (update f) g s = g () (f s)"
  by (simp_all add: bind_pe_def ok_def fail_def update_def)

lemma bind_pe_eq:
  "bind_pe f g s = Some (r, s'') \<longleftrightarrow>
     (\<exists>e. f s = Some (Inl e, s'') \<and> r = Inl e) \<or> (\<exists>x s'. f s = Some (Inr x, s') \<and> g x s' = Some (r, s''))"
proof (cases "f s")
  case None
  then show ?thesis by (simp add: bind_pe_def)
next
  case (Some y)
  obtain r' s' where y: "y = (r', s')" by (cases y)
  show ?thesis using Some by (cases r') (auto simp: bind_pe_def y)
qed

section \<open>Invariants of computations\<close>

text \<open>
  \<open>keeps P f\<close>: whenever \<open>f\<close> returns from a state of \<open>P\<close>, whatever the result, \<open>P\<close> still holds.
\<close>

definition keeps :: "(pe_state \<Rightarrow> bool) \<Rightarrow> 'a pe \<Rightarrow> bool" where
  "keeps P f \<longleftrightarrow> (\<forall>s r s'. P s \<longrightarrow> f s = Some (r, s') \<longrightarrow> P s')"

named_theorems keeps_intros \<open>computations that keep an invariant\<close>

lemma keepsI: "(\<And>s r s'. P s \<Longrightarrow> f s = Some (r, s') \<Longrightarrow> P s') \<Longrightarrow> keeps P f"
  by (auto simp: keeps_def)

lemma keepsD: "keeps P f \<Longrightarrow> P s \<Longrightarrow> f s = Some (r, s') \<Longrightarrow> P s'"
  by (auto simp: keeps_def)

lemma keeps_ok [keeps_intros]: "keeps P (ok x)"
  by (auto simp: keeps_def ok_def)

lemma keeps_fail [keeps_intros]: "keeps P (fail e)"
  by (auto simp: keeps_def fail_def)

lemma keeps_bind [keeps_intros]:
  assumes "keeps P f" "\<And>x. keeps P (g x)"
  shows "keeps P (bind_pe f g)"
proof (rule keepsI)
  fix s r s''
  assume "P s" "bind_pe f g s = Some (r, s'')"
  then consider e where "f s = Some (Inl e, s'')" | x s' where "f s = Some (Inr x, s')" "g x s' = Some (r, s'')"
    unfolding bind_pe_eq by blast
  then show "P s''" using assms \<open>P s\<close> by cases (blast dest: keepsD)+
qed

lemma keeps_update: "(\<And>s. P s \<Longrightarrow> P (f s)) \<Longrightarrow> keeps P (update f)"
  by (auto simp: keeps_def update_def)

lemma keeps_apply: "(\<And>s. keeps P (f s)) \<Longrightarrow> keeps P (\<lambda>s. f s s)"
  unfolding keeps_def by blast

section \<open>Headers in memory\<close>

definition MEM_COMMIT :: u32 where "MEM_COMMIT = 0x1000"
definition MEM_RESERVE :: u32 where "MEM_RESERVE = 0x2000"
definition MEM_DECOMMIT :: u32 where "MEM_DECOMMIT = 0x4000"
definition MEM_RELEASE :: u32 where "MEM_RELEASE = 0x8000"

text \<open>
  Fields of the NT headers at \<open>nt\<close>: file header at 4, optional header at 24.
\<close>

definition nt_Machine :: "mem \<Rightarrow> addr \<Rightarrow> u16" where "nt_Machine m nt = rd16 m (nt + 4)"
definition nt_NumberOfSections :: "mem \<Rightarrow> addr \<Rightarrow> u16" where "nt_NumberOfSections m nt = rd16 m (nt + 6)"
definition nt_SizeOfOptionalHeader :: "mem \<Rightarrow> addr \<Rightarrow> u16" where "nt_SizeOfOptionalHeader m nt = rd16 m (nt + 20)"
definition nt_Characteristics :: "mem \<Rightarrow> addr \<Rightarrow> u16" where "nt_Characteristics m nt = rd16 m (nt + 22)"
definition opt_SizeOfInitializedData :: "mem \<Rightarrow> addr \<Rightarrow> u32" where "opt_SizeOfInitializedData m nt = rd32 m (nt + 32)"
definition opt_SizeOfUninitializedData :: "mem \<Rightarrow> addr \<Rightarrow> u32" where "opt_SizeOfUninitializedData m nt = rd32 m (nt + 36)"
definition opt_AddressOfEntryPoint :: "mem \<Rightarrow> addr \<Rightarrow> u32" where "opt_AddressOfEntryPoint m nt = rd32 m (nt + 40)"
definition opt_ImageBase :: "mem \<Rightarrow> addr \<Rightarrow> u64" where "opt_ImageBase m nt = rd64 m (nt + 48)"
definition opt_SectionAlignment :: "mem \<Rightarrow> addr \<Rightarrow> u32" where "opt_SectionAlignment m nt = rd32 m (nt + 56)"
definition opt_SizeOfImage :: "mem \<Rightarrow> addr \<Rightarrow> u32" where "opt_SizeOfImage m nt = rd32 m (nt + 80)"
definition opt_SizeOfHeaders :: "mem \<Rightarrow> addr \<Rightarrow> u32" where "opt_SizeOfHeaders m nt = rd32 m (nt + 84)"

definition headerDirectory :: "mem \<Rightarrow> addr \<Rightarrow> nat \<Rightarrow> u32 \<times> u32" where
  "headerDirectory m nt idx =
     (rd32 m (nt + 136 + of_nat (8 * idx)), rd32 m (nt + 140 + of_nat (8 * idx)))"

text \<open>The section headers, 40 bytes each, after the optional header: the first and their number.\<close>

definition Sections :: "mem \<Rightarrow> addr \<Rightarrow> addr \<times> nat" where
  "Sections m nt = (nt + 24 + ucast (nt_SizeOfOptionalHeader m nt), unat (nt_NumberOfSections m nt))"

definition sec_VirtualSize :: "mem \<Rightarrow> addr \<Rightarrow> u32" where "sec_VirtualSize m p = rd32 m (p + 8)"
definition sec_VirtualAddress :: "mem \<Rightarrow> addr \<Rightarrow> u32" where "sec_VirtualAddress m p = rd32 m (p + 12)"
definition sec_SizeOfRawData :: "mem \<Rightarrow> addr \<Rightarrow> u32" where "sec_SizeOfRawData m p = rd32 m (p + 16)"
definition sec_PointerToRawData :: "mem \<Rightarrow> addr \<Rightarrow> u32" where "sec_PointerToRawData m p = rd32 m (p + 20)"
definition sec_Characteristics :: "mem \<Rightarrow> addr \<Rightarrow> u32" where "sec_Characteristics m p = rd32 m (p + 36)"

text \<open>\<open>PhysicalAddress\<close> and \<open>VirtualSize\<close> are one field; both setters write it.\<close>

definition SetPhysicalAddress :: "addr \<Rightarrow> u32 \<Rightarrow> mem \<Rightarrow> mem" where
  "SetPhysicalAddress p v m = wr32 (p + 8) v m"

definition alignDown :: "u64 \<Rightarrow> u64 \<Rightarrow> u64" where
  "alignDown v a = v AND NOT (a - 1)"

definition alignUp :: "u64 \<Rightarrow> u64 \<Rightarrow> u64" where
  "alignUp v a = (v + a - 1) AND NOT (a - 1)"

section \<open>Copying the sections\<close>

text \<open>
  One section: one without data is zeroed memory of the alignment's size; one with data is copied
  from the file. The bound is computed in 32 bits before it is widened.
\<close>

definition copySection :: "win \<Rightarrow> addr \<Rightarrow> u64 \<Rightarrow> addr \<Rightarrow> addr \<Rightarrow> unit pe" where
  "copySection w address sz oldHeaders p s =
     (let m = ram s in
      if sec_SizeOfRawData m p = 0 then
        let sectionSize = opt_SectionAlignment m oldHeaders
        in if sectionSize = 0 then ok () s
           else bind_pe (call_os w (VirtualAlloc (md_codeBase s + ucast (sec_VirtualAddress m p)) (ucast sectionSize) MEM_COMMIT))
                  (\<lambda>r. if r = None then fail (Err ''Error allocating section'')
                       else update (\<lambda>s.
                              let dest = md_codeBase s + ucast (sec_VirtualAddress (ram s) p)
                              in s\<lparr>ram := memzero dest (ucast sectionSize) (SetPhysicalAddress p (ucast dest) (ram s))\<rparr>)) s
      else if sz < ucast (sec_PointerToRawData m p + sec_SizeOfRawData m p)
      then fail (Err ''Incomplete section'') s
      else bind_pe (call_os w (VirtualAlloc (md_codeBase s + ucast (sec_VirtualAddress m p)) (ucast (sec_SizeOfRawData m p)) MEM_COMMIT))
             (\<lambda>r. case r of
                    None \<Rightarrow> fail (Err ''Error allocating memory block'')
                  | Some dest \<Rightarrow> update (\<lambda>s.
                      s\<lparr>ram := SetPhysicalAddress p (ucast dest)
                         (memcpy (md_codeBase s + ucast (sec_VirtualAddress (ram s) p))
                                 (address + ucast (sec_PointerToRawData (ram s) p))
                                 (ucast (sec_SizeOfRawData (ram s) p)) (ram s))\<rparr>)) s)"

fun copy_from :: "win \<Rightarrow> addr \<Rightarrow> u64 \<Rightarrow> addr \<Rightarrow> nat \<Rightarrow> addr \<Rightarrow> unit pe" where
  "copy_from w address sz oldHeaders 0 p = ok ()"
| "copy_from w address sz oldHeaders (Suc n) p =
     bind_pe (copySection w address sz oldHeaders p) (\<lambda>_. copy_from w address sz oldHeaders n (p + 40))"

definition copySections :: "win \<Rightarrow> addr \<Rightarrow> u64 \<Rightarrow> addr \<Rightarrow> unit pe" where
  "copySections w address sz oldHeaders s =
     (let (p, n) = Sections (ram s) (md_headers s) in copy_from w address sz oldHeaders n p s)"

end
