(* ===== verification/Pe_Sections.thy ===== *)
theory Pe_Sections
  imports Pe_Module
begin

text \<open>
  Protection of the sections, \<open>finalizeSections\<close> of \<open>bin/memmod/memmod_windows.go\<close>, and the search for
  an image address within one 4 GiB block, which the 32-bit section addresses rely on.
\<close>

section \<open>One region\<close>

record sectionFinalizeData =
  sd_address :: addr
  sd_alignedAddress :: addr
  sd_size :: u64
  sd_characteristics :: u32
  sd_last :: bool

definition IMAGE_SCN_MEM_DISCARDABLE :: u32 where "IMAGE_SCN_MEM_DISCARDABLE = 0x02000000"
definition IMAGE_SCN_MEM_NOT_CACHED :: u32 where "IMAGE_SCN_MEM_NOT_CACHED = 0x04000000"
definition IMAGE_SCN_CNT_INITIALIZED_DATA :: u32 where "IMAGE_SCN_CNT_INITIALIZED_DATA = 0x00000040"
definition IMAGE_SCN_CNT_UNINITIALIZED_DATA :: u32 where "IMAGE_SCN_CNT_UNINITIALIZED_DATA = 0x00000080"

definition realSectionSize :: "mem \<Rightarrow> addr \<Rightarrow> addr \<Rightarrow> u64" where
  "realSectionSize m nt p =
     (if sec_SizeOfRawData m p \<noteq> 0 then ucast (sec_SizeOfRawData m p)
      else if sec_Characteristics m p AND IMAGE_SCN_CNT_INITIALIZED_DATA \<noteq> 0
           then ucast (opt_SizeOfInitializedData m nt)
      else if sec_Characteristics m p AND IMAGE_SCN_CNT_UNINITIALIZED_DATA \<noteq> 0
           then ucast (opt_SizeOfUninitializedData m nt)
      else 0)"

text \<open>
  Windows' page protections, by the bits EXECUTE, READ, WRITE of the characteristics.
\<close>

definition ProtectionFlags :: "u32 list" where
  "ProtectionFlags = [0x01, 0x10, 0x02, 0x20, 0x08, 0x80, 0x04, 0x40]"

definition protect_of :: "u32 \<Rightarrow> u32" where
  "protect_of c =
     (let protect = ProtectionFlags ! unat (drop_bit 29 c)
      in if c AND IMAGE_SCN_MEM_NOT_CACHED \<noteq> 0 then protect OR 0x200 else protect)"

definition decommit :: "win \<Rightarrow> sectionFinalizeData \<Rightarrow> unit pe" where
  "decommit w sd =
     bind_pe (call_os w (VirtualFree (sd_address sd) (sd_size sd) MEM_DECOMMIT)) (\<lambda>_. ok ())"

definition finalizeSection :: "win \<Rightarrow> sectionFinalizeData \<Rightarrow> unit pe" where
  "finalizeSection w sd s =
     (if sd_size sd = 0 then ok () s
      else if sd_characteristics sd AND IMAGE_SCN_MEM_DISCARDABLE \<noteq> 0 then
        if sd_address sd \<noteq> sd_alignedAddress sd then ok () s
        else if sd_last sd then decommit w sd s
        else let alignment = ucast (opt_SectionAlignment (ram s) (md_headers s))
             in if alignment = 0 then fail (Panic ''integer divide by zero'') s
                else if sd_size sd mod alignment = 0 then decommit w sd s else ok () s
      else bind_pe (call_os w (VirtualProtect (sd_address sd) (sd_size sd) (protect_of (sd_characteristics sd))))
             (\<lambda>r. if r = None then fail (Err ''Error protecting memory page'') else ok ()) s)"

section \<open>Merging sections that share a page\<close>

definition imageOffset :: "mem \<Rightarrow> addr \<Rightarrow> u64" where
  "imageOffset m nt = opt_ImageBase m nt AND 0xffffffff00000000"

definition merge_section :: "sectionFinalizeData \<Rightarrow> addr \<Rightarrow> u64 \<Rightarrow> u32 \<Rightarrow> sectionFinalizeData" where
  "merge_section sd a sz c =
     sd\<lparr>sd_characteristics :=
          (if c AND IMAGE_SCN_MEM_DISCARDABLE = 0 \<or> sd_characteristics sd AND IMAGE_SCN_MEM_DISCARDABLE = 0
           then (sd_characteristics sd OR c) AND NOT IMAGE_SCN_MEM_DISCARDABLE
           else sd_characteristics sd OR c),
        sd_size := a + sz - sd_address sd\<rparr>"

definition new_region :: "addr \<Rightarrow> u64 \<Rightarrow> u64 \<Rightarrow> u32 \<Rightarrow> sectionFinalizeData" where
  "new_region a alignment sz c =
     \<lparr>sd_address = a, sd_alignedAddress = alignDown a alignment, sd_size = sz,
      sd_characteristics = c, sd_last = False\<rparr>"

definition shares_page :: "sectionFinalizeData \<Rightarrow> addr \<Rightarrow> bool" where
  "shares_page sd aligned \<longleftrightarrow>
     sd_alignedAddress sd = aligned \<or> aligned < sd_address sd + sd_size sd"

text \<open>
  The loop over the remaining sections; \<open>p\<close> is the header of the next one. The field \<open>VirtualSize\<close>
  holds the section's address until its size replaces it.
\<close>

fun finalize_from :: "win \<Rightarrow> u64 \<Rightarrow> nat \<Rightarrow> addr \<Rightarrow> sectionFinalizeData \<Rightarrow> unit pe" where
  "finalize_from w off 0 p sd s = finalizeSection w (sd\<lparr>sd_last := True\<rparr>) s"
| "finalize_from w off (Suc n) p sd s =
     (let m = ram s;
          alignment = ucast (opt_SectionAlignment m (md_headers s));
          a = ucast (sec_VirtualSize m p) OR off;
          sz = realSectionSize m (md_headers s) p;
          s1 = s\<lparr>ram := SetPhysicalAddress p (ucast sz) m\<rparr>
      in if shares_page sd (alignDown a alignment)
         then finalize_from w off n (p + 40) (merge_section sd a sz (sec_Characteristics (ram s1) p)) s1
         else bind_pe (finalizeSection w sd)
                (\<lambda>_ s2. finalize_from w off n (p + 40)
                   (new_region a alignment sz (sec_Characteristics (ram s2) p)) s2) s1)"

definition finalizeSections :: "win \<Rightarrow> unit pe" where
  "finalizeSections w s =
     (let m = ram s; nt = md_headers s; (p, n) = Sections m nt;
          off = imageOffset m nt;
          sz = realSectionSize m nt p
      in if n = 0 then fail (Panic ''index out of range'') s
         else finalize_from w off (n - 1) (p + 40)
                (new_region (ucast (sec_VirtualSize m p) OR off) (ucast (opt_SectionAlignment m nt)) sz
                   (sec_Characteristics m p))
                (s\<lparr>ram := SetPhysicalAddress p (ucast sz) m\<rparr>))"

section \<open>Regions as data\<close>

text \<open>
  The sections as a list of addresses, sizes and characteristics, and the regions they are merged
  into.
\<close>

type_synonym section_data = "addr \<times> u64 \<times> u32"

fun regions :: "u64 \<Rightarrow> sectionFinalizeData \<Rightarrow> section_data list \<Rightarrow> sectionFinalizeData list" where
  "regions alignment sd [] = [sd\<lparr>sd_last := True\<rparr>]"
| "regions alignment sd ((a, sz, c) # xs) =
     (if shares_page sd (alignDown a alignment) then regions alignment (merge_section sd a sz c) xs
      else sd # regions alignment (new_region a alignment sz c) xs)"

definition covers :: "sectionFinalizeData \<Rightarrow> section_data \<Rightarrow> bool" where
  "covers r x \<longleftrightarrow>
     (case x of (a, sz, c) \<Rightarrow>
        unat (sd_address r) \<le> unat a \<and>
        unat a + unat sz \<le> unat (sd_address r) + unat (sd_size r) \<and>
        unat (sd_address r) + unat (sd_size r) < 2 ^ 64 \<and>
        c AND 0xe0000000 AND NOT (sd_characteristics r) = 0 \<and>
        (c AND IMAGE_SCN_MEM_DISCARDABLE = 0 \<longrightarrow> sd_characteristics r AND IMAGE_SCN_MEM_DISCARDABLE = 0))"

text \<open>
  Sections in order of address, not overlapping, starting at \<open>lo\<close> or above.
\<close>

fun in_order :: "nat \<Rightarrow> section_data list \<Rightarrow> bool" where
  "in_order lo [] \<longleftrightarrow> True"
| "in_order lo ((a, sz, c) # xs) \<longleftrightarrow>
     lo \<le> unat a \<and> unat a + unat sz < 2 ^ 64 \<and> in_order (unat a + unat sz) xs"

lemma covers_last [simp]: "covers (sd\<lparr>sd_last := b\<rparr>) x \<longleftrightarrow> covers sd x"
  by (simp add: covers_def)

lemma bits_subset_or:
  fixes c d :: "'a::len word"
  assumes "c AND k AND NOT d = 0"
  shows "c AND k AND NOT (d OR e) = 0"
proof (rule bit_word_eqI)
  fix n assume n: "n < LENGTH('a)"
  have "\<not> bit (c AND k AND NOT d) n" using assms by simp
  then show "bit (c AND k AND NOT (d OR e)) n \<longleftrightarrow> bit 0 n" using n by (auto simp: bit_simps)
qed

lemma bits_subset_mask:
  fixes c d :: u32
  assumes "c AND 0xe0000000 AND NOT d = 0"
  shows "c AND 0xe0000000 AND NOT (d AND NOT IMAGE_SCN_MEM_DISCARDABLE) = 0"
proof -
  have "(0xe0000000 AND IMAGE_SCN_MEM_DISCARDABLE) = (0 :: u32)" by (simp add: IMAGE_SCN_MEM_DISCARDABLE_def)
  moreover have "c AND 0xe0000000 AND NOT (d AND NOT IMAGE_SCN_MEM_DISCARDABLE) =
      (c AND 0xe0000000 AND NOT d) OR (c AND (0xe0000000 AND IMAGE_SCN_MEM_DISCARDABLE))"
    by (rule bit_word_eqI) (auto simp: bit_simps)
  ultimately show ?thesis using assms by simp
qed

lemma covers_new: "unat a + unat sz < 2 ^ 64 \<Longrightarrow> covers (new_region a alignment sz c) (a, sz, c)"
proof -
  have "c AND 0xe0000000 AND NOT c = 0" by (rule bit_word_eqI) (auto simp: bit_simps)
  then show "unat a + unat sz < 2 ^ 64 \<Longrightarrow> covers (new_region a alignment sz c) (a, sz, c)"
    by (simp add: covers_def new_region_def)
qed

lemma merge_size:
  assumes "unat (sd_address sd) + unat (sd_size sd) \<le> unat a" "unat a + unat sz < 2 ^ 64"
  shows "unat (sd_address sd) + unat (a + sz - sd_address sd) = unat a + unat sz"
proof -
  have "unat (a + sz) = unat a + unat sz" using assms(2) by (simp add: unat_word_ariths)
  moreover have "sd_address sd \<le> a + sz" using calculation assms by (simp add: word_le_nat_alt)
  ultimately show ?thesis using assms by (simp add: unat_sub)
qed

lemma merge_chars:
  assumes "c AND 0xe0000000 AND NOT (sd_characteristics sd) = 0 \<or> c = d"
  shows "c AND 0xe0000000 AND NOT (sd_characteristics (merge_section sd a sz d)) = 0"
proof -
  have "d AND 0xe0000000 AND NOT d = 0" by (rule bit_word_eqI) (auto simp: bit_simps)
  then have "c AND 0xe0000000 AND NOT (sd_characteristics sd OR d) = 0"
    using assms bits_subset_or [of c _ "sd_characteristics sd" d] bits_subset_or [of c _ d "sd_characteristics sd"]
    by (auto simp: or.commute)
  moreover have "sd_characteristics (merge_section sd a sz d) =
        (sd_characteristics sd OR d) AND NOT IMAGE_SCN_MEM_DISCARDABLE \<or>
      sd_characteristics (merge_section sd a sz d) = sd_characteristics sd OR d"
    by (simp add: merge_section_def)
  ultimately show ?thesis using bits_subset_mask by metis
qed

lemma merge_discardable:
  "sd_characteristics sd AND IMAGE_SCN_MEM_DISCARDABLE = 0 \<or> c AND IMAGE_SCN_MEM_DISCARDABLE = 0 \<Longrightarrow>
   sd_characteristics (merge_section sd a sz c) AND IMAGE_SCN_MEM_DISCARDABLE = 0"
proof -
  have "(x AND NOT k) AND k = (0 :: u32)" for x k by (rule bit_word_eqI) (auto simp: bit_simps)
  then show "sd_characteristics sd AND IMAGE_SCN_MEM_DISCARDABLE = 0 \<or> c AND IMAGE_SCN_MEM_DISCARDABLE = 0 \<Longrightarrow>
      ?thesis" by (auto simp: merge_section_def)
qed

lemma covers_merge:
  assumes "unat (sd_address sd) + unat (sd_size sd) \<le> unat a" "unat a + unat sz < 2 ^ 64"
  shows "covers (merge_section sd a sz c) (a, sz, c)"
    and "covers sd x \<Longrightarrow> covers (merge_section sd a sz c) x"
proof -
  have addr: "sd_address (merge_section sd a sz c) = sd_address sd"
    "sd_size (merge_section sd a sz c) = a + sz - sd_address sd"
    by (simp_all add: merge_section_def)
  note size = merge_size [OF assms]
  show "covers (merge_section sd a sz c) (a, sz, c)"
    using size assms merge_chars [of c sd c a sz] merge_discardable [of sd c a sz]
    by (simp add: covers_def addr)
  assume "covers sd x"
  then show "covers (merge_section sd a sz c) x"
    using size assms merge_chars [of "snd (snd x)" sd c a sz] merge_discardable [of sd c a sz]
    by (auto simp: covers_def addr split: prod.splits)
qed

text \<open>
  Every section is covered by a region, and so is everything the current region covers.
\<close>

lemma regions_cover:
  assumes "in_order (unat (sd_address sd) + unat (sd_size sd)) xs"
  shows "(\<forall>x. covers sd x \<longrightarrow> (\<exists>r \<in> set (regions alignment sd xs). covers r x)) \<and>
         (\<forall>x \<in> set xs. \<exists>r \<in> set (regions alignment sd xs). covers r x)"
  using assms
proof (induction alignment sd xs rule: regions.induct)
  case (2 alignment sd a sz c xs)
  have a: "unat (sd_address sd) + unat (sd_size sd) \<le> unat a" "unat a + unat sz < 2 ^ 64"
    and xs: "in_order (unat a + unat sz) xs" using "2.prems" by simp_all
  show ?case
  proof (cases "shares_page sd (alignDown a alignment)")
    case True
    let ?sd = "merge_section sd a sz c"
    have "unat (sd_address ?sd) + unat (sd_size ?sd) = unat a + unat sz"
      using merge_size [OF a] by (simp add: merge_section_def)
    with "2.IH"(1) [OF True] xs covers_merge [OF a] show ?thesis by (auto simp: True)
  next
    case False
    have "in_order (unat (sd_address (new_region a alignment sz c)) + unat (sd_size (new_region a alignment sz c))) xs"
      using xs by (simp add: new_region_def)
    with "2.IH"(2) [OF False] covers_new [OF a(2)] show ?thesis by (auto simp: False)
  qed
qed auto

section \<open>The loop computes the regions\<close>

text \<open>
  Windows' documented behaviour on the image's own pages: protecting them succeeds, and neither
  protecting nor decommitting changes the bytes of the headers.
\<close>

definition quiet :: "win \<Rightarrow> bool" where
  "quiet w \<longleftrightarrow>
     (\<forall>tr a sz f m. (\<exists>v. w tr (VirtualProtect a sz f) m = (Some v, m)) \<and>
        snd (w tr (VirtualFree a sz f) m) = m)"

fun sections_at :: "mem \<Rightarrow> addr \<Rightarrow> u64 \<Rightarrow> nat \<Rightarrow> addr \<Rightarrow> section_data list" where
  "sections_at m nt off 0 p = []"
| "sections_at m nt off (Suc n) p =
     (ucast (sec_VirtualSize m p) OR off, realSectionSize m nt p, sec_Characteristics m p) #
     sections_at m nt off n (p + 40)"

definition protects :: "pe_state \<Rightarrow> sectionFinalizeData \<Rightarrow> bool" where
  "protects s r \<longleftrightarrow>
     sd_size r \<noteq> 0 \<and> sd_characteristics r AND IMAGE_SCN_MEM_DISCARDABLE = 0 \<longrightarrow>
     (\<exists>v. (VirtualProtect (sd_address r) (sd_size r) (protect_of (sd_characteristics r)), Some v) \<in> set (trace s))"

abbreviation section_area :: "addr \<Rightarrow> nat \<Rightarrow> addr set" where
  "section_area p n \<equiv> at p (40 * n)"

abbreviation header_area :: "addr \<Rightarrow> addr set" where
  "header_area nt \<equiv> at (nt + 32) 28"

lemma section_fields_cong:
  assumes "\<And>x. x \<in> at p 40 \<Longrightarrow> m x = m' x" and "\<And>x. x \<in> header_area nt \<Longrightarrow> m x = m' x"
  shows "sec_VirtualSize m p = sec_VirtualSize m' p" "sec_Characteristics m p = sec_Characteristics m' p"
    and "realSectionSize m nt p = realSectionSize m' nt p"
proof -
  show "sec_VirtualSize m p = sec_VirtualSize m' p"
    using rd32_sub [of 8 40 p m m'] assms(1) by (simp add: sec_VirtualSize_def)
  show c: "sec_Characteristics m p = sec_Characteristics m' p"
    using rd32_sub [of 36 40 p m m'] assms(1) by (simp add: sec_Characteristics_def)
  have "sec_SizeOfRawData m p = sec_SizeOfRawData m' p"
    using rd32_sub [of 16 40 p m m'] assms(1) by (simp add: sec_SizeOfRawData_def)
  moreover have "opt_SizeOfInitializedData m nt = opt_SizeOfInitializedData m' nt"
    using rd32_sub [of 0 28 "nt + 32" m m'] assms(2) by (simp add: opt_SizeOfInitializedData_def)
  moreover have "opt_SizeOfUninitializedData m nt = opt_SizeOfUninitializedData m' nt"
    using rd32_sub [of 4 28 "nt + 32" m m'] assms(2) by (simp add: opt_SizeOfUninitializedData_def add.assoc)
  ultimately show "realSectionSize m nt p = realSectionSize m' nt p"
    by (simp add: realSectionSize_def c)
qed

lemma alignment_cong:
  assumes "\<And>x. x \<in> header_area nt \<Longrightarrow> m x = m' x"
  shows "opt_SectionAlignment m nt = opt_SectionAlignment m' nt"
  using rd32_sub [of 24 28 "nt + 32" m m'] assms by (simp add: opt_SectionAlignment_def add.assoc)

lemma section_area_Suc:
  "40 * Suc n < 2 ^ 64 \<Longrightarrow> section_area p (Suc n) = at p 40 \<union> section_area (p + 40) n"
  using at_add [of 40 "40 * n" p] by simp

lemma sections_at_cong:
  "40 * n < 2 ^ 64 \<Longrightarrow> (\<And>x. x \<in> section_area p n \<union> header_area nt \<Longrightarrow> m x = m' x) \<Longrightarrow>
   sections_at m nt off n p = sections_at m' nt off n p"
proof (induction n arbitrary: p)
  case (Suc n)
  note parts = section_area_Suc [OF Suc.prems(1), of p]
  have "sections_at m nt off n (p + 40) = sections_at m' nt off n (p + 40)"
    by (rule Suc.IH) (use Suc.prems parts in auto)
  moreover have "m x = m' x" if "x \<in> at p 40" for x
    using that Suc.prems(2) parts by blast
  moreover have "m x = m' x" if "x \<in> header_area nt" for x
    using that Suc.prems(2) by blast
  ultimately show ?case
    using section_fields_cong [of p m m' nt] by simp
qed simp

lemma next_section_disjoint:
  assumes "40 * Suc n < 2 ^ 64"
  shows "at (p + 8) 4 \<inter> section_area (p + 40) n = {}"
proof (rule at_disjoint)
  have "(p + 40) - (p + 8) = (32 :: u64)" "(p + 8) - (p + 40) = (- 32 :: u64)" by simp_all
  moreover have "unat (- 32 :: u64) = 2 ^ 64 - 32" by (simp add: unat_eq_nat_uint uint_word_ariths)
  ultimately show "4 \<le> unat ((p + 40) - (p + 8))" "40 * n \<le> unat ((p + 8) - (p + 40))"
    using assms by simp_all
qed

lemma decommit_quiet:
  assumes "quiet w"
  shows "\<exists>tr. decommit w sd s = Some (Inr (), s\<lparr>trace := trace s @ tr\<rparr>)"
proof -
  obtain r where "w (trace s) (VirtualFree (sd_address sd) (sd_size sd) MEM_DECOMMIT) (ram s) = (r, ram s)"
    using assms unfolding quiet_def by (metis prod.collapse)
  then show ?thesis by (auto simp: decommit_def bind_pe_def call_os_def ok_def)
qed

lemma finalizeSection_quiet:
  assumes "quiet w" "opt_SectionAlignment (ram s) (md_headers s) \<noteq> 0"
  shows "\<exists>tr. finalizeSection w sd s = Some (Inr (), s\<lparr>trace := trace s @ tr\<rparr>) \<and>
           protects (s\<lparr>trace := trace s @ tr\<rparr>) sd"
proof -
  have skipped: ?thesis if "finalizeSection w sd s = ok () s" "sd_size sd = 0 \<or> sd_characteristics sd AND IMAGE_SCN_MEM_DISCARDABLE \<noteq> 0"
    using that by (intro exI [of _ "[]"]) (auto simp: ok_def protects_def)
  have decommitted: ?thesis if "finalizeSection w sd s = decommit w sd s" "sd_characteristics sd AND IMAGE_SCN_MEM_DISCARDABLE \<noteq> 0"
    using that decommit_quiet [OF assms(1), of sd s] by (auto simp: protects_def)
  show ?thesis
  proof (cases "sd_size sd = 0 \<or> sd_characteristics sd AND IMAGE_SCN_MEM_DISCARDABLE \<noteq> 0")
    case True
    then have "finalizeSection w sd s = ok () s \<or>
        finalizeSection w sd s = decommit w sd s \<and> sd_characteristics sd AND IMAGE_SCN_MEM_DISCARDABLE \<noteq> 0"
      using assms(2) by (auto simp: finalizeSection_def Let_def)
    with True show ?thesis using skipped decommitted by blast
  next
    case False
    let ?call = "VirtualProtect (sd_address sd) (sd_size sd) (protect_of (sd_characteristics sd))"
    obtain v where "w (trace s) ?call (ram s) = (Some v, ram s)" using assms(1) unfolding quiet_def by blast
    with False have "finalizeSection w sd s = Some (Inr (), s\<lparr>trace := trace s @ [(?call, Some v)]\<rparr>)"
      by (simp add: finalizeSection_def bind_pe_def call_os_def ok_def)
    then show ?thesis by (intro exI [of _ "[(?call, Some v)]"]) (auto simp: protects_def)
  qed
qed

lemma protects_more: "protects s r \<Longrightarrow> set (trace s) \<subseteq> set (trace s') \<Longrightarrow> protects s' r"
  by (auto simp: protects_def)

text \<open>
  Writing the size into a section header changes neither the later section headers, nor the
  alignment, nor the characteristics.
\<close>

lemma set_size_frame:
  assumes "section_area p (Suc n) \<inter> header_area nt = {}" and "40 * Suc n < 2 ^ 64"
  shows "sections_at (SetPhysicalAddress p s m) nt off n (p + 40) = sections_at m nt off n (p + 40)"
    and "opt_SectionAlignment (SetPhysicalAddress p s m) nt = opt_SectionAlignment m nt"
    and "sec_Characteristics (SetPhysicalAddress p s m) p = sec_Characteristics m p"
proof -
  let ?m = "SetPhysicalAddress p s m"
  note parts = section_area_Suc [OF assms(2), of p]
  have own: "at (p + 8) 4 \<subseteq> section_area p (Suc n)"
    using at_within [of 8 4 40 p] parts by auto
  have frame: "?m x = m x" if "x \<notin> at (p + 8) 4" for x
    using wr_outside [OF that] by (simp add: SetPhysicalAddress_def wr32_def)
  have header: "?m x = m x" if "x \<in> header_area nt" for x
    using frame own assms(1) that by blast
  have later: "?m x = m x" if "x \<in> section_area (p + 40) n" for x
    using frame next_section_disjoint [OF assms(2), of p] that by blast
  show "sections_at ?m nt off n (p + 40) = sections_at m nt off n (p + 40)"
    by (rule sections_at_cong) (use assms(2) header later in auto)
  show "opt_SectionAlignment ?m nt = opt_SectionAlignment m nt"
    by (rule alignment_cong) (rule header)
  have "at (p + 8) 4 \<inter> at (p + 36) 4 = {}" by (rule at_disjoint) (simp_all add: unat_eq_nat_uint uint_word_ariths)
  then show "sec_Characteristics ?m p = sec_Characteristics m p"
    unfolding sec_Characteristics_def by (intro rd32_cong frame) blast
qed

lemma finalize_from_quiet:
  assumes "quiet w" and "opt_SectionAlignment (ram s) (md_headers s) \<noteq> 0"
    and "section_area p n \<inter> header_area (md_headers s) = {}" and "40 * n < 2 ^ 64"
  shows "\<exists>s'. finalize_from w off n p sd s = Some (Inr (), s') \<and> set (trace s) \<subseteq> set (trace s') \<and>
           (\<forall>r \<in> set (regions (ucast (opt_SectionAlignment (ram s) (md_headers s))) sd
                            (sections_at (ram s) (md_headers s) off n p)). protects s' r)"
  using assms(2-4)
proof (induction n arbitrary: p sd s)
  case 0
  obtain tr where tr: "finalizeSection w (sd\<lparr>sd_last := True\<rparr>) s = Some (Inr (), s\<lparr>trace := trace s @ tr\<rparr>)"
    "protects (s\<lparr>trace := trace s @ tr\<rparr>) (sd\<lparr>sd_last := True\<rparr>)"
    using finalizeSection_quiet [OF assms(1) "0.prems"(1)] by blast
  then show ?case by (intro exI [of _ "s\<lparr>trace := trace s @ tr\<rparr>"]) simp
next
  case (Suc n)
  let ?m = "ram s" and ?nt = "md_headers s"
  let ?al = "ucast (opt_SectionAlignment ?m ?nt) :: u64"
  let ?a = "ucast (sec_VirtualSize ?m p) OR off" and ?sz = "realSectionSize ?m ?nt p" and ?c = "sec_Characteristics ?m p"
  let ?m1 = "SetPhysicalAddress p (ucast ?sz) ?m"
  let ?s1 = "s\<lparr>ram := ?m1\<rparr>"
  note parts = section_area_Suc [OF Suc.prems(3), of p]
  note same = set_size_frame [OF Suc.prems(2,3), where s = "ucast ?sz" and m = ?m]
  note rest = same(1) and al = same(2) and c = same(3)
  have area: "section_area (p + 40) n \<inter> header_area ?nt = {}" "40 * n < 2 ^ 64"
    using Suc.prems(2,3) parts by auto
  show ?case
  proof (cases "shares_page sd (alignDown ?a ?al)")
    case True
    then have "finalize_from w off (Suc n) p sd s =
        finalize_from w off n (p + 40) (merge_section sd ?a ?sz ?c) ?s1"
      by (simp add: Let_def c)
    with Suc.IH [of ?s1 "p + 40" "merge_section sd ?a ?sz ?c"] Suc.prems(1) area True
    show ?thesis by (simp add: rest al)
  next
    case False
    obtain tr where tr: "finalizeSection w sd ?s1 = Some (Inr (), ?s1\<lparr>trace := trace ?s1 @ tr\<rparr>)"
      "protects (?s1\<lparr>trace := trace ?s1 @ tr\<rparr>) sd"
      using finalizeSection_quiet [OF assms(1), of ?s1 sd] Suc.prems(1) al by auto
    let ?s2 = "?s1\<lparr>trace := trace ?s1 @ tr\<rparr>" and ?new = "new_region ?a ?al ?sz ?c"
    have step: "finalize_from w off (Suc n) p sd s = finalize_from w off n (p + 40) ?new ?s2"
      using False tr(1) c by (simp add: Let_def bind_pe_def)
    obtain s' where s': "finalize_from w off n (p + 40) ?new ?s2 = Some (Inr (), s')"
      "set (trace ?s2) \<subseteq> set (trace s')"
      "\<forall>r \<in> set (regions ?al ?new (sections_at ?m ?nt off n (p + 40))). protects s' r"
      using Suc.IH [of ?s2 "p + 40" ?new] Suc.prems(1) area by (auto simp: rest al)
    have "protects s' sd" by (rule protects_more [OF tr(2) s'(2)])
    with s' step False show ?thesis by auto
  qed
qed

section \<open>No section loses its rights\<close>

text \<open>
  What a page protection allows.
\<close>

definition allows_write :: "u32 \<Rightarrow> bool" where
  "allows_write f \<longleftrightarrow> f AND 0xff \<in> {0x04, 0x08, 0x40, 0x80}"

definition allows_read :: "u32 \<Rightarrow> bool" where
  "allows_read f \<longleftrightarrow> f AND 0xff \<in> {0x02, 0x04, 0x08, 0x20, 0x40, 0x80}"

definition allows_execute :: "u32 \<Rightarrow> bool" where
  "allows_execute f \<longleftrightarrow> f AND 0xff \<in> {0x10, 0x20, 0x40, 0x80}"

definition grants :: "u32 \<Rightarrow> u32 \<Rightarrow> bool" where
  "grants f c \<longleftrightarrow>
     (bit c 31 \<longrightarrow> allows_write f) \<and> (bit c 30 \<longrightarrow> allows_read f) \<and> (bit c 29 \<longrightarrow> allows_execute f)"

lemma top_bits:
  fixes c :: u32
  shows "unat (drop_bit 29 c) = of_bool (bit c 29) + 2 * of_bool (bit c 30) + 4 * of_bool (bit c 31)"
proof -
  have "drop_bit 29 c = of_bool (bit c 29) OR push_bit 1 (of_bool (bit c 30)) OR push_bit 2 (of_bool (bit c 31))"
  proof (rule bit_word_eqI)
    fix n assume "n < LENGTH(32)"
    moreover have "\<not> bit c (n + 29)" if "3 \<le> n" using that bit_imp_le_length [of c "n + 29"] by auto
    ultimately show "bit (drop_bit 29 c) n \<longleftrightarrow>
        bit (of_bool (bit c 29) OR push_bit 1 (of_bool (bit c 30)) OR push_bit 2 (of_bool (bit c 31)) :: u32) n"
      by (cases "n = 0 \<or> n = 1 \<or> n = 2") (auto simp: bit_simps add.commute)
  qed
  then show ?thesis by (cases "bit c 29"; cases "bit c 30"; cases "bit c 31") simp_all
qed

lemma protect_of_grants: "grants (protect_of c) c"
proof -
  have low: "(f OR 0x200) AND 0xff = f AND (0xff :: u32)" for f
    by (simp add: bit.conj_disj_distrib2)
  have nth: "ProtectionFlags ! unat (drop_bit 29 c) =
      (if bit c 31 then (if bit c 30 then (if bit c 29 then 0x40 else 0x04) else if bit c 29 then 0x80 else 0x08)
       else if bit c 30 then (if bit c 29 then 0x20 else 0x02) else if bit c 29 then 0x10 else 0x01)"
    by (cases "bit c 29"; cases "bit c 30"; cases "bit c 31")
      (simp_all add: top_bits ProtectionFlags_def)
  show ?thesis
    by (cases "bit c 29"; cases "bit c 30"; cases "bit c 31")
      (simp_all add: grants_def allows_write_def allows_read_def allows_execute_def protect_of_def Let_def nth low)
qed

lemma grants_subset:
  assumes "c AND 0xe0000000 AND NOT d = 0" "grants f d"
  shows "grants f c"
proof -
  have k: "(0xe0000000 :: u32) = push_bit 29 7" by (simp add: push_bit_eq_mult)
  have "bit d n" if "bit c n" "n \<in> {29, 30, 31}" for n
  proof -
    have "\<not> bit (c AND 0xe0000000 AND NOT d) n" using assms(1) by simp
    moreover have "bit (0xe0000000 :: u32) n" using that(2) by auto
    moreover have "n < LENGTH(32)" using that(2) by auto
    ultimately show ?thesis using that(1) by (auto simp: bit_simps)
  qed
  then show ?thesis using assms(2) by (auto simp: grants_def)
qed


definition quiet_win :: win where
  "quiet_win tr c m = (Some 0, m)"

definition module_at :: "mem \<Rightarrow> addr \<Rightarrow> addr \<Rightarrow> pe_state" where
  "module_at m nt cb =
     \<lparr>ram = m, trace = [], md_headers = nt, md_codeBase = cb, md_modules = None, md_initialized = False,
      md_isDLL = True, md_isRelocated = False, md_nameExports = None, md_entry = 0, md_blockedMemory = [],
      loadedAddressRanges = [], hookResult = None\<rparr>"

text \<open>
  Headers at \<open>0x1000\<close> with one section of code, \<open>0x200\<close> bytes at \<open>0x5000\<close>.
\<close>

definition sample_image :: mem where
  "sample_image = (\<lambda>_. 0)(0x1006 := 1, 0x1014 := 240, 0x1039 := 0x10,
     0x1111 := 0x50, 0x1119 := 2, 0x112c := 0x20, 0x112f := 0x60)"


section \<open>An image within 4 GiB\<close>

text \<open>
  The search for an image address that does not cross a 4 GiB boundary; refused blocks stay
  allocated until the module is freed. None: the search does not end.
\<close>

partial_function (option) check4GBBoundaries :: "win \<Rightarrow> u64 \<Rightarrow> pe_state \<Rightarrow> (unit outcome \<times> pe_state) option" where
  "check4GBBoundaries w alignedImageSize s =
     (if drop_bit 32 (md_codeBase s) < drop_bit 32 (md_codeBase s + alignedImageSize) then
        bind_pe (call_os w (VirtualAlloc 0 alignedImageSize (MEM_RESERVE OR MEM_COMMIT)))
          (\<lambda>r s'. case r of
             None \<Rightarrow> Some (Inl (Err ''Error allocating memory block''), s'\<lparr>md_codeBase := 0\<rparr>)
           | Some a \<Rightarrow> check4GBBoundaries w alignedImageSize (s'\<lparr>md_codeBase := a\<rparr>))
          (s\<lparr>md_blockedMemory := md_codeBase s # md_blockedMemory s\<rparr>)
      else Some (Inr (), s))"

lemma check4GBBoundaries_ok:
  assumes "check4GBBoundaries w sz s = Some y"
  shows "fst y = Inr () \<longrightarrow> \<not> drop_bit 32 (md_codeBase (snd y)) < drop_bit 32 (md_codeBase (snd y) + sz)"
proof (rule check4GBBoundaries.raw_induct [OF _ assms])
  fix f w sz s and y :: "unit outcome \<times> pe_state"
  assume IH: "\<And>w sz s y. f w sz s = Some y \<Longrightarrow>
      fst y = Inr () \<longrightarrow> \<not> drop_bit 32 (md_codeBase (snd y)) < drop_bit 32 (md_codeBase (snd y) + sz)"
    and body: "(if drop_bit 32 (md_codeBase s) < drop_bit 32 (md_codeBase s + sz) then
        bind_pe (call_os w (VirtualAlloc 0 sz (MEM_RESERVE OR MEM_COMMIT)))
          (\<lambda>r s'. case r of
             None \<Rightarrow> Some (Inl (Err ''Error allocating memory block''), s'\<lparr>md_codeBase := 0\<rparr>)
           | Some a \<Rightarrow> f w sz (s'\<lparr>md_codeBase := a\<rparr>))
          (s\<lparr>md_blockedMemory := md_codeBase s # md_blockedMemory s\<rparr>)
      else Some (Inr (), s)) = Some y"
  obtain r s'' where y: "y = (r, s'')" by (cases y)
  show "fst y = Inr () \<longrightarrow> \<not> drop_bit 32 (md_codeBase (snd y)) < drop_bit 32 (md_codeBase (snd y) + sz)"
    using body IH by (auto simp: y bind_pe_eq split: if_splits option.splits)
qed

lemma expand_address:
  fixes x base :: u64
  assumes "drop_bit 32 x = drop_bit 32 base"
  shows "ucast (ucast x :: u32) OR (base AND 0xffffffff00000000) = x"
proof (rule bit_word_eqI)
  fix n assume n: "n < LENGTH(64)"
  have mask: "(0xffffffff00000000 :: u64) = NOT (mask 32)" by (simp add: mask_eq_exp_minus_1)
  have high: "bit x n = bit base n" if "32 \<le> n"
  proof -
    have "bit (drop_bit 32 x) (n - 32) = bit (drop_bit 32 base) (n - 32)" using assms by simp
    with that show ?thesis by (simp add: bit_drop_bit_eq)
  qed
  show "bit (ucast (ucast x :: u32) OR (base AND 0xffffffff00000000)) n = bit x n"
    unfolding mask using n high by (cases "n < 32") (auto simp: bit_simps)
qed

text \<open>
  Section addresses are kept in 32 bits and expanded again. When the search for an image address
  succeeds, that loses nothing: every address of the image, truncated and combined with the upper
  half of the base as \<open>finalizeSections\<close> does it, is the address again.
\<close>

theorem truncation_lossless:
  assumes "check4GBBoundaries w sz s = Some (Inr (), s')"
    and "unat (md_codeBase s') + unat sz < 2 ^ 64" and "i \<le> sz"
  shows "ucast (ucast (md_codeBase s' + i) :: u32) OR (md_codeBase s' AND 0xffffffff00000000) = md_codeBase s' + i"
proof (rule expand_address)
  let ?b = "md_codeBase s'"
  have i: "unat i \<le> unat sz" using assms(3) by (simp add: word_le_nat_alt)
  have "unat (?b + sz) = unat ?b + unat sz" "unat (?b + i) = unat ?b + unat i"
    using assms(2) i by (simp_all add: unat_word_ariths)
  then have "unat (drop_bit 32 ?b) \<le> unat (drop_bit 32 (?b + i))"
    "unat (drop_bit 32 (?b + i)) \<le> unat (drop_bit 32 (?b + sz))"
    using i by (simp_all add: drop_bit_eq_div unat_div div_le_mono)
  moreover have "\<not> drop_bit 32 ?b < drop_bit 32 (?b + sz)"
    using check4GBBoundaries_ok [OF assms(1)] by simp
  ultimately show "drop_bit 32 (?b + i) = drop_bit 32 ?b"
    by (simp add: word_less_nat_alt word_unat_eq_iff)
qed

lemma truncation_lossless_witness:
  "ucast (ucast (0x7ff612340000 + 0x1234 :: u64) :: u32) OR ((0x7ff612340000 :: u64) AND 0xffffffff00000000) =
     (0x7ff612341234 :: u64)"
proof -
  have "check4GBBoundaries quiet_win 0x10000 (module_at (\<lambda>_. 0) 0 0x7ff612340000) =
      Some (Inr (), module_at (\<lambda>_. 0) 0 0x7ff612340000)"
    by (subst check4GBBoundaries.simps) (simp add: module_at_def)
  from truncation_lossless [OF this, of "0x1234"] show ?thesis by (simp add: module_at_def)
qed

end
