(* ===== verification/Enums.thy ===== *)
theory Enums
  imports Win_Ip Win_Filter Pe_Sections
begin

text \<open>
  The enumerations of \<open>winipcfg/types.go\<close>, \<open>winsys/constants.go\<close> and \<open>bin/memmod/syscall_windows.go\<close>: the
  names of each block of constants with their values, in the order of the source. A block that
  counts with \<open>iota\<close> is given by its names.
\<close>

definition iota_values :: "int \<Rightarrow> string list \<Rightarrow> (string \<times> int) list" where
  "iota_values k names = zip names (map (\<lambda>i. k + int i) [0..<length names])"

definition iota_flags :: "string list \<Rightarrow> (string \<times> int) list" where
  "iota_flags names = zip names (map (\<lambda>i. 2 ^ i) [0..<length names])"

section \<open>Types of winipcfg\<close>

definition IPAAFlags_values :: "(string \<times> int) list" where
  "IPAAFlags_values =
     iota_flags [
      ''IPAAFlagDdnsEnabled'', ''IPAAFlagRegisterAdapterSuffix'', ''IPAAFlagDhcpv4Enabled'',
      ''IPAAFlagReceiveOnly'', ''IPAAFlagNoMulticast'', ''IPAAFlagIpv6OtherStatefulConfig'',
      ''IPAAFlagNetbiosOverTcpipEnabled'', ''IPAAFlagIpv4Enabled'', ''IPAAFlagIpv6Enabled'',
      ''IPAAFlagIpv6ManagedAddressConfigurationSupported'']"

definition IfOperStatus_values :: "(string \<times> int) list" where
  "IfOperStatus_values =
     iota_values 1 [
      ''IfOperStatusUp'', ''IfOperStatusDown'', ''IfOperStatusTesting'', ''IfOperStatusUnknown'',
      ''IfOperStatusDormant'', ''IfOperStatusNotPresent'', ''IfOperStatusLowerLayerDown'']"

definition IfType_values :: "(string \<times> int) list" where
  "IfType_values =
     [
      (''IfTypeOther'', 1), (''IfTypeRegular1822'', 2), (''IfTypeHdh1822'', 3), (''IfTypeDdnX25'', 4),
      (''IfTypeRfc877X25'', 5), (''IfTypeEthernetCSMACD'', 6), (''IfTypeISO88023CSMACD'', 7),
      (''IfTypeISO88024Tokenbus'', 8), (''IfTypeISO88025Tokenring'', 9), (''IfTypeISO88026Man'', 10),
      (''IfTypeStarlan'', 11), (''IfTypeProteon10Mbit'', 12), (''IfTypeProteon80Mbit'', 13),
      (''IfTypeHyperchannel'', 14), (''IfTypeFddi'', 15), (''IfTypeLapB'', 16), (''IfTypeSdlc'', 17),
      (''IfTypeDs1'', 18), (''IfTypeE1'', 19), (''IfTypeBasicISDN'', 20), (''IfTypePrimaryISDN'', 21),
      (''IfTypePropPoint2PointSerial'', 22), (''IfTypePPP'', 23), (''IfTypeSoftwareLoopback'', 24),
      (''IfTypeEon'', 25), (''IfTypeEthernet3Mbit'', 26), (''IfTypeNsip'', 27), (''IfTypeSlip'', 28),
      (''IfTypeUltra'', 29), (''IfTypeDs3'', 30), (''IfTypeSip'', 31), (''IfTypeFramerelay'', 32),
      (''IfTypeRs232'', 33), (''IfTypePara'', 34), (''IfTypeArcnet'', 35), (''IfTypeArcnetPlus'', 36),
      (''IfTypeAtm'', 37), (''IfTypeMioX25'', 38), (''IfTypeSonet'', 39), (''IfTypeX25Ple'', 40),
      (''IfTypeIso88022LLC'', 41), (''IfTypeLocaltalk'', 42), (''IfTypeSmdsDxi'', 43),
      (''IfTypeFramerelayService'', 44), (''IfTypeV35'', 45), (''IfTypeHssi'', 46), (''IfTypeHippi'', 47),
      (''IfTypeModem'', 48), (''IfTypeAal5'', 49), (''IfTypeSonetPath'', 50), (''IfTypeSonetVt'', 51),
      (''IfTypeSmdsIcip'', 52), (''IfTypePropVirtual'', 53), (''IfTypePropMultiplexor'', 54),
      (''IfTypeIEEE80212'', 55), (''IfTypeFibrechannel'', 56), (''IfTypeHippiinterface'', 57),
      (''IfTypeFramerelayInterconnect'', 58), (''IfTypeAflane8023'', 59), (''IfTypeAflane8025'', 60),
      (''IfTypeCctemul'', 61), (''IfTypeFastether'', 62), (''IfTypeISDN'', 63), (''IfTypeV11'', 64),
      (''IfTypeV36'', 65), (''IfTypeG703_64k'', 66), (''IfTypeG703_2mb'', 67), (''IfTypeQllc'', 68),
      (''IfTypeFastetherFX'', 69), (''IfTypeChannel'', 70), (''IfTypeIEEE80211'', 71),
      (''IfTypeIBM370parchan'', 72), (''IfTypeEscon'', 73), (''IfTypeDlsw'', 74), (''IfTypeISDNS'', 75),
      (''IfTypeISDNU'', 76), (''IfTypeLapD'', 77), (''IfTypeIpswitch'', 78), (''IfTypeRsrb'', 79),
      (''IfTypeAtmLogical'', 80), (''IfTypeDs0'', 81), (''IfTypeDs0Bundle'', 82), (''IfTypeBsc'', 83),
      (''IfTypeAsync'', 84), (''IfTypeCnr'', 85), (''IfTypeIso88025rDtr'', 86), (''IfTypeEplrs'', 87),
      (''IfTypeArap'', 88), (''IfTypePropCnls'', 89), (''IfTypeHostpad'', 90), (''IfTypeTermpad'', 91),
      (''IfTypeFramerelayMpi'', 92), (''IfTypeX213'', 93), (''IfTypeAdsl'', 94), (''IfTypeRadsl'', 95),
      (''IfTypeSdsl'', 96), (''IfTypeVdsl'', 97), (''IfTypeIso88025Crfprint'', 98), (''IfTypeMyrinet'', 99),
      (''IfTypeVoiceEm'', 100), (''IfTypeVoiceFxo'', 101), (''IfTypeVoiceFxs'', 102),
      (''IfTypeVoiceEncap'', 103), (''IfTypeVoiceOverip'', 104), (''IfTypeAtmDxi'', 105),
      (''IfTypeAtmFuni'', 106), (''IfTypeAtmIma'', 107), (''IfTypePPPmultilinkbundle'', 108),
      (''IfTypeIpoverCdlc'', 109), (''IfTypeIpoverClaw'', 110), (''IfTypeStacktostack'', 111),
      (''IfTypeVirtualipaddress'', 112), (''IfTypeMpc'', 113), (''IfTypeIpoverAtm'', 114),
      (''IfTypeIso88025Fiber'', 115), (''IfTypeTdlc'', 116), (''IfTypeGigabitethernet'', 117),
      (''IfTypeHdlc'', 118), (''IfTypeLapF'', 119), (''IfTypeV37'', 120), (''IfTypeX25Mlp'', 121),
      (''IfTypeX25Huntgroup'', 122), (''IfTypeTransphdlc'', 123), (''IfTypeInterleave'', 124),
      (''IfTypeFast'', 125), (''IfTypeIP'', 126), (''IfTypeDocscableMaclayer'', 127),
      (''IfTypeDocscableDownstream'', 128), (''IfTypeDocscableUpstream'', 129), (''IfTypeA12mppswitch'', 130),
      (''IfTypeTunnel'', 131), (''IfTypeCoffee'', 132), (''IfTypeCes'', 133), (''IfTypeAtmSubinterface'', 134),
      (''IfTypeL2Vlan'', 135), (''IfTypeL3Ipvlan'', 136), (''IfTypeL3Ipxvlan'', 137),
      (''IfTypeDigitalpowerline'', 138), (''IfTypeMediamailoverip'', 139), (''IfTypeDtm'', 140),
      (''IfTypeDcn'', 141), (''IfTypeIpforward'', 142), (''IfTypeMsdsl'', 143), (''IfTypeIEEE1394'', 144),
      (''IfTypeIfGsn'', 145), (''IfTypeDvbrccMaclayer'', 146), (''IfTypeDvbrccDownstream'', 147),
      (''IfTypeDvbrccUpstream'', 148), (''IfTypeAtmVirtual'', 149), (''IfTypeMplsTunnel'', 150),
      (''IfTypeSrp'', 151), (''IfTypeVoiceoveratm'', 152), (''IfTypeVoiceoverframerelay'', 153),
      (''IfTypeIdsl'', 154), (''IfTypeCompositelink'', 155), (''IfTypeSs7Siglink'', 156),
      (''IfTypePropWirelessP2P'', 157), (''IfTypeFrForward'', 158), (''IfTypeRfc1483'', 159),
      (''IfTypeUsb'', 160), (''IfTypeIEEE8023adLag'', 161), (''IfTypeBgpPolicyAccounting'', 162),
      (''IfTypeFrf16MfrBundle'', 163), (''IfTypeH323Gatekeeper'', 164), (''IfTypeH323Proxy'', 165),
      (''IfTypeMpls'', 166), (''IfTypeMfSiglink'', 167), (''IfTypeHdsl2'', 168), (''IfTypeShdsl'', 169),
      (''IfTypeDs1Fdl'', 170), (''IfTypePos'', 171), (''IfTypeDvbAsiIn'', 172), (''IfTypeDvbAsiOut'', 173),
      (''IfTypePlc'', 174), (''IfTypeNfas'', 175), (''IfTypeTr008'', 176), (''IfTypeGr303Rdt'', 177),
      (''IfTypeGr303Idt'', 178), (''IfTypeIsup'', 179), (''IfTypePropDocsWirelessMaclayer'', 180),
      (''IfTypePropDocsWirelessDownstream'', 181), (''IfTypePropDocsWirelessUpstream'', 182),
      (''IfTypeHiperlan2'', 183), (''IfTypePropBwaP2MP'', 184), (''IfTypeSonetOverheadChannel'', 185),
      (''IfTypeDigitalWrapperOverheadChannel'', 186), (''IfTypeAal2'', 187), (''IfTypeRadioMac'', 188),
      (''IfTypeAtmRadio'', 189), (''IfTypeImt'', 190), (''IfTypeMvl'', 191), (''IfTypeReachDsl'', 192),
      (''IfTypeFrDlciEndpt'', 193), (''IfTypeAtmVciEndpt'', 194), (''IfTypeOpticalChannel'', 195),
      (''IfTypeOpticalTransport'', 196), (''IfTypeIEEE80216Wman'', 237), (''IfTypeWwanpp'', 243),
      (''IfTypeWwanpp2'', 244), (''IfTypeIEEE802154'', 259), (''IfTypeXboxWireless'', 281)]"

definition MibIfEntryLevel_values :: "(string \<times> int) list" where
  "MibIfEntryLevel_values =
     [
      (''MibIfEntryNormal'', 0), (''MibIfEntryNormalWithoutStatistics'', 2)]"

definition NdisMedium_values :: "(string \<times> int) list" where
  "NdisMedium_values =
     iota_values 0 [
      ''NdisMedium802_3'', ''NdisMedium802_5'', ''NdisMediumFddi'', ''NdisMediumWan'', ''NdisMediumLocalTalk'',
      ''NdisMediumDix'', ''NdisMediumArcnetRaw'', ''NdisMediumArcnet878_2'', ''NdisMediumAtm'',
      ''NdisMediumWirelessWan'', ''NdisMediumIrda'', ''NdisMediumBpc'', ''NdisMediumCoWan'',
      ''NdisMedium1394'', ''NdisMediumInfiniBand'', ''NdisMediumTunnel'', ''NdisMediumNative802_11'',
      ''NdisMediumLoopback'', ''NdisMediumWiMAX'', ''NdisMediumIP'', ''NdisMediumMax'']"

definition NdisPhysicalMedium_values :: "(string \<times> int) list" where
  "NdisPhysicalMedium_values =
     iota_values 0 [
      ''NdisPhysicalMediumUnspecified'', ''NdisPhysicalMediumWirelessLan'', ''NdisPhysicalMediumCableModem'',
      ''NdisPhysicalMediumPhoneLine'', ''NdisPhysicalMediumPowerLine'', ''NdisPhysicalMediumDSL'',
      ''NdisPhysicalMediumFibreChannel'', ''NdisPhysicalMedium1394'', ''NdisPhysicalMediumWirelessWan'',
      ''NdisPhysicalMediumNative802_11'', ''NdisPhysicalMediumBluetooth'', ''NdisPhysicalMediumInfiniband'',
      ''NdisPhysicalMediumWiMax'', ''NdisPhysicalMediumUWB'', ''NdisPhysicalMedium802_3'',
      ''NdisPhysicalMedium802_5'', ''NdisPhysicalMediumIrda'', ''NdisPhysicalMediumWiredWAN'',
      ''NdisPhysicalMediumWiredCoWan'', ''NdisPhysicalMediumOther'', ''NdisPhysicalMediumNative802_15_4'',
      ''NdisPhysicalMediumMax'']"

definition NetIfAccessType_values :: "(string \<times> int) list" where
  "NetIfAccessType_values =
     iota_values 1 [
      ''NetIfAccessLoopback'', ''NetIfAccessBroadcast'', ''NetIfAccessPointToPoint'',
      ''NetIfAccessPointToMultiPoint'', ''NetIfAccessMax'']"

definition NetIfAdminStatus_values :: "(string \<times> int) list" where
  "NetIfAdminStatus_values =
     iota_values 1 [
      ''NetIfAdminStatusUp'', ''NetIfAdminStatusDown'', ''NetIfAdminStatusTesting'']"

definition NetIfConnectionType_values :: "(string \<times> int) list" where
  "NetIfConnectionType_values =
     iota_values 1 [
      ''NetIfConnectionDedicated'', ''NetIfConnectionPassive'', ''NetIfConnectionDemand'',
      ''NetIfConnectionMaximum'']"

definition NetIfDirectionType_values :: "(string \<times> int) list" where
  "NetIfDirectionType_values =
     iota_values 0 [
      ''NetIfDirectionSendReceive'', ''NetIfDirectionSendOnly'', ''NetIfDirectionReceiveOnly'',
      ''NetIfDirectionMaximum'']"

definition NetIfMediaConnectState_values :: "(string \<times> int) list" where
  "NetIfMediaConnectState_values =
     iota_values 0 [
      ''MediaConnectStateUnknown'', ''MediaConnectStateConnected'', ''MediaConnectStateDisconnected'']"

definition DadState_values :: "(string \<times> int) list" where
  "DadState_values =
     iota_values 0 [
      ''DadStateInvalid'', ''DadStateTentative'', ''DadStateDuplicate'', ''DadStateDeprecated'',
      ''DadStatePreferred'']"

definition PrefixOrigin_values :: "(string \<times> int) list" where
  "PrefixOrigin_values =
     iota_values 0 [
      ''PrefixOriginOther'', ''PrefixOriginManual'', ''PrefixOriginWellKnown'', ''PrefixOriginDHCP'',
      ''PrefixOriginRouterAdvertisement''] @ [
      (''PrefixOriginUnchanged'', 16)]"

definition LinkLocalAddressBehavior_values :: "(string \<times> int) list" where
  "LinkLocalAddressBehavior_values =
     iota_values 0 [
      ''LinkLocalAddressAlwaysOff'', ''LinkLocalAddressDelayed'', ''LinkLocalAddressAlwaysOn''] @ [
      (''LinkLocalAddressUnchanged'', -1)]"

definition OffloadRod_values :: "(string \<times> int) list" where
  "OffloadRod_values =
     iota_flags [
      ''ChecksumSupported'', ''OptionsSupported'', ''DatagramChecksumSupported'', ''StreamChecksumSupported'',
      ''StreamOptionsSupported'', ''FastPathCompatible'', ''LargeSendOffloadSupported'',
      ''GiantSendOffloadSupported'']"

definition RouteOrigin_values :: "(string \<times> int) list" where
  "RouteOrigin_values =
     iota_values 0 [
      ''RouteOriginManual'', ''RouteOriginWellKnown'', ''RouteOriginDHCP'', ''RouteOriginRouterAdvertisement'',
      ''RouteOrigin6to4'']"

definition RouteProtocol_values :: "(string \<times> int) list" where
  "RouteProtocol_values =
     iota_values 1 [
      ''RouteProtocolOther'', ''RouteProtocolLocal'', ''RouteProtocolNetMgmt'', ''RouteProtocolIcmp'',
      ''RouteProtocolEgp'', ''RouteProtocolGgp'', ''RouteProtocolHello'', ''RouteProtocolRip'',
      ''RouteProtocolIsIs'', ''RouteProtocolEsIs'', ''RouteProtocolCisco'', ''RouteProtocolBbn'',
      ''RouteProtocolOspf'', ''RouteProtocolBgp'', ''RouteProtocolIdpr'', ''RouteProtocolEigrp'',
      ''RouteProtocolDvmrp'', ''RouteProtocolRpl'', ''RouteProtocolDHCP''] @ [
      (''RouteProtocolNTAutostatic'', 10002), (''RouteProtocolNTStatic'', 10006),
      (''RouteProtocolNTStaticNonDOD'', 10007)]"

definition RouterDiscoveryBehavior_values :: "(string \<times> int) list" where
  "RouterDiscoveryBehavior_values =
     iota_values 0 [
      ''RouterDiscoveryDisabled'', ''RouterDiscoveryEnabled'', ''RouterDiscoveryDHCP''] @ [
      (''RouterDiscoveryUnchanged'', -1)]"

definition SuffixOrigin_values :: "(string \<times> int) list" where
  "SuffixOrigin_values =
     iota_values 0 [
      ''SuffixOriginOther'', ''SuffixOriginManual'', ''SuffixOriginWellKnown'', ''SuffixOriginDHCP'',
      ''SuffixOriginLinkLayerAddress'', ''SuffixOriginRandom''] @ [
      (''SuffixOriginUnchanged'', 16)]"

definition MibNotificationType_values :: "(string \<times> int) list" where
  "MibNotificationType_values =
     iota_values 0 [
      ''MibParameterNotification'', ''MibAddInstance'', ''MibDeleteInstance'', ''MibInitialNotification'']"

definition TunnelType_values :: "(string \<times> int) list" where
  "TunnelType_values =
     [
      (''TunnelTypeNone'', 0), (''TunnelTypeOther'', 1), (''TunnelTypeDirect'', 2), (''TunnelType6to4'', 11),
      (''TunnelTypeIsatap'', 13), (''TunnelTypeTeredo'', 14), (''TunnelTypeIPHTTPS'', 15)]"

definition InterfaceAndOperStatusFlags_values :: "(string \<times> int) list" where
  "InterfaceAndOperStatusFlags_values =
     iota_flags [
      ''IAOSFHardwareInterface'', ''IAOSFFilterInterface'', ''IAOSFConnectorPresent'',
      ''IAOSFNotAuthenticated'', ''IAOSFNotMediaConnected'', ''IAOSFPaused'', ''IAOSFLowPower'',
      ''IAOSFEndPointInterface'']"

definition GAAFlags_values :: "(string \<times> int) list" where
  "GAAFlags_values =
     iota_flags [
      ''GAAFlagSkipUnicast'', ''GAAFlagSkipAnycast'', ''GAAFlagSkipMulticast'', ''GAAFlagSkipDNSServer'',
      ''GAAFlagIncludePrefix'', ''GAAFlagSkipFriendlyName'', ''GAAFlagIncludeWinsInfo'',
      ''GAAFlagIncludeGateways'', ''GAAFlagIncludeAllInterfaces'', ''GAAFlagIncludeAllCompartments'',
      ''GAAFlagIncludeTunnelBindingOrder'', ''GAAFlagSkipDNSInfo''] @ [
      (''GAAFlagDefault'', 0), (''GAAFlagSkipAll'', 1 OR 2 OR 4 OR 8 OR 32 OR 2048),
      (''GAAFlagIncludeAll'', 16 OR 64 OR 128 OR 256 OR 512 OR 1024)]"

definition ScopeLevel_values :: "(string \<times> int) list" where
  "ScopeLevel_values =
     [
      (''ScopeLevelInterface'', 1), (''ScopeLevelLink'', 2), (''ScopeLevelSubnet'', 3),
      (''ScopeLevelAdmin'', 4), (''ScopeLevelSite'', 5), (''ScopeLevelOrganization'', 8),
      (''ScopeLevelGlobal'', 14), (''ScopeLevelCount'', 16)]"

section \<open>Constants of winsys\<close>

definition FWP_MATCH_TYPE_values :: "(string \<times> int) list" where
  "FWP_MATCH_TYPE_values =
     [
      (''FWP_MATCH_EQUAL'', 0), (''FWP_MATCH_GREATER'', 1), (''FWP_MATCH_LESS'', 2),
      (''FWP_MATCH_GREATER_OR_EQUAL'', 3), (''FWP_MATCH_LESS_OR_EQUAL'', 4), (''FWP_MATCH_RANGE'', 5),
      (''FWP_MATCH_FLAGS_ALL_SET'', 6), (''FWP_MATCH_FLAGS_ANY_SET'', 7), (''FWP_MATCH_FLAGS_NONE_SET'', 8),
      (''FWP_MATCH_EQUAL_CASE_INSENSITIVE'', 9), (''FWP_MATCH_NOT_EQUAL'', 10), (''FWP_MATCH_PREFIX'', 11),
      (''FWP_MATCH_NOT_PREFIX'', 12), (''FWP_MATCH_TYPE_MAX'', 13)]"

definition FWP_DATA_TYPE_values :: "(string \<times> int) list" where
  "FWP_DATA_TYPE_values =
     [
      (''FWP_EMPTY'', 0), (''FWP_UINT8'', 1), (''FWP_UINT16'', 2), (''FWP_UINT32'', 3), (''FWP_UINT64'', 4),
      (''FWP_INT8'', 5), (''FWP_INT16'', 6), (''FWP_INT32'', 7), (''FWP_INT64'', 8), (''FWP_FLOAT'', 9),
      (''FWP_DOUBLE'', 10), (''FWP_BYTE_ARRAY16_TYPE'', 11), (''FWP_BYTE_BLOB_TYPE'', 12), (''FWP_SID'', 13),
      (''FWP_SECURITY_DESCRIPTOR_TYPE'', 14), (''FWP_TOKEN_INFORMATION_TYPE'', 15),
      (''FWP_TOKEN_ACCESS_INFORMATION_TYPE'', 16), (''FWP_UNICODE_STRING_TYPE'', 17),
      (''FWP_BYTE_ARRAY6_TYPE'', 18), (''FWP_BITMAP_INDEX_TYPE'', 19), (''FWP_BITMAP_ARRAY64_TYPE'', 20),
      (''FWP_SINGLE_DATA_TYPE_MAX'', 0xff), (''FWP_V4_ADDR_MASK'', 256), (''FWP_V6_ADDR_MASK'', 257),
      (''FWP_RANGE_TYPE'', 258), (''FWP_DATA_TYPE_MAX'', 259)]"

definition FWPM_FILTER_FLAG_values :: "(string \<times> int) list" where
  "FWPM_FILTER_FLAG_values =
     [
      (''FWPM_FILTER_FLAG_NONE'', 0x00000000), (''FWPM_FILTER_FLAG_PERSISTENT'', 0x00000001),
      (''FWPM_FILTER_FLAG_BOOTTIME'', 0x00000002), (''FWPM_FILTER_FLAG_HAS_PROVIDER_CONTEXT'', 0x00000004),
      (''FWPM_FILTER_FLAG_CLEAR_ACTION_RIGHT'', 0x00000008),
      (''FWPM_FILTER_FLAG_PERMIT_IF_CALLOUT_UNREGISTERED'', 0x00000010),
      (''FWPM_FILTER_FLAG_DISABLED'', 0x00000020), (''FWPM_FILTER_FLAG_INDEXED'', 0x00000040),
      (''FWPM_FILTER_FLAG_HAS_SECURITY_REALM_PROVIDER_CONTEXT'', 0x00000080),
      (''FWPM_FILTER_FLAG_SYSTEMOS_ONLY'', 0x00000100), (''FWPM_FILTER_FLAG_GAMEOS_ONLY'', 0x00000200),
      (''FWPM_FILTER_FLAG_SILENT_MODE'', 0x00000400),
      (''FWPM_FILTER_FLAG_IPSEC_NO_ACQUIRE_INITIATE'', 0x00000800)]"

section \<open>Constants of memmod\<close>

definition IMAGE_SIGNATURE_values :: "(string \<times> int) list" where
  "IMAGE_SIGNATURE_values =
     [
      (''IMAGE_DOS_SIGNATURE'', 0x5a4d), (''IMAGE_OS2_SIGNATURE'', 0x454e),
      (''IMAGE_OS2_SIGNATURE_LE'', 0x454c), (''IMAGE_VXD_SIGNATURE'', 0x454c),
      (''IMAGE_NT_SIGNATURE'', 0x00004550)]"

definition IMAGE_FILE_FLAG_values :: "(string \<times> int) list" where
  "IMAGE_FILE_FLAG_values =
     [
      (''IMAGE_FILE_RELOCS_STRIPPED'', 0x0001), (''IMAGE_FILE_EXECUTABLE_IMAGE'', 0x0002),
      (''IMAGE_FILE_LINE_NUMS_STRIPPED'', 0x0004), (''IMAGE_FILE_LOCAL_SYMS_STRIPPED'', 0x0008),
      (''IMAGE_FILE_AGGRESIVE_WS_TRIM'', 0x0010), (''IMAGE_FILE_LARGE_ADDRESS_AWARE'', 0x0020),
      (''IMAGE_FILE_BYTES_REVERSED_LO'', 0x0080), (''IMAGE_FILE_32BIT_MACHINE'', 0x0100),
      (''IMAGE_FILE_DEBUG_STRIPPED'', 0x0200), (''IMAGE_FILE_REMOVABLE_RUN_FROM_SWAP'', 0x0400),
      (''IMAGE_FILE_NET_RUN_FROM_SWAP'', 0x0800), (''IMAGE_FILE_SYSTEM'', 0x1000),
      (''IMAGE_FILE_DLL'', 0x2000), (''IMAGE_FILE_UP_SYSTEM_ONLY'', 0x4000),
      (''IMAGE_FILE_BYTES_REVERSED_HI'', 0x8000)]"

definition IMAGE_FILE_MACHINE_values :: "(string \<times> int) list" where
  "IMAGE_FILE_MACHINE_values =
     [
      (''IMAGE_FILE_MACHINE_UNKNOWN'', 0), (''IMAGE_FILE_MACHINE_TARGET_HOST'', 0x0001),
      (''IMAGE_FILE_MACHINE_I386'', 0x014c), (''IMAGE_FILE_MACHINE_R3000'', 0x0162),
      (''IMAGE_FILE_MACHINE_R4000'', 0x0166), (''IMAGE_FILE_MACHINE_R10000'', 0x0168),
      (''IMAGE_FILE_MACHINE_WCEMIPSV2'', 0x0169), (''IMAGE_FILE_MACHINE_ALPHA'', 0x0184),
      (''IMAGE_FILE_MACHINE_SH3'', 0x01a2), (''IMAGE_FILE_MACHINE_SH3DSP'', 0x01a3),
      (''IMAGE_FILE_MACHINE_SH3E'', 0x01a4), (''IMAGE_FILE_MACHINE_SH4'', 0x01a6),
      (''IMAGE_FILE_MACHINE_SH5'', 0x01a8), (''IMAGE_FILE_MACHINE_ARM'', 0x01c0),
      (''IMAGE_FILE_MACHINE_THUMB'', 0x01c2), (''IMAGE_FILE_MACHINE_ARMNT'', 0x01c4),
      (''IMAGE_FILE_MACHINE_AM33'', 0x01d3), (''IMAGE_FILE_MACHINE_POWERPC'', 0x01f0),
      (''IMAGE_FILE_MACHINE_POWERPCFP'', 0x01f1), (''IMAGE_FILE_MACHINE_IA64'', 0x0200),
      (''IMAGE_FILE_MACHINE_MIPS16'', 0x0266), (''IMAGE_FILE_MACHINE_ALPHA64'', 0x0284),
      (''IMAGE_FILE_MACHINE_MIPSFPU'', 0x0366), (''IMAGE_FILE_MACHINE_MIPSFPU16'', 0x0466),
      (''IMAGE_FILE_MACHINE_AXP64'', 0x0284), (''IMAGE_FILE_MACHINE_TRICORE'', 0x0520),
      (''IMAGE_FILE_MACHINE_CEF'', 0x0cef), (''IMAGE_FILE_MACHINE_EBC'', 0x0ebc),
      (''IMAGE_FILE_MACHINE_AMD64'', 0x8664), (''IMAGE_FILE_MACHINE_M32R'', 0x9041),
      (''IMAGE_FILE_MACHINE_ARM64'', 0xaa64), (''IMAGE_FILE_MACHINE_CEE'', 0xc0ee)]"

definition IMAGE_DIRECTORY_ENTRY_values :: "(string \<times> int) list" where
  "IMAGE_DIRECTORY_ENTRY_values =
     [
      (''IMAGE_DIRECTORY_ENTRY_EXPORT'', 0), (''IMAGE_DIRECTORY_ENTRY_IMPORT'', 1),
      (''IMAGE_DIRECTORY_ENTRY_RESOURCE'', 2), (''IMAGE_DIRECTORY_ENTRY_EXCEPTION'', 3),
      (''IMAGE_DIRECTORY_ENTRY_SECURITY'', 4), (''IMAGE_DIRECTORY_ENTRY_BASERELOC'', 5),
      (''IMAGE_DIRECTORY_ENTRY_DEBUG'', 6), (''IMAGE_DIRECTORY_ENTRY_COPYRIGHT'', 7),
      (''IMAGE_DIRECTORY_ENTRY_ARCHITECTURE'', 7), (''IMAGE_DIRECTORY_ENTRY_GLOBALPTR'', 8),
      (''IMAGE_DIRECTORY_ENTRY_TLS'', 9), (''IMAGE_DIRECTORY_ENTRY_LOAD_CONFIG'', 10),
      (''IMAGE_DIRECTORY_ENTRY_BOUND_IMPORT'', 11), (''IMAGE_DIRECTORY_ENTRY_IAT'', 12),
      (''IMAGE_DIRECTORY_ENTRY_DELAY_IMPORT'', 13), (''IMAGE_DIRECTORY_ENTRY_COM_DESCRIPTOR'', 14)]"

definition IMAGE_DLL_CHARACTERISTICS_values :: "(string \<times> int) list" where
  "IMAGE_DLL_CHARACTERISTICS_values =
     [
      (''IMAGE_DLL_CHARACTERISTICS_HIGH_ENTROPY_VA'', 0x0020),
      (''IMAGE_DLL_CHARACTERISTICS_DYNAMIC_BASE'', 0x0040),
      (''IMAGE_DLL_CHARACTERISTICS_FORCE_INTEGRITY'', 0x0080),
      (''IMAGE_DLL_CHARACTERISTICS_NX_COMPAT'', 0x0100), (''IMAGE_DLL_CHARACTERISTICS_NO_ISOLATION'', 0x0200),
      (''IMAGE_DLL_CHARACTERISTICS_NO_SEH'', 0x0400), (''IMAGE_DLL_CHARACTERISTICS_NO_BIND'', 0x0800),
      (''IMAGE_DLL_CHARACTERISTICS_APPCONTAINER'', 0x1000), (''IMAGE_DLL_CHARACTERISTICS_WDM_DRIVER'', 0x2000),
      (''IMAGE_DLL_CHARACTERISTICS_GUARD_CF'', 0x4000),
      (''IMAGE_DLL_CHARACTERISTICS_TERMINAL_SERVER_AWARE'', 0x8000)]"

definition IMAGE_SCN_values :: "(string \<times> int) list" where
  "IMAGE_SCN_values =
     [
      (''IMAGE_SCN_TYPE_REG'', 0x00000000), (''IMAGE_SCN_TYPE_DSECT'', 0x00000001),
      (''IMAGE_SCN_TYPE_NOLOAD'', 0x00000002), (''IMAGE_SCN_TYPE_GROUP'', 0x00000004),
      (''IMAGE_SCN_TYPE_NO_PAD'', 0x00000008), (''IMAGE_SCN_TYPE_COPY'', 0x00000010),
      (''IMAGE_SCN_CNT_CODE'', 0x00000020), (''IMAGE_SCN_CNT_INITIALIZED_DATA'', 0x00000040),
      (''IMAGE_SCN_CNT_UNINITIALIZED_DATA'', 0x00000080), (''IMAGE_SCN_LNK_OTHER'', 0x00000100),
      (''IMAGE_SCN_LNK_INFO'', 0x00000200), (''IMAGE_SCN_TYPE_OVER'', 0x00000400),
      (''IMAGE_SCN_LNK_REMOVE'', 0x00000800), (''IMAGE_SCN_LNK_COMDAT'', 0x00001000),
      (''IMAGE_SCN_MEM_PROTECTED'', 0x00004000), (''IMAGE_SCN_NO_DEFER_SPEC_EXC'', 0x00004000),
      (''IMAGE_SCN_GPREL'', 0x00008000), (''IMAGE_SCN_MEM_FARDATA'', 0x00008000),
      (''IMAGE_SCN_MEM_SYSHEAP'', 0x00010000), (''IMAGE_SCN_MEM_PURGEABLE'', 0x00020000),
      (''IMAGE_SCN_MEM_16BIT'', 0x00020000), (''IMAGE_SCN_MEM_LOCKED'', 0x00040000),
      (''IMAGE_SCN_MEM_PRELOAD'', 0x00080000), (''IMAGE_SCN_ALIGN_1BYTES'', 0x00100000),
      (''IMAGE_SCN_ALIGN_2BYTES'', 0x00200000), (''IMAGE_SCN_ALIGN_4BYTES'', 0x00300000),
      (''IMAGE_SCN_ALIGN_8BYTES'', 0x00400000), (''IMAGE_SCN_ALIGN_16BYTES'', 0x00500000),
      (''IMAGE_SCN_ALIGN_32BYTES'', 0x00600000), (''IMAGE_SCN_ALIGN_64BYTES'', 0x00700000),
      (''IMAGE_SCN_ALIGN_128BYTES'', 0x00800000), (''IMAGE_SCN_ALIGN_256BYTES'', 0x00900000),
      (''IMAGE_SCN_ALIGN_512BYTES'', 0x00a00000), (''IMAGE_SCN_ALIGN_1024BYTES'', 0x00b00000),
      (''IMAGE_SCN_ALIGN_2048BYTES'', 0x00c00000), (''IMAGE_SCN_ALIGN_4096BYTES'', 0x00d00000),
      (''IMAGE_SCN_ALIGN_8192BYTES'', 0x00e00000), (''IMAGE_SCN_ALIGN_MASK'', 0x00f00000),
      (''IMAGE_SCN_LNK_NRELOC_OVFL'', 0x01000000), (''IMAGE_SCN_MEM_DISCARDABLE'', 0x02000000),
      (''IMAGE_SCN_MEM_NOT_CACHED'', 0x04000000), (''IMAGE_SCN_MEM_NOT_PAGED'', 0x08000000),
      (''IMAGE_SCN_MEM_SHARED'', 0x10000000), (''IMAGE_SCN_MEM_EXECUTE'', 0x20000000),
      (''IMAGE_SCN_MEM_READ'', 0x40000000), (''IMAGE_SCN_MEM_WRITE'', 0x80000000),
      (''IMAGE_SCN_SCALE_INDEX'', 0x00000001)]"

definition IMAGE_REL_BASED_values :: "(string \<times> int) list" where
  "IMAGE_REL_BASED_values =
     [
      (''IMAGE_REL_BASED_ABSOLUTE'', 0), (''IMAGE_REL_BASED_HIGH'', 1), (''IMAGE_REL_BASED_LOW'', 2),
      (''IMAGE_REL_BASED_HIGHLOW'', 3), (''IMAGE_REL_BASED_HIGHADJ'', 4),
      (''IMAGE_REL_BASED_MACHINE_SPECIFIC_5'', 5), (''IMAGE_REL_BASED_RESERVED'', 6),
      (''IMAGE_REL_BASED_MACHINE_SPECIFIC_7'', 7), (''IMAGE_REL_BASED_MACHINE_SPECIFIC_8'', 8),
      (''IMAGE_REL_BASED_MACHINE_SPECIFIC_9'', 9), (''IMAGE_REL_BASED_DIR64'', 10),
      (''IMAGE_REL_BASED_IA64_IMM64'', 9), (''IMAGE_REL_BASED_MIPS_JMPADDR'', 5),
      (''IMAGE_REL_BASED_MIPS_JMPADDR16'', 9), (''IMAGE_REL_BASED_ARM_MOV32'', 5),
      (''IMAGE_REL_BASED_THUMB_MOV32'', 7)]"

definition IMAGE_GUARD_values :: "(string \<times> int) list" where
  "IMAGE_GUARD_values =
     [
      (''IMAGE_GUARD_CF_INSTRUMENTED'', 0x00000100), (''IMAGE_GUARD_CFW_INSTRUMENTED'', 0x00000200),
      (''IMAGE_GUARD_CF_FUNCTION_TABLE_PRESENT'', 0x00000400),
      (''IMAGE_GUARD_SECURITY_COOKIE_UNUSED'', 0x00000800),
      (''IMAGE_GUARD_PROTECT_DELAYLOAD_IAT'', 0x00001000),
      (''IMAGE_GUARD_DELAYLOAD_IAT_IN_ITS_OWN_SECTION'', 0x00002000),
      (''IMAGE_GUARD_CF_EXPORT_SUPPRESSION_INFO_PRESENT'', 0x00004000),
      (''IMAGE_GUARD_CF_ENABLE_EXPORT_SUPPRESSION'', 0x00008000),
      (''IMAGE_GUARD_CF_LONGJUMP_TABLE_PRESENT'', 0x00010000), (''IMAGE_GUARD_RF_INSTRUMENTED'', 0x00020000),
      (''IMAGE_GUARD_RF_ENABLE'', 0x00040000), (''IMAGE_GUARD_RF_STRICT'', 0x00080000),
      (''IMAGE_GUARD_RETPOLINE_PRESENT'', 0x00100000),
      (''IMAGE_GUARD_EH_CONTINUATION_TABLE_PRESENT'', 0x00400000), (''IMAGE_GUARD_XFG_ENABLED'', 0x00800000),
      (''IMAGE_GUARD_CF_FUNCTION_TABLE_SIZE_MASK'', 0xf0000000),
      (''IMAGE_GUARD_CF_FUNCTION_TABLE_SIZE_SHIFT'', 28)]"

definition DLL_REASON_values :: "(string \<times> int) list" where
  "DLL_REASON_values =
     [
      (''DLL_PROCESS_ATTACH'', 1), (''DLL_THREAD_ATTACH'', 2), (''DLL_THREAD_DETACH'', 3),
      (''DLL_PROCESS_DETACH'', 0)]"

section \<open>The values are usable as the code uses them\<close>

text \<open>Each enumeration with the range of its type; the second list has those with synonyms.\<close>

definition enumerations :: "(string \<times> (int \<times> int) \<times> (string \<times> int) list) list" where
  "enumerations =
     [(''IPAAFlags'', (0, 2 ^ 32 - 1), IPAAFlags_values),
      (''IfOperStatus'', (0, 2 ^ 32 - 1), IfOperStatus_values),
      (''IfType'', (0, 2 ^ 32 - 1), IfType_values),
      (''MibIfEntryLevel'', (0, 2 ^ 32 - 1), MibIfEntryLevel_values),
      (''NdisMedium'', (0, 2 ^ 32 - 1), NdisMedium_values),
      (''NdisPhysicalMedium'', (0, 2 ^ 32 - 1), NdisPhysicalMedium_values),
      (''NetIfAccessType'', (0, 2 ^ 32 - 1), NetIfAccessType_values),
      (''NetIfAdminStatus'', (0, 2 ^ 32 - 1), NetIfAdminStatus_values),
      (''NetIfConnectionType'', (0, 2 ^ 32 - 1), NetIfConnectionType_values),
      (''NetIfDirectionType'', (0, 2 ^ 32 - 1), NetIfDirectionType_values),
      (''NetIfMediaConnectState'', (0, 2 ^ 32 - 1), NetIfMediaConnectState_values),
      (''DadState'', (0, 2 ^ 32 - 1), DadState_values),
      (''PrefixOrigin'', (0, 2 ^ 32 - 1), PrefixOrigin_values),
      (''LinkLocalAddressBehavior'', (- (2 ^ 31), 2 ^ 31 - 1), LinkLocalAddressBehavior_values),
      (''OffloadRod'', (0, 2 ^ 8 - 1), OffloadRod_values),
      (''RouteOrigin'', (0, 2 ^ 32 - 1), RouteOrigin_values),
      (''RouteProtocol'', (0, 2 ^ 32 - 1), RouteProtocol_values),
      (''RouterDiscoveryBehavior'', (- (2 ^ 31), 2 ^ 31 - 1), RouterDiscoveryBehavior_values),
      (''SuffixOrigin'', (0, 2 ^ 32 - 1), SuffixOrigin_values),
      (''MibNotificationType'', (0, 2 ^ 32 - 1), MibNotificationType_values),
      (''TunnelType'', (0, 2 ^ 32 - 1), TunnelType_values),
      (''InterfaceAndOperStatusFlags'', (0, 2 ^ 8 - 1), InterfaceAndOperStatusFlags_values),
      (''GAAFlags'', (0, 2 ^ 32 - 1), GAAFlags_values),
      (''ScopeLevel'', (0, 2 ^ 32 - 1), ScopeLevel_values),
      (''FWP_MATCH_TYPE'', (0, 2 ^ 32 - 1), FWP_MATCH_TYPE_values),
      (''FWP_DATA_TYPE'', (0, 2 ^ 32 - 1), FWP_DATA_TYPE_values),
      (''FWPM_FILTER_FLAG'', (0, 2 ^ 32 - 1), FWPM_FILTER_FLAG_values),
      (''IMAGE_FILE_FLAG'', (0, 2 ^ 16 - 1), IMAGE_FILE_FLAG_values),
      (''IMAGE_DLL_CHARACTERISTICS'', (0, 2 ^ 16 - 1), IMAGE_DLL_CHARACTERISTICS_values),
      (''IMAGE_GUARD'', (0, 2 ^ 32 - 1), IMAGE_GUARD_values),
      (''DLL_REASON'', (0, 2 ^ 32 - 1), DLL_REASON_values)]"

definition aliased_enumerations :: "(string \<times> (int \<times> int) \<times> (string \<times> int) list) list" where
  "aliased_enumerations =
     [(''IMAGE_SIGNATURE'', (0, 2 ^ 32 - 1), IMAGE_SIGNATURE_values),
      (''IMAGE_FILE_MACHINE'', (0, 2 ^ 16 - 1), IMAGE_FILE_MACHINE_values),
      (''IMAGE_DIRECTORY_ENTRY'', (- (2 ^ 31), 2 ^ 31 - 1), IMAGE_DIRECTORY_ENTRY_values),
      (''IMAGE_SCN'', (0, 2 ^ 32 - 1), IMAGE_SCN_values),
      (''IMAGE_REL_BASED'', (0, 2 ^ 16 - 1), IMAGE_REL_BASED_values)]"

definition fits :: "(int \<times> int) \<times> (string \<times> int) list \<Rightarrow> bool" where
  "fits = (\<lambda>((lo, hi), vs). list_all (\<lambda>(x, v). lo \<le> v \<and> v \<le> hi) vs)"

lemmas enum_defs = iota_values_def iota_flags_def

lemma enumerations_fit: "list_all (\<lambda>(t, e). fits e) (enumerations @ aliased_enumerations)"
  by code_simp

lemma enumerations_distinct: "list_all (\<lambda>(t, _, vs). distinct (map snd vs)) enumerations"
  by code_simp

text \<open>The constants the other theories compute with are those of the tables.\<close>

lemma model_constants:
  "map_of DadState_values ''DadStatePreferred'' = Some (uint DadStatePreferred)"
  "map_of NetIfMediaConnectState_values ''MediaConnectStateConnected'' = Some (uint MediaConnectStateConnected)"
  "map_of FWP_MATCH_TYPE_values ''FWP_MATCH_EQUAL'' = Some (uint FWP_MATCH_EQUAL)"
  "map_of FWP_DATA_TYPE_values ''FWP_UINT8'' = Some (uint FWP_UINT8)"
  "map_of FWP_DATA_TYPE_values ''FWP_UINT16'' = Some (uint FWP_UINT16)"
  "map_of FWP_DATA_TYPE_values ''FWP_UINT32'' = Some (uint FWP_UINT32)"
  "map_of FWP_DATA_TYPE_values ''FWP_BYTE_BLOB_TYPE'' = Some (uint FWP_BYTE_BLOB_TYPE)"
  "map_of FWPM_FILTER_FLAG_values ''FWPM_FILTER_FLAG_CLEAR_ACTION_RIGHT'' =
     Some (uint FWPM_FILTER_FLAG_CLEAR_ACTION_RIGHT)"
  "map_of IMAGE_SCN_values ''IMAGE_SCN_MEM_DISCARDABLE'' = Some (uint IMAGE_SCN_MEM_DISCARDABLE)"
  "map_of IMAGE_SCN_values ''IMAGE_SCN_MEM_NOT_CACHED'' = Some (uint IMAGE_SCN_MEM_NOT_CACHED)"
  "map_of IMAGE_SCN_values ''IMAGE_SCN_CNT_INITIALIZED_DATA'' = Some (uint IMAGE_SCN_CNT_INITIALIZED_DATA)"
  "map_of IMAGE_SCN_values ''IMAGE_SCN_CNT_UNINITIALIZED_DATA'' = Some (uint IMAGE_SCN_CNT_UNINITIALIZED_DATA)"
  by code_simp+

end
