(* ===== verification/Tun_Config.thy ===== *)
theory Tun_Config
  imports Go_Net Io
begin

text \<open>
  The part of \<open>device/tun.go\<close> that is common to both systems: sorting route entries by family, the
  address, mask and gateway of an interface, and the parsing of single addresses. The routines that
  install the entries are parameters here; \<open>Linux_Device\<close> and \<open>Windows_Device\<close> hold them.
\<close>

section \<open>Route entries\<close>

fun sort_entries ::
  "string list \<Rightarrow> string list \<Rightarrow> string list \<Rightarrow> (string list \<times> string list) outcome" where
  "sort_entries [] cidr4 cidr6 = Inr (cidr4, cidr6)"
| "sort_entries (item # items) cidr4 cidr6 =
     (case ParseCIDR item of
        None \<Rightarrow> Inl (Err ''invalid CIDR address'')
      | Some (ip, _) \<Rightarrow>
          if To4 ip \<noteq> None then sort_entries items (cidr4 @ [item]) cidr6
          else if To16 ip \<noteq> None then sort_entries items cidr4 (cidr6 @ [item])
          else sort_entries items cidr4 cidr6)"

definition AddRouteEntry ::
  "(string list \<Rightarrow> ('os, unit) io) \<Rightarrow> (string list \<Rightarrow> ('os, unit) io) \<Rightarrow> string list \<Rightarrow> ('os, unit) io" where
  "AddRouteEntry addRouteEntry4 addRouteEntry6 cidr =
     bind_io (lift_io (sort_entries cidr [] [])) (\<lambda>(cidr4, cidr6).
       bind_io (if cidr4 \<noteq> [] then addRouteEntry4 cidr4 else return_io ()) (\<lambda>_.
         if cidr6 \<noteq> [] then addRouteEntry6 cidr6 else return_io ()))"

section \<open>The configuration of an interface\<close>

text \<open>\<open>ip[n-1]++\<close> on the slice \<open>ip\<close>, which panics when the slice is nil.\<close>

definition bump_last :: "nat \<Rightarrow> IP option \<Rightarrow> IP outcome" where
  "bump_last n ip =
     (case ip of
        None \<Rightarrow> Inl (Panic ''index out of range'')
      | Some v \<Rightarrow> Inr (v[n - 1 := v ! (n - 1) + 1]))"

definition getInterfaceConfig4 :: "string \<Rightarrow> (string \<times> string \<times> string) outcome" where
  "getInterfaceConfig4 cidr =
     (case ParseCIDR cidr of
        None \<Rightarrow> Inl (Err ''invalid CIDR address'')
      | Some (ip, ipNet) \<Rightarrow>
          (case To4 ip of
             None \<Rightarrow> Inl (Err ''not ipv4 address'')
           | Some ipv4 \<Rightarrow>
               bind_outcome (bump_last 4 (To4 (net_IP ipNet))) (\<lambda>gateway.
                 Inr (IP_String ipv4, IP_String (net_Mask ipNet), IP_String gateway))))"

definition getInterfaceConfig6 :: "string \<Rightarrow> (string \<times> string \<times> string) outcome" where
  "getInterfaceConfig6 cidr =
     (case ParseCIDR cidr of
        None \<Rightarrow> Inl (Err ''invalid CIDR address'')
      | Some (ip, ipNet) \<Rightarrow>
          (case To16 ip of
             None \<Rightarrow> Inl (Err ''not ipv6 address'')
           | Some ipv6 \<Rightarrow>
               bind_outcome (bump_last 16 (To16 (net_IP ipNet))) (\<lambda>gateway.
                 Inr (IP_String ipv6, IP_String (net_Mask ipNet), IP_String gateway))))"

text \<open>Reading the first byte of a nil slice panics.\<close>

definition parse4 :: "string \<Rightarrow> IP outcome" where
  "parse4 addr =
     (case To4 (ParseIP addr) of None \<Rightarrow> Inl (Panic ''index out of range'') | Some ip \<Rightarrow> Inr ip)"

definition parse6 :: "string \<Rightarrow> IP outcome" where
  "parse6 addr =
     (case To16 (ParseIP addr) of None \<Rightarrow> Inl (Panic ''index out of range'') | Some ip \<Rightarrow> Inr ip)"

section \<open>All entries are checked before any is installed\<close>

definition is_cidr4 :: "string \<Rightarrow> bool" where
  "is_cidr4 item = (case ParseCIDR item of None \<Rightarrow> False | Some (ip, _) \<Rightarrow> To4 ip \<noteq> None)"

definition is_cidr :: "string \<Rightarrow> bool" where
  "is_cidr item = (ParseCIDR item \<noteq> None)"

lemma sort_entries_spec:
  "sort_entries items cidr4 cidr6 =
    (if \<not> list_all is_cidr items then Inl (Err ''invalid CIDR address'')
     else Inr (cidr4 @ filter is_cidr4 items, cidr6 @ filter (\<lambda>i. \<not> is_cidr4 i) items))"
proof (induction items arbitrary: cidr4 cidr6)
  case (Cons item items)
  show ?case
  proof (cases "ParseCIDR item")
    case None
    then show ?thesis
      by (simp add: is_cidr_def)
  next
    case (Some p)
    obtain ip n where p: "p = (ip, n)"
      by (cases p)
    then have "To16 ip \<noteq> None"
      using ParseCIDR_length [of item ip n] Some by (simp add: To16_def)
    moreover have "is_cidr4 item \<longleftrightarrow> To4 ip \<noteq> None" "is_cidr item"
      using Some p by (simp_all add: is_cidr4_def is_cidr_def)
    ultimately show ?thesis
      using Cons Some p by simp
  qed
qed simp

text \<open>
  \<open>AddRouteEntry\<close> installs nothing unless every entry parses; then the IPv4 entries are installed
  first and the IPv6 entries after them, each group complete and in the order given, and an error
  in the first group leaves the second out.
\<close>

theorem route_entries_all_or_none:
  "AddRouteEntry add4 add6 cidr s =
    (if \<not> list_all is_cidr cidr then (Inl (Err ''invalid CIDR address''), s)
     else bind_io (if filter is_cidr4 cidr \<noteq> [] then add4 (filter is_cidr4 cidr) else return_io ())
       (\<lambda>_. if filter (\<lambda>i. \<not> is_cidr4 i) cidr \<noteq> [] then add6 (filter (\<lambda>i. \<not> is_cidr4 i) cidr)
            else return_io ()) s)"
  by (cases "list_all is_cidr cidr") (simp_all add: AddRouteEntry_def sort_entries_spec raise_io_def)

section \<open>The gateway is the address after the network's\<close>

lemma CIDRMask_last_even: "n \<le> 31 \<Longrightarrow> \<not> bit (CIDRMask n 32 ! 3) 0"
proof -
  have "\<forall>n < 32. \<not> bit (CIDRMask n 32 ! 3) 0"
    by code_simp
  then show "n \<le> 31 \<Longrightarrow> ?thesis"
    by simp
qed

text \<open>What \<open>getInterfaceConfig4\<close> returns for an IPv4 address and a text that denotes \<open>n\<close> bits.\<close>

definition gateway4 :: "bytes \<Rightarrow> nat \<Rightarrow> bytes" where
  "gateway4 q n = (let network = and_bytes q (CIDRMask n 32) in network[3 := network ! 3 + 1])"

lemma config4_v4_text:
  assumes "dtoi m = Some n" and "n \<le> 32"
  shows "getInterfaceConfig4 (string4 [a, b, c, d] @ CHR ''/'' # m) =
    Inr (string4 [a, b, c, d], IP_String (CIDRMask n 32), string4 (gateway4 [a, b, c, d] n))"
proof -
  obtain m0 m1 m2 m3 where m: "CIDRMask n 32 = [m0, m1, m2, m3]"
    using assms(2) length_4_iff [of "CIDRMask n 32"] by (auto simp: CIDRMask_def)
  show ?thesis
    unfolding getInterfaceConfig4_def ParseCIDR_v4_text [OF assms]
    by (simp add: bump_last_def IP_String_v4 gateway4_def m)
qed

lemma config4_v4:
  "n \<le> 32 \<Longrightarrow> getInterfaceConfig4 (string4 [a, b, c, d] @ CHR ''/'' # itoa n) =
    Inr (string4 [a, b, c, d], IP_String (CIDRMask n 32), string4 (gateway4 [a, b, c, d] n))"
  by (intro config4_v4_text dtoi_itoa) simp_all

lemma even_plus_one_masked:
  fixes x m :: byte
  assumes "\<not> bit m 0"
  shows "((x AND m) + 1) AND m = x AND m"
proof -
  have "(x AND m) + 1 = (x AND m) OR 1"
    using assms by (intro disjunctive_add) (auto simp: bit_simps intro: gr0I)
  moreover have "(1 :: byte) AND m = 0"
    using assms by (simp add: and.commute [of 1] and_one_eq mod_2_eq_odd flip: bit_0)
  ultimately show ?thesis
    by (simp add: bit.conj_disj_distrib2 and.assoc)
qed

text \<open>
  C32: For an IPv4 address with a prefix of \<open>n\<close> bits, \<open>getInterfaceConfig4\<close> returns the address, the mask
  and as gateway the network address plus one. Up to 31 bits the gateway lies in the network and
  is not its first address; a prefix of 32 bits has no other address, and the gateway, whose last
  byte wraps from 255 to 0, lies outside.
\<close>

theorem gateway_of_network:
  fixes a b c d :: byte and n :: nat
  assumes "n \<le> 32"
  defines "network \<equiv> \<lparr>net_IP = and_bytes [a, b, c, d] (CIDRMask n 32), net_Mask = CIDRMask n 32\<rparr>"
  defines "gateway \<equiv> gateway4 [a, b, c, d] n"
  shows "getInterfaceConfig4 (string4 [a, b, c, d] @ CHR ''/'' # itoa n) =
      Inr (string4 [a, b, c, d], IP_String (CIDRMask n 32), string4 gateway) \<and>
    (Contains network gateway \<longleftrightarrow> n \<noteq> 32) \<and> gateway \<noteq> net_IP network"
proof -
  obtain m0 m1 m2 m3 where m: "CIDRMask n 32 = [m0, m1, m2, m3]"
    using assms(1) length_4_iff [of "CIDRMask n 32"] by (auto simp: CIDRMask_def)
  have ip: "net_IP network = [a AND m0, b AND m1, c AND m2, d AND m3]"
    by (simp add: network_def m)
  have gw: "gateway = [a AND m0, b AND m1, c AND m2, (d AND m3) + 1]"
    using ip by (simp add: gateway_def gateway4_def network_def)
  have config: "getInterfaceConfig4 (string4 [a, b, c, d] @ CHR ''/'' # itoa n) =
      Inr (string4 [a, b, c, d], IP_String (CIDRMask n 32), string4 gateway)"
    using config4_v4 [OF assms(1)] by (simp add: gateway_def)
  have "Contains network gateway \<longleftrightarrow> (d AND m3 AND m3) = (((d AND m3) + 1) AND m3)"
    by (simp add: Contains_def networkNumberAndMask_def Let_def ip gw)
      (simp add: network_def m and.assoc)
  also have "\<dots> \<longleftrightarrow> n \<noteq> 32"
  proof (cases "n = 32")
    case True
    moreover have "CIDRMask 32 32 = [255, 255, 255, 255]"
      by code_simp
    ultimately have "m3 = 255"
      using m by simp
    then have "m3 = - 1"
      by simp
    then show ?thesis
      using True by simp
  next
    case False
    then have "\<not> bit m3 0"
      using CIDRMask_last_even [of n] assms(1) m by simp
    then show ?thesis
      using False by (simp add: even_plus_one_masked)
  qed
  finally show ?thesis
    using config by (simp add: ip gw)
qed

lemma gateway_of_network_witness:
  "getInterfaceConfig4 ''10.0.0.2/24'' = Inr (''10.0.0.2'', ''255.255.255.0'', ''10.0.0.1'')"
proof -
  have "''10.0.0.2/24'' = string4 [10, 0, 0, 2] @ CHR ''/'' # itoa 24"
    by code_simp
  moreover have "CIDRMask 24 32 = [255, 255, 255, 0]" "string4 [10, 0, 0, 2] = ''10.0.0.2''"
    "string4 [10, 0, 0, 1] = ''10.0.0.1''" "string4 [255, 255, 255, 0] = ''255.255.255.0''"
    by code_simp+
  moreover have "(10 :: byte) AND 255 = 10"
    by simp
  ultimately show ?thesis
    using gateway_of_network [of 24 10 0 0 2] by (simp add: IP_String_v4 gateway4_def Let_def)
qed

end
