(* ===== verification/Linux_Device.thy ===== *)
theory Linux_Device
  imports Tun_Config Model Layout
begin

text \<open>
  The interface on Linux: the addresses, flags and routes of \<open>device/device_linux.go\<close> and the creation
  of the interface in \<open>device/device_tun_linux.go\<close>. The kernel's calls are parameters; the policy
  rules are in \<open>Linux_Rules\<close>.
\<close>

section \<open>The kernel's calls\<close>

text \<open>
  The ioctl requests with the members the code fills in; a request that returns a value returns
  an integer. \<open>ifr_name\<close> is the 16-byte array of the interface's name.
\<close>

record rtentry =
  rt_dst :: IP
  rt_genmask :: IP
  rt_flags :: u16
  rt_dev :: string

record in6_rtmsg =
  rtmsg_dst :: IP
  rtmsg_dst_len :: u16
  rtmsg_metric :: u32
  rtmsg_flags :: u32
  rtmsg_ifindex :: u32

datatype ioctl =
  SIOCSIFADDR string IP
| SIOCSIFNETMASK string IP
| SIOCGIFINDEX string
| SIOCSIFADDR6 IP u32 u32
| SIOCADDRT rtentry
| SIOCADDRT6 in6_rtmsg
| SIOCGIFFLAGS string
| SIOCSIFFLAGS string u16
| TUNSETIFF string u16

datatype family = INET | INET6

record 'os kernel =
  Socket :: "family \<Rightarrow> ('os, nat) io"
  OpenClone :: "('os, nat) io"
  CloseFd :: "nat \<Rightarrow> 'os \<Rightarrow> 'os"
  Ioctl :: "nat \<Rightarrow> ioctl \<Rightarrow> ('os, u32) io"
  SetNonblock :: "nat \<Rightarrow> ('os, unit) io"

text \<open>\<open>copy(ifr_name[:], d.Name[:])\<close> into an array of 16 zero bytes.\<close>

definition ifr_name :: "string \<Rightarrow> string" where
  "ifr_name name = take 16 (name @ replicate 16 (CHR 0x00))"

definition with_socket ::
  "'os kernel \<Rightarrow> family \<Rightarrow> (nat \<Rightarrow> ('os, 'a) io) \<Rightarrow> ('os, 'a) io" where
  "with_socket k fam use = bracket_io (Socket k fam) (CloseFd k) use"

section \<open>Addresses and routes (device_linux.go)\<close>

text \<open>The gateway is an argument the function does not use.\<close>

definition setInterfaceAddress4 ::
  "'os kernel \<Rightarrow> string \<Rightarrow> IP \<Rightarrow> IP \<Rightarrow> IP \<Rightarrow> ('os, unit) io" where
  "setInterfaceAddress4 k name addr msk gateway =
     with_socket k INET (\<lambda>fd.
       bind_io (wrap_io ''ioctl: SIOCSIFADDR'' (Ioctl k fd (SIOCSIFADDR (ifr_name name) addr))) (\<lambda>_.
       bind_io (wrap_io ''ioctl: SIOCSIFNETMASK'' (Ioctl k fd (SIOCSIFNETMASK (ifr_name name) msk))) (\<lambda>_.
         return_io ())))"

definition setInterfaceAddress6 ::
  "'os kernel \<Rightarrow> string \<Rightarrow> string \<Rightarrow> string \<Rightarrow> string \<Rightarrow> ('os, unit) io" where
  "setInterfaceAddress6 k name addr msk gateway =
     bind_io (lift_io (parse6 addr)) (\<lambda>Addr.
     bind_io (lift_io (parse6 msk)) (\<lambda>Mask.
       with_socket k INET6 (\<lambda>fd.
         bind_io (wrap_io ''ioctl: SIOCGIFINDEX'' (Ioctl k fd (SIOCGIFINDEX (ifr_name name)))) (\<lambda>index.
         let ones = fst (mask_Size Mask)
         in bind_io (wrap_io ''ioctl: SIOCSIFADDR''
                (Ioctl k fd (SIOCSIFADDR6 Addr (of_nat ones) index))) (\<lambda>_. return_io ())))))"

definition RTF_UP :: "'w :: len word" where "RTF_UP = 1"

definition RTF_HOST :: u32 where "RTF_HOST = 4"

text \<open>
  One turn of the loop of \<open>addRouteEntry4\<close>. The error of \<open>ParseCIDR\<close> is dropped, so an entry that
  does not parse is a nil dereference; the first byte of a nil slice is an index out of range.
\<close>

definition add_entry4 :: "'os kernel \<Rightarrow> string \<Rightarrow> nat \<Rightarrow> string \<Rightarrow> ('os, unit) io" where
  "add_entry4 k name fd item =
     (case ParseCIDR item of
        None \<Rightarrow> raise_io (Panic ''nil pointer dereference'')
      | Some (_, ipNet) \<Rightarrow>
          (case (To4 (net_IP ipNet), To4 (net_Mask ipNet)) of
             (Some ipv4, Some msk) \<Rightarrow>
               bind_io (wrap_io ''ioctl: SIOCADDRT'' (Ioctl k fd (SIOCADDRT
                 \<lparr>rt_dst = ipv4, rt_genmask = msk, rt_flags = RTF_UP, rt_dev = ifr_name name\<rparr>)))
                 (\<lambda>_. return_io ())
           | _ \<Rightarrow> raise_io (Panic ''index out of range'')))"

definition addRouteEntry4 :: "'os kernel \<Rightarrow> string \<Rightarrow> string list \<Rightarrow> ('os, unit) io" where
  "addRouteEntry4 k name cidr = with_socket k INET (\<lambda>fd. each_io (add_entry4 k name fd) cidr)"

definition add_entry6 :: "'os kernel \<Rightarrow> nat \<Rightarrow> u32 \<Rightarrow> string \<Rightarrow> ('os, unit) io" where
  "add_entry6 k fd index item =
     (case ParseCIDR item of
        None \<Rightarrow> raise_io (Panic ''nil pointer dereference'')
      | Some (_, ipNet) \<Rightarrow>
          (case To16 (net_IP ipNet) of
             None \<Rightarrow> raise_io (Panic ''index out of range'')
           | Some ipv6 \<Rightarrow>
               let ones = (case To16 (net_Mask ipNet) of None \<Rightarrow> 0 | Some msk \<Rightarrow> fst (mask_Size msk))
               in bind_io (wrap_io ''ioctl: SIOCADDRT'' (Ioctl k fd (SIOCADDRT6
                    \<lparr>rtmsg_dst = ipv6, rtmsg_dst_len = of_nat ones, rtmsg_metric = 1,
                     rtmsg_flags = (if ones = 128 then RTF_UP OR RTF_HOST else RTF_UP),
                     rtmsg_ifindex = index\<rparr>)))
                    (\<lambda>_. return_io ())))"

definition addRouteEntry6 :: "'os kernel \<Rightarrow> string \<Rightarrow> string list \<Rightarrow> ('os, unit) io" where
  "addRouteEntry6 k name cidr =
     with_socket k INET6 (\<lambda>fd.
       bind_io (wrap_io ''ioctl: SIOCGIFINDEX'' (Ioctl k fd (SIOCGIFINDEX (ifr_name name)))) (\<lambda>index.
         each_io (add_entry6 k fd index) cidr))"

definition IFF_UP_RUNNING :: u16 where "IFF_UP_RUNNING = 0x1 OR 0x40"

definition Activate :: "'os kernel \<Rightarrow> string \<Rightarrow> ('os, unit) io" where
  "Activate k name =
     with_socket k INET (\<lambda>fd.
       bind_io (wrap_io ''ioctl: SIOCGIFFLAGS'' (Ioctl k fd (SIOCGIFFLAGS (ifr_name name)))) (\<lambda>flags.
       bind_io (wrap_io ''ioctl: SIOCSIFFLAGS''
                (Ioctl k fd (SIOCSIFFLAGS (ifr_name name) (ucast flags OR IFF_UP_RUNNING)))) (\<lambda>_.
         return_io ())))"

text \<open>Both results are dropped; an address that does not parse is a nil dereference.\<close>

definition InitGateway :: "'os kernel \<Rightarrow> globals \<Rightarrow> string \<Rightarrow> ('os, unit) io" where
  "InitGateway k g name s =
     (case ParseCIDR (TunIp g) of
        None \<Rightarrow> (Inl (Panic ''cannot convert slice to array''), s)
      | Some (ip, ipNet) \<Rightarrow>
          (case To4 ip of
             None \<Rightarrow> (Inl (Panic ''cannot convert slice to array''), s)
           | Some addr \<Rightarrow>
               if length (net_Mask ipNet) < 4 then (Inl (Panic ''cannot convert slice to array''), s)
               else
                 (case setInterfaceAddress4 k name addr (take 4 (net_Mask ipNet)) (replicate 4 0) s of
                    (Inl (Panic p), s1) \<Rightarrow> (Inl (Panic p), s1)
                  | (_, s1) \<Rightarrow>
                      (case Activate k name s1 of
                         (Inl (Panic p), s2) \<Rightarrow> (Inl (Panic p), s2) | (_, s2) \<Rightarrow> (Inr (), s2)))))"

section \<open>Creating the interface (device_tun_linux.go)\<close>

text \<open>
  \<open>unix.NewIfreq\<close> refuses a name of 16 bytes or more. \<open>from_file\<close> is \<open>tun.CreateTUNFromFile\<close>, which
  takes over the descriptor.
\<close>

definition CreateTUN0 ::
  "'os kernel \<Rightarrow> (nat \<Rightarrow> int \<Rightarrow> ('os, 'tun) io) \<Rightarrow> string \<Rightarrow> int \<Rightarrow> ('os, 'tun) io" where
  "CreateTUN0 k from_file name mtu =
     bind_io (OpenClone k) (\<lambda>nfd.
       if 16 \<le> length name then raise_io (Err ''EINVAL'')
       else
         bind_io (Ioctl k nfd (TUNSETIFF (ifr_name name) (0x1 OR 0x1000))) (\<lambda>_ s.
           case SetNonblock k nfd s of
             (Inl e, s1) \<Rightarrow> (Inl e, CloseFd k nfd s1)
           | (Inr _, s1) \<Rightarrow> from_file nfd mtu s1))"

text \<open>\<open>CreateTUN\<close> asks the interface for its name; the device holds both.\<close>

definition CreateTUN ::
  "'os kernel \<Rightarrow> (nat \<Rightarrow> int \<Rightarrow> ('os, 'tun) io) \<Rightarrow> ('tun \<Rightarrow> ('os, string) io) \<Rightarrow> string \<Rightarrow> int \<Rightarrow>
   ('os, 'tun \<times> string) io" where
  "CreateTUN k from_file tun_Name name mtu =
     bind_io (CreateTUN0 k from_file name mtu) (\<lambda>dev.
       bind_io (tun_Name dev) (\<lambda>n. return_io (dev, n)))"

definition SetInterfaceAddress :: "string \<Rightarrow> ('os, unit) io" where
  "SetInterfaceAddress address = raise_io (Err ''tun device address error'')"

section \<open>The structures handed to the kernel\<close>

text \<open>
  The declarations of \<open>device_linux_64.go\<close> and \<open>device_linux_32.go\<close>; \<open>RawSockaddrInet4\<close> is a family,
  a port, an address and eight bytes of padding.
\<close>

definition RawSockaddrInet4_struct :: "(string \<times> ctype) list" where
  "RawSockaddrInet4_struct =
     [(''Family'', IntN 2), (''Port'', IntN 2), (''Addr'', Arr 4 (IntN 1)), (''Zero'', Arr 8 (IntN 1))]"

definition rtentry_64 :: "(string \<times> ctype) list" where
  "rtentry_64 =
     [(''rt_pad1'', IntN 4), (''_'', IntN 4), (''rt_dst'', Struct RawSockaddrInet4_struct),
      (''rt_gateway'', Struct RawSockaddrInet4_struct), (''rt_genmask'', Struct RawSockaddrInet4_struct),
      (''rt_flags'', IntN 2), (''rt_pad2'', IntN 2), (''_'', IntN 4), (''rt_pad3'', IntN 4), (''_'', IntN 4),
      (''rt_pad4'', Ptr), (''rt_metric'', IntN 2), (''rt_dev'', Ptr), (''rt_mtu'', IntN 4), (''_'', IntN 4),
      (''rt_window'', IntN 4), (''_'', IntN 4), (''rt_irtt'', IntN 2)]"

definition rtentry_32 :: "(string \<times> ctype) list" where
  "rtentry_32 =
     [(''rt_pad1'', IntN 4), (''rt_dst'', Struct RawSockaddrInet4_struct),
      (''rt_gateway'', Struct RawSockaddrInet4_struct), (''rt_genmask'', Struct RawSockaddrInet4_struct),
      (''rt_flags'', IntN 2), (''rt_pad2'', IntN 2), (''rt_pad3'', IntN 4),
      (''rt_pad4'', Ptr), (''rt_metric'', IntN 2), (''rt_dev'', Ptr), (''rt_mtu'', IntN 4),
      (''rt_window'', IntN 4), (''rt_irtt'', IntN 2)]"

definition in6_addr_struct :: "(string \<times> ctype) list" where
  "in6_addr_struct = [(''addr'', Arr 16 (IntN 1))]"

definition in6_rtmsg_64 :: "(string \<times> ctype) list" where
  "in6_rtmsg_64 =
     [(''rtmsg_dst'', Struct in6_addr_struct), (''rtmsg_src'', Struct in6_addr_struct),
      (''rtmsg_gateway'', Struct in6_addr_struct), (''rtmsg_type'', IntN 4), (''rtmsg_dst_len'', IntN 2),
      (''rtmsg_src_len'', IntN 2), (''rtmsg_metric'', IntN 4), (''_'', IntN 4), (''rtmsg_info'', IntN 4),
      (''_'', IntN 4), (''rtmsg_flags'', IntN 4), (''rtmsg_ifindex'', IntN 4)]"

definition in6_rtmsg_32 :: "(string \<times> ctype) list" where
  "in6_rtmsg_32 =
     [(''rtmsg_dst'', Struct in6_addr_struct), (''rtmsg_src'', Struct in6_addr_struct),
      (''rtmsg_gateway'', Struct in6_addr_struct), (''rtmsg_type'', IntN 4), (''rtmsg_dst_len'', IntN 2),
      (''rtmsg_src_len'', IntN 2), (''rtmsg_metric'', IntN 4), (''rtmsg_info'', IntN 4),
      (''rtmsg_flags'', IntN 4), (''rtmsg_ifindex'', IntN 4)]"

text \<open>
  The C declarations of the kernel, with \<open>long\<close> as wide as a pointer: the Go declarations give every
  member its offset. The 4-byte words of \<open>rt_pad1\<close>, \<open>rt_pad3\<close>, \<open>rt_mtu\<close>, \<open>rt_window\<close> and \<open>rtmsg_info\<close>
  are the low halves of a long on the little-endian 64-bit architectures.
\<close>

definition c_rtentry :: "(string \<times> ctype) list" where
  "c_rtentry =
     [(''rt_pad1'', Ptr), (''rt_dst'', Struct RawSockaddrInet4_struct),
      (''rt_gateway'', Struct RawSockaddrInet4_struct), (''rt_genmask'', Struct RawSockaddrInet4_struct),
      (''rt_flags'', IntN 2), (''rt_pad2'', IntN 2), (''rt_pad3'', Ptr),
      (''rt_pad4'', Ptr), (''rt_metric'', IntN 2), (''rt_dev'', Ptr), (''rt_mtu'', Ptr),
      (''rt_window'', Ptr), (''rt_irtt'', IntN 2)]"

definition c_in6_rtmsg :: "(string \<times> ctype) list" where
  "c_in6_rtmsg =
     [(''rtmsg_dst'', Struct in6_addr_struct), (''rtmsg_src'', Struct in6_addr_struct),
      (''rtmsg_gateway'', Struct in6_addr_struct), (''rtmsg_type'', IntN 4), (''rtmsg_dst_len'', IntN 2),
      (''rtmsg_src_len'', IntN 2), (''rtmsg_metric'', IntN 4), (''rtmsg_info'', Ptr),
      (''rtmsg_flags'', IntN 4), (''rtmsg_ifindex'', IntN 4)]"

text \<open>
  The structures of the route requests have the offsets the kernel reads them at on every
  architecture, and nothing the kernel reads lies past their end.
\<close>

theorem route_requests_layout:
  "layout abi_64 rtentry_64 = layout abi_64 c_rtentry \<and>
   layout abi_386 rtentry_32 = layout abi_386 c_rtentry \<and>
   layout abi_arm rtentry_32 = layout abi_arm c_rtentry \<and>
   layout abi_64 in6_rtmsg_64 = layout abi_64 c_in6_rtmsg \<and>
   layout abi_386 in6_rtmsg_32 = layout abi_386 c_in6_rtmsg \<and>
   layout abi_arm in6_rtmsg_32 = layout abi_arm c_in6_rtmsg"
  by (intro conjI; code_simp)

section \<open>Sockets are closed\<close>

definition documented_fds :: "'os kernel \<Rightarrow> ('os \<Rightarrow> nat multiset) \<Rightarrow> bool" where
  "documented_fds k fds \<longleftrightarrow>
     (\<forall>fam s. case Socket k fam s of
        (Inl e, s') \<Rightarrow> fds s' = fds s | (Inr fd, s') \<Rightarrow> fds s' = add_mset fd (fds s)) \<and>
     (\<forall>s. case OpenClone k s of
        (Inl e, s') \<Rightarrow> fds s' = fds s | (Inr fd, s') \<Rightarrow> fds s' = add_mset fd (fds s)) \<and>
     (\<forall>fd s. fds (CloseFd k fd s) = fds s - {#fd#}) \<and>
     (\<forall>fd req. preserves fds (Ioctl k fd req)) \<and>
     (\<forall>fd. preserves fds (SetNonblock k fd))"

lemma preserves_ioctl [preserving]: "documented_fds k fds \<Longrightarrow> preserves fds (Ioctl k fd req)"
  by (simp add: documented_fds_def)

lemma preserves_socket [preserving]:
  "documented_fds k fds \<Longrightarrow> (\<And>fd. preserves fds (use fd)) \<Longrightarrow> preserves fds (with_socket k fam use)"
  unfolding with_socket_def by (rule preserves_bracket) (simp_all add: documented_fds_def)

lemma preserves_entry4 [preserving]:
  "documented_fds k fds \<Longrightarrow> preserves fds (add_entry4 k name fd item)"
  by (auto simp: add_entry4_def intro!: preserving split: option.split prod.split)

lemma preserves_entry6 [preserving]:
  "documented_fds k fds \<Longrightarrow> preserves fds (add_entry6 k fd index item)"
  by (auto simp: add_entry6_def Let_def intro!: preserving split: option.split prod.split)

text \<open>
  C26: Every configuration routine closes the socket it opens, on every path: after an error of an
  ioctl and after a panic in the middle of a list of routes.
\<close>

theorem linux_sockets_closed:
  assumes "documented_fds k fds"
  shows "fds (snd (setInterfaceAddress4 k name addr msk gateway s)) = fds s \<and>
    fds (snd (setInterfaceAddress6 k name addr6 msk6 gateway6 s)) = fds s \<and>
    fds (snd (AddRouteEntry (addRouteEntry4 k name) (addRouteEntry6 k name) cidr s)) = fds s \<and>
    fds (snd (Activate k name s)) = fds s"
proof -
  have a: "preserves fds (setInterfaceAddress4 k name addr msk gateway)"
    unfolding setInterfaceAddress4_def by (intro preserving assms)
  have b: "preserves fds (setInterfaceAddress6 k name addr6 msk6 gateway6)"
    unfolding setInterfaceAddress6_def Let_def by (intro preserving assms)
  have e4: "preserves fds (addRouteEntry4 k name c)" for c
    unfolding addRouteEntry4_def by (intro preserving assms)
  have e6: "preserves fds (addRouteEntry6 k name c)" for c
    unfolding addRouteEntry6_def by (intro preserving assms)
  have c: "preserves fds (AddRouteEntry (addRouteEntry4 k name) (addRouteEntry6 k name) cidr)"
    unfolding AddRouteEntry_def using e4 e6 by (auto intro!: preserving split: sum.split prod.split)
  have d: "preserves fds (Activate k name)"
    unfolding Activate_def by (intro preserving assms)
  show ?thesis
    using a b c d by (simp add: preserves_def)
qed

text \<open>Open descriptors as a multiset, for the witnesses. Every request of an interface is refused.\<close>

definition demo_kernel :: "nat multiset kernel" where
  "demo_kernel =
     \<lparr>Socket = (\<lambda>_ s. (Inr 3, add_mset 3 s)), OpenClone = (\<lambda>s. (Inr 4, add_mset 4 s)),
      CloseFd = (\<lambda>fd s. s - {#fd#}), Ioctl = (\<lambda>_ _ s. (Inl (Err ''EPERM''), s)),
      SetNonblock = (\<lambda>_ s. (Inr (), s))\<rparr>"

lemma demo_kernel_documented: "documented_fds demo_kernel id"
  by (simp add: documented_fds_def demo_kernel_def preserves_def)

lemma linux_sockets_closed_witness: "snd (Activate demo_kernel ''tun0'' {#9#}) = {#9#}"
  using linux_sockets_closed [OF demo_kernel_documented, of "''tun0''" _ _ _ "{#9#}"] by simp

section \<open>A mapped prefix\<close>

lemma mapped_cut: "cut_at (CHR ''/'') ''::ffff:10.0.0.0/104'' = Some (''::ffff:10.0.0.0'', ''104'')"
  by (simp add: cut_at_def)

lemma mapped_mask: "dtoi ''104'' = Some 104"
  by (simp add: dtoi_def digits_value.simps is_digit_def digit_val_def)

lemma mapped_v4: "parseIPv4Fields None 0 0 [] ''10.0.0.0'' = Some [10, 0, 0, 0]"
  by (simp add: parseIPv4Fields.simps is_digit_def digit_val_def)

lemma mapped_group: "hex_group 0 0 ''ffff:10.0.0.0'' = Some (4, 65535, '':10.0.0.0'')"
  by (simp add: hex_val_def is_digit_def)

lemma mapped_group4: "hex_group 0 0 ''10.0.0.0'' = Some (2, 16, ''.0.0.0'')"
  by (simp add: hex_val_def is_digit_def)

lemma mapped_tail: "v6_loop ''10.0.0.0'' [255, 255] (Some 0) = Some (replicate 10 0 @ [255, 255, 10, 0, 0, 0])"
  by (subst v6_loop.simps) (simp add: mapped_v4 mapped_group4 v6_finish_def numeral_eq_Suc del: hex_group.simps)

lemma mapped_loop: "v6_loop ''ffff:10.0.0.0'' [] (Some 0) = Some (replicate 10 0 @ [255, 255, 10, 0, 0, 0])"
  by (subst v6_loop.simps) (simp add: mapped_group mapped_tail del: hex_group.simps)

lemma mapped_addr: "ParseAddr ''::ffff:10.0.0.0'' = Some (AddrV6 (replicate 10 0 @ [255, 255, 10, 0, 0, 0]) [])"
  by (simp add: ParseAddr_def parseIPv6_def cut_at_def mapped_loop)

lemma mapped_CIDRMask: "CIDRMask 104 128 = replicate 13 255 @ [0, 0, 0]"
  by code_simp

lemma sample_mapped: "ParseCIDR ''::ffff:10.0.0.0/104'' =
     Some (IPv4 10 0 0 0, \<lparr>net_IP = IPv4 10 0 0 0, net_Mask = replicate 13 255 @ [0, 0, 0]\<rparr>)"
proof -
  have "replicate 10 0 @ [255, 255, 10, 0, 0, 0] = IPv4 10 0 0 0"
    by (simp add: IPv4_def v4InV6Prefix_def)
  moreover have "ip_Mask (IPv4 10 0 0 0) (replicate 13 255 @ [0, 0, 0]) = IPv4 10 0 0 0"
    by code_simp
  ultimately show ?thesis
    using mapped_cut mapped_mask mapped_addr mapped_CIDRMask by (simp only: ParseCIDR_def Let_def option.case prod.case) simp
qed

text \<open>
  A mapped IPv6 prefix counts as an IPv4 entry, as \<open>To4\<close> accepts its address, but its mask has no
  4-byte form: instead of an error the routine ends with a panic.
\<close>

theorem mapped_entry_panics:
  "is_cidr4 ''::ffff:10.0.0.0/104'' \<and>
   add_entry4 k name fd ''::ffff:10.0.0.0/104'' s = (Inl (Panic ''index out of range''), s)"
proof -
  have "To4 (replicate 13 255 @ [0, 0, 0]) = None"
    by code_simp
  then show ?thesis
    by (simp add: is_cidr4_def add_entry4_def sample_mapped raise_io_def)
qed

text \<open>
  When the kernel refuses the name, \<open>CreateTUN0\<close> returns the error and leaves the descriptor of
  \<open>/dev/net/tun\<close> open; only a failing \<open>SetNonblock\<close> closes it.
\<close>

theorem create_tun_leaks:
  assumes "documented_fds k fds" and "OpenClone k s = (Inr nfd, s1)"
    and "16 \<le> length name \<or> fst (Ioctl k nfd (TUNSETIFF (ifr_name name) (0x1 OR 0x1000)) s1) = Inl e"
  shows "returns (fst (CreateTUN0 k from_file name mtu s)) = False \<and>
    fds (snd (CreateTUN0 k from_file name mtu s)) = add_mset nfd (fds s)"
proof -
  have opened: "fds s1 = add_mset nfd (fds s)"
    using assms(1,2) unfolding documented_fds_def by (metis (mono_tags, lifting) case_prod_conv old.sum.simps(6))
  obtain r s2 where i: "Ioctl k nfd (TUNSETIFF (ifr_name name) (0x1 OR 0x1000)) s1 = (r, s2)"
    by fastforce
  have "fds s2 = fds s1"
    using preservesD [OF preserves_ioctl [OF assms(1)] i] .
  then show ?thesis
    using assms(2,3) i opened
    by (auto simp: CreateTUN0_def bind_io_def raise_io_def)
qed

lemma create_tun_leaks_witness:
  "snd (CreateTUN0 demo_kernel (\<lambda>nfd mtu s. (Inr (), s)) ''tun0'' 1500 {#}) = {#4#}"
  using create_tun_leaks [OF demo_kernel_documented, of "{#}" 4 "{#4#}" "''tun0''" "Err ''EPERM''"
      "\<lambda>nfd mtu s. (Inr (), s)" 1500]
  by (simp add: demo_kernel_def)

end
