(* ===== verification/Linux_Rules.thy ===== *)
theory Linux_Rules
  imports Steps Route Io
begin

text \<open>
  The policy rules of \<open>device/device_linux.go\<close> (\<open>Config\<close>, \<open>Close\<close> and the goroutine that updates the
  source rule), the route watcher of \<open>model/route_linux.go\<close> that drives it, and the DNS monitor of
  \<open>device/device_dns_linux.go\<close>. Netlink and the programs that are run are parameters.
\<close>

section \<open>Policy rules: Config and Close\<close>

text \<open>
  A rule of \<open>ip rule\<close>. The list of the device holds pointers to rules, which the update of the
  source rule writes through: a pointer is an index of \<open>rule_heap\<close>. The driver, the writer and the
  session of the device, which is not used on Linux, are left out.
\<close>

record ip_rule =
  rule_Priority :: int
  rule_Table :: int
  rule_SuppressPrefixlen :: int
  rule_IPProto :: int
  rule_Src :: "IPNet option"

record linux_device =
  dev_Name :: string
  rule_heap :: "ip_rule list"
  ruleList :: "nat list"

record 'os netlink =
  NewRule :: ip_rule
  RuleAdd :: "ip_rule \<Rightarrow> ('os, unit) io"
  RuleDel :: "ip_rule \<Rightarrow> ('os, unit) io"
  LinkByName :: "string \<Rightarrow> ('os, nat) io"
  RouteAdd :: "nat \<Rightarrow> IPNet \<Rightarrow> int \<Rightarrow> ('os, unit) io"

definition EEXIST :: failure where "EEXIST = Err ''EEXIST''"

type_synonym ('os, 'a) dev_io = "(linux_device \<times> 'os, 'a) io"

text \<open>\<open>RuleAdd\<close> and the \<open>if\<close> that follows it: a rule that exists already counts as added.\<close>

definition add_rule :: "'os netlink \<Rightarrow> ip_rule \<Rightarrow> ('os, nat) dev_io" where
  "add_rule nl rule = (\<lambda>(d, s).
     let p = length (rule_heap d);
         d1 = d\<lparr>rule_heap := rule_heap d @ [rule]\<rparr>;
         added = d1\<lparr>ruleList := ruleList d1 @ [p]\<rparr>
     in case RuleAdd nl rule s of
          (Inl e, s') \<Rightarrow> if e \<noteq> EEXIST then (Inl e, (d1, s')) else (Inr p, (added, s'))
        | (Inr _, s') \<Rightarrow> (Inr p, (added, s')))"

definition rule_main :: "'os netlink \<Rightarrow> ip_rule" where
  "rule_main nl = (NewRule nl)\<lparr>rule_Priority := 200, rule_Table := 254, rule_SuppressPrefixlen := 0\<rparr>"

definition rule_icmp :: "'os netlink \<Rightarrow> ip_rule" where
  "rule_icmp nl = (NewRule nl)\<lparr>rule_Priority := 201, rule_Table := 254, rule_IPProto := 1\<rparr>"

definition rule_tun :: "'os netlink \<Rightarrow> ip_rule" where
  "rule_tun nl = (NewRule nl)\<lparr>rule_Priority := 202, rule_Table := 200\<rparr>"

text \<open>The network of one address, as \<open>ParseCIDR(ip.String() + "/32")\<close> returns it, or nil.\<close>

definition source_net :: "CustomRoute \<Rightarrow> IPNet option" where
  "source_net route = map_option snd (ParseCIDR (IP_String (route_Ip route) @ ''/32''))"

definition rule_source :: "'os netlink \<Rightarrow> CustomRoute \<Rightarrow> ip_rule" where
  "rule_source nl route =
     (NewRule nl)\<lparr>rule_Priority := 150, rule_Table := 254, rule_Src := source_net route\<rparr>"

text \<open>
  \<open>Config\<close> up to the DNS part. The error of \<open>RouteAdd\<close> is assigned to \<open>err\<close> and overwritten by the next
  call. The result is the pointer to the source rule and the route, which the goroutine that
  updates the rule keeps.
\<close>

definition Config ::
  "'os netlink \<Rightarrow> (CustomRoute list \<Rightarrow> CustomRoute list) \<Rightarrow> globals \<Rightarrow> ('os, nat \<times> CustomRoute) dev_io" where
  "Config nl srt g = (\<lambda>(d, s).
     bind_io (add_rule nl (rule_main nl)) (\<lambda>_.
     bind_io (add_rule nl (rule_icmp nl)) (\<lambda>_.
     bind_io (add_rule nl (rule_tun nl)) (\<lambda>_.
     bind_io (on_kernel (LinkByName nl (TunName g))) (\<lambda>index ds.
       case on_kernel (RouteAdd nl index (snd (the (ParseCIDR ''0.0.0.0/0''))) 200) ds of
         (Inl (Panic p), ds') \<Rightarrow> (Inl (Panic p), ds')
       | (_, ds') \<Rightarrow>
           (let route = FindContainRoute srt g (IPv4 0 0 0 0) (Routes g)
            in bind_io (add_rule nl (rule_source nl route)) (\<lambda>p. return_io (p, route)) ds')))))
       (d\<lparr>ruleList := []\<rparr>, s))"

fun delete_rules :: "'os netlink \<Rightarrow> ip_rule list \<Rightarrow> 'os \<Rightarrow> 'os" where
  "delete_rules nl [] s = s"
| "delete_rules nl (r # rs) s = delete_rules nl rs (snd (RuleDel nl r s))"

text \<open>The rules of \<open>Close\<close>, which does not look at the results of the deletions.\<close>

definition Close_rules :: "'os netlink \<Rightarrow> linux_device \<Rightarrow> 'os \<Rightarrow> 'os" where
  "Close_rules nl d s = delete_rules nl (map (\<lambda>p. rule_heap d ! p) (ruleList d)) s"

definition Close :: "'os netlink \<Rightarrow> ('os, unit) io \<Rightarrow> linux_device \<Rightarrow> ('os, unit) io" where
  "Close nl tun_Close d s = tun_Close (Close_rules nl d s)"

text \<open>One turn of the loop of the goroutine that \<open>Config\<close> starts; \<open>route\<close> is the captured variable.\<close>

definition update_source :: "'os netlink \<Rightarrow> nat \<Rightarrow> CustomRoute \<Rightarrow> linux_device \<times> 'os \<Rightarrow> linux_device \<times> 'os" where
  "update_source nl p route = (\<lambda>(d, s).
     let s1 = snd (RuleDel nl (rule_heap d ! p) s);
         rule = (rule_heap d ! p)\<lparr>rule_Src := source_net route\<rparr>
     in (d\<lparr>rule_heap := (rule_heap d)[p := rule]\<rparr>, snd (RuleAdd nl rule s1)))"

section \<open>Close takes back what Config added\<close>

definition documented_rules :: "'os netlink \<Rightarrow> ('os \<Rightarrow> ip_rule set) \<Rightarrow> bool" where
  "documented_rules nl rules \<longleftrightarrow>
     (\<forall>r s. case RuleAdd nl r s of
        (Inl e, s') \<Rightarrow> rules s' = rules s \<and> (e = EEXIST \<longleftrightarrow> r \<in> rules s)
      | (Inr _, s') \<Rightarrow> r \<notin> rules s \<and> rules s' = insert r (rules s)) \<and>
     (\<forall>r s. rules (snd (RuleDel nl r s)) = rules s - {r}) \<and>
     (\<forall>name. preserves rules (LinkByName nl name)) \<and>
     (\<forall>index dst table. preserves rules (RouteAdd nl index dst table))"

definition listed :: "linux_device \<Rightarrow> ip_rule set" where
  "listed d = set (map (\<lambda>p. rule_heap d ! p) (ruleList d))"

text \<open>What holds during \<open>Config\<close> of the device and the rules, \<open>R\<close> being the rules at its start
  and \<open>A\<close> those it may add.\<close>

definition config_inv ::
  "('os \<Rightarrow> ip_rule set) \<Rightarrow> ip_rule set \<Rightarrow> ip_rule set \<Rightarrow> linux_device \<times> 'os \<Rightarrow> bool" where
  "config_inv rules R A = (\<lambda>(d, s).
     (\<forall>p \<in> set (ruleList d). p < length (rule_heap d)) \<and> rules s = R \<union> listed d \<and> listed d \<subseteq> A)"

definition keeps_config ::
  "('os \<Rightarrow> ip_rule set) \<Rightarrow> ip_rule set \<Rightarrow> ip_rule set \<Rightarrow> ('os, 'a) dev_io \<Rightarrow> bool" where
  "keeps_config rules R A f \<longleftrightarrow> (\<forall>ds. config_inv rules R A ds \<longrightarrow> config_inv rules R A (snd (f ds)))"

lemma keeps_config_bind:
  "keeps_config rules R A f \<Longrightarrow> (\<And>x. keeps_config rules R A (g x)) \<Longrightarrow> keeps_config rules R A (bind_io f g)"
  by (auto simp: keeps_config_def bind_io_def split: prod.split sum.split) (metis snd_conv)+

lemma keeps_config_return: "keeps_config rules R A (return_io x)"
  by (simp add: keeps_config_def return_io_def)

lemma keeps_config_kernel: "preserves rules f \<Longrightarrow> keeps_config rules R A (on_kernel f)"
  by (auto simp: keeps_config_def config_inv_def on_kernel_def split: prod.splits dest: preservesD)

lemma listed_alloc:
  "\<forall>p \<in> set (ruleList d). p < length (rule_heap d) \<Longrightarrow>
     listed (d\<lparr>rule_heap := rule_heap d @ [r]\<rparr>) = listed d"
  by (auto simp: listed_def nth_append intro!: rev_image_eqI)

lemma listed_add:
  "\<forall>p \<in> set (ruleList d). p < length (rule_heap d) \<Longrightarrow>
     listed (d\<lparr>rule_heap := rule_heap d @ [r], ruleList := ruleList d @ [length (rule_heap d)]\<rparr>) =
       insert r (listed d)"
  by (auto simp: listed_def nth_append intro!: rev_image_eqI)

lemma keeps_config_add:
  assumes "documented_rules nl rules" and "r \<in> A"
  shows "keeps_config rules R A (add_rule nl r)"
  unfolding keeps_config_def
proof (intro allI impI)
  fix ds assume inv: "config_inv rules R A ds"
  obtain d s where ds: "ds = (d, s)" by (cases ds)
  have below: "\<forall>p \<in> set (ruleList d). p < length (rule_heap d)" and R: "rules s = R \<union> listed d"
    and A: "listed d \<subseteq> A"
    using inv by (simp_all add: ds config_inv_def)
  obtain a s' where a: "RuleAdd nl r s = (a, s')" by fastforce
  have doc: "case a of Inl e \<Rightarrow> rules s' = rules s \<and> (e = EEXIST \<longleftrightarrow> r \<in> rules s)
      | Inr _ \<Rightarrow> r \<notin> rules s \<and> rules s' = insert r (rules s)"
    using assms(1) a unfolding documented_rules_def by (metis (mono_tags, lifting) case_prod_conv)
  show "config_inv rules R A (snd (add_rule nl r ds))"
  proof (cases a)
    case (Inl e)
    then show ?thesis
      using doc a below R A assms(2) listed_alloc [OF below, of r] listed_add [OF below, of r]
      by (auto simp: ds add_rule_def Let_def config_inv_def)
  next
    case (Inr u)
    then show ?thesis
      using doc a below R A assms(2) listed_add [OF below, of r]
      by (auto simp: ds add_rule_def Let_def config_inv_def)
  qed
qed

text \<open>The four rules of \<open>Config\<close>.\<close>

definition config_rules ::
  "'os netlink \<Rightarrow> (CustomRoute list \<Rightarrow> CustomRoute list) \<Rightarrow> globals \<Rightarrow> ip_rule list" where
  "config_rules nl srt g =
     [rule_main nl, rule_icmp nl, rule_tun nl,
      rule_source nl (FindContainRoute srt g (IPv4 0 0 0 0) (Routes g))]"

lemma keeps_config_body:
  assumes "documented_rules nl rules"
  shows "config_inv rules (rules s) (set (config_rules nl srt g)) (snd (Config nl srt g (d, s)))"
proof -
  let ?R = "rules s" and ?A = "set (config_rules nl srt g)"
  let ?route = "FindContainRoute srt g (IPv4 0 0 0 0) (Routes g)"
  let ?tail = "bind_io (add_rule nl (rule_source nl ?route)) (\<lambda>p. return_io (p, ?route))"
  have tail: "keeps_config rules ?R ?A ?tail"
    using assms by (intro keeps_config_bind keeps_config_add keeps_config_return)
      (simp_all add: config_rules_def)
  have route: "keeps_config rules ?R ?A (\<lambda>ds.
      case on_kernel (RouteAdd nl index dst 200) ds of
        (Inl (Panic p), ds') \<Rightarrow> (Inl (Panic p), ds')
      | (_, ds') \<Rightarrow> (let route = ?route
           in bind_io (add_rule nl (rule_source nl route)) (\<lambda>p. return_io (p, route)) ds'))"
    (is "keeps_config rules ?R ?A ?f") for index dst
    unfolding keeps_config_def
  proof (intro allI impI)
    fix ds assume inv: "config_inv rules ?R ?A ds"
    obtain r ds' where r: "on_kernel (RouteAdd nl index dst 200) ds = (r, ds')"
      by (cases "on_kernel (RouteAdd nl index dst 200) ds")
    have "keeps_config rules ?R ?A (on_kernel (RouteAdd nl index dst 200))"
      using assms by (intro keeps_config_kernel) (simp add: documented_rules_def)
    then have "config_inv rules ?R ?A ds'"
      using inv r unfolding keeps_config_def by (metis snd_conv)
    moreover from this have "config_inv rules ?R ?A (snd (?tail ds'))"
      using tail unfolding keeps_config_def by blast
    ultimately show "config_inv rules ?R ?A (snd (?f ds))"
      using r by (simp add: Let_def split: sum.split failure.split)
  qed
  have "keeps_config rules ?R ?A (on_kernel (LinkByName nl (TunName g)))"
    using assms by (simp add: keeps_config_kernel documented_rules_def)
  then have "keeps_config rules ?R ?A (bind_io (add_rule nl (rule_main nl)) (\<lambda>_.
     bind_io (add_rule nl (rule_icmp nl)) (\<lambda>_.
     bind_io (add_rule nl (rule_tun nl)) (\<lambda>_.
     bind_io (on_kernel (LinkByName nl (TunName g))) (\<lambda>index ds.
       case on_kernel (RouteAdd nl index (snd (the (ParseCIDR ''0.0.0.0/0''))) 200) ds of
         (Inl (Panic p), ds') \<Rightarrow> (Inl (Panic p), ds')
       | (_, ds') \<Rightarrow>
           (let route = ?route
            in bind_io (add_rule nl (rule_source nl route)) (\<lambda>p. return_io (p, route)) ds'))))))"
    using assms by (intro keeps_config_bind keeps_config_add route) (simp_all add: config_rules_def)
  moreover have "config_inv rules ?R ?A (d\<lparr>ruleList := []\<rparr>, s)"
    by (simp add: config_inv_def listed_def)
  ultimately show ?thesis
    unfolding keeps_config_def Config_def by simp
qed

lemma add_rule_success:
  assumes "add_rule nl rule (d, s) = (Inr p, (d', s'))"
  shows "p = length (rule_heap d) \<and>
    d' = d\<lparr>rule_heap := rule_heap d @ [rule], ruleList := ruleList d @ [length (rule_heap d)]\<rparr>"
  using assms by (auto simp: add_rule_def Let_def split: prod.splits sum.splits if_splits)

lemma Config_success:
  assumes "Config nl srt g (d, s) = (Inr (p, route), (d', s'))"
  shows "route = FindContainRoute srt g (IPv4 0 0 0 0) (Routes g) \<and> p = length (rule_heap d) + 3 \<and>
    rule_heap d' = rule_heap d @ config_rules nl srt g \<and>
    ruleList d' = map (\<lambda>i. length (rule_heap d) + i) [0, 1, 2, 3]"
proof -
  let ?dst = "snd (the (ParseCIDR ''0.0.0.0/0''))"
  obtain p1 d1 s1 where 1: "add_rule nl (rule_main nl) (d\<lparr>ruleList := []\<rparr>, s) = (Inr p1, (d1, s1))"
      and r1: "bind_io (add_rule nl (rule_icmp nl)) (\<lambda>_.
     bind_io (add_rule nl (rule_tun nl)) (\<lambda>_.
     bind_io (on_kernel (LinkByName nl (TunName g))) (\<lambda>index ds.
       case on_kernel (RouteAdd nl index ?dst 200) ds of
         (Inl (Panic p), ds') \<Rightarrow> (Inl (Panic p), ds')
       | (_, ds') \<Rightarrow>
           (let route = FindContainRoute srt g (IPv4 0 0 0 0) (Routes g)
            in bind_io (add_rule nl (rule_source nl route)) (\<lambda>p. return_io (p, route)) ds'))))
       (d1, s1) = (Inr (p, route), (d', s'))"
    using assms by (auto simp: Config_def bind_io_eq)
  obtain p2 d2 s2 p3 d3 s3 index d4 s4 where
      2: "add_rule nl (rule_icmp nl) (d1, s1) = (Inr p2, (d2, s2))"
      and 3: "add_rule nl (rule_tun nl) (d2, s2) = (Inr p3, (d3, s3))"
      and 4: "on_kernel (LinkByName nl (TunName g)) (d3, s3) = (Inr index, (d4, s4))"
      and r4: "(case on_kernel (RouteAdd nl index ?dst 200) (d4, s4) of
         (Inl (Panic p), ds') \<Rightarrow> (Inl (Panic p), ds')
       | (_, ds') \<Rightarrow>
           (let route = FindContainRoute srt g (IPv4 0 0 0 0) (Routes g)
            in bind_io (add_rule nl (rule_source nl route)) (\<lambda>p. return_io (p, route)) ds')) =
         (Inr (p, route), (d', s'))"
    using r1 by (auto simp: bind_io_eq)
  obtain r d5 s5 where 5: "on_kernel (RouteAdd nl index ?dst 200) (d4, s4) = (r, (d5, s5))"
    by (cases "on_kernel (RouteAdd nl index ?dst 200) (d4, s4)") auto
  then have route: "route = FindContainRoute srt g (IPv4 0 0 0 0) (Routes g)"
      and 6: "add_rule nl (rule_source nl route) (d5, s5) = (Inr p, (d', s'))"
    using r4 by (auto simp: Let_def bind_io_eq return_io_def split: sum.splits failure.splits)
  show ?thesis
    using add_rule_success [OF 1] add_rule_success [OF 2] add_rule_success [OF 3]
      on_kernel_device [OF 4] on_kernel_device [OF 5] add_rule_success [OF 6] route
    by (simp add: config_rules_def)
qed

lemma delete_rules_spec:
  "documented_rules nl rules \<Longrightarrow> rules (delete_rules nl rs s) = rules s - set rs"
  by (induction rs arbitrary: s) (auto simp: documented_rules_def)


text \<open>Rules as a set, for the witnesses.\<close>

definition demo_netlink :: "ip_rule set netlink" where
  "demo_netlink =
     \<lparr>NewRule = \<lparr>rule_Priority = -1, rule_Table = 0, rule_SuppressPrefixlen = -1, rule_IPProto = 0,
                 rule_Src = None\<rparr>,
      RuleAdd = (\<lambda>r s. if r \<in> s then (Inl EEXIST, s) else (Inr (), insert r s)),
      RuleDel = (\<lambda>r s. (Inr (), s - {r})),
      LinkByName = (\<lambda>_ s. (Inr 7, s)), RouteAdd = (\<lambda>_ _ _ s. (Inl (Err ''ENETUNREACH''), s))\<rparr>"

definition demo_device :: linux_device where
  "demo_device = \<lparr>dev_Name = ''tun0'', rule_heap = [], ruleList = []\<rparr>"

lemma demo_documented: "documented_rules demo_netlink id"
  by (auto simp: documented_rules_def demo_netlink_def preserves_def)


section \<open>The update of the source rule\<close>

text \<open>
  C33: The goroutine that is to follow a change of the default interface never does: it computes the
  source from the route that \<open>Config\<close> selected, so after any number of updates the device and the
  source of the rule are as \<open>Config\<close> left them, whatever the route table has become.
\<close>

theorem source_rule_stale:
  assumes "Config nl srt g (d, s) = (Inr (p, route), (d', s'))"
  shows "fst ((update_source nl p route ^^ n) (d', s')) = d' \<and>
    rule_Src (rule_heap d' ! p) = source_net (FindContainRoute srt g (IPv4 0 0 0 0) (Routes g))"
proof -
  have heap: "rule_heap d' ! p = rule_source nl route"
      and src: "route = FindContainRoute srt g (IPv4 0 0 0 0) (Routes g)"
    using Config_success [OF assms] by (simp_all add: config_rules_def nth_append)
  have turn: "fst (update_source nl p route (d', s0)) = d'" for s0
    using heap by (simp add: update_source_def Let_def rule_source_def)
      (metis (no_types, lifting) heap rule_source_def list_update_id linux_device.surjective
        linux_device.update_convs(2))
  have "fst ((update_source nl p route ^^ n) (d', s')) = d'"
    by (induction n) (simp_all, metis turn prod.collapse)
  then show ?thesis
    using heap src by (simp add: rule_source_def)
qed

lemma demo_config:
  "\<exists>s'. Config demo_netlink id init_globals (demo_device, {}) =
     (Inr (3, getDefaultRoute init_globals),
      (demo_device\<lparr>rule_heap := config_rules demo_netlink id init_globals, ruleList := [0, 1, 2, 3]\<rparr>, s'))"
  by (simp add: Config_def bind_io_def add_rule_def on_kernel_def demo_netlink_def demo_device_def
      config_rules_def rule_main_def rule_icmp_def rule_tun_def rule_source_def Let_def return_io_def
      FindContainRoute_def init_globals_def)

lemma source_rule_stale_witness:
  "\<exists>s'. fst ((update_source demo_netlink 3 (getDefaultRoute init_globals) ^^ 2)
     (demo_device\<lparr>rule_heap := config_rules demo_netlink id init_globals, ruleList := [0, 1, 2, 3]\<rparr>, s')) =
     demo_device\<lparr>rule_heap := config_rules demo_netlink id init_globals, ruleList := [0, 1, 2, 3]\<rparr>"
proof -
  obtain s' where "Config demo_netlink id init_globals (demo_device, {}) =
     (Inr (3, getDefaultRoute init_globals),
      (demo_device\<lparr>rule_heap := config_rules demo_netlink id init_globals, ruleList := [0, 1, 2, 3]\<rparr>, s'))"
    using demo_config ..
  from source_rule_stale [OF this, of 2] show ?thesis
    by blast
qed

text \<open>
  A refused route into the table of the tunnel goes unnoticed: \<open>Config\<close> does and returns the same
  whether or not the system accepts the route, while its rules send the traffic to that table.
\<close>

theorem route_error_ignored:
  "Config (nl\<lparr>RouteAdd := \<lambda>_ _ _ s. (Inl (Err e), s)\<rparr>) srt g =
   Config (nl\<lparr>RouteAdd := \<lambda>_ _ _ s. (Inr (), s)\<rparr>) srt g"
  by (simp add: fun_eq_iff Config_def bind_io_def on_kernel_def add_rule_def rule_main_def
      rule_icmp_def rule_tun_def rule_source_def Let_def split: prod.split sum.split)

section \<open>The route watcher and the update goroutine\<close>

text \<open>
  \<open>InitRoute\<close> starts a goroutine that waits for a change of a link, sends on \<open>ReaRouteUpdateChan\<close> and
  only then reads the route table again. The channel has no buffer, so the send waits for the
  goroutine of \<open>Config\<close> to receive; \<open>listening\<close> says that it does.
\<close>

datatype watcher = AwaitLink | SendUpdate | Reload

record 'r watch =
  watch_pc :: watcher
  watch_started :: bool
  watch_listening :: bool
  watch_Routes :: 'r

datatype 'r watch_event = LinkChanged | Received | Reloaded 'r | ConfigStarts | Updated

inductive watch_step :: "'r watch \<Rightarrow> 'r watch_event \<Rightarrow> 'r watch \<Rightarrow> bool" where
  link: "watch_pc w = AwaitLink \<Longrightarrow> watch_step w LinkChanged (w\<lparr>watch_pc := SendUpdate\<rparr>)"
| receive: "watch_pc w = SendUpdate \<Longrightarrow> watch_listening w \<Longrightarrow>
    watch_step w Received (w\<lparr>watch_pc := Reload, watch_listening := False\<rparr>)"
| reload: "watch_pc w = Reload \<Longrightarrow>
    watch_step w (Reloaded r) (w\<lparr>watch_pc := AwaitLink, watch_Routes := r\<rparr>)"
| start: "\<not> watch_started w \<Longrightarrow>
    watch_step w ConfigStarts (w\<lparr>watch_started := True, watch_listening := True\<rparr>)"
| update: "watch_started w \<Longrightarrow> \<not> watch_listening w \<Longrightarrow>
    watch_step w Updated (w\<lparr>watch_listening := True\<rparr>)"

inductive_simps watch_step_simps [simp]:
  "watch_step w LinkChanged w'"
  "watch_step w Received w'"
  "watch_step w (Reloaded r) w'"
  "watch_step w ConfigStarts w'"
  "watch_step w Updated w'"

abbreviation watch_runs :: "'r watch \<Rightarrow> 'r watch_event list \<Rightarrow> 'r watch \<Rightarrow> bool" where
  "watch_runs \<equiv> runs watch_step"

definition init_watch :: "'r \<Rightarrow> 'r watch" where
  "init_watch r =
     \<lparr>watch_pc = AwaitLink, watch_started = False, watch_listening = False, watch_Routes = r\<rparr>"

lemma watch_unstarted:
  "watch_runs (init_watch r) evs w \<Longrightarrow> ConfigStarts \<notin> set evs \<Longrightarrow>
     \<not> watch_started w \<and> \<not> watch_listening w \<and> watch_Routes w = r \<and>
     watch_pc w = (if LinkChanged \<in> set evs then SendUpdate else AwaitLink)"
proof (induction rule: runs.induct)
  case idle
  then show ?case
    by (simp add: init_watch_def)
next
  case (snoc evs w' ev w'')
  then show ?case
    by (cases ev) (auto split: if_splits)
qed

text \<open>
  C34: When \<open>Config\<close> returns before it starts its goroutine, after an error of an earlier step, the
  route table is never read again: the watcher waits at its first send for ever.
\<close>

theorem routes_freeze_without_config:
  assumes "watch_runs (init_watch r) evs w" and "ConfigStarts \<notin> set evs"
  shows "watch_Routes w = r \<and>
    (LinkChanged \<notin> set evs \<or> (\<forall>ev w'. watch_step w ev w' \<longrightarrow> ev = ConfigStarts))"
proof -
  note facts = watch_unstarted [OF assms]
  have "ev = ConfigStarts" if "LinkChanged \<in> set evs" "watch_step w ev w'" for ev w'
    using that facts by (cases ev) auto
  then show ?thesis
    using facts by blast
qed

lemma routes_freeze_without_config_witness:
  "\<nexists>w'. watch_step ((init_watch (0 :: nat))\<lparr>watch_pc := SendUpdate\<rparr>) (Reloaded 1) w'"
proof
  assume "\<exists>w'. watch_step ((init_watch (0 :: nat))\<lparr>watch_pc := SendUpdate\<rparr>) (Reloaded 1) w'"
  then obtain w' where "watch_step ((init_watch (0 :: nat))\<lparr>watch_pc := SendUpdate\<rparr>) (Reloaded 1) w'" ..
  moreover have "watch_runs (init_watch 0) ([] @ [LinkChanged]) ((init_watch (0 :: nat))\<lparr>watch_pc := SendUpdate\<rparr>)"
    by (rule runs.snoc [OF runs.idle]) (simp add: init_watch_def)
  ultimately show False
    using routes_freeze_without_config [of 0 "[LinkChanged]"] by force
qed

text \<open>With the goroutine started, every change of a link can be followed by a reload.\<close>

lemma watch_progress:
  assumes "watch_started w" and "watch_pc w = SendUpdate"
  shows "\<exists>evs w'. watch_runs w evs w' \<and> watch_Routes w' = r \<and> watch_pc w' = AwaitLink"
proof -
  define w1 where "w1 = w\<lparr>watch_listening := True\<rparr>"
  define w2 where "w2 = w1\<lparr>watch_pc := Reload, watch_listening := False\<rparr>"
  define w3 where "w3 = w2\<lparr>watch_pc := AwaitLink, watch_Routes := r\<rparr>"
  have "\<exists>evs. watch_runs w evs w1"
  proof (cases "watch_listening w")
    case True
    then have "w1 = w"
      by (simp add: w1_def)
    then show ?thesis
      by (metis runs.idle)
  next
    case False
    then show ?thesis
      using assms(1) runs.snoc [OF runs.idle, of watch_step w Updated w1] by (auto simp: w1_def)
  qed
  then obtain evs where "watch_runs w evs w1" ..
  then have "watch_runs w (evs @ [Received]) w2"
    by (rule runs.snoc) (use assms(2) in \<open>simp add: w1_def w2_def\<close>)
  then have "watch_runs w ((evs @ [Received]) @ [Reloaded r]) w3"
    by (rule runs.snoc) (simp add: w2_def w3_def)
  then show ?thesis
    by (force simp: w3_def)
qed

section \<open>Enforced DNS (device_dns_linux.go)\<close>

text \<open>
  \<open>Run path args\<close> runs a program with \<open>Exec(path, args...).Run()\<close>; its result is dropped everywhere.
\<close>

record 'os runner =
  LookPath :: "string \<Rightarrow> ('os, string) io"
  Run :: "string \<Rightarrow> string list \<Rightarrow> 'os \<Rightarrow> 'os"

definition setDns :: "'os runner \<Rightarrow> string \<Rightarrow> string \<Rightarrow> 'os \<Rightarrow> 'os" where
  "setDns r name dns s =
     (case LookPath r ''resolvectl'' s of
        (Inl _, s1) \<Rightarrow> s1
      | (Inr ctlPath, s1) \<Rightarrow>
          Run r ctlPath [''dns'', name, dns]
            (Run r ctlPath [''default-route'', name, ''true'']
              (Run r ctlPath [''domain'', name, ''~.''] s1)))"

text \<open>
  One turn of \<open>monitorEnforceDns\<close> for a received value; \<open>flag\<close> is \<open>EnableEnforceDns\<close>. When the program is
  not found the path is empty and the run fails.
\<close>

definition monitor_turn :: "'os runner \<Rightarrow> globals \<Rightarrow> string \<Rightarrow> bool \<Rightarrow> bool \<times> 'os \<Rightarrow> bool \<times> 'os" where
  "monitor_turn r g name enable = (\<lambda>(flag, s).
     if enable \<noteq> flag then
       (enable,
        if enable then setDns r name (DNS1 g) s
        else (case LookPath r ''resolvectl'' s of
                (Inl _, s1) \<Rightarrow> Run r [] [''revert'', name] s1
              | (Inr ctlPath, s1) \<Rightarrow> Run r ctlPath [''revert'', name] s1))
     else (flag, s))"

definition monitorEnforceDns :: "'os runner \<Rightarrow> globals \<Rightarrow> string \<Rightarrow> bool list \<Rightarrow> bool \<times> 'os \<Rightarrow> bool \<times> 'os" where
  "monitorEnforceDns r g name requests = fold (monitor_turn r g name) requests"

text \<open>The end of \<open>Config\<close>: the monitor runs only if enforcement is on at the start.\<close>

definition Config_dns :: "'os runner \<Rightarrow> globals \<Rightarrow> string \<Rightarrow> 'os \<Rightarrow> bool \<times> 'os" where
  "Config_dns r g name s =
     (if EnableEnforceDns (cfg_Client (ContextConfigImp g)) then (True, setDns r name (DNS1 g) s)
      else (False, s))"

lemma monitor_last:
  "fst (monitorEnforceDns r g name requests (flag, s)) = last (flag # requests)"
proof (induction requests arbitrary: flag s)
  case (Cons q requests)
  obtain s1 where "monitor_turn r g name q (flag, s) = (q, s1)"
    by (cases "q = flag") (simp_all add: monitor_turn_def)
  then show ?case
    using Cons [of q s1] by (simp add: monitorEnforceDns_def)
qed (simp add: monitorEnforceDns_def)

lemma monitor_changes:
  "monitorEnforceDns r g name (tl (remdups_adj (flag # requests))) (flag, s) =
     monitorEnforceDns r g name requests (flag, s)"
proof (induction requests arbitrary: flag s)
  case Nil
  then show ?case
    by simp
next
  case (Cons q requests)
  show ?case
  proof (cases "q = flag")
    case True
    then show ?thesis
      using Cons [of flag s] by (simp add: monitorEnforceDns_def monitor_turn_def)
  next
    case False
    obtain s1 where turn: "monitor_turn r g name q (flag, s) = (q, s1)"
      using False by (simp add: monitor_turn_def)
    have changes: "tl (remdups_adj (flag # q # requests)) = q # tl (remdups_adj (q # requests))"
      using False by (cases requests) auto
    show ?thesis
      unfolding changes using Cons [of q s1] turn
      by (simp add: monitorEnforceDns_def del: remdups_adj_Cons_alt)
  qed
qed

text \<open>
  The monitor acts on changes only: a sequence of requests has the effect of its changes, the
  first one measured against the current setting, and the setting ends as the last request.
\<close>

theorem monitor_acts_on_changes:
  "monitorEnforceDns r g name requests (flag, s) =
     monitorEnforceDns r g name (tl (remdups_adj (flag # requests))) (flag, s) \<and>
   fst (monitorEnforceDns r g name requests (flag, s)) = last (flag # requests)"
  by (simp only: monitor_changes monitor_last)

end
