(* ===== verification/Windows_Device.thy ===== *)
theory Windows_Device
  imports Win_Filter Win_Dns Tun_Config Model Go_Addr
begin

text \<open>
  The interface on Windows (\<open>device/device_windows.go\<close>): its creation, addresses, routes and DNS servers
  over \<open>winipcfg\<close>, and \<open>InitGateway\<close>, which puts them together with the filters of \<open>Win_Filter\<close>.
\<close>

section \<open>Prefixes as strings\<close>

text \<open>
  \<open>netip.ParsePrefix\<close>: the text after the last slash is a decimal number without leading zeros, and
  the address has no zone.
\<close>

definition prefix_bits :: "string \<Rightarrow> nat option" where
  "prefix_bits b =
     (if b = [] \<or> 1 < length b \<and> hd b = CHR ''0'' then None else digits_value 0 b)"

definition ParsePrefix :: "string \<Rightarrow> Prefix outcome" where
  "ParsePrefix s =
     (case cut_at (CHR ''/'') (rev s) of
        None \<Rightarrow> Inl (Err ''no slash'')
      | Some (b, a) \<Rightarrow>
          (case ParseAddr (rev a) of
             None \<Rightarrow> Inl (Err ''unable to parse IP'')
           | Some ip \<Rightarrow>
               if Zone ip \<noteq> [] then Inl (Err ''IPv6 zones cannot be present in a prefix'')
               else
                 (case prefix_bits (rev b) of
                    None \<Rightarrow> Inl (Err ''bad bits after slash'')
                  | Some n \<Rightarrow>
                      if BitLen ip < n then Inl (Err ''prefix length out of range'')
                      else Inr (PrefixFrom ip n))))"

definition MustParseAddr :: "string \<Rightarrow> Addr outcome" where
  "MustParseAddr s = (case ParseAddr s of None \<Rightarrow> Inl (Panic ''unable to parse IP'') | Some a \<Rightarrow> Inr a)"

lemma cut_last_slash:
  "CHR ''/'' \<notin> set b \<Longrightarrow> cut_at (CHR ''/'') (rev (a @ CHR ''/'' # b)) = Some (rev b, rev a)"
  by (simp add: cut_at_append)

lemma itoa_no_zero: "0 < n \<Longrightarrow> hd (itoa n) \<noteq> CHR ''0''"
proof (induction n rule: itoa.induct)
  case (1 n)
  show ?case
  proof (cases "n < 10")
    case True
    then have "digit_val (digit_char n) = n"
      by simp
    then have "digit_char n \<noteq> CHR ''0''"
      using "1.prems" by (auto simp: digit_val_def)
    then show ?thesis
      using True by (subst itoa.simps) simp
  next
    case False
    then have "hd (itoa (n div 10)) \<noteq> CHR ''0''" "itoa (n div 10) \<noteq> []"
      using 1 by (auto simp: itoa.simps [of "n div 10"])
    then show ?thesis
      using False by (subst itoa.simps) simp
  qed
qed

lemma prefix_bits_itoa: "prefix_bits (itoa n) = Some n"
proof -
  have "itoa n \<noteq> []"
    by (subst itoa.simps) simp
  moreover have "\<not> (1 < length (itoa n) \<and> hd (itoa n) = CHR ''0'')"
    using itoa_no_zero [of n] by (cases "n = 0") (simp_all add: itoa.simps [of 0])
  ultimately show ?thesis
    by (auto simp: prefix_bits_def digits_value_itoa)
qed

lemma ParsePrefix_v4:
  "n \<le> 32 \<Longrightarrow> ParsePrefix (string4 [a, b, c, d] @ CHR ''/'' # itoa n) = Inr (PrefixFrom (AddrV4 [a, b, c, d]) n)"
  using cut_last_slash [of "itoa n" "string4 [a, b, c, d]"]
  by (simp add: ParsePrefix_def ParseAddr_string4 prefix_bits_itoa itoa_char is_digit_def)

section \<open>The device\<close>

text \<open>
  \<open>determineGUID\<close> reads 16 bytes that HKDF derives from the name; \<open>hkdf\<close> and the creation of the
  interface by the driver are parameters.
\<close>

definition determineGUID :: "(string \<Rightarrow> bytes outcome) \<Rightarrow> string \<Rightarrow> bytes option" where
  "determineGUID hkdf name = (case hkdf name of Inl _ \<Rightarrow> None | Inr b \<Rightarrow> Some b)"

definition CreateTUN_windows ::
  "(string \<Rightarrow> bytes outcome) \<Rightarrow> (string \<Rightarrow> bytes option \<Rightarrow> int \<Rightarrow> ('os, LUID) io) \<Rightarrow>
   (LUID \<Rightarrow> ('os, string) io) \<Rightarrow> string \<Rightarrow> int \<Rightarrow> ('os, windows_device) io" where
  "CreateTUN_windows hkdf create tun_Name name mtu =
     bind_io (create name (determineGUID hkdf name) mtu) (\<lambda>luid.
       bind_io (tun_Name luid) (\<lambda>n.
         return_io \<lparr>wdev_Name = n, wdev_LUID = luid, fwpmSession = 0\<rparr>))"

definition Config_windows :: "('os, unit) io" where
  "Config_windows = return_io ()"

section \<open>Routes\<close>

definition route_data :: "Addr \<Rightarrow> Prefix \<Rightarrow> RouteData" where
  "route_data hop ipNet = \<lparr>rd_Destination = ipNet, rd_NextHop = hop, rd_Metric = 0\<rparr>"

fun parse_entries :: "string list \<Rightarrow> Prefix list outcome" where
  "parse_entries [] = Inr []"
| "parse_entries (item # items) =
     bind_outcome (case ParsePrefix item of Inl (Err e) \<Rightarrow> Inl (Err (''ParsePrefix error: '' @ e)) | r \<Rightarrow> r) (\<lambda>p.
       bind_outcome (parse_entries items) (\<lambda>ps. Inr (p # ps)))"

text \<open>
  The entries are the keys of a map, so a repeated entry is added once; \<open>range_order\<close> is the order in
  which Go's loop visits them, which is not specified.
\<close>

definition add_entries ::
  "'os ip_helper \<Rightarrow> (RouteData list \<Rightarrow> RouteData list) \<Rightarrow> Addr \<Rightarrow> LUID \<Rightarrow> string list \<Rightarrow> ('os, unit) io" where
  "add_entries api range_order hop luid cidr =
     bind_io (lift_io (parse_entries cidr)) (\<lambda>prefixes.
       each_io (\<lambda>r. wrap_io ''AddRoute error'' (add_route_data api luid r))
         (range_order (remdups (map (route_data hop) prefixes))))"

definition addRouteEntry4_windows ::
  "'os ip_helper \<Rightarrow> (RouteData list \<Rightarrow> RouteData list) \<Rightarrow> LUID \<Rightarrow> string list \<Rightarrow> ('os, unit) io" where
  "addRouteEntry4_windows api range_order luid cidr =
     add_entries api range_order (AddrV4 [0, 0, 0, 0]) luid cidr"

definition addRouteEntry6_windows ::
  "'os ip_helper \<Rightarrow> (RouteData list \<Rightarrow> RouteData list) \<Rightarrow> LUID \<Rightarrow> string list \<Rightarrow> ('os, unit) io" where
  "addRouteEntry6_windows api range_order luid cidr =
     add_entries api range_order (AddrV6 (replicate 16 0) []) luid cidr"

section \<open>Addresses and DNS servers\<close>

text \<open>
  The prefix is set, once more if the system says that it exists already, then the gateway as the
  only DNS server. The prefix is the argument \<open>mask\<close>; \<open>addr\<close> is not used.
\<close>

definition already_exists :: failure where
  "already_exists = Err ''ERROR_OBJECT_ALREADY_EXISTS''"

definition set_family_address ::
  "'os dns_helper \<Rightarrow> goarch \<Rightarrow> LUID \<Rightarrow> u16 \<Rightarrow> string \<Rightarrow> string \<Rightarrow> ('os, unit) io" where
  "set_family_address api arch luid family msk gateway =
     bind_io (lift_io (must (ParsePrefix msk))) (\<lambda>prefix.
     bind_io (\<lambda>s. case SetIPAddressesForFamily (helper api) luid family [prefix] s of
                   (r, s') \<Rightarrow>
                     if r = Inl already_exists then SetIPAddressesForFamily (helper api) luid family [prefix] s'
                     else (r, s')) (\<lambda>_.
     bind_io (lift_io (MustParseAddr gateway)) (\<lambda>dns.
       SetDNS api arch luid family [dns] [])))"

definition setInterfaceAddress4_windows ::
  "'os dns_helper \<Rightarrow> goarch \<Rightarrow> LUID \<Rightarrow> string \<Rightarrow> string \<Rightarrow> string \<Rightarrow> ('os, unit) io" where
  "setInterfaceAddress4_windows api arch luid addr msk gateway =
     set_family_address api arch luid AF_INET msk gateway"

definition setInterfaceAddress6_windows ::
  "'os dns_helper \<Rightarrow> goarch \<Rightarrow> LUID \<Rightarrow> string \<Rightarrow> string \<Rightarrow> string \<Rightarrow> ('os, unit) io" where
  "setInterfaceAddress6_windows api arch luid addr msk gateway =
     set_family_address api arch luid AF_INET6 msk gateway"

definition SetInterfaceAddress_windows ::
  "'os dns_helper \<Rightarrow> goarch \<Rightarrow> LUID \<Rightarrow> string \<Rightarrow> ('os, unit) io" where
  "SetInterfaceAddress_windows api arch luid address =
     (case getInterfaceConfig4 address of
        Inl (Panic p) \<Rightarrow> raise_io (Panic p)
      | Inr (_, _, gateway) \<Rightarrow> setInterfaceAddress4_windows api arch luid [] address gateway
      | Inl (Err _) \<Rightarrow>
          (case getInterfaceConfig6 address of
             Inl (Panic p) \<Rightarrow> raise_io (Panic p)
           | Inr (_, _, gateway) \<Rightarrow> setInterfaceAddress6_windows api arch luid [] address gateway
           | Inl (Err _) \<Rightarrow> raise_io (Err ''tun device address error'')))"

text \<open>The error of \<open>SetDNS\<close> is logged.\<close>

definition SetDns4 :: "'os dns_helper \<Rightarrow> goarch \<Rightarrow> LUID \<Rightarrow> string \<Rightarrow> string \<Rightarrow> ('os, unit) io" where
  "SetDns4 api arch luid dns1 dns2 =
     bind_io (lift_io (MustParseAddr dns1)) (\<lambda>a1.
     bind_io (lift_io (MustParseAddr dns2)) (\<lambda>a2 s.
       case SetDNS api arch luid AF_INET [a1, a2] [] s of
         (Inl (Panic p), s') \<Rightarrow> (Inl (Panic p), s')
       | (_, s') \<Rightarrow> (Inr (), s')))"

text \<open>
  \<open>InitGateway\<close> up to the start of the monitor: the error of \<open>SetIPAddresses\<close> is overwritten by that of
  \<open>addRouteEntry4\<close>, which panics.
\<close>

definition InitGateway_windows ::
  "'os dns_helper \<Rightarrow> 'os fwp \<Rightarrow> goarch \<Rightarrow> (RouteData list \<Rightarrow> RouteData list) \<Rightarrow> globals \<Rightarrow>
   (windows_device \<times> 'os, unit) io" where
  "InitGateway_windows api fw arch range_order g = (\<lambda>(d, s).
     bind_io (lift_io (must (ParsePrefix (TunIp g)))) (\<lambda>ip (d, s).
       case SetIPAddresses (helper api) (wdev_LUID d) [ip] s of
         (Inl (Panic p), s1) \<Rightarrow> (Inl (Panic p), (d, s1))
       | (_, s1) \<Rightarrow>
           bind_io (on_kernel (must_io
               (addRouteEntry4_windows (helper api) range_order (wdev_LUID d) [''0.0.0.0/0'']))) (\<lambda>_.
             if EnableEnforceDns (cfg_Client (ContextConfigImp g)) then
               bind_io (on_kernel (SetDns4 api arch (wdev_LUID d) (DNS1 g) (DNS2 g))) (\<lambda>_. configFwp fw)
             else return_io ()) (d, s1)) (d, s))"

section \<open>The entries become routes\<close>

lemma parse_entries_v4:
  assumes "\<forall>(q, n) \<in> set items. length q = 4 \<and> n \<le> 32"
  shows "parse_entries (map (\<lambda>(q, n). string4 q @ CHR ''/'' # itoa n) items) =
    Inr (map (\<lambda>(q, n). PrefixFrom (AddrV4 q) n) items)"
  using assms
proof (induction items)
  case (Cons i items)
  obtain q n where i: "i = (q, n)"
    by (cases i)
  then obtain a b c d where "q = [a, b, c, d]"
    using Cons.prems by (auto simp: length_4_iff)
  then show ?case
    using Cons i ParsePrefix_v4 [of n a b c d] by simp
qed simp

lemma each_wrap:
  "each_io (\<lambda>r. wrap_io call (f r)) rs s = (Inr (), s') \<longleftrightarrow> each_io f rs s = (Inr (), s')"
proof (induction rs arbitrary: s)
  case (Cons r rs)
  have "wrap_io call (f r) s = (Inr (), s1) \<longleftrightarrow> f r s = (Inr (), s1)" for s1
    by (auto simp: wrap_io_def split: prod.splits sum.splits failure.splits)
  then show ?case
    using Cons by (simp add: bind_io_Inr)
qed simp


section \<open>Setting an address\<close>

lemma ParsePrefix_leading_zero:
  "ParsePrefix (string4 [a, b, c, d] @ CHR ''/'' # CHR ''0'' # itoa n) = Inl (Err ''bad bits after slash'')"
proof -
  have "CHR ''/'' \<notin> set (CHR ''0'' # itoa n)"
    using itoa_char [of "CHR ''/''" n] by simp
  moreover have "itoa n \<noteq> []"
    by (subst itoa.simps) simp
  ultimately show ?thesis
    using cut_last_slash [of "CHR ''0'' # itoa n" "string4 [a, b, c, d]"]
    by (simp add: ParsePrefix_def ParseAddr_string4 prefix_bits_def)
qed

lemma dtoi_leading_zero: "n < 0xFFFFFF \<Longrightarrow> dtoi (CHR ''0'' # itoa n) = Some n"
  by (simp add: dtoi_def digits_value_itoa is_digit_def digit_val_def)

text \<open>
  C24: \<open>SetInterfaceAddress\<close> with an IPv4 address and a prefix length puts exactly that prefix on the
  interface, trying a second time when the system says that it exists, and then makes the gateway of
  the network its DNS server. The same text with a leading zero in the length, which the check by
  \<open>net.ParseCIDR\<close> accepts, ends in a panic, as \<open>netip.MustParsePrefix\<close> does not accept it.
\<close>

theorem interface_address_windows:
  assumes "n \<le> 32"
  shows "SetInterfaceAddress_windows api arch luid (string4 [a, b, c, d] @ CHR ''/'' # itoa n) s =
      bind_io (\<lambda>s. case SetIPAddressesForFamily (helper api) luid AF_INET [PrefixFrom (AddrV4 [a, b, c, d]) n] s of
          (r, s') \<Rightarrow>
            if r = Inl already_exists
            then SetIPAddressesForFamily (helper api) luid AF_INET [PrefixFrom (AddrV4 [a, b, c, d]) n] s'
            else (r, s'))
        (\<lambda>_. SetDNS api arch luid AF_INET [AddrV4 (gateway4 [a, b, c, d] n)] []) s \<and>
    SetInterfaceAddress_windows api arch luid (string4 [a, b, c, d] @ CHR ''/'' # CHR ''0'' # itoa n) s =
      (Inl (Panic ''bad bits after slash''), s)"
proof -
  obtain g0 g1 g2 g3 where g: "gateway4 [a, b, c, d] n = [g0, g1, g2, g3]"
    using length_4_iff [of "CIDRMask n 32"] length_CIDRMask [OF assms]
    by (auto simp: gateway4_def Let_def)
  show ?thesis
    using config4_v4 [OF assms] config4_v4_text [OF dtoi_leading_zero assms] ParsePrefix_v4 [OF assms]
      ParsePrefix_leading_zero [of a b c d n] assms
    by (simp add: SetInterfaceAddress_windows_def setInterfaceAddress4_windows_def set_family_address_def
        MustParseAddr_def ParseAddr_string4 g raise_io_def)
qed

lemma interface_address_windows_witness:
  "SetInterfaceAddress_windows old_system amd64 7 (string4 [10, 0, 0, 2] @ CHR ''/'' # CHR ''0'' # itoa 24) {#} =
     (Inl (Panic ''bad bits after slash''), {#})"
  by (rule conjunct2 [OF interface_address_windows]) simp


end
