(* ===== verification/Fwp_Layout.thy ===== *)
theory Fwp_Layout
  imports Layout
begin

text \<open>
  The structures of \<open>winsys/types_windows.go\<close> that are handed to the filtering platform, and the C
  declarations they stand for.
\<close>

section \<open>The Go declarations\<close>

definition FWPM_DISPLAY_DATA0_struct :: "(string \<times> ctype) list" where
  "FWPM_DISPLAY_DATA0_struct = [(''Name'', Ptr), (''Description'', Ptr)]"

definition FWPM_SESSION0_struct :: "(string \<times> ctype) list" where
  "FWPM_SESSION0_struct =
     [(''SessionKey'', Ext ''GUID''), (''DisplayData'', Struct FWPM_DISPLAY_DATA0_struct),
      (''Flags'', IntN 4), (''TxnWaitTimeoutInMSec'', IntN 4), (''ProcessId'', IntN 4), (''Sid'', Ptr),
      (''Username'', Ptr), (''KernelMode'', IntN 4)]"

definition FWP_BYTE_BLOB_struct :: "(string \<times> ctype) list" where
  "FWP_BYTE_BLOB_struct = [(''size'', IntN 4), (''data'', Ptr)]"

definition FWPM_SUBLAYER0_struct :: "(string \<times> ctype) list" where
  "FWPM_SUBLAYER0_struct =
     [(''SubLayerKey'', Ext ''GUID''), (''DisplayData'', Struct FWPM_DISPLAY_DATA0_struct),
      (''Flags'', IntN 4), (''ProviderKey'', Ptr), (''ProviderData'', Struct FWP_BYTE_BLOB_struct),
      (''Weight'', IntN 2)]"

definition FWP_VALUE0_struct :: "(string \<times> ctype) list" where
  "FWP_VALUE0_struct = [(''Type'', IntN 4), (''Value'', Ptr)]"

definition FWPM_FILTER_CONDITION0_struct :: "(string \<times> ctype) list" where
  "FWPM_FILTER_CONDITION0_struct =
     [(''FieldKey'', Ext ''GUID''), (''MatchType'', IntN 4), (''ConditionValue'', Struct FWP_VALUE0_struct)]"

definition FWPM_ACTION0_struct :: "(string \<times> ctype) list" where
  "FWPM_ACTION0_struct = [(''Type'', IntN 4), (''Value'', Ext ''GUID'')]"

definition FWPM_FILTER0_struct :: "(string \<times> ctype) list" where
  "FWPM_FILTER0_struct =
     [(''FilterKey'', Ext ''GUID''), (''DisplayData'', Struct FWPM_DISPLAY_DATA0_struct),
      (''Flags'', IntN 4), (''ProviderKey'', Ptr), (''ProviderData'', Struct FWP_BYTE_BLOB_struct),
      (''LayerKey'', Ext ''GUID''), (''SubLayerKey'', Ext ''GUID''), (''Weight'', Struct FWP_VALUE0_struct),
      (''NumFilterConditions'', IntN 4), (''FilterCondition'', Ptr), (''Action'', Struct FWPM_ACTION0_struct),
      (''Offset1'', Arr 4 (IntN 1)), (''Context'', Ext ''GUID''), (''Reserved'', Ptr), (''FilterId'', IntN 8),
      (''EffectiveWeight'', Struct FWP_VALUE0_struct)]"

section \<open>The C declarations\<close>

text \<open>
  They differ in one member: the context of a filter is a union of a 64-bit integer and a GUID, so it
  has 16 bytes aligned to 8. On Windows a 64-bit integer is aligned to 8 bytes on every
  architecture, also on 386: the C layout there is that of \<open>abi_arm\<close>.
\<close>

definition c_FWPM_FILTER0 :: "(string \<times> ctype) list" where
  "c_FWPM_FILTER0 =
     [(''FilterKey'', Ext ''GUID''), (''DisplayData'', Struct FWPM_DISPLAY_DATA0_struct),
      (''Flags'', IntN 4), (''ProviderKey'', Ptr), (''ProviderData'', Struct FWP_BYTE_BLOB_struct),
      (''LayerKey'', Ext ''GUID''), (''SubLayerKey'', Ext ''GUID''), (''Weight'', Struct FWP_VALUE0_struct),
      (''NumFilterConditions'', IntN 4), (''FilterCondition'', Ptr), (''Action'', Struct FWPM_ACTION0_struct),
      (''Context'', Arr 2 (IntN 8)), (''Reserved'', Ptr), (''FilterId'', IntN 8),
      (''EffectiveWeight'', Struct FWP_VALUE0_struct)]"

text \<open>The padding \<open>Offset1\<close> has no counterpart.\<close>

definition without_padding :: "int \<times> (string \<times> int) list \<Rightarrow> int \<times> (string \<times> int) list" where
  "without_padding l = (fst l, filter (\<lambda>(x, at). x \<noteq> ''Offset1'') (snd l))"

text \<open>
  The filter structure has the layout of the C declaration on the 64-bit architectures and on arm.
  On 386, where Go aligns a 64-bit integer to 4 bytes, the runtime id and the effective weight lie 4
  bytes too low and the structure is 4 bytes too short, so the engine reads past its end; the
  other structures have one layout on both 32-bit architectures.
\<close>

theorem filter_layout:
  "without_padding (layout abi_64 FWPM_FILTER0_struct) = layout abi_64 c_FWPM_FILTER0 \<and>
   without_padding (layout abi_arm FWPM_FILTER0_struct) = layout abi_arm c_FWPM_FILTER0 \<and>
   fst (layout abi_386 FWPM_FILTER0_struct) + 4 = fst (layout abi_arm c_FWPM_FILTER0) \<and>
   butlast (butlast (snd (without_padding (layout abi_386 FWPM_FILTER0_struct)))) =
     butlast (butlast (snd (layout abi_arm c_FWPM_FILTER0))) \<and>
   map_of (snd (layout abi_386 FWPM_FILTER0_struct)) ''FilterId'' = Some 132 \<and>
   map_of (snd (layout abi_arm c_FWPM_FILTER0)) ''FilterId'' = Some 136 \<and>
   map (layout abi_386) [FWPM_SESSION0_struct, FWPM_SUBLAYER0_struct, FWPM_FILTER_CONDITION0_struct] =
     map (layout abi_arm) [FWPM_SESSION0_struct, FWPM_SUBLAYER0_struct, FWPM_FILTER_CONDITION0_struct]"
  by (intro conjI; code_simp)

end
