(* ===== verification/Pe_Layout.thy ===== *)
theory Pe_Layout
  imports Layout
begin

text \<open>
  The structures of the portable executable format that memmod reads out of a DLL image, as
  \<open>syscall_windows.go\<close> and its 64-bit and 32-bit companions declare them, and their layout: the
  one the file format prescribes.
\<close>

section \<open>Structures of all architectures\<close>

definition IMAGE_DOS_HEADER_struct :: "(string \<times> ctype) list" where [struct_layouts]:
  "IMAGE_DOS_HEADER_struct =
     [(''E_magic'', IntN 2), (''E_cblp'', IntN 2), (''E_cp'', IntN 2), (''E_crlc'', IntN 2),
      (''E_cparhdr'', IntN 2), (''E_minalloc'', IntN 2), (''E_maxalloc'', IntN 2),
      (''E_ss'', IntN 2), (''E_sp'', IntN 2), (''E_csum'', IntN 2), (''E_ip'', IntN 2),
      (''E_cs'', IntN 2), (''E_lfarlc'', IntN 2), (''E_ovno'', IntN 2),
      (''E_res'', Arr 4 (IntN 2)), (''E_oemid'', IntN 2), (''E_oeminfo'', IntN 2),
      (''E_res2'', Arr 10 (IntN 2)), (''E_lfanew'', IntN 4)]"

definition IMAGE_FILE_HEADER_struct :: "(string \<times> ctype) list" where [struct_layouts]:
  "IMAGE_FILE_HEADER_struct =
     [(''Machine'', IntN 2), (''NumberOfSections'', IntN 2), (''TimeDateStamp'', IntN 4),
      (''PointerToSymbolTable'', IntN 4), (''NumberOfSymbols'', IntN 4),
      (''SizeOfOptionalHeader'', IntN 2), (''Characteristics'', IntN 2)]"

definition IMAGE_DATA_DIRECTORY_struct :: "(string \<times> ctype) list" where [struct_layouts]:
  "IMAGE_DATA_DIRECTORY_struct =
     [(''VirtualAddress'', IntN 4), (''Size'', IntN 4)]"

definition IMAGE_SECTION_HEADER_struct :: "(string \<times> ctype) list" where [struct_layouts]:
  "IMAGE_SECTION_HEADER_struct =
     [(''Name'', Arr 8 (IntN 1)), (''physicalAddressOrVirtualSize'', IntN 4),
      (''VirtualAddress'', IntN 4), (''SizeOfRawData'', IntN 4),
      (''PointerToRawData'', IntN 4), (''PointerToRelocations'', IntN 4),
      (''PointerToLinenumbers'', IntN 4), (''NumberOfRelocations'', IntN 2),
      (''NumberOfLinenumbers'', IntN 2), (''Characteristics'', IntN 4)]"

definition IMAGE_BASE_RELOCATION_struct :: "(string \<times> ctype) list" where [struct_layouts]:
  "IMAGE_BASE_RELOCATION_struct =
     [(''VirtualAddress'', IntN 4), (''SizeOfBlock'', IntN 4)]"

definition IMAGE_EXPORT_DIRECTORY_struct :: "(string \<times> ctype) list" where [struct_layouts]:
  "IMAGE_EXPORT_DIRECTORY_struct =
     [(''Characteristics'', IntN 4), (''TimeDateStamp'', IntN 4), (''MajorVersion'', IntN 2),
      (''MinorVersion'', IntN 2), (''Name'', IntN 4), (''Base'', IntN 4),
      (''NumberOfFunctions'', IntN 4), (''NumberOfNames'', IntN 4),
      (''AddressOfFunctions'', IntN 4), (''AddressOfNames'', IntN 4),
      (''AddressOfNameOrdinals'', IntN 4)]"

definition IMAGE_IMPORT_BY_NAME_struct :: "(string \<times> ctype) list" where [struct_layouts]:
  "IMAGE_IMPORT_BY_NAME_struct =
     [(''Hint'', IntN 2), (''Name'', Arr 1 (IntN 1))]"

definition IMAGE_TLS_DIRECTORY_struct :: "(string \<times> ctype) list" where [struct_layouts]:
  "IMAGE_TLS_DIRECTORY_struct =
     [(''StartAddressOfRawData'', Ptr), (''EndAddressOfRawData'', Ptr),
      (''AddressOfIndex'', Ptr), (''AddressOfCallbacks'', Ptr), (''SizeOfZeroFill'', IntN 4),
      (''Characteristics'', IntN 4)]"

definition IMAGE_IMPORT_DESCRIPTOR_struct :: "(string \<times> ctype) list" where [struct_layouts]:
  "IMAGE_IMPORT_DESCRIPTOR_struct =
     [(''characteristicsOrOriginalFirstThunk'', IntN 4), (''TimeDateStamp'', IntN 4),
      (''ForwarderChain'', IntN 4), (''Name'', IntN 4), (''FirstThunk'', IntN 4)]"

definition IMAGE_DELAYLOAD_DESCRIPTOR_struct :: "(string \<times> ctype) list" where [struct_layouts]:
  "IMAGE_DELAYLOAD_DESCRIPTOR_struct =
     [(''Attributes'', IntN 4), (''DllNameRVA'', IntN 4), (''ModuleHandleRVA'', IntN 4),
      (''ImportAddressTableRVA'', IntN 4), (''ImportNameTableRVA'', IntN 4),
      (''BoundImportAddressTableRVA'', IntN 4), (''UnloadInformationTableRVA'', IntN 4),
      (''TimeDateStamp'', IntN 4)]"

definition IMAGE_LOAD_CONFIG_CODE_INTEGRITY_struct :: "(string \<times> ctype) list" where [struct_layouts]:
  "IMAGE_LOAD_CONFIG_CODE_INTEGRITY_struct =
     [(''Flags'', IntN 2), (''Catalog'', IntN 2), (''CatalogOffset'', IntN 4),
      (''Reserved'', IntN 4)]"

definition SYSTEM_INFO_struct :: "(string \<times> ctype) list" where [struct_layouts]:
  "SYSTEM_INFO_struct =
     [(''ProcessorArchitecture'', IntN 2), (''Reserved'', IntN 2), (''PageSize'', IntN 4),
      (''MinimumApplicationAddress'', Ptr), (''MaximumApplicationAddress'', Ptr),
      (''ActiveProcessorMask'', Ptr), (''NumberOfProcessors'', IntN 4),
      (''ProcessorType'', IntN 4), (''AllocationGranularity'', IntN 4),
      (''ProcessorLevel'', IntN 2), (''ProcessorRevision'', IntN 2)]"

section \<open>The 64-bit format\<close>

definition IMAGE_OPTIONAL_HEADER_64 :: "(string \<times> ctype) list" where [struct_layouts]:
  "IMAGE_OPTIONAL_HEADER_64 =
     [(''Magic'', IntN 2), (''MajorLinkerVersion'', IntN 1), (''MinorLinkerVersion'', IntN 1),
      (''SizeOfCode'', IntN 4), (''SizeOfInitializedData'', IntN 4),
      (''SizeOfUninitializedData'', IntN 4), (''AddressOfEntryPoint'', IntN 4),
      (''BaseOfCode'', IntN 4), (''ImageBase'', Ptr), (''SectionAlignment'', IntN 4),
      (''FileAlignment'', IntN 4), (''MajorOperatingSystemVersion'', IntN 2),
      (''MinorOperatingSystemVersion'', IntN 2), (''MajorImageVersion'', IntN 2),
      (''MinorImageVersion'', IntN 2), (''MajorSubsystemVersion'', IntN 2),
      (''MinorSubsystemVersion'', IntN 2), (''Win32VersionValue'', IntN 4),
      (''SizeOfImage'', IntN 4), (''SizeOfHeaders'', IntN 4), (''CheckSum'', IntN 4),
      (''Subsystem'', IntN 2), (''DllCharacteristics'', IntN 2), (''SizeOfStackReserve'', Ptr),
      (''SizeOfStackCommit'', Ptr), (''SizeOfHeapReserve'', Ptr), (''SizeOfHeapCommit'', Ptr),
      (''LoaderFlags'', IntN 4), (''NumberOfRvaAndSizes'', IntN 4),
      (''DataDirectory'', Arr 16 (Struct IMAGE_DATA_DIRECTORY_struct))]"

definition IMAGE_LOAD_CONFIG_DIRECTORY_64 :: "(string \<times> ctype) list" where [struct_layouts]:
  "IMAGE_LOAD_CONFIG_DIRECTORY_64 =
     [(''Size'', IntN 4), (''TimeDateStamp'', IntN 4), (''MajorVersion'', IntN 2),
      (''MinorVersion'', IntN 2), (''GlobalFlagsClear'', IntN 4), (''GlobalFlagsSet'', IntN 4),
      (''CriticalSectionDefaultTimeout'', IntN 4), (''DeCommitFreeBlockThreshold'', IntN 8),
      (''DeCommitTotalFreeThreshold'', IntN 8), (''LockPrefixTable'', IntN 8),
      (''MaximumAllocationSize'', IntN 8), (''VirtualMemoryThreshold'', IntN 8),
      (''ProcessAffinityMask'', IntN 8), (''ProcessHeapFlags'', IntN 4),
      (''CSDVersion'', IntN 2), (''DependentLoadFlags'', IntN 2), (''EditList'', IntN 8),
      (''SecurityCookie'', IntN 8), (''SEHandlerTable'', IntN 8), (''SEHandlerCount'', IntN 8),
      (''GuardCFCheckFunctionPointer'', IntN 8), (''GuardCFDispatchFunctionPointer'', IntN 8),
      (''GuardCFFunctionTable'', IntN 8), (''GuardCFFunctionCount'', IntN 8),
      (''GuardFlags'', IntN 4),
      (''CodeIntegrity'', Struct IMAGE_LOAD_CONFIG_CODE_INTEGRITY_struct),
      (''GuardAddressTakenIatEntryTable'', IntN 8),
      (''GuardAddressTakenIatEntryCount'', IntN 8), (''GuardLongJumpTargetTable'', IntN 8),
      (''GuardLongJumpTargetCount'', IntN 8), (''DynamicValueRelocTable'', IntN 8),
      (''CHPEMetadataPointer'', IntN 8), (''GuardRFFailureRoutine'', IntN 8),
      (''GuardRFFailureRoutineFunctionPointer'', IntN 8),
      (''DynamicValueRelocTableOffset'', IntN 4), (''DynamicValueRelocTableSection'', IntN 2),
      (''Reserved2'', IntN 2), (''GuardRFVerifyStackPointerFunctionPointer'', IntN 8),
      (''HotPatchTableOffset'', IntN 4), (''Reserved3'', IntN 4),
      (''EnclaveConfigurationPointer'', IntN 8), (''VolatileMetadataPointer'', IntN 8),
      (''GuardEHContinuationTable'', IntN 8), (''GuardEHContinuationCount'', IntN 8),
      (''GuardXFGCheckFunctionPointer'', IntN 8),
      (''GuardXFGDispatchFunctionPointer'', IntN 8),
      (''GuardXFGTableDispatchFunctionPointer'', IntN 8),
      (''CastGuardOsDeterminedFailureMode'', IntN 8)]"

definition IMAGE_NT_HEADERS_64 :: "(string \<times> ctype) list" where [struct_layouts]:
  "IMAGE_NT_HEADERS_64 =
     [(''Signature'', IntN 4), (''FileHeader'', Struct IMAGE_FILE_HEADER_struct),
      (''OptionalHeader'', Struct IMAGE_OPTIONAL_HEADER_64)]"

section \<open>The 32-bit format\<close>

definition IMAGE_OPTIONAL_HEADER_32 :: "(string \<times> ctype) list" where [struct_layouts]:
  "IMAGE_OPTIONAL_HEADER_32 =
     [(''Magic'', IntN 2), (''MajorLinkerVersion'', IntN 1), (''MinorLinkerVersion'', IntN 1),
      (''SizeOfCode'', IntN 4), (''SizeOfInitializedData'', IntN 4),
      (''SizeOfUninitializedData'', IntN 4), (''AddressOfEntryPoint'', IntN 4),
      (''BaseOfCode'', IntN 4), (''BaseOfData'', IntN 4), (''ImageBase'', Ptr),
      (''SectionAlignment'', IntN 4), (''FileAlignment'', IntN 4),
      (''MajorOperatingSystemVersion'', IntN 2), (''MinorOperatingSystemVersion'', IntN 2),
      (''MajorImageVersion'', IntN 2), (''MinorImageVersion'', IntN 2),
      (''MajorSubsystemVersion'', IntN 2), (''MinorSubsystemVersion'', IntN 2),
      (''Win32VersionValue'', IntN 4), (''SizeOfImage'', IntN 4), (''SizeOfHeaders'', IntN 4),
      (''CheckSum'', IntN 4), (''Subsystem'', IntN 2), (''DllCharacteristics'', IntN 2),
      (''SizeOfStackReserve'', Ptr), (''SizeOfStackCommit'', Ptr),
      (''SizeOfHeapReserve'', Ptr), (''SizeOfHeapCommit'', Ptr), (''LoaderFlags'', IntN 4),
      (''NumberOfRvaAndSizes'', IntN 4),
      (''DataDirectory'', Arr 16 (Struct IMAGE_DATA_DIRECTORY_struct))]"

definition IMAGE_LOAD_CONFIG_DIRECTORY_32 :: "(string \<times> ctype) list" where [struct_layouts]:
  "IMAGE_LOAD_CONFIG_DIRECTORY_32 =
     [(''Size'', IntN 4), (''TimeDateStamp'', IntN 4), (''MajorVersion'', IntN 2),
      (''MinorVersion'', IntN 2), (''GlobalFlagsClear'', IntN 4), (''GlobalFlagsSet'', IntN 4),
      (''CriticalSectionDefaultTimeout'', IntN 4), (''DeCommitFreeBlockThreshold'', IntN 4),
      (''DeCommitTotalFreeThreshold'', IntN 4), (''LockPrefixTable'', IntN 4),
      (''MaximumAllocationSize'', IntN 4), (''VirtualMemoryThreshold'', IntN 4),
      (''ProcessHeapFlags'', IntN 4), (''ProcessAffinityMask'', IntN 4),
      (''CSDVersion'', IntN 2), (''DependentLoadFlags'', IntN 2), (''EditList'', IntN 4),
      (''SecurityCookie'', IntN 4), (''SEHandlerTable'', IntN 4), (''SEHandlerCount'', IntN 4),
      (''GuardCFCheckFunctionPointer'', IntN 4), (''GuardCFDispatchFunctionPointer'', IntN 4),
      (''GuardCFFunctionTable'', IntN 4), (''GuardCFFunctionCount'', IntN 4),
      (''GuardFlags'', IntN 4),
      (''CodeIntegrity'', Struct IMAGE_LOAD_CONFIG_CODE_INTEGRITY_struct),
      (''GuardAddressTakenIatEntryTable'', IntN 4),
      (''GuardAddressTakenIatEntryCount'', IntN 4), (''GuardLongJumpTargetTable'', IntN 4),
      (''GuardLongJumpTargetCount'', IntN 4), (''DynamicValueRelocTable'', IntN 4),
      (''CHPEMetadataPointer'', IntN 4), (''GuardRFFailureRoutine'', IntN 4),
      (''GuardRFFailureRoutineFunctionPointer'', IntN 4),
      (''DynamicValueRelocTableOffset'', IntN 4), (''DynamicValueRelocTableSection'', IntN 2),
      (''Reserved2'', IntN 2), (''GuardRFVerifyStackPointerFunctionPointer'', IntN 4),
      (''HotPatchTableOffset'', IntN 4), (''Reserved3'', IntN 4),
      (''EnclaveConfigurationPointer'', IntN 4), (''VolatileMetadataPointer'', IntN 4),
      (''GuardEHContinuationTable'', IntN 4), (''GuardEHContinuationCount'', IntN 4),
      (''GuardXFGCheckFunctionPointer'', IntN 4),
      (''GuardXFGDispatchFunctionPointer'', IntN 4),
      (''GuardXFGTableDispatchFunctionPointer'', IntN 4),
      (''CastGuardOsDeterminedFailureMode'', IntN 4)]"

definition IMAGE_NT_HEADERS_32 :: "(string \<times> ctype) list" where [struct_layouts]:
  "IMAGE_NT_HEADERS_32 =
     [(''Signature'', IntN 4), (''FileHeader'', Struct IMAGE_FILE_HEADER_struct),
      (''OptionalHeader'', Struct IMAGE_OPTIONAL_HEADER_32)]"

section \<open>Layouts\<close>

lemma layout_IMAGE_DOS_HEADER_struct_abi_64: "layout abi_64 IMAGE_DOS_HEADER_struct =
     (64, [(''E_magic'', 0), (''E_cblp'', 2), (''E_cp'', 4), (''E_crlc'', 6),
       (''E_cparhdr'', 8), (''E_minalloc'', 10), (''E_maxalloc'', 12), (''E_ss'', 14),
       (''E_sp'', 16), (''E_csum'', 18), (''E_ip'', 20), (''E_cs'', 22), (''E_lfarlc'', 24),
       (''E_ovno'', 26), (''E_res'', 28), (''E_oemid'', 36), (''E_oeminfo'', 38),
       (''E_res2'', 40), (''E_lfanew'', 60)])"
  by code_simp

lemma layout_IMAGE_FILE_HEADER_struct_abi_64: "layout abi_64 IMAGE_FILE_HEADER_struct =
     (20, [(''Machine'', 0), (''NumberOfSections'', 2), (''TimeDateStamp'', 4),
       (''PointerToSymbolTable'', 8), (''NumberOfSymbols'', 12),
       (''SizeOfOptionalHeader'', 16), (''Characteristics'', 18)])"
  by code_simp

lemma layout_IMAGE_DATA_DIRECTORY_struct_abi_64: "layout abi_64 IMAGE_DATA_DIRECTORY_struct =
     (8, [(''VirtualAddress'', 0), (''Size'', 4)])"
  by code_simp

lemma layout_IMAGE_SECTION_HEADER_struct_abi_64: "layout abi_64 IMAGE_SECTION_HEADER_struct =
     (40, [(''Name'', 0), (''physicalAddressOrVirtualSize'', 8), (''VirtualAddress'', 12),
       (''SizeOfRawData'', 16), (''PointerToRawData'', 20), (''PointerToRelocations'', 24),
       (''PointerToLinenumbers'', 28), (''NumberOfRelocations'', 32),
       (''NumberOfLinenumbers'', 34), (''Characteristics'', 36)])"
  by code_simp

lemma layout_IMAGE_BASE_RELOCATION_struct_abi_64: "layout abi_64 IMAGE_BASE_RELOCATION_struct =
     (8, [(''VirtualAddress'', 0), (''SizeOfBlock'', 4)])"
  by code_simp

lemma layout_IMAGE_EXPORT_DIRECTORY_struct_abi_64: "layout abi_64 IMAGE_EXPORT_DIRECTORY_struct =
     (40, [(''Characteristics'', 0), (''TimeDateStamp'', 4), (''MajorVersion'', 8),
       (''MinorVersion'', 10), (''Name'', 12), (''Base'', 16), (''NumberOfFunctions'', 20),
       (''NumberOfNames'', 24), (''AddressOfFunctions'', 28), (''AddressOfNames'', 32),
       (''AddressOfNameOrdinals'', 36)])"
  by code_simp

lemma layout_IMAGE_IMPORT_BY_NAME_struct_abi_64: "layout abi_64 IMAGE_IMPORT_BY_NAME_struct =
     (4, [(''Hint'', 0), (''Name'', 2)])"
  by code_simp

lemma layout_IMAGE_TLS_DIRECTORY_struct_abi_386: "layout abi_386 IMAGE_TLS_DIRECTORY_struct =
     (24, [(''StartAddressOfRawData'', 0), (''EndAddressOfRawData'', 4),
       (''AddressOfIndex'', 8), (''AddressOfCallbacks'', 12), (''SizeOfZeroFill'', 16),
       (''Characteristics'', 20)])"
  by code_simp

lemma layout_IMAGE_TLS_DIRECTORY_struct_abi_64: "layout abi_64 IMAGE_TLS_DIRECTORY_struct =
     (40, [(''StartAddressOfRawData'', 0), (''EndAddressOfRawData'', 8),
       (''AddressOfIndex'', 16), (''AddressOfCallbacks'', 24), (''SizeOfZeroFill'', 32),
       (''Characteristics'', 36)])"
  by code_simp

lemma layout_IMAGE_IMPORT_DESCRIPTOR_struct_abi_64: "layout abi_64 IMAGE_IMPORT_DESCRIPTOR_struct =
     (20, [(''characteristicsOrOriginalFirstThunk'', 0), (''TimeDateStamp'', 4),
       (''ForwarderChain'', 8), (''Name'', 12), (''FirstThunk'', 16)])"
  by code_simp

lemma layout_IMAGE_DELAYLOAD_DESCRIPTOR_struct_abi_64: "layout abi_64 IMAGE_DELAYLOAD_DESCRIPTOR_struct =
     (32, [(''Attributes'', 0), (''DllNameRVA'', 4), (''ModuleHandleRVA'', 8),
       (''ImportAddressTableRVA'', 12), (''ImportNameTableRVA'', 16),
       (''BoundImportAddressTableRVA'', 20), (''UnloadInformationTableRVA'', 24),
       (''TimeDateStamp'', 28)])"
  by code_simp

lemma layout_IMAGE_LOAD_CONFIG_CODE_INTEGRITY_struct_abi_64: "layout abi_64 IMAGE_LOAD_CONFIG_CODE_INTEGRITY_struct =
     (12, [(''Flags'', 0), (''Catalog'', 2), (''CatalogOffset'', 4), (''Reserved'', 8)])"
  by code_simp

lemma layout_SYSTEM_INFO_struct_abi_386: "layout abi_386 SYSTEM_INFO_struct =
     (36, [(''ProcessorArchitecture'', 0), (''Reserved'', 2), (''PageSize'', 4),
       (''MinimumApplicationAddress'', 8), (''MaximumApplicationAddress'', 12),
       (''ActiveProcessorMask'', 16), (''NumberOfProcessors'', 20), (''ProcessorType'', 24),
       (''AllocationGranularity'', 28), (''ProcessorLevel'', 32),
       (''ProcessorRevision'', 34)])"
  by code_simp

lemma layout_SYSTEM_INFO_struct_abi_64: "layout abi_64 SYSTEM_INFO_struct =
     (48, [(''ProcessorArchitecture'', 0), (''Reserved'', 2), (''PageSize'', 4),
       (''MinimumApplicationAddress'', 8), (''MaximumApplicationAddress'', 16),
       (''ActiveProcessorMask'', 24), (''NumberOfProcessors'', 32), (''ProcessorType'', 36),
       (''AllocationGranularity'', 40), (''ProcessorLevel'', 44),
       (''ProcessorRevision'', 46)])"
  by code_simp

lemma layout_IMAGE_OPTIONAL_HEADER_64_abi_64: "layout abi_64 IMAGE_OPTIONAL_HEADER_64 =
     (240, [(''Magic'', 0), (''MajorLinkerVersion'', 2), (''MinorLinkerVersion'', 3),
       (''SizeOfCode'', 4), (''SizeOfInitializedData'', 8),
       (''SizeOfUninitializedData'', 12), (''AddressOfEntryPoint'', 16),
       (''BaseOfCode'', 20), (''ImageBase'', 24), (''SectionAlignment'', 32),
       (''FileAlignment'', 36), (''MajorOperatingSystemVersion'', 40),
       (''MinorOperatingSystemVersion'', 42), (''MajorImageVersion'', 44),
       (''MinorImageVersion'', 46), (''MajorSubsystemVersion'', 48),
       (''MinorSubsystemVersion'', 50), (''Win32VersionValue'', 52), (''SizeOfImage'', 56),
       (''SizeOfHeaders'', 60), (''CheckSum'', 64), (''Subsystem'', 68),
       (''DllCharacteristics'', 70), (''SizeOfStackReserve'', 72),
       (''SizeOfStackCommit'', 80), (''SizeOfHeapReserve'', 88), (''SizeOfHeapCommit'', 96),
       (''LoaderFlags'', 104), (''NumberOfRvaAndSizes'', 108), (''DataDirectory'', 112)])"
  by code_simp

lemma layout_IMAGE_LOAD_CONFIG_DIRECTORY_64_abi_64: "layout abi_64 IMAGE_LOAD_CONFIG_DIRECTORY_64 =
     (312, [(''Size'', 0), (''TimeDateStamp'', 4), (''MajorVersion'', 8), (''MinorVersion'', 10),
       (''GlobalFlagsClear'', 12), (''GlobalFlagsSet'', 16),
       (''CriticalSectionDefaultTimeout'', 20), (''DeCommitFreeBlockThreshold'', 24),
       (''DeCommitTotalFreeThreshold'', 32), (''LockPrefixTable'', 40),
       (''MaximumAllocationSize'', 48), (''VirtualMemoryThreshold'', 56),
       (''ProcessAffinityMask'', 64), (''ProcessHeapFlags'', 72), (''CSDVersion'', 76),
       (''DependentLoadFlags'', 78), (''EditList'', 80), (''SecurityCookie'', 88),
       (''SEHandlerTable'', 96), (''SEHandlerCount'', 104),
       (''GuardCFCheckFunctionPointer'', 112), (''GuardCFDispatchFunctionPointer'', 120),
       (''GuardCFFunctionTable'', 128), (''GuardCFFunctionCount'', 136),
       (''GuardFlags'', 144), (''CodeIntegrity'', 148),
       (''GuardAddressTakenIatEntryTable'', 160), (''GuardAddressTakenIatEntryCount'', 168),
       (''GuardLongJumpTargetTable'', 176), (''GuardLongJumpTargetCount'', 184),
       (''DynamicValueRelocTable'', 192), (''CHPEMetadataPointer'', 200),
       (''GuardRFFailureRoutine'', 208), (''GuardRFFailureRoutineFunctionPointer'', 216),
       (''DynamicValueRelocTableOffset'', 224), (''DynamicValueRelocTableSection'', 228),
       (''Reserved2'', 230), (''GuardRFVerifyStackPointerFunctionPointer'', 232),
       (''HotPatchTableOffset'', 240), (''Reserved3'', 244),
       (''EnclaveConfigurationPointer'', 248), (''VolatileMetadataPointer'', 256),
       (''GuardEHContinuationTable'', 264), (''GuardEHContinuationCount'', 272),
       (''GuardXFGCheckFunctionPointer'', 280), (''GuardXFGDispatchFunctionPointer'', 288),
       (''GuardXFGTableDispatchFunctionPointer'', 296),
       (''CastGuardOsDeterminedFailureMode'', 304)])"
  by code_simp

lemma layout_IMAGE_NT_HEADERS_64_abi_64: "layout abi_64 IMAGE_NT_HEADERS_64 =
     (264, [(''Signature'', 0), (''FileHeader'', 4), (''OptionalHeader'', 24)])"
  by code_simp

lemma layout_IMAGE_OPTIONAL_HEADER_32_abi_386: "layout abi_386 IMAGE_OPTIONAL_HEADER_32 =
     (224, [(''Magic'', 0), (''MajorLinkerVersion'', 2), (''MinorLinkerVersion'', 3),
       (''SizeOfCode'', 4), (''SizeOfInitializedData'', 8),
       (''SizeOfUninitializedData'', 12), (''AddressOfEntryPoint'', 16),
       (''BaseOfCode'', 20), (''BaseOfData'', 24), (''ImageBase'', 28),
       (''SectionAlignment'', 32), (''FileAlignment'', 36),
       (''MajorOperatingSystemVersion'', 40), (''MinorOperatingSystemVersion'', 42),
       (''MajorImageVersion'', 44), (''MinorImageVersion'', 46),
       (''MajorSubsystemVersion'', 48), (''MinorSubsystemVersion'', 50),
       (''Win32VersionValue'', 52), (''SizeOfImage'', 56), (''SizeOfHeaders'', 60),
       (''CheckSum'', 64), (''Subsystem'', 68), (''DllCharacteristics'', 70),
       (''SizeOfStackReserve'', 72), (''SizeOfStackCommit'', 76),
       (''SizeOfHeapReserve'', 80), (''SizeOfHeapCommit'', 84), (''LoaderFlags'', 88),
       (''NumberOfRvaAndSizes'', 92), (''DataDirectory'', 96)])"
  by code_simp

lemma layout_IMAGE_LOAD_CONFIG_DIRECTORY_32_abi_386: "layout abi_386 IMAGE_LOAD_CONFIG_DIRECTORY_32 =
     (188, [(''Size'', 0), (''TimeDateStamp'', 4), (''MajorVersion'', 8), (''MinorVersion'', 10),
       (''GlobalFlagsClear'', 12), (''GlobalFlagsSet'', 16),
       (''CriticalSectionDefaultTimeout'', 20), (''DeCommitFreeBlockThreshold'', 24),
       (''DeCommitTotalFreeThreshold'', 28), (''LockPrefixTable'', 32),
       (''MaximumAllocationSize'', 36), (''VirtualMemoryThreshold'', 40),
       (''ProcessHeapFlags'', 44), (''ProcessAffinityMask'', 48), (''CSDVersion'', 52),
       (''DependentLoadFlags'', 54), (''EditList'', 56), (''SecurityCookie'', 60),
       (''SEHandlerTable'', 64), (''SEHandlerCount'', 68),
       (''GuardCFCheckFunctionPointer'', 72), (''GuardCFDispatchFunctionPointer'', 76),
       (''GuardCFFunctionTable'', 80), (''GuardCFFunctionCount'', 84), (''GuardFlags'', 88),
       (''CodeIntegrity'', 92), (''GuardAddressTakenIatEntryTable'', 104),
       (''GuardAddressTakenIatEntryCount'', 108), (''GuardLongJumpTargetTable'', 112),
       (''GuardLongJumpTargetCount'', 116), (''DynamicValueRelocTable'', 120),
       (''CHPEMetadataPointer'', 124), (''GuardRFFailureRoutine'', 128),
       (''GuardRFFailureRoutineFunctionPointer'', 132),
       (''DynamicValueRelocTableOffset'', 136), (''DynamicValueRelocTableSection'', 140),
       (''Reserved2'', 142), (''GuardRFVerifyStackPointerFunctionPointer'', 144),
       (''HotPatchTableOffset'', 148), (''Reserved3'', 152),
       (''EnclaveConfigurationPointer'', 156), (''VolatileMetadataPointer'', 160),
       (''GuardEHContinuationTable'', 164), (''GuardEHContinuationCount'', 168),
       (''GuardXFGCheckFunctionPointer'', 172), (''GuardXFGDispatchFunctionPointer'', 176),
       (''GuardXFGTableDispatchFunctionPointer'', 180),
       (''CastGuardOsDeterminedFailureMode'', 184)])"
  by code_simp

lemma layout_IMAGE_NT_HEADERS_32_abi_386: "layout abi_386 IMAGE_NT_HEADERS_32 =
     (248, [(''Signature'', 0), (''FileHeader'', 4), (''OptionalHeader'', 24)])"
  by code_simp

section \<open>What the layouts guarantee\<close>

text \<open>
  The headers that the loader reads through pointers have the sizes and offsets of the portable
  executable format: section headers of 40 bytes, relocation block headers of 8, an export
  directory of 40; the optional header at byte 24 of the NT headers, with its data directories at
  112 in the 64-bit and 96 in the 32-bit format. The structures that no pointer or 8-byte integer
  occurs in have these layouts on every architecture.
\<close>
theorem pe_layouts:
  "map (fst \<circ> layout m)
       [IMAGE_DOS_HEADER_struct, IMAGE_FILE_HEADER_struct, IMAGE_DATA_DIRECTORY_struct,
        IMAGE_SECTION_HEADER_struct, IMAGE_BASE_RELOCATION_struct, IMAGE_EXPORT_DIRECTORY_struct,
        IMAGE_IMPORT_DESCRIPTOR_struct, IMAGE_DELAYLOAD_DESCRIPTOR_struct, IMAGE_IMPORT_BY_NAME_struct] =
     [64, 20, 8, 40, 8, 40, 20, 32, 4]
   \<and> map_of (snd (layout m IMAGE_SECTION_HEADER_struct)) ''Characteristics'' = Some 36
   \<and> map_of (snd (layout m IMAGE_DOS_HEADER_struct)) ''E_lfanew'' = Some 60
   \<and> layout abi_64 IMAGE_NT_HEADERS_64 =
       (264, [(''Signature'', 0), (''FileHeader'', 4), (''OptionalHeader'', 24)])
   \<and> layout abi_386 IMAGE_NT_HEADERS_32 =
       (248, [(''Signature'', 0), (''FileHeader'', 4), (''OptionalHeader'', 24)])
   \<and> map (\<lambda>x. map_of (snd (layout abi_64 IMAGE_OPTIONAL_HEADER_64)) x)
       [''ImageBase'', ''SizeOfImage'', ''SizeOfHeaders'', ''DataDirectory''] =
       [Some 24, Some 56, Some 60, Some 112]
   \<and> map (\<lambda>x. map_of (snd (layout abi_386 IMAGE_OPTIONAL_HEADER_32)) x)
       [''ImageBase'', ''SizeOfImage'', ''SizeOfHeaders'', ''DataDirectory''] =
       [Some 28, Some 56, Some 60, Some 96]
   \<and> fst (layout abi_64 IMAGE_LOAD_CONFIG_DIRECTORY_64) = 312
   \<and> fst (layout abi_386 IMAGE_LOAD_CONFIG_DIRECTORY_32) = 188"
proof -
  have common: "layout m fs = layout abi_64 fs" if "fixed_fields fs" for fs
    using fixed_layout [OF that] by simp
  note fixed = common [of IMAGE_DOS_HEADER_struct] common [of IMAGE_FILE_HEADER_struct]
    common [of IMAGE_DATA_DIRECTORY_struct] common [of IMAGE_SECTION_HEADER_struct]
    common [of IMAGE_BASE_RELOCATION_struct] common [of IMAGE_EXPORT_DIRECTORY_struct]
    common [of IMAGE_IMPORT_DESCRIPTOR_struct] common [of IMAGE_DELAYLOAD_DESCRIPTOR_struct]
    common [of IMAGE_IMPORT_BY_NAME_struct]
  have "list_all fixed_fields
       [IMAGE_DOS_HEADER_struct, IMAGE_FILE_HEADER_struct, IMAGE_DATA_DIRECTORY_struct,
        IMAGE_SECTION_HEADER_struct, IMAGE_BASE_RELOCATION_struct, IMAGE_EXPORT_DIRECTORY_struct,
        IMAGE_IMPORT_DESCRIPTOR_struct, IMAGE_DELAYLOAD_DESCRIPTOR_struct, IMAGE_IMPORT_BY_NAME_struct]"
    by code_simp
  then show ?thesis
    by (simp add: fixed layout_IMAGE_DOS_HEADER_struct_abi_64 layout_IMAGE_FILE_HEADER_struct_abi_64
        layout_IMAGE_DATA_DIRECTORY_struct_abi_64 layout_IMAGE_SECTION_HEADER_struct_abi_64
        layout_IMAGE_BASE_RELOCATION_struct_abi_64 layout_IMAGE_EXPORT_DIRECTORY_struct_abi_64
        layout_IMAGE_IMPORT_DESCRIPTOR_struct_abi_64 layout_IMAGE_DELAYLOAD_DESCRIPTOR_struct_abi_64
        layout_IMAGE_IMPORT_BY_NAME_struct_abi_64 layout_IMAGE_NT_HEADERS_64_abi_64
        layout_IMAGE_NT_HEADERS_32_abi_386 layout_IMAGE_OPTIONAL_HEADER_64_abi_64
        layout_IMAGE_OPTIONAL_HEADER_32_abi_386 layout_IMAGE_LOAD_CONFIG_DIRECTORY_64_abi_64
        layout_IMAGE_LOAD_CONFIG_DIRECTORY_32_abi_386)
qed

end
