(* ===== verification/Pe_Reloc.thy ===== *)
theory Pe_Reloc
  imports Pe_Memory
begin

text \<open>
  Base relocation, \<open>performBaseRelocation\<close> of \<open>bin/memmod/memmod_windows.go\<close>. The table is read from
  the memory that the relocations change, entry by entry, as the code reads it: a relocation that
  hits the table changes what follows.
\<close>

section \<open>One relocation\<close>

definition thumb_imm :: "u32 \<Rightarrow> u32" where
  "thumb_imm inst =
     (push_bit 1 inst AND 0x0800) + (push_bit 12 inst AND 0xf000) +
     (drop_bit 20 inst AND 0x0700) + (drop_bit 16 inst AND 0x00ff)"

definition thumb_set_imm :: "u32 \<Rightarrow> u32 \<Rightarrow> u32" where
  "thumb_set_imm inst imm16 =
     (inst AND 0x8f00fbf0) + (drop_bit 1 imm16 AND 0x0400) + (drop_bit 12 imm16 AND 0x000f) +
     (push_bit 20 imm16 AND 0x70000000) + (push_bit 16 imm16 AND 0xff0000)"

text \<open>
  The MOVW and MOVT pair of ARM Thumb: the second instruction is touched only when the first
  overflows or the delta has a high half. The first has been written when the second is refused.
\<close>

definition reloc_thumb :: "u64 \<Rightarrow> addr \<Rightarrow> mem \<Rightarrow> unit outcome \<times> mem" where
  "reloc_thumb delta p m =
     (let inst = rd32 m p in
      if inst AND 0x8000fbf0 \<noteq> 0x0000f240 then (Inl (Err ''Wrong Thumb2 instruction, expected MOVW''), m)
      else
        let imm16 = thumb_imm inst + (ucast delta AND 0xffff);
            hiDelta = drop_bit 16 (ucast (delta AND 0xffff0000)) + drop_bit 16 (imm16 AND 0xffff0000);
            m1 = wr32 p (thumb_set_imm inst imm16) m
        in if hiDelta = 0 then (Inr (), m1)
           else
             let inst2 = rd32 m1 (p + 4) in
             if inst2 AND 0x8000fbf0 \<noteq> 0x0000f2c0
             then (Inl (Err ''Wrong Thumb2 instruction, expected MOVT''), m1)
             else
               let imm2 = thumb_imm inst2 + hiDelta
               in if 0xffff < imm2 then (Inl (Err ''Resulting immediate value won't fit''), m1)
                  else (Inr (), wr32 (p + 4) (thumb_set_imm inst2 imm2) m1))"

definition reloc_one :: "u64 \<Rightarrow> addr \<Rightarrow> u16 \<Rightarrow> mem \<Rightarrow> unit outcome \<times> mem" where
  "reloc_one delta dest relInfo m =
     (let relType = drop_bit 12 relInfo;
          p = dest + ucast (relInfo AND 0xfff)
      in if relType = 0 then (Inr (), m)
         else if relType = 2 then (Inr (), wr16 p (rd16 m p + ucast (delta AND 0xffff)) m)
         else if relType = 1 then (Inr (), wr16 p (rd16 m p + ucast (drop_bit 16 (ucast delta :: u32))) m)
         else if relType = 3 then (Inr (), wr32 p (rd32 m p + ucast delta) m)
         else if relType = 10 then (Inr (), wr64 p (rd64 m p + delta) m)
         else if relType = 7 then reloc_thumb delta p m
         else (Inl (Err ''Unsupported relocation''), m))"

section \<open>The table\<close>

text \<open>
  The entries of a block: \<open>relInfos\<close> is a slice over the table in memory, read as the loop goes.
\<close>

fun reloc_entries :: "u64 \<Rightarrow> addr \<Rightarrow> nat \<Rightarrow> addr \<Rightarrow> mem \<Rightarrow> unit outcome \<times> mem" where
  "reloc_entries delta dest 0 p m = (Inr (), m)"
| "reloc_entries delta dest (Suc n) p m =
     (case reloc_one delta dest (rd16 m p) m of
        (Inl e, m') \<Rightarrow> (Inl e, m')
      | (Inr _, m') \<Rightarrow> reloc_entries delta dest n (p + 2) m')"

text \<open>
  The blocks. \<open>SizeOfBlock\<close> below the size of the header makes the length of the slice wrap around,
  which \<open>unsafe.Slice\<close> refuses. None: the loop does not end.
\<close>

partial_function (option) reloc_blocks ::
  "u64 \<Rightarrow> addr \<Rightarrow> addr \<Rightarrow> mem \<Rightarrow> (bool outcome \<times> mem) option" where
  "reloc_blocks delta codeBase hdr m =
     (if rd32 m hdr = 0 then Some (Inr True, m)
      else if rd32 m (hdr + 4) < 8 then Some (Inl (Panic ''unsafe.Slice: len out of range''), m)
      else
        case reloc_entries delta (codeBase + ucast (rd32 m hdr))
               ((unat (rd32 m (hdr + 4)) - 8) div 2) (hdr + 8) m of
          (Inl e, m') \<Rightarrow> Some (Inl e, m')
        | (Inr _, m') \<Rightarrow> reloc_blocks delta codeBase (hdr + ucast (rd32 m' (hdr + 4))) m')"

definition performBaseRelocation ::
  "u32 \<times> u32 \<Rightarrow> addr \<Rightarrow> u64 \<Rightarrow> mem \<Rightarrow> (bool outcome \<times> mem) option" where
  "performBaseRelocation directory codeBase delta m =
     (if snd directory = 0 then Some (Inr (delta = 0), m)
      else reloc_blocks delta codeBase (codeBase + ucast (fst directory)) m)"

section \<open>What one relocation does\<close>

text \<open>
  The plain types change one slot of 0, 2, 4 or 8 bytes by an addend.
\<close>

definition slot_width :: "u16 \<Rightarrow> nat" where
  "slot_width info =
     (if drop_bit 12 info = 1 \<or> drop_bit 12 info = 2 then 2
      else if drop_bit 12 info = 3 then 4 else if drop_bit 12 info = 10 then 8 else 0)"

definition slot_addend :: "u64 \<Rightarrow> u16 \<Rightarrow> nat" where
  "slot_addend delta info =
     (if drop_bit 12 info = 1 then unat (drop_bit 16 (ucast delta :: u32))
      else if drop_bit 12 info = 2 then unat (delta AND 0xffff)
      else if drop_bit 12 info = 3 then unat (ucast delta :: u32)
      else unat delta)"

definition plain :: "u16 \<Rightarrow> bool" where
  "plain info \<longleftrightarrow> drop_bit 12 info \<in> {0, 1, 2, 3, 10}"

abbreviation slot :: "addr \<Rightarrow> u16 \<Rightarrow> addr" where
  "slot dest info \<equiv> dest + ucast (info AND 0xfff)"

abbreviation slot_bytes :: "addr \<Rightarrow> u16 \<Rightarrow> addr set" where
  "slot_bytes dest info \<equiv> at (slot dest info) (slot_width info)"

lemma slot_width_le: "slot_width info \<le> 8"
  by (simp add: slot_width_def)

lemma wr_mod: "wr n a (v mod 256 ^ n) m = wr n a v m"
proof (induction n arbitrary: a v m)
  case (Suc n)
  have "of_nat (v mod 256 ^ Suc n) = (of_nat v :: byte)"
    by (rule word_of_nat_eq_iff [THEN iffD2])
      (simp add: take_bit_eq_mod mod_mod_cancel)
  moreover have "v mod 256 ^ Suc n div 256 = v div 256 mod 256 ^ n"
    by (simp add: mod_mult2_eq div_mult2_eq)
  ultimately show ?case using Suc by (simp only: wr.simps)
qed simp

lemma reloc_one_plain:
  assumes "plain info"
  shows "reloc_one delta dest info m =
     (Inr (), wr (slot_width info) (slot dest info)
        (rd (slot_width info) m (slot dest info) + slot_addend delta info) m)"
proof -
  let ?p = "slot dest info"
  have w16: "wr16 ?p (rd16 m ?p + ucast v) m = wr 2 ?p (rd 2 m ?p + unat v) m" for v :: "'a::len word"
    using wr_mod [of 2 ?p "rd 2 m ?p + unat v" m]
    by (simp add: wr16_def unat_word_ariths unat_rd16 unsigned_ucast_eq
        take_bit_eq_mod mod_add_right_eq)
  have w32: "wr32 ?p (rd32 m ?p + v) m = wr 4 ?p (rd 4 m ?p + unat v) m" for v
    using wr_mod [of 4 ?p "rd 4 m ?p + unat v" m]
    by (simp add: wr32_def unat_word_ariths unat_rd32)
  have w64: "wr64 ?p (rd64 m ?p + v) m = wr 8 ?p (rd 8 m ?p + unat v) m" for v
    using wr_mod [of 8 ?p "rd 8 m ?p + unat v" m]
    by (simp add: wr64_def unat_word_ariths unat_rd64)
  show ?thesis
    using assms
    by (auto simp: reloc_one_def Let_def plain_def slot_width_def slot_addend_def w16 w32 w64)
qed

lemma reloc_one_outside:
  assumes "plain info" and "x \<notin> slot_bytes dest info"
  shows "snd (reloc_one delta dest info m) x = m x"
proof -
  have "slot_width info < 2 ^ 64" using slot_width_le [of info] by simp
  then show ?thesis using assms by (simp add: reloc_one_plain wr_outside)
qed

section \<open>What a table does\<close>

text \<open>
  A table as data, a list of blocks of entries, and what it means that the memory holds it at an
  address.
\<close>

type_synonym reloc_block = "u32 \<times> u16 list"

fun entries_at :: "mem \<Rightarrow> addr \<Rightarrow> u16 list \<Rightarrow> bool" where
  "entries_at m p [] \<longleftrightarrow> True"
| "entries_at m p (i # is) \<longleftrightarrow> rd16 m p = i \<and> entries_at m (p + 2) is"

fun table_at :: "mem \<Rightarrow> addr \<Rightarrow> reloc_block list \<Rightarrow> bool" where
  "table_at m h [] \<longleftrightarrow> rd32 m h = 0"
| "table_at m h ((va, infos) # bs) \<longleftrightarrow>
     va \<noteq> 0 \<and> rd32 m h = va \<and> unat (rd32 m (h + 4)) = 8 + 2 * length infos \<and>
     entries_at m (h + 8) infos \<and> table_at m (h + of_nat (8 + 2 * length infos)) bs"

fun table_bytes :: "addr \<Rightarrow> reloc_block list \<Rightarrow> addr set" where
  "table_bytes h [] = at h 4"
| "table_bytes h ((va, infos) # bs) =
     at h (8 + 2 * length infos) \<union> table_bytes (h + of_nat (8 + 2 * length infos)) bs"

fun table_slots :: "addr \<Rightarrow> reloc_block list \<Rightarrow> (addr \<times> u16) list" where
  "table_slots codeBase [] = []"
| "table_slots codeBase ((va, infos) # bs) = map (Pair (codeBase + ucast va)) infos @ table_slots codeBase bs"

fun apply_slots :: "u64 \<Rightarrow> (addr \<times> u16) list \<Rightarrow> mem \<Rightarrow> mem" where
  "apply_slots delta [] m = m"
| "apply_slots delta ((dest, info) # xs) m = apply_slots delta xs (snd (reloc_one delta dest info m))"

definition slots_avoid :: "(addr \<times> u16) list \<Rightarrow> addr set \<Rightarrow> bool" where
  "slots_avoid xs A \<longleftrightarrow> (\<forall>s \<in> set xs. plain (snd s) \<and> slot_bytes (fst s) (snd s) \<inter> A = {})"

lemma slots_avoid_simps [simp]:
  "slots_avoid [] A"
  "slots_avoid ((dest, info) # xs) A \<longleftrightarrow> plain info \<and> slot_bytes dest info \<inter> A = {} \<and> slots_avoid xs A"
  "slots_avoid (xs @ ys) A \<longleftrightarrow> slots_avoid xs A \<and> slots_avoid ys A"
  by (auto simp: slots_avoid_def)

lemma slots_avoid_subset: "slots_avoid xs A \<Longrightarrow> B \<subseteq> A \<Longrightarrow> slots_avoid xs B"
  unfolding slots_avoid_def by blast

lemma apply_slots_append: "apply_slots delta (xs @ ys) m = apply_slots delta ys (apply_slots delta xs m)"
  by (induction xs arbitrary: m) auto

lemma apply_slots_outside: "slots_avoid xs A \<Longrightarrow> x \<in> A \<Longrightarrow> apply_slots delta xs m x = m x"
proof (induction xs arbitrary: m)
  case (Cons s xs)
  obtain dest info where s: "s = (dest, info)" by (cases s)
  then have "x \<notin> slot_bytes dest info" "plain info" using Cons.prems by auto
  then show ?case using Cons reloc_one_outside [of info x dest delta m] by (simp add: s)
qed simp

lemma entries_at_cong:
  "entries_at m p infos \<Longrightarrow> 2 * length infos < 2 ^ 64 \<Longrightarrow>
   (\<And>x. x \<in> at p (2 * length infos) \<Longrightarrow> m x = m' x) \<Longrightarrow> entries_at m' p infos"
proof (induction infos arbitrary: p)
  case (Cons i infos)
  have parts: "at p (2 * length (i # infos)) = at p 2 \<union> at (p + 2) (2 * length infos)"
    using at_add [of 2 "2 * length infos" p] Cons.prems(2) by simp
  have "rd16 m' p = i" using Cons.prems(1) rd16_cong [of p m m'] Cons.prems(3) parts by simp
  moreover have "entries_at m' (p + 2) infos"
    using Cons.prems parts by (intro Cons.IH) auto
  ultimately show ?case by simp
qed simp

lemma table_at_cong:
  "table_at m h bs \<Longrightarrow> (\<And>x. x \<in> table_bytes h bs \<Longrightarrow> m x = m' x) \<Longrightarrow> table_at m' h bs"
proof (induction bs arbitrary: h)
  case Nil
  then show ?case using rd32_cong [of h m m'] by simp
next
  case (Cons b bs)
  obtain va infos where b: "b = (va, infos)" by (cases b)
  let ?n = "8 + 2 * length infos"
  have n: "?n < 2 ^ 32" using Cons.prems(1) unsigned_less [of "rd32 m (h + 4)", where 'a = nat] by (simp add: b)
  have parts: "at h ?n = at h 4 \<union> at (h + 4) 4 \<union> at (h + 8) (2 * length infos)"
    using at_add [of 4 "4 + 2 * length infos" h] at_add [of 4 "2 * length infos" "h + 4"] n
    by (simp add: add.assoc Un_assoc)
  have same: "m x = m' x" if "x \<in> at h 4 \<or> x \<in> at (h + 4) 4 \<or> x \<in> at (h + 8) (2 * length infos)" for x
  proof -
    have "x \<in> at h ?n" using that unfolding parts by blast
    then show ?thesis using Cons.prems(2) by (simp add: b)
  qed
  have "rd32 m' h = rd32 m h" by (rule rd32_cong) (simp add: same)
  moreover have "rd32 m' (h + 4) = rd32 m (h + 4)" by (rule rd32_cong) (simp add: same)
  moreover have "entries_at m' (h + 8) infos"
    by (rule entries_at_cong [of m]) (use Cons.prems(1) same n in \<open>simp_all add: b\<close>)
  moreover have "table_at m' (h + of_nat ?n) bs"
    using Cons.prems by (intro Cons.IH) (auto simp: b)
  ultimately show ?case using Cons.prems(1) by (simp add: b)
qed

lemma reloc_entries_spec:
  assumes "entries_at m p infos" "2 * length infos < 2 ^ 64"
    "slots_avoid (map (Pair dest) infos) (at p (2 * length infos))"
  shows "reloc_entries delta dest (length infos) p m =
           (Inr (), apply_slots delta (map (Pair dest) infos) m)"
  using assms
proof (induction infos arbitrary: p m)
  case (Cons i infos)
  let ?m' = "snd (reloc_one delta dest i m)"
  have parts: "at p (2 * length (i # infos)) = at p 2 \<union> at (p + 2) (2 * length infos)"
    using at_add [of 2 "2 * length infos" p] Cons.prems(2) by simp
  have i: "plain i" "slot_bytes dest i \<inter> at p (2 * length (i # infos)) = {}" using Cons.prems(3) by auto
  have same: "m x = ?m' x" if "x \<in> at (p + 2) (2 * length infos)" for x
  proof -
    have "x \<notin> slot_bytes dest i" using i(2) that unfolding parts by blast
    from reloc_one_outside [OF i(1) this] show ?thesis by (rule sym)
  qed
  have "entries_at ?m' (p + 2) infos"
    by (rule entries_at_cong [OF _ _ same]) (use Cons.prems(1,2) in simp_all)
  moreover have "slots_avoid (map (Pair dest) infos) (at (p + 2) (2 * length infos))"
  proof (rule slots_avoid_subset)
    show "slots_avoid (map (Pair dest) infos) (at p (2 * length (i # infos)))"
      using Cons.prems(3) unfolding list.map slots_avoid_simps by blast
  qed (use parts in blast)
  ultimately have "reloc_entries delta dest (length infos) (p + 2) ?m' =
      (Inr (), apply_slots delta (map (Pair dest) infos) ?m')"
    by (intro Cons.IH) (use Cons.prems(2) in simp_all)
  then show ?case using Cons.prems(1) reloc_one_plain [OF i(1)] by (simp split: prod.splits sum.splits)
qed simp

lemma reloc_blocks_spec:
  assumes "table_at m h bs" "slots_avoid (table_slots codeBase bs) (table_bytes h bs)"
  shows "reloc_blocks delta codeBase h m = Some (Inr True, apply_slots delta (table_slots codeBase bs) m)"
  using assms
proof (induction bs arbitrary: h m)
  case Nil
  then show ?case by (subst reloc_blocks.simps) simp
next
  case (Cons b bs)
  obtain va infos where b: "b = (va, infos)" by (cases b)
  let ?n = "8 + 2 * length infos" and ?dest = "codeBase + ucast va"
  let ?m' = "apply_slots delta (map (Pair ?dest) infos) m"
  have va: "va \<noteq> 0" "rd32 m h = va" and sz: "unat (rd32 m (h + 4)) = ?n"
    and ents: "entries_at m (h + 8) infos" and rest: "table_at m (h + of_nat ?n) bs"
    using Cons.prems(1) by (simp_all add: b)
  have n: "?n < 2 ^ 32" using sz unsigned_less [of "rd32 m (h + 4)", where 'a = nat] by simp
  have head: "slots_avoid (map (Pair ?dest) infos) (at h ?n \<union> table_bytes (h + of_nat ?n) bs)"
    and tail: "slots_avoid (table_slots codeBase bs) (at h ?n \<union> table_bytes (h + of_nat ?n) bs)"
    using Cons.prems(2) unfolding b table_slots.simps table_bytes.simps slots_avoid_simps by blast+
  have parts: "at h ?n = at h 4 \<union> at (h + 4) 4 \<union> at (h + 8) (2 * length infos)"
    using at_add [of 4 "4 + 2 * length infos" h] at_add [of 4 "2 * length infos" "h + 4"] n
    by (simp add: add.assoc Un_assoc)
  have entries: "reloc_entries delta ?dest (length infos) (h + 8) m = (Inr (), ?m')"
    by (rule reloc_entries_spec [OF ents])
      (use n in simp, rule slots_avoid_subset [OF head], use parts in blast)
  have same: "?m' x = m x" if "x \<in> at h ?n \<union> table_bytes (h + of_nat ?n) bs" for x
    by (rule apply_slots_outside [OF head that])
  have "rd32 ?m' (h + 4) = rd32 m (h + 4)"
    by (rule rd32_cong) (rule same, use parts in blast)
  moreover have "ucast (rd32 m (h + 4)) = (of_nat ?n :: u64)"
    by (metis sz of_nat_unat)
  moreover have "table_at ?m' (h + of_nat ?n) bs"
    by (rule table_at_cong [OF rest]) (simp add: same)
  then have "reloc_blocks delta codeBase (h + of_nat ?n) ?m' =
      Some (Inr True, apply_slots delta (table_slots codeBase bs) ?m')"
    by (rule Cons.IH) (rule slots_avoid_subset [OF tail], blast)
  moreover have "\<not> rd32 m (h + 4) < 8" using sz by (simp add: word_less_nat_alt)
  ultimately show ?case
    using va sz entries by (subst reloc_blocks.simps) (simp add: b apply_slots_append)
qed

text \<open>
  Slots that do not overlap are relocated independently.
\<close>

fun slots_disjoint :: "(addr \<times> u16) list \<Rightarrow> bool" where
  "slots_disjoint [] \<longleftrightarrow> True"
| "slots_disjoint ((dest, info) # xs) \<longleftrightarrow> slots_avoid xs (slot_bytes dest info) \<and> slots_disjoint xs"

lemma apply_slots_at:
  assumes "slots_disjoint xs" "(dest, info) \<in> set xs" "\<forall>s \<in> set xs. plain (snd s)"
  shows "rd (slot_width info) (apply_slots delta xs m) (slot dest info) =
           (rd (slot_width info) m (slot dest info) + slot_addend delta info) mod 256 ^ slot_width info"
  using assms
proof (induction xs arbitrary: m)
  case (Cons s xs)
  obtain d i where s: "s = (d, i)" by (cases s)
  let ?m' = "snd (reloc_one delta d i m)" and ?w = "slot_width info"
  have w: "?w < 2 ^ 64" using slot_width_le [of info] by simp
  have i: "plain i" using Cons.prems(3) by (simp add: s)
  show ?case
  proof (cases "(dest, info) \<in> set xs")
    case True
    then have "slot_bytes dest info \<inter> slot_bytes d i = {}"
      using Cons.prems(1) unfolding s slots_disjoint.simps slots_avoid_def by fastforce
    then have "rd ?w ?m' (slot dest info) = rd ?w m (slot dest info)"
      by (intro rd_cong w reloc_one_outside [OF i]) blast
    then show ?thesis using Cons.IH [of ?m'] Cons.prems True by (simp add: s)
  next
    case False
    then have eq: "d = dest" "i = info" using Cons.prems(2) by (auto simp: s)
    have "rd ?w (apply_slots delta xs ?m') (slot dest info) = rd ?w ?m' (slot dest info)"
      using Cons.prems(1) apply_slots_outside [of xs "slot_bytes dest info"]
      by (intro rd_cong w) (simp add: s eq)
    then show ?thesis
      by (simp add: s eq reloc_one_plain [OF i [unfolded eq]] rd_wr_same [OF w])
  qed
qed simp

text \<open>
  C19: relocation is exact. For a table of plain entries (ABSOLUTE, HIGH, LOW, HIGHLOW, DIR64) whose
  slots overlap neither each other nor the table, the loop ends, reports success, adds the delta to
  every slot in the width and the part its type names, modulo that width, and leaves every other
  byte of the process alone.
\<close>

theorem base_relocation_exact:
  assumes "snd directory \<noteq> 0" and "table_at m (codeBase + ucast (fst directory)) bs"
    and "slots_avoid (table_slots codeBase bs) (table_bytes (codeBase + ucast (fst directory)) bs)"
    and "slots_disjoint (table_slots codeBase bs)"
  shows "\<exists>m'. performBaseRelocation directory codeBase delta m = Some (Inr True, m') \<and>
           (\<forall>(dest, info) \<in> set (table_slots codeBase bs).
              rd (slot_width info) m' (slot dest info) =
                (rd (slot_width info) m (slot dest info) + slot_addend delta info) mod 256 ^ slot_width info) \<and>
           (\<forall>x. (\<forall>(dest, info) \<in> set (table_slots codeBase bs). x \<notin> slot_bytes dest info) \<longrightarrow> m' x = m x)"
proof -
  let ?xs = "table_slots codeBase bs" and ?m' = "apply_slots delta (table_slots codeBase bs) m"
  have plain: "\<forall>s \<in> set ?xs. plain (snd s)" using assms(3) by (simp add: slots_avoid_def)
  have "performBaseRelocation directory codeBase delta m = Some (Inr True, ?m')"
    using reloc_blocks_spec [OF assms(2,3)] assms(1) by (simp add: performBaseRelocation_def)
  moreover have "?m' x = m x" if "\<forall>(dest, info) \<in> set ?xs. x \<notin> slot_bytes dest info" for x
    by (rule apply_slots_outside [of _ "{x}"]) (use plain that in \<open>auto simp: slots_avoid_def\<close>)
  ultimately show ?thesis using apply_slots_at [OF assms(4) _ plain] by fastforce
qed

text \<open>
  A table of one block at \<open>0x10100\<close> with one DIR64 entry, for the slot at \<open>0x10208\<close>.
\<close>

definition sample_reloc_mem :: mem where
  "sample_reloc_mem = (\<lambda>_. 0)(0x10101 := 2, 0x10104 := 10, 0x10108 := 8, 0x10109 := 0xa0, 0x10208 := 7)"

lemma base_relocation_exact_witness:
  "\<exists>m'. performBaseRelocation (0x100, 10) 0x10000 0x5000 sample_reloc_mem = Some (Inr True, m') \<and>
     rd 8 m' 0x10208 = 0x5007"
proof -
  have rds: "rd32 sample_reloc_mem 0x10100 = 0x200" "rd32 sample_reloc_mem 0x10104 = 10"
    "rd16 sample_reloc_mem 0x10108 = 0xa008" "rd32 sample_reloc_mem 0x1010a = 0"
    "rd 8 sample_reloc_mem 0x10208 = 7"
    by (simp_all add: sample_reloc_mem_def rd32_def rd16_def rd_bytes)
  have tbl: "table_at sample_reloc_mem 0x10100 [(0x200, [0xa008])]"
    by (simp add: rds)
  have w: "slot_width 0xa008 = 8" "plain 0xa008" "slot 0x10200 0xa008 = 0x10208" "slot_addend 0x5000 0xa008 = 0x5000"
    by (simp_all add: slot_width_def plain_def slot_addend_def)
  have avoid: "slots_avoid (table_slots 0x10000 [(0x200, [0xa008])]) (table_bytes 0x10100 [(0x200, [0xa008])])"
    using at_disjoint [of 8 "0x10100" "0x10208" 10] at_disjoint [of 8 "0x1010a" "0x10208" 4] w
    by (simp add: Int_Un_distrib)
  from base_relocation_exact [of "(0x100, 10)" sample_reloc_mem "0x10000" "[(0x200, [0xa008])]" "0x5000"]
    tbl avoid w rds
  show ?thesis by auto
qed

end
