(* ===== verification/Pe_Load.thy ===== *)
theory Pe_Load
  imports Pe_Sections Pe_Reloc
begin

text \<open>
  Loading, freeing and looking up: \<open>LoadLibrary\<close>, \<open>Free\<close>, the import and export tables and the
  thread-local callbacks of \<open>bin/memmod/memmod_windows.go\<close>, for amd64.
\<close>

section \<open>Relocation and imports\<close>

definition relocate :: "u64 \<Rightarrow> bool pe" where
  "relocate delta s =
     Option.bind (performBaseRelocation (headerDirectory (ram s) (md_headers s) 5) (md_codeBase s) delta (ram s))
       (\<lambda>(r, m). Some (r, s\<lparr>ram := m\<rparr>))"

definition IMAGE_ORDINAL :: "u64 \<Rightarrow> u64" where
  "IMAGE_ORDINAL ordinal = ordinal AND 0xffff"

definition IMAGE_SNAP_BY_ORDINAL :: "u64 \<Rightarrow> bool" where
  "IMAGE_SNAP_BY_ORDINAL ordinal \<longleftrightarrow> ordinal AND 0x8000000000000000 \<noteq> 0"

text \<open>One import: by ordinal, or by the name at offset 2 of the hint entry.\<close>

definition resolve_thunk :: "win \<Rightarrow> u64 \<Rightarrow> u64 \<Rightarrow> u64 option pe" where
  "resolve_thunk w handle thunk s =
     (if IMAGE_SNAP_BY_ORDINAL thunk
      then call_os w (GetProcAddressByOrdinal handle (IMAGE_ORDINAL thunk)) s
      else Option.bind (BytePtrToString (ram s) (md_codeBase s + thunk + 2))
             (\<lambda>name. call_os w (GetProcAddress handle name) s))"

partial_function (option) import_thunks ::
  "win \<Rightarrow> u64 \<Rightarrow> addr \<Rightarrow> addr \<Rightarrow> pe_state \<Rightarrow> (unit outcome \<times> pe_state) option" where
  "import_thunks w handle thunkRef funcRef s =
     (if rd64 (ram s) thunkRef = 0 then Some (Inr (), s)
      else bind_pe (resolve_thunk w handle (rd64 (ram s) thunkRef))
        (\<lambda>r s'. case r of
           None \<Rightarrow> bind_pe (call_os w (FreeLibrary handle)) (\<lambda>_. fail (Err ''Error getting function address''))
                     (s'\<lparr>ram := wr64 funcRef 0 (ram s')\<rparr>)
         | Some a \<Rightarrow> import_thunks w handle (thunkRef + 8) (funcRef + 8) (s'\<lparr>ram := wr64 funcRef a (ram s')\<rparr>)) s)"

text \<open>
  The descriptors, 20 bytes each, up to one without a name. Without a table of hints the function
  table serves for both.
\<close>

partial_function (option) import_descriptors ::
  "win \<Rightarrow> addr \<Rightarrow> pe_state \<Rightarrow> (unit outcome \<times> pe_state) option" where
  "import_descriptors w desc s =
     (if rd32 (ram s) (desc + 12) = 0 then Some (Inr (), s)
      else Option.bind (BytePtrToString (ram s) (md_codeBase s + ucast (rd32 (ram s) (desc + 12))))
        (\<lambda>name. bind_pe (call_os w (LoadLibraryEx name))
          (\<lambda>r s'. case r of
             None \<Rightarrow> Some (Inl (Err ''Error loading module''), s')
           | Some handle \<Rightarrow>
               bind_pe (import_thunks w handle
                   (md_codeBase s' + ucast (if rd32 (ram s') desc \<noteq> 0 then rd32 (ram s') desc else rd32 (ram s') (desc + 16)))
                   (md_codeBase s' + ucast (rd32 (ram s') (desc + 16))))
                 (\<lambda>_ s''. import_descriptors w (desc + 20)
                     (s''\<lparr>md_modules := Some (case md_modules s'' of None \<Rightarrow> [handle] | Some hs \<Rightarrow> hs @ [handle])\<rparr>)) s') s))"

definition buildImportTable :: "win \<Rightarrow> unit pe" where
  "buildImportTable w s =
     (let directory = headerDirectory (ram s) (md_headers s) 1
      in if snd directory = 0 then ok () s
         else import_descriptors w (md_codeBase s + ucast (fst directory)) (s\<lparr>md_modules := Some []\<rparr>))"

section \<open>Exception tables and thread-local callbacks\<close>

definition registerExceptionHandlers :: "win \<Rightarrow> unit pe" where
  "registerExceptionHandlers w s =
     (let (va, sz) = headerDirectory (ram s) (md_headers s) 3
      in if sz = 0 \<or> va = 0 then ok () s
         else bind_pe (call_os w (RtlAddFunctionTable (md_codeBase s + ucast va) (sz div 12) (md_codeBase s)))
                (\<lambda>_. ok ()) s)"

partial_function (option) tls_callbacks ::
  "win \<Rightarrow> addr \<Rightarrow> pe_state \<Rightarrow> (unit outcome \<times> pe_state) option" where
  "tls_callbacks w callback s =
     (if rd64 (ram s) callback = 0 then Some (Inr (), s)
      else bind_pe (call_os w (SyscallN (rd64 (ram s) callback) (md_codeBase s) 1))
             (\<lambda>_ s'. tls_callbacks w (callback + 8) s') s)"

definition executeTLS :: "win \<Rightarrow> unit pe" where
  "executeTLS w s =
     (let va = fst (headerDirectory (ram s) (md_headers s) 9);
          callback = rd64 (ram s) (md_codeBase s + ucast va + 24)
      in if va = 0 \<or> callback = 0 then ok () s else tls_callbacks w callback s)"

section \<open>Exports\<close>

definition exp_Base :: "mem \<Rightarrow> addr \<Rightarrow> u32" where "exp_Base m p = rd32 m (p + 16)"
definition exp_NumberOfFunctions :: "mem \<Rightarrow> addr \<Rightarrow> u32" where "exp_NumberOfFunctions m p = rd32 m (p + 20)"
definition exp_NumberOfNames :: "mem \<Rightarrow> addr \<Rightarrow> u32" where "exp_NumberOfNames m p = rd32 m (p + 24)"
definition exp_AddressOfFunctions :: "mem \<Rightarrow> addr \<Rightarrow> u32" where "exp_AddressOfFunctions m p = rd32 m (p + 28)"
definition exp_AddressOfNames :: "mem \<Rightarrow> addr \<Rightarrow> u32" where "exp_AddressOfNames m p = rd32 m (p + 32)"
definition exp_AddressOfNameOrdinals :: "mem \<Rightarrow> addr \<Rightarrow> u32" where "exp_AddressOfNameOrdinals m p = rd32 m (p + 36)"

fun export_names :: "mem \<Rightarrow> addr \<Rightarrow> nat \<Rightarrow> addr \<Rightarrow> addr \<Rightarrow> (bytes \<rightharpoonup> u16) \<Rightarrow> (bytes \<rightharpoonup> u16) option" where
  "export_names m cb 0 nameRef ordRef acc = Some acc"
| "export_names m cb (Suc n) nameRef ordRef acc =
     Option.bind (BytePtrToString m (cb + ucast (rd32 m nameRef)))
       (\<lambda>name. export_names m cb n (nameRef + 4) (ordRef + 2) (acc(name \<mapsto> rd16 m ordRef)))"

definition buildNameExports :: "unit pe" where
  "buildNameExports s =
     (let m = ram s; cb = md_codeBase s; directory = headerDirectory m (md_headers s) 0;
          exports = cb + ucast (fst directory)
      in if snd directory = 0 then fail (Err ''No export table found'') s
         else if exp_NumberOfNames m exports = 0 \<or> exp_NumberOfFunctions m exports = 0
              then fail (Err ''No functions exported'') s
         else Option.bind (export_names m cb (unat (exp_NumberOfNames m exports))
                             (cb + ucast (exp_AddressOfNames m exports))
                             (cb + ucast (exp_AddressOfNameOrdinals m exports)) Map.empty)
                (\<lambda>names. ok () (s\<lparr>md_nameExports := Some names\<rparr>)))"

text \<open>The address in slot \<open>idx\<close> of the function table.\<close>

definition function_at :: "mem \<Rightarrow> addr \<Rightarrow> addr \<Rightarrow> u16 \<Rightarrow> u64" where
  "function_at m cb exports idx =
     cb + ucast (rd32 m (cb + ucast (exp_AddressOfFunctions m exports) + ucast idx * 4))"

definition ProcAddressByName :: "pe_state \<Rightarrow> bytes \<Rightarrow> u64 outcome" where
  "ProcAddressByName s name =
     (let m = ram s; cb = md_codeBase s; directory = headerDirectory m (md_headers s) 0;
          exports = cb + ucast (fst directory)
      in if snd directory = 0 then Inl (Err ''No export table found'')
         else case md_nameExports s of
           None \<Rightarrow> Inl (Err ''No functions exported by name'')
         | Some names \<Rightarrow>
             (case names name of
                None \<Rightarrow> Inl (Err ''Function not found by name'')
              | Some idx \<Rightarrow>
                  if exp_NumberOfFunctions m exports < ucast idx then Inl (Err ''Ordinal number too high'')
                  else Inr (function_at m cb exports idx)))"

definition ProcAddressByOrdinal :: "pe_state \<Rightarrow> u16 \<Rightarrow> u64 outcome" where
  "ProcAddressByOrdinal s ordinal =
     (let m = ram s; cb = md_codeBase s; directory = headerDirectory m (md_headers s) 0;
          exports = cb + ucast (fst directory); idx = ordinal - ucast (exp_Base m exports)
      in if snd directory = 0 then Inl (Err ''No export table found'')
         else if ucast ordinal < exp_Base m exports then Inl (Err ''Ordinal number too low'')
         else if exp_NumberOfFunctions m exports < ucast idx then Inl (Err ''Ordinal number too high'')
         else Inr (function_at m cb exports idx))"

section \<open>Freeing\<close>

fun free_libraries :: "win \<Rightarrow> u64 list \<Rightarrow> unit pe" where
  "free_libraries w [] = ok ()"
| "free_libraries w (h # hs) = bind_pe (call_os w (FreeLibrary h)) (\<lambda>_. free_libraries w hs)"

fun addressList_free :: "win \<Rightarrow> addr list \<Rightarrow> unit pe" where
  "addressList_free w [] = ok ()"
| "addressList_free w (a # as) = bind_pe (call_os w (VirtualFree a 0 MEM_RELEASE)) (\<lambda>_. addressList_free w as)"

definition free_notify :: "win \<Rightarrow> unit pe" where
  "free_notify w s =
     (if md_initialized s
      then bind_pe (call_os w (SyscallN (md_entry s) (md_codeBase s) 0)) (\<lambda>_. update (md_initialized_update (\<lambda>_. False))) s
      else ok () s)"

definition free_modules :: "win \<Rightarrow> unit pe" where
  "free_modules w s =
     (case md_modules s of
        None \<Rightarrow> ok () s
      | Some hs \<Rightarrow> bind_pe (free_libraries w hs) (\<lambda>_. update (md_modules_update (\<lambda>_. None))) s)"

definition free_image :: "win \<Rightarrow> unit pe" where
  "free_image w s =
     (if md_codeBase s \<noteq> 0
      then bind_pe (call_os w (VirtualFree (md_codeBase s) 0 MEM_RELEASE)) (\<lambda>_. update (md_codeBase_update (\<lambda>_. 0))) s
      else ok () s)"

definition free_blocked :: "win \<Rightarrow> unit pe" where
  "free_blocked w s =
     bind_pe (addressList_free w (md_blockedMemory s)) (\<lambda>_. update (md_blockedMemory_update (\<lambda>_. []))) s"

definition Free :: "win \<Rightarrow> unit pe" where
  "Free w =
     bind_pe (free_notify w) (\<lambda>_. bind_pe (free_modules w) (\<lambda>_. bind_pe (free_image w) (\<lambda>_. free_blocked w)))"

section \<open>Loading\<close>

text \<open>
  The end of the last section, over the section headers of the file.
\<close>

fun sections_end :: "mem \<Rightarrow> u64 \<Rightarrow> nat \<Rightarrow> addr \<Rightarrow> u64 \<Rightarrow> u64" where
  "sections_end m optional 0 p lastSectionEnd = lastSectionEnd"
| "sections_end m optional (Suc n) p lastSectionEnd =
     (let endOfSection = ucast (sec_VirtualAddress m p) +
            (if sec_SizeOfRawData m p = 0 then optional else ucast (sec_SizeOfRawData m p))
      in sections_end m optional n (p + 40)
           (if lastSectionEnd < endOfSection then endOfSection else lastSectionEnd))"

text \<open>
  The checks before anything is allocated, in order: the NT headers of the file and the aligned size
  of the image, or an error. \<open>&data[0]\<close> of an empty file panics; \<open>E_lfanew\<close> is signed.
\<close>

definition LoadLibrary_check :: "mem \<Rightarrow> addr \<Rightarrow> u64 \<Rightarrow> (addr \<times> u64) outcome" where
  "LoadLibrary_check m addr0 sz =
     (let lfanew = scast (rd32 m (addr0 + 60)); oldHeader = addr0 + lfanew;
          alignment = ucast (opt_SectionAlignment m oldHeader);
          (p, n) = Sections m oldHeader;
          alignedImageSize = alignUp (ucast (opt_SizeOfImage m oldHeader)) alignment
      in if sz = 0 then Inl (Panic ''index out of range'')
         else if sz < 64 then Inl (Err ''Incomplete IMAGE_DOS_HEADER'')
         else if rd16 m addr0 \<noteq> 0x5a4d then Inl (Err ''Not an MS-DOS binary'')
         else if sz < lfanew + 264 then Inl (Err ''Incomplete IMAGE_NT_HEADERS'')
         else if rd32 m oldHeader \<noteq> 0x00004550 then Inl (Err ''Not an NT binary'')
         else if nt_Machine m oldHeader \<noteq> 0x8664 then Inl (Err ''Foreign platform'')
         else if opt_SectionAlignment m oldHeader AND 1 \<noteq> 0 then Inl (Err ''Unaligned section'')
         else if alignedImageSize \<noteq> alignUp (sections_end m alignment n p 0) alignment
         then Inl (Err ''Section is not page-aligned'')
         else Inr (oldHeader, alignedImageSize))"

definition alloc_image :: "win \<Rightarrow> addr \<Rightarrow> u64 \<Rightarrow> unit pe" where
  "alloc_image w base sz =
     bind_pe (call_os w (VirtualAlloc base sz (MEM_RESERVE OR MEM_COMMIT)))
       (\<lambda>r. case r of
          Some a \<Rightarrow> update (md_codeBase_update (\<lambda>_. a))
        | None \<Rightarrow>
            bind_pe (call_os w (VirtualAlloc 0 sz (MEM_RESERVE OR MEM_COMMIT)))
              (\<lambda>r. case r of
                 Some a \<Rightarrow> update (md_codeBase_update (\<lambda>_. a))
               | None \<Rightarrow> fail (Err ''Error allocating code'')))"

text \<open>The headers, copied to the memory committed for them, with the new base.\<close>

definition copy_headers :: "win \<Rightarrow> addr \<Rightarrow> u64 \<Rightarrow> addr \<Rightarrow> unit pe" where
  "copy_headers w addr0 sz oldHeader s =
     (let n = ucast (opt_SizeOfHeaders (ram s) oldHeader)
      in if sz < n then fail (Err ''Incomplete headers'') s
         else bind_pe (call_os w (VirtualAlloc (md_codeBase s) n MEM_COMMIT))
           (\<lambda>r. case r of
              None \<Rightarrow> fail (Err ''Error allocating headers'')
            | Some headers \<Rightarrow> update (\<lambda>s.
                let m = memcpy headers addr0 (ucast (opt_SizeOfHeaders (ram s) oldHeader)) (ram s);
                    nt = headers + scast (rd32 m (addr0 + 60))
                in s\<lparr>ram := wr64 (nt + 48) (md_codeBase s) m, md_headers := nt\<rparr>)) s)"

definition relocate_image :: "addr \<Rightarrow> unit pe" where
  "relocate_image oldHeader s =
     (let locationDelta = opt_ImageBase (ram s) (md_headers s) - opt_ImageBase (ram s) oldHeader
      in if locationDelta = 0 then update (md_isRelocated_update (\<lambda>_. True)) s
         else bind_pe (relocate locationDelta) (\<lambda>b. update (md_isRelocated_update (\<lambda>_. b))) s)"

definition register_range :: "u64 \<Rightarrow> unit pe" where
  "register_range sz =
     update (\<lambda>s. s\<lparr>loadedAddressRanges := loadedAddressRanges s @ [(md_codeBase s, md_codeBase s + sz)]\<rparr>)"

text \<open>The hook of \<open>RtlPcToFileHeader\<close> is installed once per process; its result is kept.\<close>

definition hook_once :: "win \<Rightarrow> unit pe" where
  "hook_once w s =
     bind_pe (case hookResult s of
                None \<Rightarrow> bind_pe (call_os w HookRtlPcToFileHeader)
                          (\<lambda>r. bind_pe (update (hookResult_update (\<lambda>_. Some r))) (\<lambda>_. ok r))
              | Some r \<Rightarrow> ok r)
       (\<lambda>r. if r = None then fail (Err ''RtlPcToFileHeader not found'') else ok ()) s"

definition attach_process :: "win \<Rightarrow> unit pe" where
  "attach_process w s =
     (let entryPoint = opt_AddressOfEntryPoint (ram s) (md_headers s)
      in if entryPoint = 0 then ok () s
         else let s1 = s\<lparr>md_entry := md_codeBase s + ucast entryPoint\<rparr>
              in if \<not> md_isDLL s then ok () s1
                 else bind_pe (call_os w (SyscallN (md_entry s1) (md_codeBase s) 1))
                   (\<lambda>r. if r = Some 0 \<or> r = None then fail (Err ''ERROR_DLL_INIT_FAILED'')
                        else update (md_initialized_update (\<lambda>_. True))) s1)"

text \<open>The result of \<open>buildNameExports\<close> is not looked at.\<close>

definition try_name_exports :: "unit pe" where
  "try_name_exports s = Option.bind (buildNameExports s) (\<lambda>(_, s'). ok () s')"

definition load_at :: "win \<Rightarrow> addr \<Rightarrow> addr \<Rightarrow> u64 \<Rightarrow> addr \<Rightarrow> u64 \<Rightarrow> unit pe" where
  "load_at w base addr0 sz oldHeader alignedImageSize =
     bind_pe (alloc_image w base alignedImageSize) (\<lambda>_.
     bind_pe (check4GBBoundaries w alignedImageSize) (\<lambda>_.
     bind_pe (copy_headers w addr0 sz oldHeader) (\<lambda>_.
     bind_pe (copySections w addr0 sz oldHeader) (\<lambda>_.
     bind_pe (relocate_image oldHeader) (\<lambda>_.
     bind_pe (buildImportTable w) (\<lambda>_.
     bind_pe (finalizeSections w) (\<lambda>_.
     bind_pe (registerExceptionHandlers w) (\<lambda>_.
     bind_pe (register_range alignedImageSize) (\<lambda>_.
     bind_pe (hook_once w) (\<lambda>_.
     bind_pe (executeTLS w) (\<lambda>_.
     bind_pe (attach_process w) (\<lambda>_. try_name_exports))))))))))))"

definition load_image :: "win \<Rightarrow> addr \<Rightarrow> u64 \<Rightarrow> addr \<Rightarrow> u64 \<Rightarrow> unit pe" where
  "load_image w addr0 sz oldHeader alignedImageSize s =
     load_at w (opt_ImageBase (ram s) oldHeader) addr0 sz oldHeader alignedImageSize s"

text \<open>A new module; the deferred function frees it when an error is returned.\<close>

definition new_module :: "bool \<Rightarrow> pe_state \<Rightarrow> pe_state" where
  "new_module dll s =
     s\<lparr>md_headers := 0, md_codeBase := 0, md_modules := None, md_initialized := False, md_isDLL := dll,
       md_isRelocated := False, md_nameExports := None, md_entry := 0, md_blockedMemory := []\<rparr>"

definition LoadLibrary :: "win \<Rightarrow> addr \<Rightarrow> u64 \<Rightarrow> unit pe" where
  "LoadLibrary w addr0 sz s =
     (case LoadLibrary_check (ram s) addr0 sz of
        Inl e \<Rightarrow> fail e s
      | Inr (oldHeader, alignedImageSize) \<Rightarrow>
          Option.bind (load_image w addr0 sz oldHeader alignedImageSize
                         (new_module (nt_Characteristics (ram s) oldHeader AND 0x2000 \<noteq> 0) s))
            (\<lambda>(r, s'). case r of
               Inl (Err e) \<Rightarrow> bind_pe (Free w) (\<lambda>_. fail (Err e)) s'
             | _ \<Rightarrow> Some (r, s')))"

end
