(* ===== verification/Pe_Resources.thy ===== *)
theory Pe_Resources
  imports Pe_Load
begin

text \<open>
  Which resources of the process a module holds, and that loading and freeing account for all of
  them: what \<open>LoadLibrary\<close> acquires is recorded in the module, and released when it fails.
\<close>

section \<open>Resources in a trace\<close>

fun lib_effect :: "os_call \<times> u64 option \<Rightarrow> u64 multiset \<Rightarrow> u64 multiset" where
  "lib_effect (LoadLibraryEx n, Some h) M = add_mset h M"
| "lib_effect (FreeLibrary h, r) M = M - {#h#}"
| "lib_effect _ M = M"

fun block_effect :: "os_call \<times> u64 option \<Rightarrow> u64 multiset \<Rightarrow> u64 multiset" where
  "block_effect (VirtualAlloc a sz f, Some b) M = (if f AND MEM_RESERVE \<noteq> 0 then add_mset b M else M)"
| "block_effect (VirtualFree a sz f, r) M = (if f = MEM_RELEASE then M - {#a#} else M)"
| "block_effect _ M = M"

text \<open>The libraries loaded and not freed, and the blocks reserved and not released.\<close>

definition owned_libs :: "(os_call \<times> u64 option) list \<Rightarrow> u64 multiset" where
  "owned_libs tr = fold lib_effect tr {#}"

definition owned_blocks :: "(os_call \<times> u64 option) list \<Rightarrow> u64 multiset" where
  "owned_blocks tr = fold block_effect tr {#}"

lemma owned_snoc:
  "owned_libs (tr @ [e]) = lib_effect e (owned_libs tr)"
  "owned_blocks (tr @ [e]) = block_effect e (owned_blocks tr)"
  by (simp_all add: owned_libs_def owned_blocks_def)

lemma owned_append:
  "owned_libs (tr @ es) = fold lib_effect es (owned_libs tr)"
  "owned_blocks (tr @ es) = fold block_effect es (owned_blocks tr)"
  by (simp_all add: owned_libs_def owned_blocks_def)

text \<open>
  What a state says of resources: the ones owned and the ones the module records.
\<close>

definition resource_view ::
  "pe_state \<Rightarrow> u64 multiset \<times> u64 multiset \<times> u64 list option \<times> addr \<times> addr list" where
  "resource_view s =
     (owned_libs (trace s), owned_blocks (trace s), md_modules s, md_codeBase s, md_blockedMemory s)"

definition viewed :: "u64 multiset \<times> u64 multiset \<times> u64 list option \<times> addr \<times> addr list \<Rightarrow> pe_state \<Rightarrow> bool" where
  "viewed v s \<longleftrightarrow> resource_view s = v"

text \<open>Calls that neither acquire nor release.\<close>

fun neutral :: "os_call \<Rightarrow> bool" where
  "neutral (LoadLibraryEx n) \<longleftrightarrow> False"
| "neutral (FreeLibrary h) \<longleftrightarrow> False"
| "neutral (VirtualAlloc a sz f) \<longleftrightarrow> f AND MEM_RESERVE = 0"
| "neutral (VirtualFree a sz f) \<longleftrightarrow> f \<noteq> MEM_RELEASE"
| "neutral _ \<longleftrightarrow> True"

lemma neutral_effect: "neutral c \<Longrightarrow> lib_effect (c, r) M = M \<and> block_effect (c, r) M = M"
  by (cases c; cases r) auto

lemma neutral_flags [simp]: "MEM_COMMIT AND MEM_RESERVE = 0" "MEM_DECOMMIT \<noteq> MEM_RELEASE"
  "(MEM_RESERVE OR MEM_COMMIT) AND MEM_RESERVE \<noteq> 0" "MEM_RESERVE \<noteq> 0"
  by (simp_all add: MEM_COMMIT_def MEM_RESERVE_def MEM_DECOMMIT_def MEM_RELEASE_def)

lemma viewed_call:
  "neutral c \<Longrightarrow> viewed v s \<Longrightarrow> viewed v (s\<lparr>trace := trace s @ [(c, r)]\<rparr>)"
  by (simp add: viewed_def resource_view_def owned_snoc neutral_effect)

lemma viewed_other [simp]:
  "viewed v (s\<lparr>ram := m\<rparr>) = viewed v s"
  "viewed v (s\<lparr>md_headers := a\<rparr>) = viewed v s"
  "viewed v (s\<lparr>md_initialized := b\<rparr>) = viewed v s"
  "viewed v (s\<lparr>md_isRelocated := b\<rparr>) = viewed v s"
  "viewed v (s\<lparr>md_nameExports := ns\<rparr>) = viewed v s"
  "viewed v (s\<lparr>md_entry := a\<rparr>) = viewed v s"
  "viewed v (s\<lparr>md_entry := a, trace := tr\<rparr>) = viewed v (s\<lparr>trace := tr\<rparr>)"
  "viewed v (s\<lparr>loadedAddressRanges := rs\<rparr>) = viewed v s"
  "viewed v (s\<lparr>hookResult := h\<rparr>) = viewed v s"
  by (simp_all add: viewed_def resource_view_def)

lemma keeps_call: "neutral c \<Longrightarrow> keeps (viewed v) (call_os w c)"
  by (auto simp: keeps_def call_os_def intro: viewed_call split: prod.splits)

lemmas pe_steps = bind_pe_eq call_os_def ok_def fail_def update_def Let_def

lemma keeps_copySection: "keeps (viewed v) (copySection w address sz old p)"
  by (rule keepsI)
    (auto simp: copySection_def pe_steps viewed_call split: if_splits option.splits prod.splits)

lemma keeps_copy_from: "keeps (viewed v) (copy_from w address sz old n p)"
  by (induction n arbitrary: p) (auto intro!: keeps_intros keeps_copySection)

lemma keeps_copySections: "keeps (viewed v) (copySections w address sz old)"
  by (rule keepsI) (auto simp: copySections_def Let_def intro: keepsD [OF keeps_copy_from] split: prod.splits)

lemma keeps_finalizeSection: "keeps (viewed v) (finalizeSection w sd)"
  by (rule keepsI)
    (auto simp: finalizeSection_def decommit_def pe_steps viewed_call split: if_splits option.splits prod.splits)

lemma keeps_finalize_from: "keeps (viewed v) (finalize_from w off n p sd)"
proof (rule keepsI)
  fix s r s'
  show "viewed v s \<Longrightarrow> finalize_from w off n p sd s = Some (r, s') \<Longrightarrow> viewed v s'"
  proof (induction n arbitrary: p sd s)
    case 0
    then show ?case using keepsD [OF keeps_finalizeSection] by simp
  next
    case (Suc n)
    show ?case
      using Suc.prems
      by (auto simp: Let_def bind_pe_eq split: if_splits
          dest!: keepsD [OF keeps_finalizeSection [where v = v], rotated] Suc.IH [rotated])
  qed
qed

lemma keeps_finalizeSections: "keeps (viewed v) (finalizeSections w)"
  by (rule keepsI)
    (auto simp: finalizeSections_def Let_def fail_def dest!: keepsD [OF keeps_finalize_from, rotated] split: prod.splits if_splits)

lemma keeps_copy_headers: "keeps (viewed v) (copy_headers w address sz old)"
  by (rule keepsI)
    (auto simp: copy_headers_def pe_steps viewed_call split: if_splits option.splits prod.splits)

lemma keeps_relocate_image: "keeps (viewed v) (relocate_image old)"
  by (rule keepsI)
    (auto simp: relocate_image_def relocate_def pe_steps bind_eq_Some_conv split: if_splits prod.splits)

lemma keeps_registerExceptionHandlers: "keeps (viewed v) (registerExceptionHandlers w)"
  by (rule keepsI)
    (auto simp: registerExceptionHandlers_def pe_steps viewed_call split: if_splits prod.splits)

lemma keeps_register_range: "keeps (viewed v) (register_range sz)"
  by (rule keepsI) (auto simp: register_range_def update_def)

lemma keeps_hook_once: "keeps (viewed v) (hook_once w)"
  by (rule keepsI)
    (auto simp: hook_once_def pe_steps viewed_call split: if_splits option.splits prod.splits)

lemma keeps_attach_process: "keeps (viewed v) (attach_process w)"
  by (rule keepsI)
    (auto simp: attach_process_def pe_steps viewed_call split: if_splits prod.splits)

lemma keeps_try_name_exports: "keeps (viewed v) try_name_exports"
  by (rule keepsI)
    (auto simp: try_name_exports_def buildNameExports_def pe_steps bind_eq_Some_conv split: if_splits prod.splits)

section \<open>Loops\<close>

lemma keeps_tls:
  assumes "tls_callbacks w cb s = Some y" "viewed v s"
  shows "viewed v (snd y)"
proof -
  have "viewed v s \<longrightarrow> viewed v (snd y)"
  proof (rule tls_callbacks.raw_induct [OF _ assms(1)])
    fix f w cb s and y :: "unit outcome \<times> pe_state"
    assume IH: "\<And>w cb s y. f w cb s = Some y \<Longrightarrow> viewed v s \<longrightarrow> viewed v (snd y)"
      and body: "(if rd64 (ram s) cb = 0 then Some (Inr (), s)
        else bind_pe (call_os w (SyscallN (rd64 (ram s) cb) (md_codeBase s) 1))
               (\<lambda>_ s'. f w (cb + 8) s') s) = Some y"
    obtain r s' where y: "y = (r, s')" by (cases y)
    show "viewed v s \<longrightarrow> viewed v (snd y)"
      using body by (auto simp: y pe_steps viewed_call split: if_splits prod.splits dest!: IH)
  qed
  with assms(2) show ?thesis by simp
qed

lemma keeps_executeTLS: "keeps (viewed v) (executeTLS w)"
  by (rule keepsI) (auto simp: executeTLS_def Let_def ok_def split: if_splits dest!: keeps_tls)

lemma call_os_eq:
  "call_os w c s = Some (r, s') \<longleftrightarrow>
     (\<exists>x m. w (trace s) c (ram s) = (x, m) \<and> r = Inr x \<and> s' = s\<lparr>trace := trace s @ [(c, x)], ram := m\<rparr>)"
  by (cases "w (trace s) c (ram s)") (auto simp: call_os_def)

lemma bind_call:
  "w (trace s) c (ram s) = (x, m) \<Longrightarrow>
   bind_pe (call_os w c) K s = K x (s\<lparr>trace := trace s @ [(c, x)], ram := m\<rparr>)"
  by (simp add: bind_pe_def call_os_def)

lemma keeps_resolve: "keeps (viewed v) (resolve_thunk w h t)"
  by (rule keepsI)
    (auto simp: resolve_thunk_def bind_eq_Some_conv call_os_eq viewed_call split: if_splits)

lemma resolve_returns: "resolve_thunk w h t s = Some (r, s') \<Longrightarrow> \<exists>x. r = Inr x"
  by (auto simp: resolve_thunk_def bind_eq_Some_conv call_os_eq split: if_splits)

section \<open>Accounting\<close>

definition held_libs :: "pe_state \<Rightarrow> u64 multiset" where
  "held_libs s = (case md_modules s of None \<Rightarrow> {#} | Some hs \<Rightarrow> mset hs)"

definition held_blocks :: "pe_state \<Rightarrow> u64 multiset" where
  "held_blocks s = (if md_codeBase s = 0 then {#} else {#md_codeBase s#}) + mset (md_blockedMemory s)"

text \<open>
  The process owns the libraries \<open>L\<close> and the blocks \<open>B\<close> and, beyond them, what the module records.
\<close>

definition tracked :: "u64 multiset \<Rightarrow> u64 multiset \<Rightarrow> pe_state \<Rightarrow> bool" where
  "tracked L B s \<longleftrightarrow>
     owned_libs (trace s) = L + held_libs s \<and> owned_blocks (trace s) = B + held_blocks s"

lemma tracked_view: "resource_view s = resource_view s' \<Longrightarrow> tracked L B s \<longleftrightarrow> tracked L B s'"
  by (simp add: tracked_def held_libs_def held_blocks_def resource_view_def)

lemma view_kept:
  "(\<And>v. keeps (viewed v) f) \<Longrightarrow> f s = Some (r, s') \<Longrightarrow> resource_view s' = resource_view s"
  by (metis keepsD viewed_def)

text \<open>
  While a library's imports are resolved, its handle is held by the code and not by the module; on
  success it is still held, on failure it has been freed.
\<close>

definition without_lib ::
  "u64 \<Rightarrow> u64 multiset \<times> u64 multiset \<times> u64 list option \<times> addr \<times> addr list \<Rightarrow>
   u64 multiset \<times> u64 multiset \<times> u64 list option \<times> addr \<times> addr list" where
  "without_lib h v = (fst v - {#h#}, snd v)"

definition thunks_result ::
  "u64 \<Rightarrow> u64 multiset \<times> u64 multiset \<times> u64 list option \<times> addr \<times> addr list \<Rightarrow> unit outcome \<times> pe_state \<Rightarrow> bool" where
  "thunks_result h v y \<longleftrightarrow> (case fst y of Inl _ \<Rightarrow> viewed (without_lib h v) (snd y) | Inr _ \<Rightarrow> viewed v (snd y))"

lemma free_handle_view:
  "viewed v s \<Longrightarrow> viewed (without_lib h v) (s\<lparr>trace := trace s @ [(FreeLibrary h, r)]\<rparr>)"
  by (auto simp: viewed_def resource_view_def without_lib_def owned_snoc)

lemma import_thunks_view:
  assumes "import_thunks w h p q s = Some y" "viewed v s"
  shows "thunks_result h v y"
proof -
  have "viewed v s \<longrightarrow> thunks_result h v y"
  proof (rule import_thunks.raw_induct [OF _ assms(1)])
    fix f w h p q s and y :: "unit outcome \<times> pe_state"
    assume IH: "\<And>w h p q s y. f w h p q s = Some y \<Longrightarrow> viewed v s \<longrightarrow> thunks_result h v y"
      and body: "(if rd64 (ram s) p = 0 then Some (Inr (), s)
        else bind_pe (resolve_thunk w h (rd64 (ram s) p))
          (\<lambda>r s'. case r of
             None \<Rightarrow> bind_pe (call_os w (FreeLibrary h)) (\<lambda>_. fail (Err ''Error getting function address''))
                       (s'\<lparr>ram := wr64 q 0 (ram s')\<rparr>)
           | Some a \<Rightarrow> f w h (p + 8) (q + 8) (s'\<lparr>ram := wr64 q a (ram s')\<rparr>)) s) = Some y"
    obtain ry sy where y: "y = (ry, sy)" by (cases y)
    show "viewed v s \<longrightarrow> thunks_result h v y"
    proof
      assume vs: "viewed v s"
      show "thunks_result h v y"
      proof (cases "rd64 (ram s) p = 0")
        case True
        with body vs show ?thesis by (auto simp: thunks_result_def)
      next
        case False
        from body False obtain r s' where r: "resolve_thunk w h (rd64 (ram s) p) s = Some (Inr r, s')"
          and rest: "(case r of
             None \<Rightarrow> bind_pe (call_os w (FreeLibrary h)) (\<lambda>_. fail (Err ''Error getting function address''))
                       (s'\<lparr>ram := wr64 q 0 (ram s')\<rparr>)
           | Some a \<Rightarrow> f w h (p + 8) (q + 8) (s'\<lparr>ram := wr64 q a (ram s')\<rparr>)) = Some y"
          using resolve_returns by (fastforce simp: bind_pe_eq y)
        have "viewed v s'" by (rule keepsD [OF keeps_resolve vs r])
        then show ?thesis
          using rest
          by (auto simp: thunks_result_def y bind_pe_eq call_os_eq fail_def free_handle_view split: option.splits dest!: IH)
      qed
    qed
  qed
  with assms(2) show ?thesis by simp
qed

lemma tracked_loaded:
  assumes "tracked L B s" "resource_view s' = (add_mset h (owned_libs (trace s)), snd (resource_view s))"
  shows "tracked L B (s'\<lparr>md_modules := Some (case md_modules s' of None \<Rightarrow> [h] | Some hs \<Rightarrow> hs @ [h])\<rparr>)"
  using assms by (auto simp: tracked_def held_libs_def held_blocks_def resource_view_def split: option.splits)

text \<open>One library of the import table: its thunks fail, and it is let go, or they are all resolved.\<close>

lemma tracked_thunks_failed:
  assumes "tracked L B s"
    and "import_thunks w h p q (s\<lparr>trace := trace s @ [(LoadLibraryEx name, Some h)], ram := m\<rparr>) = Some (Inl e, s')"
  shows "tracked L B s'"
proof -
  let ?s1 = "s\<lparr>trace := trace s @ [(LoadLibraryEx name, Some h)], ram := m\<rparr>"
  have v1: "resource_view ?s1 = (add_mset h (owned_libs (trace s)), snd (resource_view s))"
    by (simp add: resource_view_def owned_snoc)
  from import_thunks_view [OF assms(2), of "resource_view ?s1"]
  have "resource_view s' = resource_view s"
    by (simp add: thunks_result_def viewed_def v1 without_lib_def) (simp add: resource_view_def)
  with assms(1) show ?thesis using tracked_view [of s' s] by simp
qed

lemma tracked_thunks_resolved:
  assumes "tracked L B s"
    and "import_thunks w h p q (s\<lparr>trace := trace s @ [(LoadLibraryEx name, Some h)], ram := m\<rparr>) = Some (Inr (), s')"
  shows "tracked L B (s'\<lparr>md_modules := Some (case md_modules s' of None \<Rightarrow> [h] | Some hs \<Rightarrow> hs @ [h])\<rparr>)"
proof -
  let ?s1 = "s\<lparr>trace := trace s @ [(LoadLibraryEx name, Some h)], ram := m\<rparr>"
  from import_thunks_view [OF assms(2), of "resource_view ?s1"]
  have "resource_view s' = resource_view ?s1" by (simp add: thunks_result_def viewed_def)
  then have "resource_view s' = (add_mset h (owned_libs (trace s)), snd (resource_view s))"
    by (simp add: resource_view_def owned_snoc)
  then show ?thesis by (rule tracked_loaded [OF assms(1)])
qed

lemma tracked_import_descriptors:
  assumes "import_descriptors w d s = Some y" "tracked L B s"
  shows "tracked L B (snd y)"
proof -
  have "tracked L B s \<longrightarrow> tracked L B (snd y)"
  proof (rule import_descriptors.raw_induct [OF _ assms(1)])
    fix f w d s and y :: "unit outcome \<times> pe_state"
    assume IH: "\<And>w d s y. f w d s = Some y \<Longrightarrow> tracked L B s \<longrightarrow> tracked L B (snd y)"
      and body: "(if rd32 (ram s) (d + 12) = 0 then Some (Inr (), s)
      else Option.bind (BytePtrToString (ram s) (md_codeBase s + ucast (rd32 (ram s) (d + 12))))
        (\<lambda>name. bind_pe (call_os w (LoadLibraryEx name))
          (\<lambda>r s'. case r of
             None \<Rightarrow> Some (Inl (Err ''Error loading module''), s')
           | Some handle \<Rightarrow>
               bind_pe (import_thunks w handle
                   (md_codeBase s' + ucast (if rd32 (ram s') d \<noteq> 0 then rd32 (ram s') d else rd32 (ram s') (d + 16)))
                   (md_codeBase s' + ucast (rd32 (ram s') (d + 16))))
                 (\<lambda>_ s''. f w (d + 20)
                     (s''\<lparr>md_modules := Some (case md_modules s'' of None \<Rightarrow> [handle] | Some hs \<Rightarrow> hs @ [handle])\<rparr>)) s') s)) = Some y"
    obtain ry sy where y: "y = (ry, sy)" by (cases y)
    show "tracked L B s \<longrightarrow> tracked L B (snd y)"
    proof (rule impI, cases "rd32 (ram s) (d + 12) = 0")
      case True
      then show "tracked L B (snd y)" if "tracked L B s" using body that by auto
    next
      case False
      assume tr: "tracked L B s"
      obtain name where
        name: "BytePtrToString (ram s) (md_codeBase s + ucast (rd32 (ram s) (d + 12))) = Some name"
        using body False by (auto simp: bind_eq_Some_conv)
      obtain x m where call: "w (trace s) (LoadLibraryEx name) (ram s) = (x, m)" by (metis prod.exhaust)
      note run = body False name and after = bind_call [of w s "LoadLibraryEx name", OF call]
      show "tracked L B (snd y)"
      proof (cases x)
        case None
        with run tr show ?thesis
          by (auto simp: after tracked_def owned_snoc held_libs_def held_blocks_def)
      next
        case (Some h)
        let ?s1 = "s\<lparr>trace := trace s @ [(LoadLibraryEx name, Some h)], ram := m\<rparr>"
        from run Some consider
          (failed) e p q where "import_thunks w h p q ?s1 = Some (Inl e, sy)"
        | (resolved) p q s'' where "import_thunks w h p q ?s1 = Some (Inr (), s'')"
            "f w (d + 20) (s''\<lparr>md_modules := Some (case md_modules s'' of None \<Rightarrow> [h] | Some hs \<Rightarrow> hs @ [h])\<rparr>) = Some y"
          by (auto simp: after) (auto simp: bind_pe_eq y)
        then show ?thesis
          by cases (use tr IH y in \<open>auto dest: tracked_thunks_failed tracked_thunks_resolved\<close>)
      qed
    qed
  qed
  with assms(2) show ?thesis by simp
qed

section \<open>Loading and freeing are balanced\<close>

text \<open>
  \<open>VirtualAlloc\<close> never returns address 0.
\<close>

definition no_zero :: "win \<Rightarrow> bool" where
  "no_zero w \<longleftrightarrow> (\<forall>tr a sz f m. fst (w tr (VirtualAlloc a sz f) m) \<noteq> Some 0)"

text \<open>
  From \<open>P\<close>, every result leaves the resources tracked, and a normal one establishes \<open>Q\<close> as well.
\<close>

definition accounts ::
  "u64 multiset \<Rightarrow> u64 multiset \<Rightarrow> (pe_state \<Rightarrow> bool) \<Rightarrow> 'a pe \<Rightarrow> (pe_state \<Rightarrow> bool) \<Rightarrow> bool" where
  "accounts L B P f Q \<longleftrightarrow>
     (\<forall>s r s'. tracked L B s \<and> P s \<and> f s = Some (r, s') \<longrightarrow> tracked L B s' \<and> (\<forall>x. r = Inr x \<longrightarrow> Q s'))"

named_theorems accounting \<open>steps of a load account for their resources\<close>

lemma accounts_bind:
  assumes "accounts L B P f Q" "\<And>x. accounts L B Q (g x) R"
  shows "accounts L B P (bind_pe f g) R"
  unfolding accounts_def
proof (intro allI impI, elim conjE)
  fix s r s''
  assume s: "tracked L B s" "P s" "bind_pe f g s = Some (r, s'')"
  then consider e where "f s = Some (Inl e, s'')" "r = Inl e"
    | x s' where "f s = Some (Inr x, s')" "g x s' = Some (r, s'')"
    unfolding bind_pe_eq by blast
  then show "tracked L B s'' \<and> (\<forall>x. r = Inr x \<longrightarrow> R s'')"
  proof cases
    case 1
    then show ?thesis using assms(1) s unfolding accounts_def by blast
  next
    case 2
    then have "tracked L B s' \<and> Q s'" using assms(1) s unfolding accounts_def by blast
    then show ?thesis using assms(2) 2(2) unfolding accounts_def by blast
  qed
qed

lemma accounts_view:
  assumes "\<And>v. keeps (viewed v) f" and "\<And>s s'. resource_view s = resource_view s' \<Longrightarrow> P s \<Longrightarrow> P s'"
  shows "accounts L B P f P"
  unfolding accounts_def
proof (intro allI impI, elim conjE)
  fix s r s'
  assume s: "tracked L B s" "P s" "f s = Some (r, s')"
  have view: "resource_view s' = resource_view s" by (rule view_kept [OF assms(1) s(3)])
  then show "tracked L B s' \<and> (\<forall>x. r = Inr x \<longrightarrow> P s')"
    using s assms(2) [of s s'] tracked_view [OF view] by simp
qed

abbreviation no_modules :: "pe_state \<Rightarrow> bool" where
  "no_modules s \<equiv> md_modules s = None"

abbreviation anything :: "pe_state \<Rightarrow> bool" where
  "anything s \<equiv> True"

lemma no_modules_view: "resource_view s = resource_view s' \<Longrightarrow> no_modules s \<Longrightarrow> no_modules s'"
  by (simp add: resource_view_def)

lemma alloc_not_zero: "no_zero w \<Longrightarrow> w tr (VirtualAlloc b z f) m \<noteq> (Some 0, m')"
  unfolding no_zero_def by (metis fst_conv)

lemma accounts_alloc:
  assumes "no_zero w"
  shows "accounts L B (\<lambda>s. no_modules s \<and> md_codeBase s = 0) (alloc_image w base sz)
           (\<lambda>s. no_modules s \<and> md_codeBase s \<noteq> 0)"
  by (auto simp: accounts_def alloc_image_def bind_pe_eq call_os_eq update_def fail_def tracked_def owned_append
      held_libs_def held_blocks_def alloc_not_zero [OF assms] split: option.splits)

text \<open>A refused block moves from the image to the list of blocked memory.\<close>

lemma tracked_blocked:
  assumes "tracked L B s" "md_codeBase s \<noteq> 0"
    and "trace s' = trace s @ [(VirtualAlloc 0 sz (MEM_RESERVE OR MEM_COMMIT), x)]" "x \<noteq> Some 0"
    and "md_codeBase s' = (case x of None \<Rightarrow> 0 | Some a \<Rightarrow> a)"
    and "md_blockedMemory s' = md_codeBase s # md_blockedMemory s" "md_modules s' = md_modules s"
  shows "tracked L B s'"
  using assms by (auto simp: tracked_def owned_append held_libs_def held_blocks_def split: option.splits)

lemma tracked_ram [simp]: "tracked L B (s\<lparr>ram := m\<rparr>) = tracked L B s"
  by (rule tracked_view) (simp add: resource_view_def)

lemma check4GB_accounts:
  assumes "no_zero w" "check4GBBoundaries w sz s = Some y"
    and "tracked L B s" "no_modules s" "md_codeBase s \<noteq> 0"
  shows "tracked L B (snd y) \<and> no_modules (snd y)"
proof -
  have "no_zero w \<and> tracked L B s \<and> no_modules s \<and> md_codeBase s \<noteq> 0 \<longrightarrow>
      tracked L B (snd y) \<and> no_modules (snd y)"
  proof (rule check4GBBoundaries.raw_induct [OF _ assms(2)])
    fix f w sz s and y :: "unit outcome \<times> pe_state"
    assume IH: "\<And>w sz s y. f w sz s = Some y \<Longrightarrow>
        no_zero w \<and> tracked L B s \<and> no_modules s \<and> md_codeBase s \<noteq> 0 \<longrightarrow>
        tracked L B (snd y) \<and> no_modules (snd y)"
      and body: "(if drop_bit 32 (md_codeBase s) < drop_bit 32 (md_codeBase s + sz) then
          bind_pe (call_os w (VirtualAlloc 0 sz (MEM_RESERVE OR MEM_COMMIT)))
            (\<lambda>r s'. case r of
               None \<Rightarrow> Some (Inl (Err ''Error allocating memory block''), s'\<lparr>md_codeBase := 0\<rparr>)
             | Some a \<Rightarrow> f w sz (s'\<lparr>md_codeBase := a\<rparr>))
            (s\<lparr>md_blockedMemory := md_codeBase s # md_blockedMemory s\<rparr>)
        else Some (Inr (), s)) = Some y"
    show "no_zero w \<and> tracked L B s \<and> no_modules s \<and> md_codeBase s \<noteq> 0 \<longrightarrow>
        tracked L B (snd y) \<and> no_modules (snd y)"
    proof (intro impI, elim conjE)
      assume w: "no_zero w" and s: "tracked L B s" "no_modules s" "md_codeBase s \<noteq> 0"
      show "tracked L B (snd y) \<and> no_modules (snd y)"
      proof (cases "drop_bit 32 (md_codeBase s) < drop_bit 32 (md_codeBase s + sz)")
        case False
        with body s show ?thesis by auto
      next
        case True
        let ?s0 = "s\<lparr>md_blockedMemory := md_codeBase s # md_blockedMemory s\<rparr>"
        let ?c = "VirtualAlloc 0 sz (MEM_RESERVE OR MEM_COMMIT)"
        obtain x m where call: "w (trace ?s0) ?c (ram ?s0) = (x, m)" by (metis prod.exhaust)
        let ?s1 = "?s0\<lparr>trace := trace ?s0 @ [(?c, x)], ram := m\<rparr>"
        have x: "x \<noteq> Some 0" using alloc_not_zero [OF w] call by fastforce
        have tr: "tracked L B (?s1\<lparr>md_codeBase := (case x of None \<Rightarrow> 0 | Some a \<Rightarrow> a)\<rparr>)"
          by (rule tracked_blocked [OF s(1,3) _ x]) simp_all
        from body
        have "(case x of
               None \<Rightarrow> Some (Inl (Err ''Error allocating memory block''), ?s1\<lparr>md_codeBase := 0\<rparr>)
             | Some a \<Rightarrow> f w sz (?s1\<lparr>md_codeBase := a\<rparr>)) = Some y"
          unfolding if_P [OF True] bind_call [of w ?s0 ?c, OF call] .
        then show ?thesis
          using tr x w s(2) by (cases x) (auto dest: IH)
      qed
    qed
  qed
  with assms show ?thesis by blast
qed

lemma accounts_check4GB:
  assumes "no_zero w"
  shows "accounts L B (\<lambda>s. no_modules s \<and> md_codeBase s \<noteq> 0) (check4GBBoundaries w sz) no_modules"
  unfolding accounts_def using check4GB_accounts [OF assms] by fastforce

lemma accounts_imports: "accounts L B no_modules (buildImportTable w) anything"
  unfolding accounts_def
proof (intro allI impI, elim conjE)
  fix s r s'
  assume tr: "tracked L B s" and nm: "no_modules s" and run: "buildImportTable w s = Some (r, s')"
  have "tracked L B (s\<lparr>md_modules := Some []\<rparr>)"
    using tr nm by (simp add: tracked_def held_libs_def held_blocks_def)
  from tracked_import_descriptors [OF _ this] have
    "import_descriptors w d (s\<lparr>md_modules := Some []\<rparr>) = Some (r, s') \<Longrightarrow> tracked L B s'" for d
    by fastforce
  then show "tracked L B s' \<and> (\<forall>x. r = Inr x \<longrightarrow> True)"
    using run tr by (auto simp: buildImportTable_def Let_def ok_def split: if_splits)
qed

lemma accounts_anything: "(\<And>v. keeps (viewed v) f) \<Longrightarrow> accounts L B anything f anything"
  by (rule accounts_view)

lemma accounts_headers: "accounts L B no_modules (copy_headers w addr0 sz old) no_modules"
  by (rule accounts_view [OF keeps_copy_headers no_modules_view])

lemma accounts_sections: "accounts L B no_modules (copySections w addr0 sz old) no_modules"
  by (rule accounts_view [OF keeps_copySections no_modules_view])

lemma accounts_relocate: "accounts L B no_modules (relocate_image old) no_modules"
  by (rule accounts_view [OF keeps_relocate_image no_modules_view])

lemma accounts_load_image:
  assumes "no_zero w"
  shows "accounts L B (\<lambda>s. no_modules s \<and> md_codeBase s = 0) (load_image w addr0 sz old isz) anything"
proof -
  have "accounts L B (\<lambda>s. no_modules s \<and> md_codeBase s = 0) (load_at w base addr0 sz old isz) anything" for base
    unfolding load_at_def
    by (rule accounts_bind [OF accounts_alloc [OF assms]] accounts_bind [OF accounts_check4GB [OF assms]]
        accounts_bind [OF accounts_headers] accounts_bind [OF accounts_sections] accounts_bind [OF accounts_relocate]
        accounts_bind [OF accounts_imports] accounts_bind [OF accounts_anything]
        accounts_anything keeps_finalizeSections keeps_registerExceptionHandlers keeps_register_range
        keeps_hook_once keeps_executeTLS keeps_attach_process keeps_try_name_exports)+
  then show ?thesis unfolding accounts_def load_image_def by blast
qed

section \<open>Freeing releases everything\<close>

lemma free_libraries_effect:
  "\<exists>s'. free_libraries w hs s = Some (Inr (), s') \<and>
     resource_view s' = (owned_libs (trace s) - mset hs, snd (resource_view s))"
proof (induction hs arbitrary: s)
  case Nil
  show ?case by (simp add: ok_def resource_view_def)
next
  case (Cons h hs)
  obtain x m where call: "w (trace s) (FreeLibrary h) (ram s) = (x, m)" by (metis prod.exhaust)
  from Cons [of "s\<lparr>trace := trace s @ [(FreeLibrary h, x)], ram := m\<rparr>"]
  show ?case
    by (auto simp: bind_call [of w s "FreeLibrary h", OF call] resource_view_def owned_append diff_diff_add_mset)
qed

lemma addressList_free_effect:
  "\<exists>s'. addressList_free w as s = Some (Inr (), s') \<and>
     resource_view s' = (owned_libs (trace s), owned_blocks (trace s) - mset as, snd (snd (resource_view s)))"
proof (induction as arbitrary: s)
  case Nil
  show ?case by (simp add: ok_def resource_view_def)
next
  case (Cons a as)
  obtain x m where call: "w (trace s) (VirtualFree a 0 MEM_RELEASE) (ram s) = (x, m)" by (metis prod.exhaust)
  from Cons [of "s\<lparr>trace := trace s @ [(VirtualFree a 0 MEM_RELEASE, x)], ram := m\<rparr>"]
  show ?case
    by (auto simp: bind_call [of w s "VirtualFree a 0 MEM_RELEASE", OF call] resource_view_def owned_append diff_diff_add_mset)
qed

lemma free_notify_effect: "\<exists>s'. free_notify w s = Some (Inr (), s') \<and> resource_view s' = resource_view s"
proof -
  obtain x m where call: "w (trace s) (SyscallN (md_entry s) (md_codeBase s) 0) (ram s) = (x, m)"
    by (metis prod.exhaust)
  show ?thesis
    by (simp add: free_notify_def ok_def update_def resource_view_def owned_append neutral_effect
        bind_call [of w s "SyscallN (md_entry s) (md_codeBase s) 0", OF call])
qed

lemma free_modules_effect:
  "\<exists>s'. free_modules w s = Some (Inr (), s') \<and>
     resource_view s' = (owned_libs (trace s) - held_libs s, owned_blocks (trace s), None, md_codeBase s, md_blockedMemory s)"
proof (cases "md_modules s")
  case None
  then show ?thesis by (simp add: free_modules_def ok_def resource_view_def held_libs_def)
next
  case (Some hs)
  obtain s' where "free_libraries w hs s = Some (Inr (), s')"
    "resource_view s' = (owned_libs (trace s) - mset hs, snd (resource_view s))"
    using free_libraries_effect by blast
  with Some show ?thesis
    by (simp add: free_modules_def bind_pe_def update_def resource_view_def held_libs_def)
qed

lemma free_image_effect:
  "\<exists>s'. free_image w s = Some (Inr (), s') \<and>
     resource_view s' = (owned_libs (trace s),
       owned_blocks (trace s) - (if md_codeBase s = 0 then {#} else {#md_codeBase s#}), md_modules s, 0, md_blockedMemory s)"
proof -
  obtain x m where call: "w (trace s) (VirtualFree (md_codeBase s) 0 MEM_RELEASE) (ram s) = (x, m)"
    by (metis prod.exhaust)
  show ?thesis
    by (simp add: free_image_def ok_def update_def resource_view_def owned_append
        bind_call [of w s "VirtualFree (md_codeBase s) 0 MEM_RELEASE", OF call])
qed

lemma free_blocked_effect:
  "\<exists>s'. free_blocked w s = Some (Inr (), s') \<and>
     resource_view s' = (owned_libs (trace s), owned_blocks (trace s) - mset (md_blockedMemory s),
       md_modules s, md_codeBase s, [])"
proof -
  obtain s' where "addressList_free w (md_blockedMemory s) s = Some (Inr (), s')"
    "resource_view s' = (owned_libs (trace s), owned_blocks (trace s) - mset (md_blockedMemory s), snd (snd (resource_view s)))"
    using addressList_free_effect by blast
  then show ?thesis by (simp add: free_blocked_def bind_pe_def update_def resource_view_def)
qed

text \<open>\<open>Free\<close> always returns, and gives back all that the module records.\<close>

lemma Free_effect:
  assumes "tracked L B s"
  shows "\<exists>s'. Free w s = Some (Inr (), s') \<and> resource_view s' = (L, B, None, 0, [])"
proof -
  obtain s1 where s1: "free_notify w s = Some (Inr (), s1)" "resource_view s1 = resource_view s"
    using free_notify_effect by blast
  obtain s2 where s2: "free_modules w s1 = Some (Inr (), s2)" "resource_view s2 =
      (owned_libs (trace s1) - held_libs s1, owned_blocks (trace s1), None, md_codeBase s1, md_blockedMemory s1)"
    using free_modules_effect by blast
  obtain s3 where s3: "free_image w s2 = Some (Inr (), s3)" "resource_view s3 = (owned_libs (trace s2),
       owned_blocks (trace s2) - (if md_codeBase s2 = 0 then {#} else {#md_codeBase s2#}), md_modules s2, 0, md_blockedMemory s2)"
    using free_image_effect by blast
  obtain s4 where s4: "free_blocked w s3 = Some (Inr (), s4)" "resource_view s4 =
      (owned_libs (trace s3), owned_blocks (trace s3) - mset (md_blockedMemory s3), md_modules s3, md_codeBase s3, [])"
    using free_blocked_effect by blast
  have "Free w s = Some (Inr (), s4)"
    using s1 s2 s3 s4 by (simp add: Free_def bind_pe_def)
  moreover have "tracked L B s1" using tracked_view [OF s1(2)] assms by simp
  then have "resource_view s4 = (L, B, None, 0, [])"
    using s2(2) s3(2) s4(2) by (simp add: resource_view_def tracked_def held_libs_def held_blocks_def)
  ultimately show ?thesis by blast
qed

text \<open>
  C18: loading leaks nothing. When \<open>LoadLibrary\<close> returns an error, whichever step failed, the process
  owns exactly the libraries and the memory blocks it owned before; after a successful load
  it owns in addition what the module records, and \<open>Free\<close> returns and gives all of that back.
\<close>

theorem load_balanced:
  assumes "no_zero w"
  shows "(LoadLibrary w addr0 sz s = Some (Inl (Err e), s') \<longrightarrow>
            owned_libs (trace s') = owned_libs (trace s) \<and> owned_blocks (trace s') = owned_blocks (trace s)) \<and>
         (LoadLibrary w addr0 sz s = Some (Inr (), s') \<longrightarrow>
            owned_libs (trace s') = owned_libs (trace s) + held_libs s' \<and>
            owned_blocks (trace s') = owned_blocks (trace s) + held_blocks s' \<and>
            (\<exists>s''. Free w s' = Some (Inr (), s'') \<and> owned_libs (trace s'') = owned_libs (trace s) \<and>
               owned_blocks (trace s'') = owned_blocks (trace s)))"
proof (cases "LoadLibrary_check (ram s) addr0 sz")
  case (Inl f)
  then show ?thesis by (simp add: LoadLibrary_def fail_def)
next
  case (Inr c)
  obtain old isz where c: "c = (old, isz)" by (cases c)
  let ?L = "owned_libs (trace s)" and ?B = "owned_blocks (trace s)"
  let ?s0 = "new_module (nt_Characteristics (ram s) old AND 0x2000 \<noteq> 0) s"
  have start: "tracked ?L ?B ?s0" "no_modules ?s0" "md_codeBase ?s0 = 0"
    by (simp_all add: new_module_def tracked_def held_libs_def held_blocks_def)
  have loaded: "tracked ?L ?B s1" if "load_image w addr0 sz old isz ?s0 = Some (r, s1)" for r s1
    using accounts_load_image [OF assms, of ?L ?B addr0 sz old isz] start that unfolding accounts_def by blast
  show ?thesis
  proof (cases "load_image w addr0 sz old isz ?s0")
    case None
    then show ?thesis using Inr by (simp add: LoadLibrary_def c)
  next
    case (Some y)
    obtain r s1 where y: "y = (r, s1)" by (cases y)
    have tr: "tracked ?L ?B s1" using loaded Some by (simp add: y)
    obtain s2 where s2: "Free w s1 = Some (Inr (), s2)" "resource_view s2 = (?L, ?B, None, 0, [])"
      using Free_effect [OF tr] by blast
    note run = Inr Some s2(1)
    show ?thesis
    proof (cases r)
      case (Inl f)
      then show ?thesis
        using run s2(2)
        by (cases f) (auto simp: LoadLibrary_def c y bind_pe_def fail_def resource_view_def)
    next
      case (Inr u)
      then show ?thesis
        using run s2 tr by (auto simp: LoadLibrary_def c y resource_view_def tracked_def)
    qed
  qed
qed

text \<open>
  A file of 328 bytes at \<open>0x10000\<close> whose headers claim 16 MiB, in a process that gives out memory at
  \<open>0x40000000\<close>: the load fails after the image has been allocated.
\<close>

definition truncated_dll :: mem where
  "truncated_dll = (\<lambda>_. 0)(0x10000 := 0x4d, 0x10001 := 0x5a, 0x1003c := 0x40, 0x10040 := 0x50, 0x10041 := 0x45,
     0x10044 := 0x64, 0x10045 := 0x86, 0x10046 := 1, 0x10079 := 0x10, 0x10091 := 0x10, 0x10097 := 1)"

definition sample_win :: win where
  "sample_win tr c m = (Some 0x40000000, m)"

lemma load_balanced_witness:
  "\<exists>s'. LoadLibrary sample_win 0x10000 328 (module_at truncated_dll 0 0) =
          Some (Inl (Err ''Incomplete headers''), s') \<and>
        trace s' \<noteq> [] \<and> owned_blocks (trace s') = {#} \<and> owned_libs (trace s') = {#}"
proof -
  note rds = rd16_def rd32_def rd64_def rd_bytes truncated_dll_def
  have lf: "rd32 truncated_dll 0x1003c = 0x40" "rd16 truncated_dll 0x10000 = 0x5a4d" "rd32 truncated_dll 0x10040 = 0x4550"
    by (simp_all add: rds)
  have hdr: "nt_Machine truncated_dll 0x10040 = 0x8664" "opt_SectionAlignment truncated_dll 0x10040 = 0x1000"
    "opt_SizeOfImage truncated_dll 0x10040 = 0x1000" "Sections truncated_dll 0x10040 = (0x10058, 1)"
    "opt_ImageBase truncated_dll 0x10040 = 0" "opt_SizeOfHeaders truncated_dll 0x10040 = 0x1000000"
    by (simp_all add: nt_Machine_def opt_SectionAlignment_def opt_SizeOfImage_def Sections_def opt_ImageBase_def
        opt_SizeOfHeaders_def nt_NumberOfSections_def nt_SizeOfOptionalHeader_def rds)
  have sec: "sec_VirtualAddress truncated_dll 0x10058 = 0" "sec_SizeOfRawData truncated_dll 0x10058 = 0"
    by (simp_all add: sec_VirtualAddress_def sec_SizeOfRawData_def rds)
  have check: "LoadLibrary_check truncated_dll 0x10000 328 = Inr (0x10040, 0x1000)"
    by (simp add: LoadLibrary_check_def Let_def lf hdr sec alignUp_def)
  let ?s = "module_at truncated_dll 0 0"
  let ?c = "VirtualAlloc 0 0x1000 (MEM_RESERVE OR MEM_COMMIT)"
  obtain s' where run: "LoadLibrary sample_win 0x10000 328 ?s = Some (Inl (Err ''Incomplete headers''), s')"
    and tr: "trace s' \<noteq> []"
    by (simp add: LoadLibrary_def check module_at_def new_module_def load_image_def load_at_def alloc_image_def hdr
        bind_pe_def call_os_def sample_win_def update_def check4GBBoundaries.simps [of sample_win "0x1000"]
        copy_headers_def Let_def fail_def Free_def free_notify_def free_modules_def free_image_def free_blocked_def ok_def)
  have "no_zero sample_win" by (simp add: no_zero_def sample_win_def)
  from load_balanced [OF this, of "0x10000" 328 ?s "''Incomplete headers''" s'] run tr
  show ?thesis by (simp add: module_at_def owned_libs_def owned_blocks_def)
qed

end
