(* ===== verification/Pe_Exports.thy ===== *)
theory Pe_Exports
  imports Pe_Load
begin

text \<open>
  What the lookup of exported functions returns, against the export table in memory.
\<close>

lemma export_names_spec:
  assumes "\<forall>i < length ns. BytePtrToString m (cb + ucast (rd32 m (nameRef + of_nat (4 * i)))) = Some (ns ! i)"
    and "distinct ns"
  shows "\<exists>names. export_names m cb (length ns) nameRef ordRef acc = Some names \<and>
           (\<forall>i < length ns. names (ns ! i) = Some (rd16 m (ordRef + of_nat (2 * i)))) \<and>
           (\<forall>x. x \<notin> set ns \<longrightarrow> names x = acc x)"
  using assms
proof (induction ns arbitrary: nameRef ordRef acc)
  case (Cons n ns)
  have head: "BytePtrToString m (cb + ucast (rd32 m nameRef)) = Some n"
    using Cons.prems(1) [rule_format, of 0] by simp
  have rest: "\<forall>i < length ns. BytePtrToString m (cb + ucast (rd32 m (nameRef + 4 + of_nat (4 * i)))) = Some (ns ! i)"
  proof (intro allI impI)
    fix i assume "i < length ns"
    with Cons.prems(1) [rule_format, of "Suc i"]
    show "BytePtrToString m (cb + ucast (rd32 m (nameRef + 4 + of_nat (4 * i)))) = Some (ns ! i)"
      by (simp add: add.assoc)
  qed
  have "distinct ns" using Cons.prems(2) by simp
  from Cons.IH [OF rest this, of "ordRef + 2" "acc(n \<mapsto> rd16 m ordRef)"]
  obtain names where names: "export_names m cb (length ns) (nameRef + 4) (ordRef + 2) (acc(n \<mapsto> rd16 m ordRef)) = Some names"
    "\<forall>i < length ns. names (ns ! i) = Some (rd16 m (ordRef + 2 + of_nat (2 * i)))"
    "\<forall>x. x \<notin> set ns \<longrightarrow> names x = (acc(n \<mapsto> rd16 m ordRef)) x"
    by blast
  have "names ((n # ns) ! i) = Some (rd16 m (ordRef + of_nat (2 * i)))" if "i < length (n # ns)" for i
    using that names(2,3) Cons.prems(2) by (cases i) (simp_all add: add.assoc)
  then show ?case using head names(1,3) by simp
qed simp

text \<open>
  C21: the export table is a round trip. After \<open>buildNameExports\<close> every name of the table resolves to the
  image address of its own function, the entry of the function table that the name's ordinal
  selects, and no other name resolves. The bound on the ordinal is one too large: the ordinal equal to
  \<open>NumberOfFunctions\<close> is accepted and reads the word after the table.
\<close>

theorem export_lookup:
  assumes "directory = headerDirectory (ram s) (md_headers s) 0" and "snd directory \<noteq> 0"
    and "exports = md_codeBase s + ucast (fst directory)"
    and "unat (exp_NumberOfNames (ram s) exports) = length ns" and "ns \<noteq> []" and "distinct ns"
    and "exp_NumberOfFunctions (ram s) exports \<noteq> 0"
    and "\<forall>i < length ns. BytePtrToString (ram s) (md_codeBase s +
           ucast (rd32 (ram s) (md_codeBase s + ucast (exp_AddressOfNames (ram s) exports) + of_nat (4 * i)))) = Some (ns ! i)"
  shows "\<exists>s'. buildNameExports s = Some (Inr (), s') \<and>
           (\<forall>i < length ns.
              let idx = rd16 (ram s) (md_codeBase s + ucast (exp_AddressOfNameOrdinals (ram s) exports) + of_nat (2 * i))
              in ProcAddressByName s' (ns ! i) =
                   (if ucast idx \<le> exp_NumberOfFunctions (ram s) exports
                    then Inr (md_codeBase s + ucast (rd32 (ram s)
                           (md_codeBase s + ucast (exp_AddressOfFunctions (ram s) exports) + ucast idx * 4)))
                    else Inl (Err ''Ordinal number too high''))) \<and>
           (\<forall>x. x \<notin> set ns \<longrightarrow> ProcAddressByName s' x = Inl (Err ''Function not found by name''))"
proof -
  obtain names where names: "export_names (ram s) (md_codeBase s) (length ns)
      (md_codeBase s + ucast (exp_AddressOfNames (ram s) exports))
      (md_codeBase s + ucast (exp_AddressOfNameOrdinals (ram s) exports)) Map.empty = Some names"
    "\<forall>i < length ns. names (ns ! i) =
       Some (rd16 (ram s) (md_codeBase s + ucast (exp_AddressOfNameOrdinals (ram s) exports) + of_nat (2 * i)))"
    "\<forall>x. x \<notin> set ns \<longrightarrow> names x = None"
    using export_names_spec [OF assms(8,6), of "md_codeBase s + ucast (exp_AddressOfNameOrdinals (ram s) exports)" Map.empty]
    by auto
  let ?s' = "s\<lparr>md_nameExports := Some names\<rparr>"
  have "exp_NumberOfNames (ram s) exports \<noteq> 0" using assms(4,5) by auto
  then have "buildNameExports s = Some (Inr (), ?s')"
    using names(1) assms(1-4,7) by (simp add: buildNameExports_def Let_def ok_def)
  moreover have "ProcAddressByName ?s' (ns ! i) =
      (let idx = rd16 (ram s) (md_codeBase s + ucast (exp_AddressOfNameOrdinals (ram s) exports) + of_nat (2 * i))
       in if ucast idx \<le> exp_NumberOfFunctions (ram s) exports
          then Inr (md_codeBase s + ucast (rd32 (ram s)
                 (md_codeBase s + ucast (exp_AddressOfFunctions (ram s) exports) + ucast idx * 4)))
          else Inl (Err ''Ordinal number too high''))" if "i < length ns" for i
    using names(2) that assms(1-3) by (auto simp: ProcAddressByName_def Let_def function_at_def)
  moreover have "ProcAddressByName ?s' x = Inl (Err ''Function not found by name'')" if "x \<notin> set ns" for x
    using names(3) that assms(1-3) by (simp add: ProcAddressByName_def Let_def)
  ultimately show ?thesis by (auto simp: Let_def)
qed

text \<open>An image at \<open>0x10000\<close> that exports one function, \<open>a\<close>, at \<open>0x1000\<close>.\<close>

definition export_image :: mem where
  "export_image = (\<lambda>_. 0)(0x10089 := 2, 0x1008c := 1, 0x10214 := 1, 0x10218 := 1, 0x1021d := 3, 0x10221 := 4,
     0x10225 := 5, 0x10401 := 6, 0x10600 := 97, 0x10301 := 0x10)"

lemma export_lookup_witness:
  "\<exists>s'. buildNameExports (module_at export_image 0x10000 0x10000) = Some (Inr (), s') \<and>
        ProcAddressByName s' [97] = Inr 0x11000"
proof -
  note rds = rd16_def rd32_def rd_bytes export_image_def
  let ?s = "module_at export_image 0x10000 0x10000"
  have dir: "headerDirectory export_image 0x10000 0 = (0x200, 1)" by (simp add: headerDirectory_def rds)
  have exp: "exp_NumberOfFunctions export_image 0x10200 = 1" "exp_NumberOfNames export_image 0x10200 = 1"
    "exp_AddressOfFunctions export_image 0x10200 = 0x300" "exp_AddressOfNames export_image 0x10200 = 0x400"
    "exp_AddressOfNameOrdinals export_image 0x10200 = 0x500"
    by (simp_all add: exp_NumberOfFunctions_def exp_NumberOfNames_def exp_AddressOfFunctions_def
        exp_AddressOfNames_def exp_AddressOfNameOrdinals_def rds)
  have tab: "rd32 export_image 0x10400 = 0x600" "rd16 export_image 0x10500 = 0" "rd32 export_image 0x10300 = 0x1000"
    by (simp_all add: rds)
  have str: "BytePtrToString export_image 0x10600 = Some [97]"
    by (rule BytePtrToString_at) (simp_all add: export_image_def)
  from export_lookup [of "(0x200, 1)" ?s "0x10200" "[[97]]"] dir exp tab str
  show ?thesis by (auto simp: module_at_def Let_def)
qed

end
