(* ===== verification/Pe_Hook.thy ===== *)
theory Pe_Hook
  imports Pe_Load
begin

text \<open>
  The patch of \<open>kernelbase.dll\<close> in \<open>bin/memmod/memmod_windows.go\<close>: \<open>hookRtlPcToFileHeader\<close> finds the slot
  of \<open>RtlPcToFileHeader\<close> in the import table and puts a callback there, which answers for the code of
  modules loaded from memory. \<open>Pe_Load\<close> calls it as \<open>HookRtlPcToFileHeader\<close>.
\<close>

section \<open>Searching the import table\<close>

text \<open>
  \<open>strings.EqualFold(name, "ntdll.dll")\<close>: none of its letters has a case variant outside ASCII.
\<close>

definition lower_byte :: "byte \<Rightarrow> byte" where
  "lower_byte b = (if 0x41 \<le> b \<and> b \<le> 0x5a then b + 0x20 else b)"

definition ntdll_name :: bytes where
  "ntdll_name = [0x6e, 0x74, 0x64, 0x6c, 0x6c, 0x2e, 0x64, 0x6c, 0x6c]"

definition is_ntdll :: "bytes \<Rightarrow> bool" where
  "is_ntdll name \<longleftrightarrow> map lower_byte name = ntdll_name"

definition hooked_name :: bytes where
  "hooked_name =
     [0x52, 0x74, 0x6c, 0x50, 0x63, 0x54, 0x6f, 0x46, 0x69, 0x6c, 0x65, 0x48, 0x65, 0x61, 0x64, 0x65, 0x72]"

text \<open>The descriptor the first loop stops at, by name or at the end; the name is at offset 12.\<close>

partial_function (option) find_descriptor :: "mem \<Rightarrow> addr \<Rightarrow> addr \<Rightarrow> addr option" where
  "find_descriptor m base d =
     (if rd32 m (d + 12) = 0 then Some d
      else Option.bind (BytePtrToString m (base + ucast (rd32 m (d + 12))))
             (\<lambda>name. if is_ntdll name then Some d else find_descriptor m base (d + 20)))"

text \<open>The entries of both tables at which the second loop stops; the name follows a hint of 2 bytes.\<close>

definition names_hooked :: "mem \<Rightarrow> addr \<Rightarrow> u64 \<Rightarrow> bool option" where
  "names_hooked m base entry =
     (if entry AND 0x8000000000000000 = 0
      then map_option (\<lambda>name. name = hooked_name) (BytePtrToString m (base + entry + 2))
      else Some False)"

partial_function (option) find_thunk :: "mem \<Rightarrow> addr \<Rightarrow> addr \<Rightarrow> addr \<Rightarrow> (addr \<times> addr) option" where
  "find_thunk m base originalThunk thunk =
     (if rd64 m originalThunk = 0 then Some (originalThunk, thunk)
      else Option.bind (names_hooked m base (rd64 m originalThunk))
             (\<lambda>b. if b then Some (originalThunk, thunk)
                  else find_thunk m base (originalThunk + 8) (thunk + 8)))"

section \<open>The patch\<close>

text \<open>What Windows answers: the handle, both changes of protection and the address of the callback.\<close>

record hook_os =
  GetModuleHandleEx :: "u64 option"
  unprotect :: bool
  reprotect :: bool
  NewCallback :: u64

text \<open>
  The result of the function, the memory after it and, when the callback is in place, its slot with
  the function that was there. None stands for a search that does not end.
\<close>

definition hookRtlPcToFileHeader ::
  "hook_os \<Rightarrow> mem \<Rightarrow> (unit outcome \<times> mem \<times> (addr \<times> u64) option) option" where
  "hookRtlPcToFileHeader os m =
     (case GetModuleHandleEx os of
        None \<Rightarrow> Some (Inl (Err ''GetModuleHandleEx''), m, None)
      | Some base \<Rightarrow>
          (let headers = base + scast (rd32 m (base + 60));
               imports = headerDirectory m headers 1
           in Option.bind (find_descriptor m base (base + ucast (fst imports))) (\<lambda>d.
                if rd32 m (d + 12) = 0 then Some (Inl (Err ''ntdll.dll not found''), m, None)
                else
                  Option.bind (find_thunk m base (base + ucast (rd32 m d)) (base + ucast (rd32 m (d + 16))))
                    (\<lambda>(originalThunk, thunk).
                      if rd64 m originalThunk = 0 then Some (Inl (Err ''RtlPcToFileHeader not found''), m, None)
                      else if \<not> unprotect os then Some (Inl (Err ''VirtualProtect''), m, None)
                      else
                        Some (if reprotect os then Inr () else Inl (Err ''VirtualProtect''),
                              wr64 thunk (NewCallback os) m, Some (thunk, rd64 m thunk))))))"

text \<open>
  The callback: the address it passes to the function that was in the slot. For an address in a
  module loaded from memory it is the content of the slot.
\<close>

definition hook_callback :: "(addr \<times> addr) list \<Rightarrow> mem \<Rightarrow> addr \<Rightarrow> u64 \<Rightarrow> u64" where
  "hook_callback ranges m thunk pcValue =
     (if \<exists>(start, last) \<in> set ranges. start \<le> pcValue \<and> pcValue < last then rd64 m thunk else pcValue)"

section \<open>The slot is that of the function\<close>

lemma find_thunk_parallel:
  assumes "find_thunk m base ot th = Some (ot', th')"
  shows "(\<exists>k. ot' = ot + 8 * k \<and> th' = th + 8 * k) \<and>
    (rd64 m ot' = 0 \<or> names_hooked m base (rd64 m ot') = Some True)"
proof -
  have "(\<exists>k. fst y = ot + 8 * k \<and> snd y = th + 8 * k) \<and>
      (rd64 m (fst y) = 0 \<or> names_hooked m base (rd64 m (fst y)) = Some True)"
    if "find_thunk m base ot th = Some y" for m base ot th y
  proof (rule find_thunk.raw_induct [OF _ that])
    fix f m base ot th y
    assume IH: "\<And>m base ot th y. f m base ot th = Some y \<Longrightarrow>
        (\<exists>k. fst y = ot + 8 * k \<and> snd y = th + 8 * k) \<and>
        (rd64 m (fst y) = 0 \<or> names_hooked m base (rd64 m (fst y)) = Some True)"
      and body: "(if rd64 m ot = 0 then Some (ot, th)
        else Option.bind (names_hooked m base (rd64 m ot))
               (\<lambda>b. if b then Some (ot, th) else f m base (ot + 8) (th + 8))) = Some y"
    show "(\<exists>k. fst y = ot + 8 * k \<and> snd y = th + 8 * k) \<and>
        (rd64 m (fst y) = 0 \<or> names_hooked m base (rd64 m (fst y)) = Some True)"
    proof (cases "f m base (ot + 8) (th + 8) = Some y")
      case True
      then obtain k where k: "fst y = ot + 8 + 8 * k" "snd y = th + 8 + 8 * k"
          and n: "rd64 m (fst y) = 0 \<or> names_hooked m base (rd64 m (fst y)) = Some True"
        using IH by blast
      have "fst y = ot + 8 * (k + 1)" "snd y = th + 8 * (k + 1)"
        using k by (simp_all add: algebra_simps)
      then show ?thesis
        using n by blast
    next
      case False
      then have "y = (ot, th)" "rd64 m ot = 0 \<or> names_hooked m base (rd64 m ot) = Some True"
        using body by (auto simp: Option.bind_eq_Some_conv split: if_splits)
      then show ?thesis
        by (auto intro: exI [of _ 0])
    qed
  qed
  from this [OF assms] show ?thesis
    by simp
qed

text \<open>
  When the callback is in place, its slot is the entry of the address table that belongs to the
  name \<open>RtlPcToFileHeader\<close> in a descriptor of ntdll, nothing else of the memory has changed, and the
  callback passes on every address outside the loaded modules as it is; the end of a module is
  outside. This also holds when the last change of protection fails and an error is returned.
\<close>

theorem hook_patches_one_slot:
  assumes "hookRtlPcToFileHeader os m = Some (r, m', Some (thunk, original))"
    and "GetModuleHandleEx os = Some base"
  shows "original = rd64 m thunk \<and> rd64 m' thunk = NewCallback os \<and>
    (\<forall>x. x \<notin> at thunk 8 \<longrightarrow> m' x = m x) \<and>
    (\<exists>d k. thunk = base + ucast (rd32 m (d + 16)) + 8 * k \<and>
       names_hooked m base (rd64 m (base + ucast (rd32 m d) + 8 * k)) = Some True) \<and>
    (\<forall>ranges pc. hook_callback ranges m' thunk pc =
       (if \<exists>(start, last) \<in> set ranges. start \<le> pc \<and> pc < last then NewCallback os else pc))"
proof -
  obtain d ot where "find_thunk m base (base + ucast (rd32 m d)) (base + ucast (rd32 m (d + 16))) = Some (ot, thunk)"
      and "rd64 m ot \<noteq> 0" and m': "m' = wr64 thunk (NewCallback os) m" and orig: "original = rd64 m thunk"
    using assms by (auto simp: hookRtlPcToFileHeader_def Let_def Option.bind_eq_Some_conv split: if_splits)
  then have "\<exists>d k. thunk = base + ucast (rd32 m (d + 16)) + 8 * k \<and>
       names_hooked m base (rd64 m (base + ucast (rd32 m d) + 8 * k)) = Some True"
    using find_thunk_parallel by blast
  moreover have "wr64 thunk (NewCallback os) m x = m x" if "x \<notin> at thunk 8" for x
    unfolding wr64_def using that by (rule wr_outside) simp
  ultimately show ?thesis
    using m' orig by (simp add: hook_callback_def rd64_wr64)
qed

end
