(* ===== verification/Processes.thy ===== *)
theory Processes
  imports Steps
begin

text \<open>
  The two processes of the program: \<open>app/v2/main.go\<close> starts a daemon and watches it, the daemon runs the
  client and watches its parent. \<open>tool/procTool\<close> holds the watching: \<open>procTool_linux.go\<close> and
  \<open>procTool_windows.go\<close> are the same code over what each system answers, which is written down as
  its documentation states it.
\<close>

section \<open>The monitors (procTool_linux.go, procTool_windows.go)\<close>

text \<open>
  What one turn sees: whether \<open>FindProcess\<close> finds the process and, if so, the two results of \<open>Wait\<close>,
  the state (nil, or whether the process exited) and whether there is an error.
\<close>

record answer =
  found :: bool
  wait_state :: "bool option"
  wait_error :: bool

text \<open>Whether a turn sends on the channel and ends the loop.\<close>

definition parent_turn :: "answer \<Rightarrow> bool" where
  "parent_turn a \<longleftrightarrow> \<not> found a \<or> wait_state a = Some True"

text \<open>
  The loop of \<open>monitorParentProcess\<close>; the result is the turn at which it sends. \<open>os n\<close> is what the
  turn \<open>n\<close> sees of the process that was the parent at the start. Between turns it sleeps.
\<close>

partial_function (option) monitorParentProcess :: "(nat \<Rightarrow> answer) \<Rightarrow> nat \<Rightarrow> nat option" where
  "monitorParentProcess os n = (if parent_turn (os n) then Some n else monitorParentProcess os (Suc n))"

declare monitorParentProcess.simps [code]

text \<open>\<open>monitorDaemonProcess\<close> waits once; the process is nil or the answer is that of \<open>Wait\<close>.\<close>

definition monitorDaemonProcess :: "answer option \<Rightarrow> bool" where
  "monitorDaemonProcess p = (case p of None \<Rightarrow> True | Some a \<Rightarrow> wait_state a = Some True)"

lemma monitorParentProcess_first:
  assumes "monitorParentProcess os n = Some k"
  shows "n \<le> k \<and> parent_turn (os k) \<and> (\<forall>j. n \<le> j \<and> j < k \<longrightarrow> \<not> parent_turn (os j))"
proof (rule monitorParentProcess.raw_induct [OF _ assms])
  fix rec os n k
  assume IH: "\<And>os n k. rec os n = Some k \<Longrightarrow>
      n \<le> k \<and> parent_turn (os k) \<and> (\<forall>j. n \<le> j \<and> j < k \<longrightarrow> \<not> parent_turn (os j))"
    and body: "(if parent_turn (os n) then Some n else rec os (Suc n)) = Some k"
  show "n \<le> k \<and> parent_turn (os k) \<and> (\<forall>j. n \<le> j \<and> j < k \<longrightarrow> \<not> parent_turn (os j))"
  proof (cases "parent_turn (os n)")
    case True
    then show ?thesis
      using body by auto
  next
    case False
    then have "Suc n \<le> k" "parent_turn (os k)" "\<forall>j. Suc n \<le> j \<and> j < k \<longrightarrow> \<not> parent_turn (os j)"
      using IH [of os "Suc n" k] body by simp_all
    then show ?thesis
      using False by (metis Suc_leD le_neq_implies_less less_eq_Suc_le)
  qed
qed

lemma monitorParentProcess_Some:
  "monitorParentProcess os n = Some k \<longleftrightarrow>
     n \<le> k \<and> parent_turn (os k) \<and> (\<forall>j. n \<le> j \<and> j < k \<longrightarrow> \<not> parent_turn (os j))"
proof
  assume "monitorParentProcess os n = Some k"
  then show "n \<le> k \<and> parent_turn (os k) \<and> (\<forall>j. n \<le> j \<and> j < k \<longrightarrow> \<not> parent_turn (os j))"
    by (rule monitorParentProcess_first)
next
  assume "n \<le> k \<and> parent_turn (os k) \<and> (\<forall>j. n \<le> j \<and> j < k \<longrightarrow> \<not> parent_turn (os j))"
  then show "monitorParentProcess os n = Some k"
  proof (induction "k - n" arbitrary: n)
    case 0
    then show ?case
      by (subst monitorParentProcess.simps) simp
  next
    case (Suc m)
    then have "n < k"
      by simp
    then have "\<not> parent_turn (os n)" "monitorParentProcess os (Suc n) = Some k"
      using Suc(1) [of "Suc n"] Suc(2,3) by simp_all
    then show ?case
      by (subst monitorParentProcess.simps) simp
  qed
qed

section \<open>What the systems answer\<close>

text \<open>
  A process is up, on its way out of its monitor, ended by itself, or ended by a signal it cannot
  catch. On Linux \<open>FindProcess\<close> always succeeds, \<open>Wait\<close> fails for a process that is not a child, and
  \<open>Exited\<close> is false for a child that was killed; on Windows a process can be waited for by any other
  and every ended process has exited.
\<close>

datatype platform = Linux | Windows

datatype pstate = Up | Leaving | Exited | Killed

definition alive :: "pstate \<Rightarrow> bool" where
  "alive p \<longleftrightarrow> p = Up \<or> p = Leaving"

text \<open>What the daemon's turns see of its parent; a \<open>Wait\<close> that blocks is no answer.\<close>

definition parent_answer :: "platform \<Rightarrow> pstate \<Rightarrow> answer option" where
  "parent_answer os parent =
     (case os of
        Linux \<Rightarrow> Some \<lparr>found = True, wait_state = None, wait_error = True\<rparr>
      | Windows \<Rightarrow>
          if alive parent then None else Some \<lparr>found = True, wait_state = Some True, wait_error = False\<rparr>)"

definition daemon_answer :: "platform \<Rightarrow> pstate \<Rightarrow> answer option" where
  "daemon_answer os daemon =
     (if alive daemon then None
      else Some \<lparr>found = True, wait_state = Some (os = Windows \<or> daemon = Exited), wait_error = False\<rparr>)"

text \<open>
  On Linux the monitor of the parent never sends: whatever becomes of the parent over time, no turn
  sees it end.
\<close>

lemma parent_watch_is_blind:
  "monitorParentProcess (\<lambda>n. the (parent_answer Linux (history n))) k = None"
proof (rule ccontr)
  assume "monitorParentProcess (\<lambda>n. the (parent_answer Linux (history n))) k \<noteq> None"
  then obtain j where "monitorParentProcess (\<lambda>n. the (parent_answer Linux (history n))) k = Some j"
    by blast
  then show False
    by (simp add: monitorParentProcess_Some parent_turn_def parent_answer_def)
qed

section \<open>Both processes\<close>

text \<open>
  \<open>main\<close> is the daemon when its first argument says so. Otherwise it starts the daemon,
  waits in \<open>ManageDaemonMonitor\<close> for a signal or for the channel, and sends an interrupt to the daemon,
  which Windows does not support. The daemon waits in \<open>InitDaemonMonitor\<close> in the same way.
\<close>

definition PROC_DAEMON :: string where "PROC_DAEMON = ''daemon''"

definition is_daemon :: "string list \<Rightarrow> bool" where
  "is_daemon args \<longleftrightarrow> 1 < length args \<and> args ! 1 = PROC_DAEMON"

record processes =
  parent :: pstate
  daemon :: pstate

datatype process_event =
  ParentSignalled | DaemonSignalled | ParentKilled | DaemonKilled | DaemonEnds
| ParentNotices | DaemonNotices | ParentLeaves | DaemonLeaves

text \<open>
  The \<open>select\<close> loops return at the first signal or message. \<open>ParentLeaves\<close> is the rest of \<open>main\<close>:
  the interrupt and the end; \<open>DaemonLeaves\<close> is the end of the client. \<open>DaemonEnds\<close> stands for
  every other end of the daemon, such as a panic or a device that cannot be created.
\<close>

inductive process_step :: "platform \<Rightarrow> processes \<Rightarrow> process_event \<Rightarrow> processes \<Rightarrow> bool" for os where
  signal_parent: "parent w = Up \<Longrightarrow> process_step os w ParentSignalled (w\<lparr>parent := Leaving\<rparr>)"
| signal_daemon: "daemon w = Up \<Longrightarrow> process_step os w DaemonSignalled (w\<lparr>daemon := Leaving\<rparr>)"
| kill_parent: "alive (parent w) \<Longrightarrow> process_step os w ParentKilled (w\<lparr>parent := Killed\<rparr>)"
| kill_daemon: "alive (daemon w) \<Longrightarrow> process_step os w DaemonKilled (w\<lparr>daemon := Killed\<rparr>)"
| end_daemon: "alive (daemon w) \<Longrightarrow> process_step os w DaemonEnds (w\<lparr>daemon := Exited\<rparr>)"
| parent_notices: "parent w = Up \<Longrightarrow> daemon_answer os (daemon w) = Some a \<Longrightarrow>
    monitorDaemonProcess (Some a) \<Longrightarrow> process_step os w ParentNotices (w\<lparr>parent := Leaving\<rparr>)"
| daemon_notices: "daemon w = Up \<Longrightarrow> parent_answer os (parent w) = Some a \<Longrightarrow>
    parent_turn a \<Longrightarrow> process_step os w DaemonNotices (w\<lparr>daemon := Leaving\<rparr>)"
| parent_leaves: "parent w = Leaving \<Longrightarrow>
    process_step os w ParentLeaves
      (w\<lparr>parent := Exited, daemon := (if os = Linux \<and> daemon w = Up then Leaving else daemon w)\<rparr>)"
| daemon_leaves: "daemon w = Leaving \<Longrightarrow> process_step os w DaemonLeaves (w\<lparr>daemon := Exited\<rparr>)"

inductive_simps process_step_simps [simp]:
  "process_step os w ParentSignalled w'"
  "process_step os w DaemonSignalled w'"
  "process_step os w ParentKilled w'"
  "process_step os w DaemonKilled w'"
  "process_step os w DaemonEnds w'"
  "process_step os w ParentNotices w'"
  "process_step os w DaemonNotices w'"
  "process_step os w ParentLeaves w'"
  "process_step os w DaemonLeaves w'"

abbreviation processes_run :: "platform \<Rightarrow> processes \<Rightarrow> process_event list \<Rightarrow> processes \<Rightarrow> bool" where
  "processes_run os \<equiv> runs (process_step os)"

definition both_up :: processes where
  "both_up = \<lparr>parent = Up, daemon = Up\<rparr>"

text \<open>The steps the program makes by itself.\<close>

definition own_event :: "process_event \<Rightarrow> bool" where
  "own_event ev \<longleftrightarrow> ev \<in> {ParentNotices, DaemonNotices, ParentLeaves, DaemonLeaves}"

definition settled :: "platform \<Rightarrow> processes \<Rightarrow> bool" where
  "settled os w \<longleftrightarrow> (\<forall>ev w'. own_event ev \<longrightarrow> \<not> process_step os w ev w')"

fun work_left :: "pstate \<Rightarrow> nat" where
  "work_left Up = 2"
| "work_left Leaving = 1"
| "work_left _ = 0"

lemma own_step_work:
  "process_step os w ev w' \<Longrightarrow> own_event ev \<Longrightarrow>
     work_left (parent w') + work_left (daemon w') < work_left (parent w) + work_left (daemon w)"
  by (cases ev) (auto simp: own_event_def split: if_splits)

lemma settled_iff:
  "settled os w \<longleftrightarrow>
     parent w \<noteq> Leaving \<and> daemon w \<noteq> Leaving \<and>
     \<not> (parent w = Up \<and> (\<exists>a. daemon_answer os (daemon w) = Some a \<and> monitorDaemonProcess (Some a))) \<and>
     \<not> (daemon w = Up \<and> (\<exists>a. parent_answer os (parent w) = Some a \<and> parent_turn a))"
  (is "_ = ?r")
proof
  assume "settled os w"
  then have no: "\<not> process_step os w ev w'" if "own_event ev" for ev w'
    using that by (simp add: settled_def)
  show ?r
    using no [of ParentNotices "w\<lparr>parent := Leaving\<rparr>"] no [of DaemonNotices "w\<lparr>daemon := Leaving\<rparr>"]
      no [of ParentLeaves] no [of DaemonLeaves]
    by (auto simp: own_event_def)
next
  assume ?r
  then show "settled os w"
    by (auto simp: settled_def own_event_def)
qed

text \<open>On Linux a parent that has ended by itself has interrupted the daemon.\<close>

definition interrupts :: "processes \<Rightarrow> bool" where
  "interrupts w \<longleftrightarrow> parent w = Exited \<longrightarrow> daemon w \<noteq> Up"

lemma interrupts_step: "process_step Linux w ev w' \<Longrightarrow> interrupts w \<Longrightarrow> interrupts w'"
  by (cases ev) (auto simp: interrupts_def split: if_splits)

interpretation interrupts: invariant "process_step Linux" "\<lambda>_. True" interrupts
  by unfold_locales (rule interrupts_step)

lemma daemon_interrupted: "processes_run Linux both_up evs w \<Longrightarrow> parent w = Exited \<Longrightarrow> daemon w \<noteq> Up"
  using interrupts.runs_keep [of both_up evs w] by (simp add: list_all_iff interrupts_def both_up_def)

text \<open>The steps of their own use up the work that is left.\<close>

definition both_left :: "processes \<Rightarrow> nat" where
  "both_left w = work_left (parent w) + work_left (daemon w)"

interpretation work: ranking "process_step os" own_event both_left for os
proof unfold_locales
  fix w ev w'
  assume step: "process_step os w ev w'"
  show "own_event ev \<Longrightarrow> both_left w' < both_left w"
    using own_step_work [OF step] by (simp add: both_left_def)
  assume "\<not> own_event ev"
  with step have "work_left (parent w') \<le> work_left (parent w)" "work_left (daemon w') \<le> work_left (daemon w)"
    by (cases ev; force simp: own_event_def alive_def)+
  then show "both_left w' \<le> both_left w"
    by (simp add: both_left_def)
qed



end
