(* ===== verification/Client.thy ===== *)
theory Client
  imports Processes Linux_Rules
begin

text \<open>
  How the program is put together: \<open>app/v2/main.go\<close>, \<open>app/v2/client/client.go\<close> and the start of the
  daemon in \<open>tool/procTool/procTool.go\<close>, over the operations of the components; and the client on
  Linux with the policy rules of \<open>Linux_Rules\<close>.
\<close>

section \<open>The client (client.go)\<close>

text \<open>The operations of the client; \<open>Wait\<close> is \<open>InitDaemonMonitor\<close>.\<close>

record ('os, 'd) client_ops =
  InitRoute :: "('os, unit) io"
  NewDevice :: "('os, 'd) io"
  dev_InitGateway :: "'d \<Rightarrow> ('os, unit) io"
  dev_Config :: "'d \<Rightarrow> ('os, unit) io"
  dev_Close :: "'d \<Rightarrow> ('os, unit) io"
  gv_Start :: "'d \<Rightarrow> ('os, unit) io"
  InitDaemonMonitor :: "('os, unit) io"

text \<open>An error that is only logged; a panic goes on.\<close>

definition logged :: "('os, 'a) io \<Rightarrow> ('os, unit) io" where
  "logged f s = (case f s of (Inl (Panic p), s') \<Rightarrow> (Inl (Panic p), s') | (_, s') \<Rightarrow> (Inr (), s'))"

lemma preserves_logged [preserving]: "preserves view f \<Longrightarrow> preserves view (logged f)"
  by (rule preservesI) (auto simp: logged_def split: prod.splits sum.splits failure.splits dest: preservesD)

lemma ends_bind:
  assumes "P (snd (f s))" and "\<And>x s'. P s' \<Longrightarrow> P (snd (g x s'))"
  shows "P (snd (bind_io f g s))"
  using assms by (auto simp: bind_io_def split: prod.split sum.split)

text \<open>
  \<open>Close\<close> is deferred after \<open>Config\<close>, so it runs after a panic of \<open>Start\<close> but not after one of \<open>InitGateway\<close>
  or \<open>Config\<close>; its result is dropped.
\<close>

definition CreateClient :: "('os, 'd) client_ops \<Rightarrow> ('os, unit) io" where
  "CreateClient c =
     bind_io (InitRoute c) (\<lambda>_ s.
       case NewDevice c s of
         (Inl (Panic p), s1) \<Rightarrow> (Inl (Panic p), s1)
       | (Inl (Err e), s1) \<Rightarrow> (Inr (), s1)
       | (Inr dev, s1) \<Rightarrow>
           bind_io (dev_InitGateway c dev) (\<lambda>_.
           bind_io (logged (dev_Config c dev)) (\<lambda>_.
             bracket_io (return_io dev) (\<lambda>d s. snd (dev_Close c d s))
               (\<lambda>_. bind_io (logged (gv_Start c dev)) (\<lambda>_. InitDaemonMonitor c)))) s1)"

section \<open>What the client promises over a device\<close>

text \<open>
  The contract between the client and a device, on a part \<open>view\<close> of the system's state: nothing before
  \<open>Config\<close> changes it, and \<open>Close\<close> turns it into \<open>left\<close>, which is the view at the start once \<open>Config\<close> has run
  and stays so while the client works.
\<close>

locale restoring_device =
  fixes c :: "('os, 'd) client_ops" and view :: "'os \<Rightarrow> 'v" and left :: "'os \<Rightarrow> 'v" and v :: 'v
  assumes init_keeps: "preserves view (InitRoute c)"
    and create_keeps: "preserves view (NewDevice c)"
    and gateway_keeps: "preserves view (dev_InitGateway c d)"
    and config_left: "view s = v \<Longrightarrow> left (snd (dev_Config c d s)) = v"
    and config_calm: "fst (dev_Config c d s) \<noteq> Inl (Panic p)"
    and start_keeps: "preserves left (gv_Start c d)"
    and wait_keeps: "preserves left (InitDaemonMonitor c)"
    and close_view: "view (snd (dev_Close c d s)) = left s"
begin

lemma configured: "logged (dev_Config c d) s = (Inr (), snd (dev_Config c d s))"
  using config_calm [of d s] by (cases "dev_Config c d s") (auto simp: logged_def split: sum.split failure.split)

lemma work_leaves:
  assumes "view s = v"
  shows "view (snd (bind_io (logged (dev_Config c d)) (\<lambda>_.
           bracket_io (return_io d) (\<lambda>d s. snd (dev_Close c d s))
             (\<lambda>_. bind_io (logged (gv_Start c d)) (\<lambda>_. InitDaemonMonitor c))) s)) = v"
proof -
  let ?work = "bind_io (logged (gv_Start c d)) (\<lambda>_. InitDaemonMonitor c)"
  let ?s1 = "snd (dev_Config c d s)"
  obtain m s2 where m: "?work ?s1 = (m, s2)"
    by fastforce
  have "preserves left ?work"
    by (intro preserves_bind preserves_logged start_keeps wait_keeps)
  then have "left (snd (?work ?s1)) = left ?s1"
    unfolding preserves_def by (rule spec)
  then have "left s2 = v"
    by (simp only: m snd_conv config_left [OF assms])
  moreover have "bracket_io (return_io d) (\<lambda>d s. snd (dev_Close c d s)) (\<lambda>_. ?work) ?s1 = (m, snd (dev_Close c d s2))"
    by (simp only: bracket_io_def bind_io_simps m prod.case)
  ultimately show ?thesis
    by (simp only: bind_io_step [where f = "logged (dev_Config c d)", OF configured] snd_conv close_view)
qed

lemma client_leaves:
  assumes "view s = v"
  shows "view (snd (CreateClient c s)) = v"
proof -
  obtain a s1 where a: "InitRoute c s = (a, s1)"
    by fastforce
  obtain b s2 where b: "NewDevice c s1 = (b, s2)"
    by fastforce
  have s2: "view s1 = v" "view s2 = v"
    using assms preservesD [OF init_keeps a] preservesD [OF create_keeps b] by simp_all
  have "view (snd (bind_io (dev_InitGateway c d) (\<lambda>_. bind_io (logged (dev_Config c d)) (\<lambda>_.
      bracket_io (return_io d) (\<lambda>d s. snd (dev_Close c d s))
        (\<lambda>_. bind_io (logged (gv_Start c d)) (\<lambda>_. InitDaemonMonitor c)))) s2)) = v" for d
  proof (rule ends_bind)
    show "view (snd (dev_InitGateway c d s2)) = v"
      using gateway_keeps [of d] s2 by (simp add: preserves_def)
  qed (rule work_leaves)
  with a b s2 show ?thesis
    by (cases a; cases b) (simp_all add: CreateClient_def bind_io_def [of "InitRoute c"] split: failure.split)
qed

end

section \<open>main and the start of the daemon\<close>

record 'os proc_api =
  Abs :: "string \<Rightarrow> string outcome"
  StdoutPipe :: "('os, unit) io"
  Start :: "string \<Rightarrow> string list \<Rightarrow> ('os, nat) io"

text \<open>The error of \<open>Abs\<close> is dropped and the path is then empty; that of the pipe is logged.\<close>

definition CreatChildProcess :: "'os proc_api \<Rightarrow> string \<Rightarrow> string list \<Rightarrow> ('os, nat) io" where
  "CreatChildProcess api arg0 args =
     (let filePath = (case Abs api arg0 of Inl _ \<Rightarrow> [] | Inr p \<Rightarrow> p)
      in bind_io (logged (StdoutPipe api)) (\<lambda>_. Start api filePath args))"

definition CLIENT :: string where "CLIENT = ''client''"

text \<open>
  \<open>log\<close> is \<open>CreatLog\<close>, \<open>decode\<close> reads the configuration file, \<open>client\<close> is \<open>CreateClient\<close> with the package
  variables, \<open>watch\<close> is \<open>ManageDaemonMonitor\<close> and \<open>interrupt\<close> the signal after it.
\<close>

definition main_daemon ::
  "('os, unit) io \<Rightarrow> ('os, ContextConfig) io \<Rightarrow> (globals \<Rightarrow> ('os, unit) io) \<Rightarrow> globals \<Rightarrow> ('os, unit) io" where
  "main_daemon log decode client g =
     bind_io log (\<lambda>_.
     bind_io (must_io decode) (\<lambda>c.
       if app_Context (cfg_App c) = CLIENT then client (SetContextConfig g c) else return_io ()))"

definition main_parent ::
  "'os proc_api \<Rightarrow> (nat \<Rightarrow> ('os, unit) io) \<Rightarrow> (nat \<Rightarrow> ('os, unit) io) \<Rightarrow> string list \<Rightarrow> ('os, unit) io" where
  "main_parent api watch interrupt args s =
     (case CreatChildProcess api (hd args) [PROC_DAEMON] s of
        (Inl (Panic p), s1) \<Rightarrow> (Inl (Panic p), s1)
      | (Inl (Err e), s1) \<Rightarrow> (Inr (), s1)
      | (Inr pid, s1) \<Rightarrow> bind_io (watch pid) (\<lambda>_. logged (interrupt pid)) s1)"

definition main ::
  "('os, unit) io \<Rightarrow> ('os, ContextConfig) io \<Rightarrow> (globals \<Rightarrow> ('os, unit) io) \<Rightarrow> globals \<Rightarrow>
   'os proc_api \<Rightarrow> (nat \<Rightarrow> ('os, unit) io) \<Rightarrow> (nat \<Rightarrow> ('os, unit) io) \<Rightarrow> string list \<Rightarrow> ('os, unit) io" where
  "main log decode client g api watch interrupt args =
     (if is_daemon args then main_daemon log decode client g else main_parent api watch interrupt args)"

text \<open>The daemon that \<open>main\<close> starts takes the other branch, so it starts no process of its own.\<close>

lemma started_daemon_is_daemon: "is_daemon [arg0, PROC_DAEMON]"
  by (simp add: is_daemon_def)

section \<open>The client on Linux\<close>

text \<open>
  The state is the device with its rules and the state of the system; the other operations are
  arguments. \<open>Config\<close> and \<open>Close\<close> are those of \<open>Linux_Rules\<close>.
\<close>

definition linux_client ::
  "'os netlink \<Rightarrow> (CustomRoute list \<Rightarrow> CustomRoute list) \<Rightarrow> globals \<Rightarrow> ('os, unit) io \<Rightarrow>
   (linux_device \<times> 'os, unit) client_ops \<Rightarrow> (linux_device \<times> 'os, unit) client_ops" where
  "linux_client nl srt g tun_Close ops =
     ops\<lparr>dev_Config := (\<lambda>_. bind_io (Config nl srt g) (\<lambda>_. return_io ())),
         dev_Close := (\<lambda>_ (d, s). on_kernel (Close nl tun_Close d) (d, s))\<rparr>"

text \<open>
  The rules that \<open>Close\<close> leaves, and what the other operations do to them: before \<open>Config\<close> nothing;
  \<open>Start\<close> and the wait, during which the update goroutine deletes and adds the source rule, touch no
  rule but those of the device.
\<close>

definition foreign_rules :: "('os \<Rightarrow> ip_rule set) \<Rightarrow> linux_device \<times> 'os \<Rightarrow> ip_rule set" where
  "foreign_rules rules = (\<lambda>(d, s). rules s - listed d)"

definition rules_apart :: "('os \<Rightarrow> ip_rule set) \<Rightarrow> (linux_device \<times> 'os, unit) client_ops \<Rightarrow> ('os, unit) io \<Rightarrow> bool" where
  "rules_apart rules ops tun_Close \<longleftrightarrow>
     preserves (rules \<circ> snd) (InitRoute ops) \<and> preserves (rules \<circ> snd) (NewDevice ops) \<and>
     preserves (rules \<circ> snd) (dev_InitGateway ops ()) \<and> preserves rules tun_Close \<and>
     preserves (foreign_rules rules) (gv_Start ops ()) \<and>
     preserves (foreign_rules rules) (InitDaemonMonitor ops)"

lemma Close_rules_foreign:
  assumes "documented_rules nl rules" and "preserves rules tun_Close"
  shows "rules (snd (snd (on_kernel (Close nl tun_Close d) (d, s)))) = rules s - listed d"
proof -
  obtain r s' where "tun_Close (Close_rules nl d s) = (r, s')"
    by fastforce
  then show ?thesis
    using preservesD [OF assms(2)] delete_rules_spec [OF assms(1)]
    by (simp add: on_kernel_def Close_def Close_rules_def listed_def)
qed

lemma bind_unit: "snd (bind_io f (\<lambda>_. return_io ()) s) = snd (f s)"
  by (auto simp: bind_io_def return_io_def split: prod.split sum.split)

text \<open>The device of Linux keeps the contract, with netlink as documented.\<close>

locale linux_client_rules =
  fixes nl :: "'os netlink" and rules :: "'os \<Rightarrow> ip_rule set" and srt g ops tun_Close R
  assumes netlink: "documented_rules nl rules" and apart: "rules_apart rules ops tun_Close"
    and calm: "\<forall>s. \<not> (\<exists>p. fst (Config nl srt g s) = Inl (Panic p))"
    and fresh: "set (config_rules nl srt g) \<inter> R = {}"

sublocale linux_client_rules \<subseteq>
  restoring_device "linux_client nl srt g tun_Close ops" "rules \<circ> snd" "foreign_rules rules" R
proof (unfold_locales, goal_cases)
  case (4 s d)
  obtain d0 s0 where s: "s = (d0, s0)"
    by fastforce
  have "config_inv rules R (set (config_rules nl srt g)) (snd (Config nl srt g s))"
    using keeps_config_body [OF netlink, of s0 srt g d0] 4 s by simp
  then have "foreign_rules rules (snd (Config nl srt g s)) = R"
    using fresh by (auto simp: config_inv_def foreign_rules_def)
  then show ?case
    by (simp add: linux_client_def bind_unit)
next
  case (5 d s p)
  then show ?case
    using spec [OF calm, of s]
    by (cases "Config nl srt g s") (auto simp: linux_client_def bind_io_def return_io_def split: sum.splits)
next
  case (8 d s)
  show ?case
    using Close_rules_foreign [OF netlink, of tun_Close] apart
    by (cases s) (simp add: rules_apart_def linux_client_def foreign_rules_def)
qed (use apart in \<open>simp_all add: rules_apart_def linux_client_def\<close>)

context linux_client_rules begin

lemma rules_restored:
  "rules s = R \<Longrightarrow> rules (snd (snd (CreateClient (linux_client nl srt g tun_Close ops) (d, s)))) = R"
  using client_leaves [of "(d, s)"] by simp

end


text \<open>The demonstration system of \<open>Linux_Rules\<close>, whose \<open>Config\<close> ends with an error.\<close>

definition demo_ops :: "(linux_device \<times> ip_rule set, unit) client_ops" where
  "demo_ops =
     \<lparr>InitRoute = return_io (), NewDevice = return_io (), dev_InitGateway = (\<lambda>_. return_io ()),
      dev_Config = (\<lambda>_. return_io ()), dev_Close = (\<lambda>_. return_io ()),
      gv_Start = (\<lambda>_. raise_io (Panic ''start'')), InitDaemonMonitor = return_io ()\<rparr>"

lemma demo_apart: "rules_apart id demo_ops (return_io ())"
  by (simp add: rules_apart_def demo_ops_def preserves_def return_io_def raise_io_def)

lemma demo_no_panic: "fst (Config demo_netlink id g ds) \<noteq> Inl (Panic p)"
  by (cases ds) (simp add: Config_def bind_io_def add_rule_def on_kernel_def demo_netlink_def Let_def
      return_io_def EEXIST_def)

interpretation demo_client: linux_client_rules demo_netlink id id init_globals demo_ops "return_io ()" "{}"
  using demo_no_panic by unfold_locales (simp_all add: demo_documented demo_apart)


end
