(* ===== verification/Spec2Isabelle.thy ===== *)
theory Spec2Isabelle
  imports Prelude Steps Io Go_Net Go_Addr Go_Sort Layout
    Model Route Route_Types Win_Routes
    Checksum Doh Dialer Stream_Copy Log_Tool
    Udp_State Udp_Forwarder Udp_Stack Tcp_Handler Endpoint Gv_Start
    Win_Types Win_Layout Win_Views Win_Calls Win_Change Win_Ip Win_Dns Enums
    Tun_Config Linux_Device Linux_Rules Win_Filter Windows_Device Fwp_Layout
    Pe_Layout Pe_Memory Pe_Reloc Pe_Module Pe_Sections Pe_Load Pe_Resources Pe_Exports Pe_Hook
    Processes Client
begin

text \<open>
  A verification library for anApp, a proxy client written in Go: a TUN device catches the traffic of
  a machine, a user-space network stack (gvisor) turns it into connections and datagrams, and the
  program forwards them over the interface its own route table selects, answering DNS over HTTPS
  where it is told to. The repository also carries a copy of the Windows IP configuration package
  winipcfg, bindings of the Windows Filtering Platform, and a loader that runs a DLL from memory.

  \<^bold>\<open>How the program works.\<close> \<open>app/v2/main.go\<close> starts a daemon and watches it. The daemon runs
  \<open>app/v2/client\<close>: it follows the system's routes (\<open>model\<close>), creates the device and configures its
  addresses, routes, policy rules and DNS (\<open>device\<close>, on Windows over \<open>winipcfg\<close> and \<open>winsys\<close>), and starts
  the stack (\<open>gv\<close>), which reads packets from the device through the link endpoint (\<open>endpoint\<close>) and
  hands each connection or datagram to a handler (\<open>handler/remoteSocketHandler\<close>). A handler selects a
  route (\<open>model/route.go\<close>), dials through a socket bound to its interface (\<open>protocol/socket\<close>) or asks a
  DNS server over HTTPS (\<open>protocol/dns\<close>), and copies the replies back (\<open>tool/ioutil\<close>).

  \<^bold>\<open>Shared theories.\<close>
  \<^item> \<open>Prelude\<close>: words for the integers of Go at their widths, \<open>outcome\<close> for a Go call (a value, an error or a
    panic, so every early return and panic of the code is a branch of its model), shared lemmas.
  \<^item> \<open>Steps\<close>: runs and reachable states of a step relation, and the contracts \<open>invariant\<close>, \<open>safety\<close> and
    \<open>ranking\<close>, which every component with goroutines, locks or processes interprets for its own steps.
  \<^item> \<open>Io\<close>: computations over a state of the operating system that only the calls read and write;
    \<open>preserves\<close> for what a computation leaves as it was, \<open>bracket_io\<close> for \<open>defer\<close>.
  \<^item> \<open>Go_Net\<close>, \<open>Go_Addr\<close>, \<open>Go_Sort\<close>: what the code computes with of \<open>net\<close>, \<open>net/netip\<close>, \<open>strconv\<close> and \<open>sort\<close>:
    parsers and printers of addresses, CIDR networks, host and port strings, and the contract of
    \<open>sort.Sort\<close> as a locale, interpreted on the comparison of routes.
  \<^item> \<open>Layout\<close>, \<open>Pe_Memory\<close>: how Go lays out a struct on each architecture, and memory as bytes at 64-bit
    addresses.

  \<^bold>\<open>Components and their sources.\<close>
  \<^item> \<open>Model\<close> (\<open>model/contextConfig.go\<close>, \<open>CONST.go\<close>, \<open>ipConfig.go\<close>): configuration and package variables.
  \<^item> \<open>Route\<close>, \<open>Route_Types\<close> (\<open>model/route*.go\<close>): selection, both builders of the route table, the adapter
    addresses; the caches of the Windows builder are shown to be transparent, and every route well
    typed. \<open>Win_Routes\<close> (\<open>model/route_windows.go\<close>): the callbacks that follow changes.
  \<^item> \<open>Udp_Stack\<close>, \<open>Udp_State\<close>, \<open>Udp_Forwarder\<close> (\<open>handler/remoteSocketHandler/udp\<close>): dispatch of packets, the flow
    table with every interleaving of its goroutines, and the reverse NAT forwarder with its janitor.
  \<^item> \<open>Tcp_Handler\<close> (\<open>handler/remoteSocketHandler/tcp\<close>): accepting, dialling and the life of both sockets.
  \<^item> \<open>Endpoint\<close> (\<open>endpoint\<close>, \<open>device/tun.go\<close>), \<open>Gv_Start\<close> (\<open>gv\<close>): the link endpoint and the set-up of the stack.
  \<^item> \<open>Doh\<close>, \<open>Dialer\<close> (\<open>protocol\<close>), \<open>Checksum\<close>, \<open>Stream_Copy\<close>, \<open>Log_Tool\<close> (\<open>tool\<close>): DNS over HTTPS, socket
    binding, checksums, the copy loop against the contract of \<open>io.Writer\<close> (a locale), the log writer.
  \<^item> \<open>Tun_Config\<close> (\<open>device/tun.go\<close>), \<open>Linux_Device\<close>, \<open>Linux_Rules\<close> (\<open>device/device*linux*.go\<close>,
    \<open>model/route_linux.go\<close>), \<open>Windows_Device\<close>, \<open>Win_Filter\<close> (\<open>device/device_windows.go\<close>, \<open>winsys\<close>): the device on
    both systems, its policy rules, the watcher of routes, and the filters that enforce DNS.
  \<^item> \<open>Win_Types\<close>, \<open>Win_Layout\<close>, \<open>Win_Views\<close> (\<open>winipcfg/types*.go\<close>): socket addresses, prefixes and rows as
    values, the layout of every structure against the C declarations, and what is read through them.
    \<open>Win_Ip\<close>, \<open>Win_Dns\<close> (\<open>winipcfg/luid.go\<close>, \<open>winipcfg.go\<close>, \<open>netsh.go\<close>): every method on addresses, routes and
    DNS settings. \<open>Win_Change\<close> (the three change handlers): callbacks with both mutexes and the wait
    groups. \<open>Win_Calls\<close> (\<open>zwinipcfg_windows.go\<close>, \<open>zsyscall_windows.go\<close>): the stubs. \<open>Fwp_Layout\<close>
    (\<open>winsys/types_windows.go\<close>) and \<open>Enums\<close>: structures and constants.
  \<^item> \<open>Pe_Layout\<close>, \<open>Pe_Module\<close>, \<open>Pe_Reloc\<close>, \<open>Pe_Sections\<close>, \<open>Pe_Load\<close>, \<open>Pe_Resources\<close>, \<open>Pe_Exports\<close>, \<open>Pe_Hook\<close>
    (\<open>bin/memmod\<close>): copying, relocating and protecting an image over explicit memory, imports, exports
    and thread-local callbacks, loading and freeing, and the patch of kernelbase.
  \<^item> \<open>Processes\<close>, \<open>Client\<close> (\<open>tool/procTool\<close>, \<open>app/v2\<close>): the two processes and their monitors, the order of the
    client's operations, and the contract between the client and its device (a locale that the
    device of Linux discharges).
  \<^item> This theory: the traffic of the stack over the route table of Windows.

  \<^bold>\<open>What the lemmas show.\<close> For the data path: which datagram or connection a packet becomes, that
  enforced DNS never leaves, that at most one socket serves a flow and no flow sees another's bytes,
  and what the copy loops deliver. For the route table: which route is selected, that it is never the
  tunnel's, that the table is well typed and follows the system's. For the devices: that addresses,
  routes, rules and filters are exactly those configured, and taken back. For winipcfg: exactness of
  the operations, resources closed on every path, callbacks dead once unregistered, one registration
  at a time. For the loader: exact relocation, protections that allow what a section asks for, export
  lookup, and that a load accounts for all it acquires. Where the code does not do what it means to,
  the theorem states what it does.

  \<^bold>\<open>Conventions.\<close> Fields and functions keep their names in the code, with a prefix or suffix where they
  clash. Concurrency is a step relation whose steps are the atomic sections of the code. A loop that
  need not end is a \<open>partial_function (option)\<close>, None being a loop that never returns, and claims of
  its return are proved as such; all other recursions terminate, the retry loops over buffer sizes
  because a retry needs a strictly larger 32-bit size. No fuel is used. Code that is not in the
  repository is a parameter: the kernel, netlink, iphlpapi.dll, the filtering platform, the registry,
  the loader's system calls, gvisor, the HTTP client and the sorting algorithm. What is relied on of them is a
  definition \<open>documented_...\<close> over a view of the system's state, instantiated by a small system in the
  witness of each theorem that uses it.

  \<^bold>\<open>Not modelled.\<close> Texts of log messages and of formatted errors beyond a name; the debug printer
  \<open>parseUdpDataPacket\<close> and \<open>RouteData.String\<close>, which only print; the scheduler setting of the client; the
  library's UTF-16 decoder; the parser of DNS messages, which the code uses for its log only;
  the loader on 386, arm and arm64, which differs in a machine constant and the absence of the 4 GiB
  check on 32 bits; directives of the stub generator, files with a package clause only, and the test
  programs, which call the operating system and state no expectation.
\<close>

section \<open>Traffic and the tunnel on Windows\<close>

definition outside_tunnel :: "globals \<Rightarrow> IP \<Rightarrow> CustomRoute \<Rightarrow> bool" where
  "outside_tunnel g ip route \<longleftrightarrow>
     ifName route \<noteq> TunName g \<and>
     (route = getDefaultRoute g \<or> route \<in> set (Routes g) \<and> Contains (Subnet route) ip)"

lemma selected_outside:
  assumes "FindRoutes_windows os g0 adapters = Inr (Routes g)" and "TunName g0 = TunName g"
    and "sort_contract SortRoutes_Less srt" and "TunName g \<noteq> DEFAULT_IF_NAME"
  shows "outside_tunnel g ip (FindContainRoute srt g ip (Routes g))"
  using windows_selected [OF assms(1,3), of g ip] assms(2,4)
  by (auto simp: outside_tunnel_def windows_route_def getDefaultRoute_def)

lemma datagram_route:
  assumes "HandleRemotePacket read_at addr_string w p = Some (AttachConnect ident data remote route)"
  shows "route = FindContainRoute (w_sort w) (w_globals w) (udp_IP remote) (Routes (w_globals w))"
  using assms
  by (auto simp: HandleRemotePacket_def readRemoteDate_def Let_def split: prod.splits if_splits sum.splits option.splits)

lemma connection_route:
  assumes "tcp_target srt g rs ip port = Inr (remote, route, text)"
  shows "route = FindContainRoute srt g (udp_IP remote) (Routes g)"
  using assms by (auto simp: tcp_target_def split: option.splits)

text \<open>
  C4: on Windows no traffic of the user-space stack goes back into the tunnel: with the route table
  that \<open>FindRoutes\<close> built, whatever the operating system answered, every datagram and every TCP
  connection leaves by a route of the table that contains its destination, or by the default route,
  and neither is the tunnel's.
\<close>

theorem windows_traffic_bypasses_tunnel:
  assumes "FindRoutes_windows os g adapters = Inr (Routes (w_globals w))" and "TunName g = TunName (w_globals w)"
    and "sort_contract SortRoutes_Less (w_sort w)" and "TunName (w_globals w) \<noteq> DEFAULT_IF_NAME"
    and "HandleRemotePacket read_at addr_string w p = Some (AttachConnect ident data remote route)"
    and "tcp_target (w_sort w) (w_globals w) (w_resolver w) ip port = Inr (dest, tcp_route, text)"
  shows "outside_tunnel (w_globals w) (udp_IP remote) route \<and>
         outside_tunnel (w_globals w) (udp_IP dest) tcp_route"
  unfolding datagram_route [OF assms(5)] connection_route [OF assms(6)]
  using selected_outside [OF assms(1-4)] by blast

definition windows_world :: world where
  "windows_world = sample_world\<lparr>w_globals := init_globals\<lparr>Routes := [sample_route, sample_route]\<rparr>\<rparr>"

definition demo_packet :: udp_inbound where
  "demo_packet =
     \<lparr>in_buffer = [1, 2, 3], in_HeaderSize = 0, in_Destination = [10, 1, 2, 3], in_LocalPort = 123,
      in_RemotePort = 40000\<rparr>"

lemma demo_world:
  "Routes (w_globals windows_world) = [sample_route, sample_route]"
  "TunName (w_globals windows_world) = ''anApp''" "w_sort windows_world = insertionSort SortRoutes_Less"
  "w_resolver windows_world = \<lparr>lookup_host = (\<lambda>_. None), lookup_port = (\<lambda>_. None)\<rparr>"
  by (simp_all add: windows_world_def sample_world_def init_globals_def)

lemma demo_datagram:
  "\<exists>ident. HandleRemotePacket sample_read_at string4 windows_world demo_packet =
     Some (AttachConnect ident [1, 2, 3] \<lparr>udp_IP = Go_Net.IPv4 10 1 2 3, udp_Port = 123, udp_Zone = []\<rparr>
       (FindContainRoute (w_sort windows_world) (w_globals windows_world) (Go_Net.IPv4 10 1 2 3)
          (Routes (w_globals windows_world))))"
proof -
  have "\<not> IsEnableEnforceDns (w_globals windows_world) c 123" for c
    by (simp add: IsEnableEnforceDns_def DNS_PORT_def)
  then show ?thesis
    using readRemoteDate_endpoint4 [of windows_world "[1, 2, 3]" 10 1 2 3 123 "itoa 40000"]
    by (simp add: HandleRemotePacket_def sample_read_at_def demo_packet_def Let_def)
qed

lemma demo_connection:
  "tcp_target (w_sort windows_world) (w_globals windows_world) (w_resolver windows_world) [93, 184, 216, 34] 443 =
     Inr (\<lparr>udp_IP = Go_Net.IPv4 93 184 216 34, udp_Port = 443, udp_Zone = []\<rparr>,
          FindContainRoute (w_sort windows_world) (w_globals windows_world) (Go_Net.IPv4 93 184 216 34)
            (Routes (w_globals windows_world)), endpoint4 93 184 216 34 443)"
  using ResolveAddr_endpoint4 [of 443 "w_resolver windows_world" 93 184 216 34]
    UDPAddr_String_v4 [of 93 184 216 34 443]
  by (simp add: tcp_target_def AddrFromSlice_def AddrPort_String_def)

lemma windows_traffic_bypasses_tunnel_witness:
  "outside_tunnel (w_globals windows_world) (Go_Net.IPv4 10 1 2 3)
     (FindContainRoute (w_sort windows_world) (w_globals windows_world) (Go_Net.IPv4 10 1 2 3)
        (Routes (w_globals windows_world))) \<and>
   outside_tunnel (w_globals windows_world) (Go_Net.IPv4 93 184 216 34)
     (FindContainRoute (w_sort windows_world) (w_globals windows_world) (Go_Net.IPv4 93 184 216 34)
        (Routes (w_globals windows_world)))"
proof -
  have world: "FindRoutes_windows (sample_os sample_ip_row) init_globals (Inr [3 \<mapsto> [10, 0, 0, 9]]) =
        Inr (Routes (w_globals windows_world))"
      "TunName init_globals = TunName (w_globals windows_world)"
      "sort_contract SortRoutes_Less (w_sort windows_world)"
      "TunName (w_globals windows_world) \<noteq> DEFAULT_IF_NAME"
    using sample_routes by (simp_all add: demo_world insertionSort_routes init_globals_def DEFAULT_IF_NAME_def)
  obtain ident where "HandleRemotePacket sample_read_at string4 windows_world demo_packet =
     Some (AttachConnect ident [1, 2, 3] \<lparr>udp_IP = Go_Net.IPv4 10 1 2 3, udp_Port = 123, udp_Zone = []\<rparr>
       (FindContainRoute (w_sort windows_world) (w_globals windows_world) (Go_Net.IPv4 10 1 2 3)
          (Routes (w_globals windows_world))))"
    using demo_datagram by blast
  from windows_traffic_bypasses_tunnel [OF world this demo_connection] show ?thesis by simp
qed

end
